(* ===== verification/Prelude.thy ===== *)
theory Prelude
  imports Main "HOL-Library.Word"
begin

unbundle bit_operations_syntax

text \<open>
  Shared vocabulary of the development: the machine types of the C++ code, the characters the
  SIP grammar is built on, buffer slices (\<^verbatim>\<open>cstring\<close>, \<^verbatim>\<open>core/sip/cstring.h\<close>) with the bounds
  predicate used by every memory-safety lemma, and the lemmas on lists and slices that more
  than one component needs.
\<close>

named_theorems slice_simps \<open>evaluation of buffer slices\<close>
named_theorems bounds_intros \<open>introduction rules for slice bounds\<close>

type_synonym u16 = "16 word"
type_synonym u32 = "32 word"

section \<open>Characters\<close>

text \<open>
  A \<^verbatim>\<open>char\<close> of the source is a signed byte. \<open>char\<close> of HOL is a byte; \<open>schar\<close> reads it the way
  an arithmetic expression of the C++ code does.
\<close>

definition schar :: "char \<Rightarrow> int" where
  "schar ch = (if (of_char ch :: int) \<ge> 128 then of_char ch - 256 else of_char ch)"

abbreviation CR :: char where "CR \<equiv> CHR 0x0D"
abbreviation LF :: char where "LF \<equiv> CHR 0x0A"
abbreviation SP :: char where "SP \<equiv> CHR 0x20"
abbreviation HTAB :: char where "HTAB \<equiv> CHR 0x09"
abbreviation DQUOTE :: char where "DQUOTE \<equiv> CHR 0x22"
abbreviation BACKSLASH :: char where "BACKSLASH \<equiv> CHR 0x5C"
abbreviation NUL :: char where "NUL \<equiv> CHR 0x00"

section \<open>Slices of a message buffer\<close>

text \<open>
  \<^verbatim>\<open>struct cstring { const char* s; unsigned int len; }\<close>. The parsers never copy: a parsed
  field is a pointer into the message buffer and a length. A pointer is an offset into the
  buffer, and a length is an integer, so that a difference of two pointers is not truncated
  and a negative length would show. The null slice of the default constructor is offset 0
  with length 0 (no modelled code tests the pointer itself).
\<close>

record cstring =
  cs_s :: nat
  cs_len :: int

definition cs_null :: cstring where
  "cs_null = \<lparr>cs_s = 0, cs_len = 0\<rparr>"

text \<open>\<^verbatim>\<open>cstring::set(beg, c - beg)\<close>, the form in which nearly every field is recorded.\<close>

definition cs_set :: "nat \<Rightarrow> int \<Rightarrow> cstring" where
  "cs_set s n = \<lparr>cs_s = s, cs_len = n\<rparr>"

definition cs_clear :: "cstring \<Rightarrow> cstring" where
  "cs_clear cs = \<lparr>cs_s = 0, cs_len = 0\<rparr>"

text \<open>The characters a slice denotes, the value of \<^verbatim>\<open>c2stlstr\<close>.\<close>

definition c2stlstr :: "string \<Rightarrow> cstring \<Rightarrow> string" where
  "c2stlstr buf cs = take (nat (cs_len cs)) (drop (cs_s cs) buf)"

text \<open>A slice is in bounds when it is null or lies between two offsets of the buffer.\<close>

definition cs_ok :: "nat \<Rightarrow> nat \<Rightarrow> cstring \<Rightarrow> bool" where
  "cs_ok lo hi cs \<longleftrightarrow> cs = cs_null \<or>
     (lo \<le> cs_s cs \<and> 0 \<le> cs_len cs \<and> int (cs_s cs) + cs_len cs \<le> int hi)"

lemma cs_ok_null [simp, intro]: "cs_ok lo hi cs_null"
  by (simp add: cs_ok_def)

lemma cs_ok_clear [simp, intro]: "cs_ok lo hi (cs_clear cs)"
  by (simp add: cs_ok_def cs_clear_def cs_null_def)

lemma cs_ok_set [bounds_intros]:
  "lo \<le> s \<Longrightarrow> 0 \<le> n \<Longrightarrow> int s + n \<le> int hi \<Longrightarrow> cs_ok lo hi (cs_set s n)"
  by (simp add: cs_ok_def cs_set_def)

lemma cs_set_sel [simp]:
  "cs_s (cs_set s n) = s" "cs_len (cs_set s n) = n"
  "cs_s cs_null = 0" "cs_len cs_null = 0"
  by (simp_all add: cs_set_def cs_null_def)

lemma cs_ok_mono: "cs_ok lo hi cs \<Longrightarrow> lo' \<le> lo \<Longrightarrow> hi \<le> hi' \<Longrightarrow> cs_ok lo' hi' cs"
  by (auto simp: cs_ok_def)

lemma c2stlstr_null [simp]: "c2stlstr buf cs_null = []"
  by (simp add: c2stlstr_def)

text \<open>A slice in bounds denotes as many characters as its length says.\<close>

lemma length_c2stlstr:
  assumes "cs_ok lo hi cs" and "hi \<le> length buf"
  shows "int (length (c2stlstr buf cs)) = cs_len cs"
  using assms by (auto simp: cs_ok_def c2stlstr_def)

lemma c2stlstr_nth:
  assumes "cs_ok lo hi cs" and "hi \<le> length buf" and "i < nat (cs_len cs)"
  shows "c2stlstr buf cs ! i = buf ! (cs_s cs + i)"
  using assms by (auto simp: cs_ok_def c2stlstr_def)

lemma c2stlstr_middle [slice_simps]:
  "s = length p \<Longrightarrow> n = int (length w) \<Longrightarrow> c2stlstr (p @ w @ q) (cs_set s n) = w"
  by (simp add: c2stlstr_def)

lemma nth_middle [slice_simps]:
  "i = length p \<Longrightarrow> (p @ x # q) ! i = x"
  by simp

lemma drop_middle: "length p = n \<Longrightarrow> drop n (p @ q) = q"
  by simp

end
