(* ===== verification/Scan.thy ===== *)
theory Scan
  imports Prelude
begin

text \<open>
  The parsers of \<^verbatim>\<open>core/sip\<close> share one shape: a loop over a buffer with a cursor, a \<^verbatim>\<open>switch\<close> on
  a state variable inside it, and a \<^verbatim>\<open>switch\<close> on the last state after it. This theory holds
  that loop once. A component supplies the loop body as a step function and the code after the
  loop as a finish function; the locale below gives termination, absence of a read past the
  end of the slice, and the invariant of the loop from one lemma about a single step.
\<close>

section \<open>The loop\<close>

text \<open>
  What one pass through the body does: go on with the cursor advanced by the given amount
  (1 for the \<^verbatim>\<open>c++\<close> of the loop header, 2 when the body skipped a character as well, 0 when the
  body stepped back with \<^verbatim>\<open>c--\<close> to parse the same character again in a new state), or return
  with a cursor and a code.
\<close>

datatype 's act = Next nat 's | Ret nat 's int

text \<open>
  What the whole function does: return, run past the end of its slice (a loop \<^verbatim>\<open>c != end\<close> whose
  cursor jumped over \<^verbatim>\<open>end\<close>), or loop without consuming input.
\<close>

datatype 's out = Out nat 's int | Overrun | Diverge

text \<open>
  The loop \<^verbatim>\<open>for(; c < end && guard(c); c++)\<close>. After a pass that did not move the cursor the
  same character is parsed once more, and a second pass that does not move it either is
  reported as \<open>Diverge\<close>.
\<close>

function scan ::
  "(nat \<Rightarrow> bool) \<Rightarrow> (nat \<Rightarrow> 's \<Rightarrow> 's act) \<Rightarrow> (nat \<Rightarrow> 's \<Rightarrow> 's out) \<Rightarrow> nat \<Rightarrow> nat \<Rightarrow> 's \<Rightarrow> 's out"
where
  "scan g body fin e c st =
     (if c < e \<and> g c then
        (case body c st of
           Ret c' st' r \<Rightarrow> Out c' st' r
         | Next k st' \<Rightarrow>
             if k = 0 then
               (case body c st' of
                  Ret c' st'' r \<Rightarrow> Out c' st'' r
                | Next k' st'' \<Rightarrow>
                    if k' = 0 then Diverge else scan g body fin e (c + k') st'')
             else scan g body fin e (c + k) st')
      else fin c st)"
  by pat_completeness auto
termination
  by (relation "measure (\<lambda>(g, body, fin, e, c, st). e - c)") auto

declare scan.simps [simp del]

lemma scan_end: "\<not> (c < e \<and> g c) \<Longrightarrow> scan g body fin e c st = fin c st"
  by (subst scan.simps) auto

lemma scan_ret:
  "c < e \<Longrightarrow> g c \<Longrightarrow> body c st = Ret c' st' r \<Longrightarrow> scan g body fin e c st = Out c' st' r"
  by (subst scan.simps) auto

lemma scan_next:
  "c < e \<Longrightarrow> g c \<Longrightarrow> body c st = Next k st' \<Longrightarrow> 0 < k \<Longrightarrow>
     scan g body fin e c st = scan g body fin e (c + k) st'"
  by (subst scan.simps) auto

lemma scan_again:
  "c < e \<Longrightarrow> g c \<Longrightarrow> body c st = Next 0 st' \<Longrightarrow> body c st' = Next k st'' \<Longrightarrow> 0 < k \<Longrightarrow>
     scan g body fin e c st = scan g body fin e (c + k) st''"
  by (subst scan.simps) auto

lemma scan_again_ret:
  "c < e \<Longrightarrow> g c \<Longrightarrow> body c st = Next 0 st' \<Longrightarrow> body c st' = Ret c' st'' r \<Longrightarrow>
     scan g body fin e c st = Out c' st'' r"
  by (subst scan.simps) auto

lemma scan_to_end:
  "c < e \<Longrightarrow> g c \<Longrightarrow> body c st = Next (e - c) st' \<Longrightarrow> scan g body fin e c st = fin e st'"
  by (simp add: scan_next scan_end)

text \<open>Parsing a character again is the same as parsing it in the new state.\<close>

lemma scan_again_eq:
  "c < e \<Longrightarrow> g c \<Longrightarrow> body c st = Next 0 st' \<Longrightarrow> body c st' = Next k st'' \<Longrightarrow> 0 < k \<Longrightarrow>
     scan g body fin e c st = scan g body fin e c st'"
  by (simp add: scan_again [where st' = st'] scan_next)

text \<open>A run of characters that leave the state alone is skipped in one step.\<close>

lemma scan_skip:
  assumes "\<And>i. i < n \<Longrightarrow> c + i < e \<and> g (c + i) \<and> body (c + i) st = Next 1 st"
  shows "scan g body fin e c st = scan g body fin e (c + n) st"
  using assms
proof (induction n arbitrary: c)
  case 0
  then show ?case by simp
next
  case (Suc n)
  have "scan g body fin e c st = scan g body fin e (c + 1) st"
    using Suc.prems [of 0] by (intro scan_next) auto
  also have "\<dots> = scan g body fin e (c + 1 + n) st"
  proof (rule Suc.IH)
    fix i assume "i < n"
    then show "c + 1 + i < e \<and> g (c + 1 + i) \<and> body (c + 1 + i) st = Next 1 st"
      using Suc.prems [of "Suc i"] by simp
  qed
  finally show ?case by simp
qed

text \<open>The same over the characters of a word that stands in the buffer at the cursor.\<close>

lemma scan_word:
  assumes "buf = p @ w @ q" and "length p + length w \<le> e"
    and "\<And>c ch. c < e \<Longrightarrow> ch \<in> set w \<Longrightarrow> buf ! c = ch \<Longrightarrow> g c \<and> body c st = Next 1 st"
  shows "scan g body fin e (length p) st = scan g body fin e (length p + length w) st"
proof (rule scan_skip)
  fix i assume i: "i < length w"
  then have "buf ! (length p + i) = w ! i"
    using assms(1) by (simp add: nth_append)
  with i assms(2,3) show "length p + i < e \<and> g (length p + i) \<and> body (length p + i) st = Next 1 st"
    by (metis add_less_cancel_left nth_mem order_less_le_trans)
qed

text \<open>A property that every pass keeps holds of the result.\<close>

lemma scan_keeps:
  assumes body: "\<And>c s. I c s \<Longrightarrow> c < e \<Longrightarrow> g c \<Longrightarrow>
      (case body c s of Next k s' \<Rightarrow> I (c + k) s' | Ret c' s' r \<Rightarrow> Q s')"
    and fin: "\<And>c s c' s' r. I c s \<Longrightarrow> fin c s = Out c' s' r \<Longrightarrow> Q s'"
    and "I c s" and "scan g body fin e c s = Out c' s' r"
  shows "Q s'"
  using assms(3,4)
proof (induction "e - c" arbitrary: c s rule: less_induct)
  case less
  show ?case
  proof (cases "c < e \<and> g c")
    case False
    with less.prems fin show ?thesis by (simp add: scan_end)
  next
    case True
    note b = body [OF less.prems(1)] and run = less.prems(2) [unfolded scan.simps [of _ _ _ _ c s]]
    show ?thesis
    proof (cases "body c s")
      case (Next k s1)
      with b True have i1: "I (c + k) s1" by simp
      show ?thesis
      proof (cases "k = 0")
        case False
        with Next True run less.hyps [of "c + k" s1] i1 show ?thesis by auto
      next
        case k: True
        with i1 True have "case body c s1 of Next k s' \<Rightarrow> I (c + k) s' | Ret c' s' r \<Rightarrow> Q s'"
          using body [of c s1] by simp
        moreover have "Q s'" if "0 < j" "I (c + j) s2" "scan g body fin e (c + j) s2 = Out c' s' r" for j s2
          using less.hyps [of "c + j" s2] that True by auto
        ultimately show ?thesis
          using Next k True run by (cases "body c s1") (auto split: if_splits)
      qed
    next
      case (Ret c1 s1 r1)
      with b True run show ?thesis by simp
    qed
  qed
qed

section \<open>The interface a parser provides\<close>

text \<open>
  The obligation on one pass of the body: from a state that satisfies the loop invariant \<open>I\<close>,
  the body either returns a result that satisfies \<open>Q\<close>, or advances the cursor and keeps \<open>I\<close>,
  or asks for the character to be parsed again and then does one of the two.
\<close>

fun act_ok :: "(nat \<Rightarrow> 's \<Rightarrow> bool) \<Rightarrow> (nat \<Rightarrow> 's \<Rightarrow> int \<Rightarrow> bool) \<Rightarrow> nat \<Rightarrow> 's act \<Rightarrow> bool" where
  "act_ok I Q c (Ret c' st' r) = Q c' st' r"
| "act_ok I Q c (Next k st') = (0 < k \<and> I (c + k) st')"

locale parser_loop =
  fixes guard :: "nat \<Rightarrow> bool"
    and body :: "nat \<Rightarrow> 's \<Rightarrow> 's act"
    and fin :: "nat \<Rightarrow> 's \<Rightarrow> 's out"
    and ende :: nat
    and I :: "nat \<Rightarrow> 's \<Rightarrow> bool"
    and Q :: "nat \<Rightarrow> 's \<Rightarrow> int \<Rightarrow> bool"
  assumes body_ok: "I c st \<Longrightarrow> c < ende \<Longrightarrow> guard c \<Longrightarrow>
      act_ok I Q c (body c st) \<or> (\<exists>st'. body c st = Next 0 st' \<and> act_ok I Q c (body c st'))"
    and fin_ok: "I c st \<Longrightarrow> \<not> (c < ende \<and> guard c) \<Longrightarrow>
      \<exists>c' st' r. fin c st = Out c' st' r \<and> Q c' st' r"
begin

lemma scan_total:
  "I c st \<Longrightarrow> \<exists>c' st' r. scan guard body fin ende c st = Out c' st' r \<and> Q c' st' r"
proof (induction "ende - c" arbitrary: c st rule: less_induct)
  case less
  show ?case
  proof (cases "c < ende \<and> guard c")
    case False
    with less.prems fin_ok show ?thesis by (metis scan_end)
  next
    case True
    then have lt: "c < ende" and gd: "guard c" by auto
    from body_ok [OF less.prems lt gd] show ?thesis
    proof (elim disjE exE conjE)
      assume "act_ok I Q c (body c st)"
      then show ?thesis
        using lt gd less.hyps by (cases "body c st") (auto simp: scan_ret scan_next)
    next
      fix st' assume again: "body c st = Next 0 st'" and "act_ok I Q c (body c st')"
      then show ?thesis
        using lt gd less.hyps
        by (cases "body c st'") (auto simp: scan_again_ret [where st' = st'] scan_again [where st' = st'])
    qed
  qed
qed

end

end
