(* ===== verification/Parse_Common.thy ===== *)
theory Parse_Common
  imports Scan
begin

text \<open>
  \<^verbatim>\<open>core/sip/parse_common.h\<close> and \<^verbatim>\<open>core/sip/parse_common.cpp\<close>: the return codes, the character
  classes, case-insensitive comparison, the SIP version check, the line-ending states every
  header parser shares, and the parser of generic parameters (\<^verbatim>\<open>;name=value;...\<close>) with its
  safety, round-trip and error lemmas.
\<close>

section \<open>Return codes and character classes\<close>

definition UNDEFINED_ERR :: int where [simp]: "UNDEFINED_ERR = -1"
definition UNEXPECTED_EOT :: int where [simp]: "UNEXPECTED_EOT = -2"
definition UNEXPECTED_EOL :: int where [simp]: "UNEXPECTED_EOL = -3"
definition MALFORMED_SIP_MSG :: int where [simp]: "MALFORMED_SIP_MSG = -4"
definition INCOMPLETE_SIP_MSG :: int where [simp]: "INCOMPLETE_SIP_MSG = -5"
definition MALFORMED_URI :: int where [simp]: "MALFORMED_URI = -6"
definition MALFORMED_FLINE :: int where [simp]: "MALFORMED_FLINE = -7"
definition MALFORMED_SIP_VERSION :: int where [simp]: "MALFORMED_SIP_VERSION = -8"

definition IS_IN :: "char \<Rightarrow> int \<Rightarrow> int \<Rightarrow> bool" where
  "IS_IN ch l r \<longleftrightarrow> l \<le> schar ch \<and> schar ch \<le> r"

definition IS_WSP :: "char \<Rightarrow> bool" where
  "IS_WSP ch \<longleftrightarrow> ch = SP \<or> ch = HTAB"

definition IS_ALPHA :: "char \<Rightarrow> bool" where
  "IS_ALPHA ch \<longleftrightarrow> IS_IN ch 0x41 0x5a \<or> IS_IN ch 0x61 0x7a"

definition IS_DIGIT :: "char \<Rightarrow> bool" where
  "IS_DIGIT ch \<longleftrightarrow> IS_IN ch 0x30 0x39"

definition IS_ALPHANUM :: "char \<Rightarrow> bool" where
  "IS_ALPHANUM ch \<longleftrightarrow> IS_ALPHA ch \<or> IS_DIGIT ch"

definition LOWER_B :: "char \<Rightarrow> int" where
  "LOWER_B ch = or (schar ch) 0x20"

definition IS_TOKEN :: "char \<Rightarrow> bool" where
  "IS_TOKEN ch \<longleftrightarrow> IS_ALPHANUM ch \<or>
     ch = CHR ''-'' \<or> ch = CHR ''.'' \<or> ch = CHR ''!'' \<or> ch = CHR ''%'' \<or>
     ch = CHR ''*'' \<or> ch = CHR ''_'' \<or> ch = CHR ''+'' \<or> ch = CHR 0x60 \<or>
     ch = CHR 0x27 \<or> ch = CHR ''~''"

section \<open>Decimal numbers\<close>

definition dig :: "char \<Rightarrow> nat" where
  "dig d = nat (schar d - 0x30)"

lemma dig_le: "IS_DIGIT d \<Longrightarrow> dig d \<le> 9"
  by (simp add: dig_def IS_DIGIT_def IS_IN_def nat_le_iff)

lemma schar_dig: "IS_DIGIT d \<Longrightarrow> schar d = 0x30 + int (dig d)"
  by (simp add: dig_def IS_DIGIT_def IS_IN_def)

text \<open>The value of a string of digits behind a number already read.\<close>

fun dec_val :: "nat \<Rightarrow> string \<Rightarrow> nat" where
  "dec_val n [] = n"
| "dec_val n (d # ds) = dec_val (10 * n + dig d) ds"

lemma dec_val_ge: "n \<le> dec_val n ds"
proof (induction ds arbitrary: n)
  case (Cons d ds)
  have "n \<le> 10 * n + dig d" by simp
  also have "\<dots> \<le> dec_val (10 * n + dig d) ds" by (rule Cons.IH)
  finally show ?case by simp
qed simp

lemma dec_val_append [simp]: "dec_val n (xs @ ys) = dec_val (dec_val n xs) ys"
  by (induction xs arbitrary: n) auto

text \<open>The decimal representation of a number, as \<^verbatim>\<open>int2str\<close> writes it.\<close>

definition digit_char :: "nat \<Rightarrow> char" where
  "digit_char n = char_of (0x30 + int n)"

fun print_dec :: "nat \<Rightarrow> string" where
  "print_dec n = (if n < 10 then [digit_char n] else print_dec (n div 10) @ [digit_char (n mod 10)])"

declare print_dec.simps [simp del]

lemma digit_char_simps [simp]:
  assumes "n < 10"
  shows "schar (digit_char n) = 0x30 + int n" "IS_DIGIT (digit_char n)" "dig (digit_char n) = n"
proof -
  show "schar (digit_char n) = 0x30 + int n"
    using assms by (simp add: schar_def digit_char_def)
  then show "IS_DIGIT (digit_char n)" "dig (digit_char n) = n"
    using assms by (simp_all add: IS_DIGIT_def IS_IN_def dig_def)
qed

lemma print_dec_digits [simp]: "list_all IS_DIGIT (print_dec n)"
proof (induction n rule: print_dec.induct)
  case (1 n)
  then show ?case by (subst print_dec.simps) simp
qed

lemma dec_val_print_dec [simp]: "dec_val 0 (print_dec n) = n"
proof (induction n rule: print_dec.induct)
  case (1 n)
  then show ?case by (subst print_dec.simps) simp
qed

lemma print_dec_not_Nil [simp]: "print_dec n \<noteq> []"
  by (subst print_dec.simps) simp

section \<open>Case-insensitive comparison\<close>

text \<open>
  \<^verbatim>\<open>lower_cmp(l, r, len)\<close> reads \<^verbatim>\<open>len\<close> characters of both arguments; \<open>l\<close> is the list of the \<^verbatim>\<open>len\<close>
  characters of the first. The last equation stands for a second argument shorter than \<^verbatim>\<open>len\<close>,
  which no caller passes (\<open>lower_cmp_n\<close> compares the lengths first).
\<close>

fun lower_cmp :: "string \<Rightarrow> string \<Rightarrow> int" where
  "lower_cmp [] r = 0"
| "lower_cmp (a # l) (b # r) =
     (if LOWER_B a = LOWER_B b then lower_cmp l r
      else if LOWER_B a < LOWER_B b then -1
      else 1)"
| "lower_cmp (a # l) [] = 1"

definition lower_cmp_n :: "string \<Rightarrow> string \<Rightarrow> int" where
  "lower_cmp_n l r =
     (if length l = length r then lower_cmp l r
      else if length l < length r then -1
      else 1)"

lemma lower_cmp_zero_iff:
  "length l = length r \<Longrightarrow> lower_cmp l r = 0 \<longleftrightarrow> map LOWER_B l = map LOWER_B r"
  by (induction l r rule: lower_cmp.induct) auto

lemma lower_cmp_n_zero_iff: "lower_cmp_n l r = 0 \<longleftrightarrow> map LOWER_B l = map LOWER_B r"
proof (cases "length l = length r")
  case True
  then show ?thesis by (simp add: lower_cmp_n_def lower_cmp_zero_iff)
next
  case False
  then have "map LOWER_B l \<noteq> map LOWER_B r" by (metis length_map)
  with False show ?thesis by (simp add: lower_cmp_n_def)
qed

lemma lower_cmp_antisym:
  "length l = length r \<Longrightarrow> lower_cmp r l = - lower_cmp l r"
  by (induction l r rule: lower_cmp.induct) auto

section \<open>SIP version\<close>

text \<open>\<^verbatim>\<open>parse_sip_version(beg, len)\<close> on the characters of the slice.\<close>

definition parse_sip_version :: "string \<Rightarrow> int" where
  "parse_sip_version s =
     (if length s \<noteq> 7 then MALFORMED_SIP_MSG
      else if (s ! 0 \<noteq> CHR ''S'' \<and> s ! 0 \<noteq> CHR ''s'') \<or>
              (s ! 1 \<noteq> CHR ''I'' \<and> s ! 1 \<noteq> CHR ''i'') \<or>
              (s ! 2 \<noteq> CHR ''P'' \<and> s ! 2 \<noteq> CHR ''p'') then MALFORMED_SIP_MSG
      else if drop 3 s \<noteq> ''/2.0'' then MALFORMED_SIP_MSG
      else 0)"

section \<open>Line endings inside a header\<close>

text \<open>
  The states \<^verbatim>\<open>ST_CR\<close>, \<^verbatim>\<open>ST_LF\<close> and \<^verbatim>\<open>ST_CRLF\<close> are shared by the parsers; a parser's own states
  are the \<^verbatim>\<open>St\<close> values. The record holds the two variables \<^verbatim>\<open>st\<close> and \<^verbatim>\<open>saved_st\<close> of every parser
  function and is extended with the parser's other variables.
\<close>

datatype 'a fsm_st = St 'a | ST_CR | ST_LF | ST_CRLF

record 'a fsm =
  st :: "'a fsm_st"
  saved_st :: "'a fsm_st"

text \<open>The two cases of the macro \<^verbatim>\<open>case_CR_LF\<close>.\<close>

definition enter_CR :: "('a, 'b) fsm_scheme \<Rightarrow> ('a, 'b) fsm_scheme" where
  "enter_CR s = s\<lparr>saved_st := st s, st := ST_CR\<rparr>"

definition enter_LF :: "('a, 'b) fsm_scheme \<Rightarrow> ('a, 'b) fsm_scheme" where
  "enter_LF s = s\<lparr>saved_st := st s, st := ST_LF\<rparr>"

text \<open>The macro \<^verbatim>\<open>case_ST_CR(c)\<close>: a line feed must follow the carriage return.\<close>

definition case_ST_CR :: "nat \<Rightarrow> char \<Rightarrow> ('a, 'b) fsm_scheme \<Rightarrow> ('a, 'b) fsm_scheme act" where
  "case_ST_CR c ch s =
     (if ch = LF then Next 1 (s\<lparr>st := ST_CRLF\<rparr>)
      else Ret c s MALFORMED_SIP_MSG)"

text \<open>\<^verbatim>\<open>st==ST_CRLF?2:1\<close>: how many characters the line ending took.\<close>

definition eol_len :: "('a, 'b) fsm_scheme \<Rightarrow> int" where
  "eol_len s = (if st s = ST_CRLF then 2 else 1)"

text \<open>
  How many characters before the cursor belong to a line ending that is being read: what a
  field that ended before it must not count.
\<close>

fun eol_depth :: "'a fsm_st \<Rightarrow> nat" where
  "eol_depth (St x) = 0"
| "eol_depth ST_CR = 1"
| "eol_depth ST_LF = 1"
| "eol_depth ST_CRLF = 2"

lemma eol_depth_le: "eol_depth x \<le> 2"
  by (cases x) auto

lemma enter_sel [simp]:
  "st (enter_CR s) = ST_CR" "saved_st (enter_CR s) = st s"
  "st (enter_LF s) = ST_LF" "saved_st (enter_LF s) = st s"
  by (simp_all add: enter_CR_def enter_LF_def)

section \<open>Generic parameters\<close>

record sip_avp =
  avp_name :: cstring
  avp_value :: cstring

definition new_avp :: sip_avp where
  "new_avp = \<lparr>avp_name = cs_null, avp_value = cs_null\<rparr>"

datatype vp_st =
  VP_PARAM_SEP | VP_PARAM_SEP_SWS | VP_PNAME | VP_PNAME_EQU | VP_PNAME_EQU_SWS
  | VP_PVALUE | VP_PVALUE_QUOTED

record gen_params = "vp_st fsm" +
  gp_beg :: nat
  gp_avp :: sip_avp
  gp_params :: "sip_avp list"

text \<open>
  The local assignments of the cases: \<^verbatim>\<open>avp->name.set(beg, c-beg)\<close>, \<^verbatim>\<open>avp->value.set(beg, c-beg)\<close>,
  and \<^verbatim>\<open>params->push_back(avp.release()); avp.reset(new sip_avp())\<close>.
\<close>

definition gp_set_name :: "int \<Rightarrow> gen_params \<Rightarrow> gen_params" where
  "gp_set_name pos s =
     s\<lparr>gp_avp := (gp_avp s)\<lparr>avp_name := cs_set (gp_beg s) (pos - int (gp_beg s))\<rparr>\<rparr>"

definition gp_set_value :: "int \<Rightarrow> gen_params \<Rightarrow> gen_params" where
  "gp_set_value pos s =
     s\<lparr>gp_avp := (gp_avp s)\<lparr>avp_value := cs_set (gp_beg s) (pos - int (gp_beg s))\<rparr>\<rparr>"

definition gp_push :: "gen_params \<Rightarrow> gen_params" where
  "gp_push s = s\<lparr>gp_params := gp_params s @ [gp_avp s], gp_avp := new_avp\<rparr>"

definition gp_param_sep :: "char \<Rightarrow> nat \<Rightarrow> char \<Rightarrow> gen_params \<Rightarrow> gen_params act" where
  "gp_param_sep stop_char c ch s =
     (if ch = CR then Next 1 (enter_CR s)
      else if ch = LF then Next 1 (enter_LF s)
      else if ch = SP \<or> ch = HTAB then Next 1 s
      else if ch = CHR '';'' then Next 1 (s\<lparr>st := St VP_PARAM_SEP_SWS\<rparr>)
      else if ch = stop_char then Ret c s 0
      else Ret c s MALFORMED_SIP_MSG)"

definition gp_param_sep_sws :: "nat \<Rightarrow> char \<Rightarrow> gen_params \<Rightarrow> gen_params act" where
  "gp_param_sep_sws c ch s =
     (if ch = CR then Next 1 (enter_CR s)
      else if ch = LF then Next 1 (enter_LF s)
      else if ch = SP \<or> ch = HTAB then Next 1 s
      else Next 1 (s\<lparr>st := St VP_PNAME, gp_beg := c\<rparr>))"

definition gp_pname :: "char \<Rightarrow> nat \<Rightarrow> char \<Rightarrow> gen_params \<Rightarrow> gen_params act" where
  "gp_pname stop_char c ch s =
     (if ch = CR then Next 1 (enter_CR s)
      else if ch = LF then Next 1 (enter_LF s)
      else if ch = SP \<or> ch = HTAB then
        Next 1 (gp_set_name (int c) (s\<lparr>st := St VP_PNAME_EQU\<rparr>))
      else if ch = CHR ''='' then
        Next 1 (gp_set_name (int c) (s\<lparr>st := St VP_PNAME_EQU_SWS\<rparr>))
      else if ch = CHR '';'' then
        Next 1 (gp_push (gp_set_name (int c) (s\<lparr>st := St VP_PARAM_SEP_SWS\<rparr>)))
      else if ch = stop_char then
        Ret c (gp_push (gp_set_name (int c) s)) 0
      else Next 1 s)"

definition gp_pname_equ_sws :: "nat \<Rightarrow> char \<Rightarrow> gen_params \<Rightarrow> gen_params act" where
  "gp_pname_equ_sws c ch s =
     (if ch = CR then Next 1 (enter_CR s)
      else if ch = LF then Next 1 (enter_LF s)
      else if ch = SP \<or> ch = HTAB then Next 1 s
      else if ch = DQUOTE then
        Next 1 (s\<lparr>st := St VP_PVALUE_QUOTED, gp_beg := c + 1\<rparr>)
      else if ch = CHR '';'' then
        Next 1 (gp_push (s\<lparr>st := St VP_PARAM_SEP_SWS\<rparr>))
      else Next 1 (s\<lparr>st := St VP_PVALUE, gp_beg := c\<rparr>))"

text \<open>
  The case \<^verbatim>\<open>VP_PNAME_EQU\<close> has no \<^verbatim>\<open>break\<close> after its inner \<^verbatim>\<open>switch\<close>: unless the inner switch
  returned, control falls into the case \<^verbatim>\<open>VP_PNAME_EQU_SWS\<close> with the same character.
\<close>

definition gp_pname_equ :: "char \<Rightarrow> nat \<Rightarrow> char \<Rightarrow> gen_params \<Rightarrow> gen_params act" where
  "gp_pname_equ stop_char c ch s =
     (if ch = CR then gp_pname_equ_sws c ch (enter_CR s)
      else if ch = LF then gp_pname_equ_sws c ch (enter_LF s)
      else if ch = SP \<or> ch = HTAB then gp_pname_equ_sws c ch s
      else if ch = CHR ''='' then
        gp_pname_equ_sws c ch (s\<lparr>st := St VP_PNAME_EQU_SWS\<rparr>)
      else if ch = CHR '';'' then
        gp_pname_equ_sws c ch (gp_push (s\<lparr>st := St VP_PARAM_SEP_SWS\<rparr>))
      else if ch = stop_char then Ret c (gp_push s) 0
      else Ret c s MALFORMED_SIP_MSG)"

definition gp_pvalue :: "char \<Rightarrow> nat \<Rightarrow> char \<Rightarrow> gen_params \<Rightarrow> gen_params act" where
  "gp_pvalue stop_char c ch s =
     (if ch = CR then Next 1 (enter_CR s)
      else if ch = LF then Next 1 (enter_LF s)
      else if ch = DQUOTE then Next 1 (s\<lparr>st := St VP_PVALUE_QUOTED\<rparr>)
      else if ch = CHR '';'' then
        Next 1 (gp_push (gp_set_value (int c) (s\<lparr>st := St VP_PARAM_SEP_SWS\<rparr>)))
      else if ch = stop_char then
        Ret c (gp_push (gp_set_value (int c) s)) 0
      else Next 1 s)"

definition gp_pvalue_quoted :: "nat \<Rightarrow> nat \<Rightarrow> char \<Rightarrow> gen_params \<Rightarrow> gen_params act" where
  "gp_pvalue_quoted e c ch s =
     (if ch = CR then Next 1 (enter_CR s)
      else if ch = LF then Next 1 (enter_LF s)
      else if ch = DQUOTE then
        Next 1 (gp_push (gp_set_value (int c) (s\<lparr>st := St VP_PARAM_SEP\<rparr>)))
      else if ch = BACKSLASH then
        (if c + 1 \<ge> e then Ret c s MALFORMED_SIP_MSG else Next 2 s)
      else Next 1 s)"

text \<open>The cases \<^verbatim>\<open>ST_LF\<close> and \<^verbatim>\<open>ST_CRLF\<close>: the character after a line ending.\<close>

definition gp_eol :: "nat \<Rightarrow> gen_params \<Rightarrow> gen_params act" where
  "gp_eol c s =
     (let s' =
        (if saved_st s = St VP_PNAME then
           gp_set_name (int c - eol_len s) (s\<lparr>saved_st := St VP_PNAME_EQU\<rparr>)
         else if saved_st s = St VP_PVALUE then
           gp_push (gp_set_value (int c - eol_len s) (s\<lparr>saved_st := St VP_PARAM_SEP\<rparr>))
         else s)
      in Next 1 (s'\<lparr>st := saved_st s'\<rparr>))"

definition gp_body :: "string \<Rightarrow> nat \<Rightarrow> char \<Rightarrow> nat \<Rightarrow> gen_params \<Rightarrow> gen_params act" where
  "gp_body buf e stop_char c s =
     (let ch = buf ! c in
      case st s of
        St VP_PARAM_SEP \<Rightarrow> gp_param_sep stop_char c ch s
      | St VP_PARAM_SEP_SWS \<Rightarrow> gp_param_sep_sws c ch s
      | St VP_PNAME \<Rightarrow> gp_pname stop_char c ch s
      | St VP_PNAME_EQU \<Rightarrow> gp_pname_equ stop_char c ch s
      | St VP_PNAME_EQU_SWS \<Rightarrow> gp_pname_equ_sws c ch s
      | St VP_PVALUE \<Rightarrow> gp_pvalue stop_char c ch s
      | St VP_PVALUE_QUOTED \<Rightarrow> gp_pvalue_quoted e c ch s
      | ST_CR \<Rightarrow> case_ST_CR c ch s
      | ST_LF \<Rightarrow> gp_eol c s
      | ST_CRLF \<Rightarrow> gp_eol c s)"

text \<open>The \<^verbatim>\<open>switch\<close> after the loop \<^verbatim>\<open>for(;*c!=end;(*c)++)\<close>.\<close>

definition gp_fin :: "nat \<Rightarrow> nat \<Rightarrow> gen_params \<Rightarrow> gen_params out" where
  "gp_fin e c s =
     (if c \<noteq> e then Overrun
      else case st s of
        St VP_PNAME \<Rightarrow> Out c (gp_push (gp_set_name (int c) s)) 0
      | St VP_PVALUE \<Rightarrow> Out c (gp_push (gp_set_value (int c) s)) 0
      | St VP_PARAM_SEP \<Rightarrow> Out c s 0
      | St VP_PARAM_SEP_SWS \<Rightarrow> Out c s 0
      | St VP_PNAME_EQU \<Rightarrow> Out c (gp_push s) 0
      | St VP_PNAME_EQU_SWS \<Rightarrow> Out c (gp_push s) 0
      | _ \<Rightarrow> Out c s MALFORMED_SIP_MSG)"

definition gp_init :: "sip_avp list \<Rightarrow> nat \<Rightarrow> bool \<Rightarrow> gen_params" where
  "gp_init params c beg_w_sc =
     \<lparr>st = St (if beg_w_sc then VP_PARAM_SEP else VP_PARAM_SEP_SWS),
      saved_st = St VP_PARAM_SEP, gp_beg = c, gp_avp = new_avp, gp_params = params\<rparr>"

definition parse_gen_params_impl ::
  "string \<Rightarrow> sip_avp list \<Rightarrow> nat \<Rightarrow> nat \<Rightarrow> char \<Rightarrow> bool \<Rightarrow> gen_params out" where
  "parse_gen_params_impl buf params c len stop_char beg_w_sc =
     scan (\<lambda>_. True) (gp_body buf (c + len) stop_char) (gp_fin (c + len)) (c + len) c
       (gp_init params c beg_w_sc)"

definition parse_gen_params_sc ::
  "string \<Rightarrow> sip_avp list \<Rightarrow> nat \<Rightarrow> nat \<Rightarrow> char \<Rightarrow> gen_params out" where
  "parse_gen_params_sc buf params c len stop_char =
     parse_gen_params_impl buf params c len stop_char True"

definition parse_gen_params ::
  "string \<Rightarrow> sip_avp list \<Rightarrow> nat \<Rightarrow> nat \<Rightarrow> char \<Rightarrow> gen_params out" where
  "parse_gen_params buf params c len stop_char =
     parse_gen_params_impl buf params c len stop_char False"

section \<open>Safety and termination of the parameter parser\<close>

definition avp_ok :: "nat \<Rightarrow> nat \<Rightarrow> sip_avp \<Rightarrow> bool" where
  "avp_ok lo hi a \<longleftrightarrow> cs_ok lo hi (avp_name a) \<and> cs_ok lo hi (avp_value a)"

lemma avp_ok_new [simp, intro]: "avp_ok lo hi new_avp"
  by (simp add: avp_ok_def new_avp_def)

lemma avp_ok_mono: "avp_ok lo hi a \<Longrightarrow> lo' \<le> lo \<Longrightarrow> hi \<le> hi' \<Longrightarrow> avp_ok lo' hi' a"
  by (auto simp: avp_ok_def intro: cs_ok_mono)

definition gp_inv :: "nat \<Rightarrow> nat \<Rightarrow> nat \<Rightarrow> gen_params \<Rightarrow> bool" where
  "gp_inv lo e c s \<longleftrightarrow>
     lo \<le> gp_beg s \<and> gp_beg s + eol_depth (st s) \<le> c \<and> c \<le> e \<and>
     avp_ok lo e (gp_avp s) \<and> list_all (avp_ok lo e) (gp_params s)"

definition gp_post :: "nat \<Rightarrow> nat \<Rightarrow> nat \<Rightarrow> gen_params \<Rightarrow> int \<Rightarrow> bool" where
  "gp_post lo e c s r \<longleftrightarrow>
     lo \<le> c \<and> c \<le> e \<and> (r = 0 \<or> r = MALFORMED_SIP_MSG) \<and> list_all (avp_ok lo e) (gp_params s)"

lemmas gp_unfold =
  gp_inv_def gp_post_def enter_CR_def enter_LF_def gp_push_def gp_set_name_def gp_set_value_def
  avp_ok_def new_avp_def cs_ok_def cs_set_def

lemma gp_param_sep_ok:
  "gp_inv lo e c s \<Longrightarrow> c < e \<Longrightarrow> st s = St x \<Longrightarrow>
     act_ok (gp_inv lo e) (gp_post lo e) c (gp_param_sep stop c ch s)"
  by (simp add: gp_param_sep_def gp_unfold)

lemma gp_param_sep_sws_ok:
  "gp_inv lo e c s \<Longrightarrow> c < e \<Longrightarrow> st s = St x \<Longrightarrow>
     act_ok (gp_inv lo e) (gp_post lo e) c (gp_param_sep_sws c ch s)"
  by (simp add: gp_param_sep_sws_def gp_unfold)

lemma gp_pname_ok:
  "gp_inv lo e c s \<Longrightarrow> c < e \<Longrightarrow> st s = St x \<Longrightarrow>
     act_ok (gp_inv lo e) (gp_post lo e) c (gp_pname stop c ch s)"
  by (simp add: gp_pname_def gp_unfold)

text \<open>
  The state may already be a line-ending state here, through the fall-through from
  \<^verbatim>\<open>VP_PNAME_EQU\<close>.
\<close>

lemma gp_pname_equ_sws_ok:
  "gp_inv lo e c (s\<lparr>st := St x\<rparr>) \<Longrightarrow> c < e \<Longrightarrow> eol_depth (st s) \<le> 1 \<Longrightarrow>
     act_ok (gp_inv lo e) (gp_post lo e) c (gp_pname_equ_sws c ch s)"
  by (simp add: gp_pname_equ_sws_def gp_unfold)

lemma gp_pname_equ_sws_ok':
  "gp_inv lo e c s \<Longrightarrow> c < e \<Longrightarrow> st s = St x \<Longrightarrow>
     act_ok (gp_inv lo e) (gp_post lo e) c (gp_pname_equ_sws c ch s)"
  by (rule gp_pname_equ_sws_ok [where x = x]) (auto simp: gp_inv_def)

lemma gp_pname_equ_ok:
  assumes "gp_inv lo e c s" and "c < e" and "st s = St x"
  shows "act_ok (gp_inv lo e) (gp_post lo e) c (gp_pname_equ stop c ch s)"
proof -
  have "act_ok (gp_inv lo e) (gp_post lo e) c (gp_pname_equ_sws c ch' s')"
    if "s' \<in> {s, enter_CR s, enter_LF s, s\<lparr>st := St VP_PNAME_EQU_SWS\<rparr>,
      gp_push (s\<lparr>st := St VP_PARAM_SEP_SWS\<rparr>)}" for s' ch'
    using assms that
    by (intro gp_pname_equ_sws_ok [where x = x]) (auto simp: gp_unfold)
  moreover have "gp_post lo e c (gp_push s) 0" "gp_post lo e c s MALFORMED_SIP_MSG"
    using assms by (simp_all add: gp_unfold)
  ultimately show ?thesis
    by (simp add: gp_pname_equ_def)
qed

lemma gp_pvalue_ok:
  "gp_inv lo e c s \<Longrightarrow> c < e \<Longrightarrow> st s = St x \<Longrightarrow>
     act_ok (gp_inv lo e) (gp_post lo e) c (gp_pvalue stop c ch s)"
  by (simp add: gp_pvalue_def gp_unfold)

lemma gp_pvalue_quoted_ok:
  "gp_inv lo e c s \<Longrightarrow> c < e \<Longrightarrow> st s = St x \<Longrightarrow>
     act_ok (gp_inv lo e) (gp_post lo e) c (gp_pvalue_quoted e c ch s)"
  by (simp add: gp_pvalue_quoted_def gp_unfold)

lemma gp_eol_ok:
  "gp_inv lo e c s \<Longrightarrow> c < e \<Longrightarrow> st s = ST_LF \<or> st s = ST_CRLF \<Longrightarrow>
     act_ok (gp_inv lo e) (gp_post lo e) c (gp_eol c s)"
  using eol_depth_le [of "saved_st s"]
  by (auto simp add: gp_eol_def gp_unfold eol_len_def Let_def)

lemma gp_st_cr_ok:
  "gp_inv lo e c s \<Longrightarrow> c < e \<Longrightarrow> st s = ST_CR \<Longrightarrow>
     act_ok (gp_inv lo e) (gp_post lo e) c (case_ST_CR c ch s)"
  by (simp add: case_ST_CR_def gp_unfold)

lemma gp_body_ok:
  assumes "gp_inv lo e c s" and "c < e"
  shows "act_ok (gp_inv lo e) (gp_post lo e) c (gp_body buf e stop c s)"
  using assms
  by (cases "st s" rule: fsm_st.exhaust)
    (simp_all add: gp_body_def Let_def gp_param_sep_ok gp_param_sep_sws_ok gp_pname_ok
      gp_pname_equ_ok gp_pname_equ_sws_ok' gp_pvalue_ok
      gp_pvalue_quoted_ok gp_eol_ok gp_st_cr_ok split: vp_st.split)

lemma gp_fin_ok:
  "gp_inv lo e c s \<Longrightarrow> \<not> c < e \<Longrightarrow> \<exists>c' s' r. gp_fin e c s = Out c' s' r \<and> gp_post lo e c' s' r"
  by (cases "st s" rule: fsm_st.exhaust)
    (simp_all add: gp_fin_def gp_unfold split: vp_st.split)

interpretation gp_loop: parser_loop "\<lambda>_. True" "gp_body buf e stop" "gp_fin e" e
    "gp_inv lo e" "gp_post lo e" for buf e stop lo
  by unfold_locales (auto simp: gp_body_ok gp_fin_ok)

text \<open>What a caller of the parameter parser relies on.\<close>

lemma gen_params_total:
  assumes "list_all (avp_ok lo (c + len)) ps" and "lo \<le> c"
  shows "\<exists>c' s r. parse_gen_params_impl buf ps c len stop sc = Out c' s r \<and> lo \<le> c' \<and> c' \<le> c + len \<and>
    (r = 0 \<or> r = MALFORMED_SIP_MSG) \<and> list_all (avp_ok lo (c + len)) (gp_params s)"
proof -
  have "gp_inv lo (c + len) c (gp_init ps c sc)"
    using assms by (simp add: gp_inv_def gp_init_def)
  from gp_loop.scan_total [OF this, of buf stop] show ?thesis
    by (auto simp: parse_gen_params_impl_def gp_post_def)
qed

section \<open>Printing and parsing parameters\<close>

text \<open>
  A parameter list in canonical form: names and values without separators, quotes, line
  endings and the caller's stop character, each parameter behind a semicolon.
\<close>

definition param_name :: "char \<Rightarrow> string \<Rightarrow> bool" where
  "param_name stop n \<longleftrightarrow> n \<noteq> [] \<and> (\<forall>ch \<in> set n. ch \<notin> {CR, LF, SP, HTAB, CHR ''='', CHR '';'', stop})"

definition param_value :: "char \<Rightarrow> string \<Rightarrow> bool" where
  "param_value stop v \<longleftrightarrow>
     v \<noteq> [] \<and> hd v \<notin> {SP, HTAB} \<and> (\<forall>ch \<in> set v. ch \<notin> {CR, LF, DQUOTE, CHR '';'', stop})"

fun param_ok :: "char \<Rightarrow> string \<times> string option \<Rightarrow> bool" where
  "param_ok stop (n, None) = param_name stop n"
| "param_ok stop (n, Some v) = (param_name stop n \<and> param_value stop v)"

fun print_param :: "string \<times> string option \<Rightarrow> string" where
  "print_param (n, None) = n"
| "print_param (n, Some v) = n @ CHR ''='' # v"

definition print_params :: "(string \<times> string option) list \<Rightarrow> string" where
  "print_params ps = concat (map (\<lambda>p. CHR '';'' # print_param p) ps)"

text \<open>The pair of strings that an attribute-value pair denotes.\<close>

definition avp_text :: "string \<Rightarrow> sip_avp \<Rightarrow> string \<times> string" where
  "avp_text buf a = (c2stlstr buf (avp_name a), c2stlstr buf (avp_value a))"

fun param_text :: "string \<times> string option \<Rightarrow> string \<times> string" where
  "param_text (n, None) = (n, [])"
| "param_text (n, Some v) = (n, v)"

abbreviation gp_run :: "string \<Rightarrow> nat \<Rightarrow> char \<Rightarrow> nat \<Rightarrow> gen_params \<Rightarrow> gen_params out" where
  "gp_run buf e stop \<equiv> scan (\<lambda>_. True) (gp_body buf e stop) (gp_fin e) e"

lemma gp_run_name:
  assumes "buf = p @ n @ q" and "length p + length n \<le> e" and "param_name stop n"
    and "st s = St VP_PARAM_SEP_SWS"
  shows "gp_run buf e stop (length p) s =
    gp_run buf e stop (length p + length n) (s\<lparr>st := St VP_PNAME, gp_beg := length p\<rparr>)"
proof -
  let ?s = "s\<lparr>st := St VP_PNAME, gp_beg := length p\<rparr>"
  from assms(3) obtain x n' where n: "n = x # n'" by (auto simp: param_name_def neq_Nil_conv)
  have "gp_run buf e stop (length p) s = gp_run buf e stop (length p + 1) ?s"
    using assms n
    by (intro scan_next) (auto simp: gp_body_def gp_param_sep_sws_def param_name_def)
  also have "\<dots> = gp_run buf e stop (length (p @ [x]) + length n') ?s"
  proof -
    have "gp_run buf e stop (length (p @ [x])) ?s =
      gp_run buf e stop (length (p @ [x]) + length n') ?s"
      using assms n
      by (intro scan_word [where q = q and buf = buf])
        (auto simp: gp_body_def gp_pname_def param_name_def)
    then show ?thesis by simp
  qed
  finally show ?thesis using n by simp
qed

lemma gp_run_value:
  assumes "buf = p @ v @ q" and "length p + length v \<le> e" and "param_value stop v"
    and "st s = St VP_PNAME_EQU_SWS"
  shows "gp_run buf e stop (length p) s =
    gp_run buf e stop (length p + length v) (s\<lparr>st := St VP_PVALUE, gp_beg := length p\<rparr>)"
proof -
  let ?s = "s\<lparr>st := St VP_PVALUE, gp_beg := length p\<rparr>"
  from assms(3) obtain x v' where v: "v = x # v'" by (auto simp: param_value_def neq_Nil_conv)
  have "gp_run buf e stop (length p) s = gp_run buf e stop (length p + 1) ?s"
    using assms v
    by (intro scan_next) (auto simp: gp_body_def gp_pname_equ_sws_def param_value_def)
  also have "\<dots> = gp_run buf e stop (length (p @ [x]) + length v') ?s"
  proof -
    have "gp_run buf e stop (length (p @ [x])) ?s =
      gp_run buf e stop (length (p @ [x]) + length v') ?s"
      using assms v
      by (intro scan_word [where q = q and buf = buf])
        (auto simp: gp_body_def gp_pvalue_def param_value_def)
    then show ?thesis by simp
  qed
  finally show ?thesis using v by simp
qed

text \<open>
  The state after the text of one parameter: the name, or the value with the name recorded,
  is still open and is closed by the semicolon or the end that follows.
\<close>

fun param_open :: "nat \<Rightarrow> string \<times> string option \<Rightarrow> gen_params \<Rightarrow> gen_params" where
  "param_open b (n, None) s = s\<lparr>st := St VP_PNAME, gp_beg := b\<rparr>"
| "param_open b (n, Some v) s =
     s\<lparr>gp_avp := (gp_avp s)\<lparr>avp_name := cs_set b (int (length n))\<rparr>,
       st := St VP_PVALUE, gp_beg := b + length n + 1\<rparr>"

fun param_avp :: "nat \<Rightarrow> string \<times> string option \<Rightarrow> sip_avp" where
  "param_avp b (n, None) = new_avp\<lparr>avp_name := cs_set b (int (length n))\<rparr>"
| "param_avp b (n, Some v) =
     \<lparr>avp_name = cs_set b (int (length n)),
      avp_value = cs_set (b + length n + 1) (int (length v))\<rparr>"

lemma gp_run_param:
  assumes "buf = p @ print_param x @ q" and "length p + length (print_param x) \<le> e"
    and "param_ok stop x" and "st s = St VP_PARAM_SEP_SWS" and "stop \<notin> {CHR ''=''}"
  shows "gp_run buf e stop (length p) s =
    gp_run buf e stop (length p + length (print_param x)) (param_open (length p) x s)"
proof (cases x rule: print_param.cases)
  case (1 n)
  with assms gp_run_name [of buf p n q] show ?thesis by simp
next
  case (2 n v)
  let ?s1 = "s\<lparr>st := St VP_PNAME, gp_beg := length p\<rparr>"
  let ?s2 = "gp_set_name (int (length p + length n)) (?s1\<lparr>st := St VP_PNAME_EQU_SWS\<rparr>)"
  have buf: "buf = p @ n @ (CHR ''='' # v @ q)" using assms(1) 2 by simp
  have "gp_run buf e stop (length p) s = gp_run buf e stop (length p + length n) ?s1"
    using assms 2 by (intro gp_run_name [OF buf]) auto
  also have "\<dots> = gp_run buf e stop (length p + length n + 1) ?s2"
    using assms 2 by (intro scan_next) (auto simp: buf gp_body_def gp_pname_def nth_append)
  also have "\<dots> = gp_run buf e stop (length (p @ n @ [CHR ''='']) + length v)
      (?s2\<lparr>st := St VP_PVALUE, gp_beg := length (p @ n @ [CHR ''=''])\<rparr>)"
    using assms 2 gp_run_value [of buf "p @ n @ [CHR ''='']" v q e stop ?s2]
    by (simp add: gp_set_name_def)
  finally show ?thesis using 2 by (simp add: gp_set_name_def add.assoc)
qed

lemma gp_open_sep:
  assumes "gp_avp s = new_avp" and "buf ! c = CHR '';''"
    and "c = b + length (print_param x)" and "c < e"
  shows "\<exists>s'. gp_run buf e stop c (param_open b x s) = gp_run buf e stop (c + 1) s' \<and>
    st s' = St VP_PARAM_SEP_SWS \<and> gp_avp s' = new_avp \<and>
    gp_params s' = gp_params s @ [param_avp b x]"
proof -
  have "\<exists>s'. gp_body buf e stop c (param_open b x s) = Next 1 s' \<and>
      st s' = St VP_PARAM_SEP_SWS \<and> gp_avp s' = new_avp \<and>
      gp_params s' = gp_params s @ [param_avp b x]"
    using assms
    by (cases x rule: print_param.cases)
      (simp_all add: gp_body_def gp_pname_def gp_pvalue_def gp_unfold)
  then show ?thesis using assms(4) by (metis scan_next zero_less_one)
qed

lemma gp_open_end:
  assumes "gp_avp s = new_avp" and "e = b + length (print_param x)"
  shows "\<exists>s'. gp_run buf e stop e (param_open b x s) = Out e s' 0 \<and>
    gp_params s' = gp_params s @ [param_avp b x]"
  using assms
  by (cases x rule: print_param.cases)
    (auto simp: scan_end gp_fin_def gp_unfold)

lemma avp_text_param:
  "avp_text (p @ print_param x @ q) (param_avp (length p) x) = param_text x"
proof (cases x rule: print_param.cases)
  case (2 n v)
  then show ?thesis
    using c2stlstr_middle [of _ p _ n "CHR ''='' # v @ q"]
      c2stlstr_middle [of _ "p @ n @ [CHR ''='']" _ v q]
    by (simp add: avp_text_def)
qed (simp add: avp_text_def new_avp_def c2stlstr_middle cs_null_def c2stlstr_def cs_set_def)

lemma gp_run_params:
  assumes "buf = p @ print_param x @ print_params xs @ q"
    and "e = length p + length (print_param x @ print_params xs)"
    and "list_all (param_ok stop) (x # xs)" and "stop \<noteq> CHR ''=''"
    and "st s = St VP_PARAM_SEP_SWS" and "gp_avp s = new_avp"
  shows "\<exists>s' as. gp_run buf e stop (length p) s = Out e s' 0 \<and>
    gp_params s' = gp_params s @ as \<and> map (avp_text buf) as = map param_text (x # xs)"
  using assms
proof (induction xs arbitrary: p x s)
  case Nil
  have "gp_run buf e stop (length p) s = gp_run buf e stop e (param_open (length p) x s)"
    using Nil by (subst gp_run_param [of buf p x q]) (auto simp: print_params_def)
  with gp_open_end [of s e "length p" x buf stop] Nil show ?case
    by (auto simp: print_params_def avp_text_param)
next
  case (Cons y ys)
  let ?c = "length p + length (print_param x)"
  let ?p = "p @ print_param x @ [CHR '';'']"
  have buf: "buf = ?p @ print_param y @ print_params ys @ q"
    using Cons.prems(1) by (simp add: print_params_def)
  have "gp_run buf e stop (length p) s = gp_run buf e stop ?c (param_open (length p) x s)"
    using Cons.prems by (intro gp_run_param [where q = "print_params (y # ys) @ q"]) auto
  moreover obtain s1 where
    "gp_run buf e stop ?c (param_open (length p) x s) = gp_run buf e stop (?c + 1) s1"
    and s1: "st s1 = St VP_PARAM_SEP_SWS" "gp_avp s1 = new_avp"
      "gp_params s1 = gp_params s @ [param_avp (length p) x]"
    using gp_open_sep [of s buf ?c "length p" x e stop] Cons.prems
    by (auto simp: print_params_def nth_append)
  moreover have "?c + 1 = length ?p" by simp
  moreover have "avp_text buf (param_avp (length p) x) = param_text x"
    unfolding Cons.prems(1) by (rule avp_text_param)
  ultimately show ?case
    using Cons.IH [of ?p y s1] buf Cons.prems by (auto simp: print_params_def)
qed

lemma gp_run_print_params:
  assumes "buf = p @ print_params ps @ q" and "list_all (param_ok stop) ps"
    and "stop \<noteq> CHR ''=''"
  shows "\<exists>s as. parse_gen_params_sc buf ps0 (length p) (length (print_params ps)) stop =
      Out (length p + length (print_params ps)) s 0 \<and>
    gp_params s = ps0 @ as \<and> map (avp_text buf) as = map param_text ps"
proof (cases ps)
  case Nil
  then show ?thesis
    by (simp add: print_params_def parse_gen_params_sc_def parse_gen_params_impl_def scan_end
        gp_fin_def gp_init_def)
next
  case (Cons x xs)
  let ?e = "length p + length (print_params ps)"
  let ?s = "(gp_init ps0 (length p) True)\<lparr>st := St VP_PARAM_SEP_SWS\<rparr>"
  have buf: "buf = (p @ [CHR '';'']) @ print_param x @ print_params xs @ q"
    using assms Cons by (simp add: print_params_def)
  have "gp_run buf ?e stop (length p) (gp_init ps0 (length p) True) =
      gp_run buf ?e stop (length p + 1) ?s"
    using Cons by (intro scan_next)
      (auto simp: buf print_params_def gp_body_def gp_init_def gp_param_sep_def nth_append)
  then show ?thesis
    using gp_run_params [OF buf, of ?e stop ?s] assms Cons
    by (simp add: parse_gen_params_sc_def parse_gen_params_impl_def print_params_def gp_init_def)
qed

lemma gp_run_blank_equ:
  assumes "buf = p @ n @ [SP] @ (CHR ''='' # v) @ q"
    and "e = length p + length n + 2 + length v"
    and "param_name stop n" and "\<forall>ch \<in> set v. ch \<notin> {CR, LF, DQUOTE, CHR '';'', stop}"
    and "st s = St VP_PARAM_SEP_SWS" and "gp_avp s = new_avp"
  shows "\<exists>s'. gp_run buf e stop (length p) s = Out e s' 0 \<and>
    gp_params s' = gp_params s @ [\<lparr>avp_name = cs_set (length p) (int (length n)),
      avp_value = cs_set (length p + length n + 1) (int (length v) + 1)\<rparr>]"
proof -
  let ?s1 = "s\<lparr>st := St VP_PNAME, gp_beg := length p\<rparr>"
  let ?s2 = "gp_set_name (int (length p + length n)) (?s1\<lparr>st := St VP_PNAME_EQU\<rparr>)"
  let ?s3 = "?s2\<lparr>st := St VP_PVALUE, gp_beg := length p + length n + 1\<rparr>"
  have "gp_run buf e stop (length p) s = gp_run buf e stop (length p + length n) ?s1"
    using assms by (intro gp_run_name [where q = "SP # CHR ''='' # v @ q"]) auto
  also have "\<dots> = gp_run buf e stop (length p + length n + 1) ?s2"
    using assms by (intro scan_next) (auto simp: gp_body_def gp_pname_def nth_append)
  also have "\<dots> = gp_run buf e stop (length p + length n + 1 + 1) ?s3"
    using assms by (intro scan_next)
      (auto simp: gp_body_def gp_set_name_def gp_pname_equ_def gp_pname_equ_sws_def nth_append)
  also have "\<dots> = gp_run buf e stop (length (p @ n @ [SP, CHR ''='']) + length v) ?s3"
  proof -
    have "gp_run buf e stop (length (p @ n @ [SP, CHR ''=''])) ?s3 =
        gp_run buf e stop (length (p @ n @ [SP, CHR ''='']) + length v) ?s3"
      using assms
      by (intro scan_word [where q = q and buf = buf]) (auto simp: gp_body_def gp_pvalue_def)
    then show ?thesis by simp
  qed
  finally show ?thesis
    using assms by (simp add: scan_end gp_fin_def gp_unfold)
qed

section \<open>Properties\<close>

text \<open>
  C14: the parameter parser of \<^verbatim>\<open>parse_common.cpp\<close> returns on every input. Whatever bytes
  stand in the slice and whatever stop character the caller passes, the loop ends, the cursor
  it leaves lies in the slice, the code is 0 or \<^verbatim>\<open>MALFORMED_SIP_MSG\<close>, and the name and the value of
  every pair it appended are slices of the input or null. In particular the loop
  \<^verbatim>\<open>for(;*c!=end;(*c)++)\<close> never steps over its end, although a case of it advances the cursor.
\<close>

theorem parse_gen_params_safe:
  "\<exists>c' s r. parse_gen_params_impl buf [] c len stop sc = Out c' s r \<and>
     c \<le> c' \<and> c' \<le> c + len \<and> (r = 0 \<or> r = MALFORMED_SIP_MSG) \<and>
     list_all (avp_ok c (c + len)) (gp_params s)"
  by (rule gen_params_total) auto

text \<open>
  C18: reading back what was written. A list of parameters in canonical form, printed with a
  semicolon before each one and placed anywhere in a buffer, is parsed with code 0 up to its
  last character, and the pairs appended to the list denote exactly the names and values that
  were printed, in order.
\<close>

theorem parse_print_params:
  assumes "buf = p @ print_params ps @ q" and "list_all (param_ok stop) ps"
    and "stop \<noteq> CHR ''=''"
  shows "\<exists>s as. parse_gen_params_sc buf ps0 (length p) (length (print_params ps)) stop =
      Out (length p + length (print_params ps)) s 0 \<and>
    gp_params s = ps0 @ as \<and> map (avp_text buf) as = map param_text ps"
  using gp_run_print_params [OF assms] .

theorem parse_print_params_witness:
  "\<exists>s as. parse_gen_params_sc ''z;lr;tag=9x'' [] 1 10 NUL = Out 11 s 0 \<and>
    gp_params s = [] @ as \<and>
    map (avp_text ''z;lr;tag=9x'') as = [(''lr'', []), (''tag'', ''9x'')]"
  using parse_print_params [of "''z;lr;tag=9x''" "''z''" "[(''lr'', None), (''tag'', Some ''9x'')]"
      "[]" NUL "[]"]
  by (simp add: print_params_def param_name_def param_value_def eval_nat_numeral)

text \<open>
  A blank between a parameter's name and its equals sign. The case \<^verbatim>\<open>VP_PNAME_EQU\<close> of the
  state machine has no \<^verbatim>\<open>break\<close> and falls into the next case with the same character, so the
  equals sign becomes the first character of the value: \<^verbatim>\<open>;n =v\<close> is read as the name \<^verbatim>\<open>n\<close> with
  the value \<^verbatim>\<open>=v\<close>.
\<close>

theorem parse_gen_params_blank_equ:
  assumes "buf = p @ n @ [SP] @ (CHR ''='' # v) @ q"
    and "param_name stop n" and "\<forall>ch \<in> set v. ch \<notin> {CR, LF, DQUOTE, CHR '';'', stop}"
  shows "\<exists>s a. parse_gen_params buf [] (length p) (length n + 2 + length v) stop =
      Out (length p + length n + 2 + length v) s 0 \<and>
    gp_params s = [a] \<and> avp_text buf a = (n, CHR ''='' # v)"
proof -
  have len: "int (length v) + 1 = int (length (CHR ''='' # v))" by simp
  show ?thesis
    using gp_run_blank_equ [OF assms(1) refl assms(2,3), of "gp_init [] (length p) False"]
      c2stlstr_middle [of _ p _ n "SP # CHR ''='' # v @ q"]
      c2stlstr_middle [of _ "p @ n @ [SP]" _ "CHR ''='' # v" q]
    by (auto simp: parse_gen_params_def parse_gen_params_impl_def gp_init_def avp_text_def
        assms(1) add.assoc len simp del: length_Cons)
qed

theorem parse_gen_params_blank_equ_witness:
  "\<exists>s a. parse_gen_params ''a =b'' [] 0 4 NUL = Out 4 s 0 \<and>
    gp_params s = [a] \<and> avp_text ''a =b'' a = (''a'', ''=b'')"
  using parse_gen_params_blank_equ [of "''a =b''" "[]" "''a''" "''b''" "[]" NUL]
  by (simp add: param_name_def eval_nat_numeral)

end
