(* ===== verification/Parse_Uri.thy ===== *)
theory Parse_Uri
  imports Parse_Common
begin

text \<open>
  \<^verbatim>\<open>core/sip/parse_uri.h\<close> and \<^verbatim>\<open>core/sip/parse_uri.cpp\<close>: the SIP URI parser. The scheme is read by
  a small state machine, the rest by a loop that switches on the character first and on the
  state inside; the port is converted after the loop. The theory shows that the parser is total
  and keeps every slice in bounds, that the port conversion accepts exactly the decimal numbers
  up to 65535, and that a printed URI is read back.
\<close>

section \<open>Data\<close>

datatype uri_scheme = UNKNOWN | SIP | SIPS

record sip_uri =
  scheme :: uri_scheme
  user :: cstring
  passwd :: cstring
  host :: cstring
  port_str :: cstring
  port :: u16
  uri_params :: "sip_avp list"
  uri_hdrs :: "sip_avp list"
  trsp :: "sip_avp option"

definition new_uri :: sip_uri where
  "new_uri = \<lparr>scheme = UNKNOWN, user = cs_null, passwd = cs_null, host = cs_null,
     port_str = cs_null, port = 0, uri_params = [], uri_hdrs = [], trsp = None\<rparr>"

datatype uri_st =
  URI_USER | URI_PW | URI_HOST | URI_HOST_V6 | URI_PORT | URI_PNAME | URI_PVALUE
  | URI_HNAME | URI_HVALUE

record uri_fsm =
  u_st :: uri_st
  u_uri :: sip_uri
  tmp1 :: cstring
  tmp2 :: cstring

section \<open>The loop of parse_sip_uri, one definition per character\<close>

text \<open>\<^verbatim>\<open>x.len = c - x.s\<close>\<close>

definition cs_end :: "nat \<Rightarrow> cstring \<Rightarrow> cstring" where
  "cs_end c cs = cs\<lparr>cs_len := int c - int (cs_s cs)\<rparr>"

definition uri_colon :: "nat \<Rightarrow> uri_fsm \<Rightarrow> uri_fsm act" where
  "uri_colon c s =
     (let u = u_uri s in
      case u_st s of
        URI_USER \<Rightarrow>
          let u' = u\<lparr>user := cs_end c (user u)\<rparr> in
          if cs_len (user u') = 0 then Ret c (s\<lparr>u_uri := u'\<rparr>) MALFORMED_URI
          else Next 1 (s\<lparr>u_uri := u'\<lparr>passwd := (passwd u')\<lparr>cs_s := c + 1\<rparr>\<rparr>, u_st := URI_PW\<rparr>)
      | URI_HOST \<Rightarrow>
          let u' = u\<lparr>host := cs_end c (host u)\<rparr> in
          if cs_len (host u') = 0 then Ret c (s\<lparr>u_uri := u'\<rparr>) MALFORMED_URI
          else Next 1 (s\<lparr>u_uri := u'\<lparr>port_str := (port_str u')\<lparr>cs_s := c + 1\<rparr>\<rparr>, u_st := URI_PORT\<rparr>)
      | _ \<Rightarrow> Next 1 s)"

definition uri_at :: "nat \<Rightarrow> uri_fsm \<Rightarrow> uri_fsm act" where
  "uri_at c s =
     (let u = u_uri s in
      case u_st s of
        URI_USER \<Rightarrow>
          Next 1 (s\<lparr>u_uri := u\<lparr>user := cs_end c (user u), host := cs_set (c + 1) 0\<rparr>,
                    u_st := URI_HOST\<rparr>)
      | URI_PW \<Rightarrow>
          Next 1 (s\<lparr>u_uri := u\<lparr>passwd := cs_end c (passwd u), host := cs_set (c + 1) 0\<rparr>,
                    u_st := URI_HOST\<rparr>)
      | _ \<Rightarrow> Ret c s MALFORMED_URI)"

definition uri_push_param :: "cstring \<Rightarrow> cstring \<Rightarrow> sip_uri \<Rightarrow> sip_uri" where
  "uri_push_param n v u = u\<lparr>uri_params := uri_params u @ [\<lparr>avp_name = n, avp_value = v\<rparr>]\<rparr>"

definition uri_push_hdr :: "cstring \<Rightarrow> cstring \<Rightarrow> sip_uri \<Rightarrow> sip_uri" where
  "uri_push_hdr n v u = u\<lparr>uri_hdrs := uri_hdrs u @ [\<lparr>avp_name = n, avp_value = v\<rparr>]\<rparr>"

definition uri_semicolon :: "nat \<Rightarrow> uri_fsm \<Rightarrow> uri_fsm act" where
  "uri_semicolon c s =
     (let u = u_uri s in
      case u_st s of
        URI_HOST \<Rightarrow>
          Next 1 (s\<lparr>u_uri := u\<lparr>host := cs_end c (host u)\<rparr>, u_st := URI_PNAME,
                    tmp1 := cs_set (c + 1) 0\<rparr>)
      | URI_PORT \<Rightarrow>
          Next 1 (s\<lparr>u_uri := u\<lparr>port_str := cs_end c (port_str u)\<rparr>, u_st := URI_PNAME,
                    tmp1 := cs_set (c + 1) 0\<rparr>)
      | URI_PNAME \<Rightarrow>
          let n = cs_end c (tmp1 s) in
          Next 1 (s\<lparr>u_uri := uri_push_param n cs_null u, tmp1 := n\<lparr>cs_s := c + 1\<rparr>\<rparr>)
      | URI_PVALUE \<Rightarrow>
          let v = cs_end c (tmp2 s) in
          Next 1 (s\<lparr>u_uri := uri_push_param (tmp1 s) v u, tmp2 := v,
                    tmp1 := (tmp1 s)\<lparr>cs_s := c + 1\<rparr>, u_st := URI_PNAME\<rparr>)
      | _ \<Rightarrow> Next 1 s)"

definition uri_question :: "nat \<Rightarrow> uri_fsm \<Rightarrow> uri_fsm act" where
  "uri_question c s =
     (let u = u_uri s in
      case u_st s of
        URI_HOST \<Rightarrow>
          Next 1 (s\<lparr>u_uri := u\<lparr>host := cs_end c (host u)\<rparr>, u_st := URI_HNAME,
                    tmp1 := (tmp1 s)\<lparr>cs_s := c + 1\<rparr>\<rparr>)
      | URI_PORT \<Rightarrow>
          Next 1 (s\<lparr>u_uri := u\<lparr>port_str := cs_end c (port_str u)\<rparr>, u_st := URI_HNAME,
                    tmp1 := (tmp1 s)\<lparr>cs_s := c + 1\<rparr>\<rparr>)
      | URI_PNAME \<Rightarrow>
          let n = cs_end c (tmp1 s) in
          Next 1 (s\<lparr>u_uri := uri_push_param n cs_null u, tmp1 := n\<lparr>cs_s := c + 1\<rparr>,
                    u_st := URI_HNAME\<rparr>)
      | URI_PVALUE \<Rightarrow>
          let v = cs_end c (tmp2 s) in
          Next 1 (s\<lparr>u_uri := uri_push_param (tmp1 s) v u, tmp2 := v,
                    tmp1 := (tmp1 s)\<lparr>cs_s := c + 1\<rparr>, u_st := URI_HNAME\<rparr>)
      | _ \<Rightarrow> Next 1 s)"

text \<open>\<^verbatim>\<open>st++\<close> turns \<^verbatim>\<open>URI_PNAME\<close> into \<^verbatim>\<open>URI_PVALUE\<close> and \<^verbatim>\<open>URI_HNAME\<close> into \<^verbatim>\<open>URI_HVALUE\<close>.\<close>

definition uri_equals :: "nat \<Rightarrow> uri_fsm \<Rightarrow> uri_fsm act" where
  "uri_equals c s =
     (let n = cs_end c (tmp1 s);
          go = (\<lambda>st'. if cs_len n = 0 then Ret c (s\<lparr>tmp1 := n\<rparr>) MALFORMED_URI
                else Next 1 (s\<lparr>tmp1 := n, tmp2 := (tmp2 s)\<lparr>cs_s := c + 1\<rparr>, u_st := st'\<rparr>))
      in case u_st s of
           URI_PNAME \<Rightarrow> go URI_PVALUE
         | URI_HNAME \<Rightarrow> go URI_HVALUE
         | _ \<Rightarrow> Next 1 s)"

definition uri_ampersand :: "nat \<Rightarrow> uri_fsm \<Rightarrow> uri_fsm act" where
  "uri_ampersand c s =
     (case u_st s of
        URI_HNAME \<Rightarrow> Ret c s MALFORMED_URI
      | URI_HVALUE \<Rightarrow>
          let v = cs_end c (tmp2 s) in
          Next 1 (s\<lparr>u_uri := uri_push_hdr (tmp1 s) v (u_uri s), tmp2 := v,
                    tmp1 := (tmp1 s)\<lparr>cs_s := c + 1\<rparr>, u_st := URI_HNAME\<rparr>)
      | _ \<Rightarrow> Next 1 s)"

definition uri_bracket :: "char \<Rightarrow> uri_fsm \<Rightarrow> uri_fsm act" where
  "uri_bracket ch s =
     (if ch = CHR ''['' \<and> u_st s = URI_HOST then Next 1 (s\<lparr>u_st := URI_HOST_V6\<rparr>)
      else if ch = CHR '']'' \<and> u_st s = URI_HOST_V6 then Next 1 (s\<lparr>u_st := URI_HOST\<rparr>)
      else Next 1 s)"

definition uri_body :: "string \<Rightarrow> nat \<Rightarrow> uri_fsm \<Rightarrow> uri_fsm act" where
  "uri_body buf c s =
     (let ch = buf ! c in
      if ch = CHR '':'' then uri_colon c s
      else if ch = CHR ''@'' then uri_at c s
      else if ch = CHR '';'' then uri_semicolon c s
      else if ch = CHR ''?'' then uri_question c s
      else if ch = CHR ''='' then uri_equals c s
      else if ch = CHR ''&'' then uri_ampersand c s
      else if ch = CHR ''['' \<or> ch = CHR '']'' then uri_bracket ch s
      else Next 1 s)"

section \<open>After the loop\<close>

text \<open>The conversion of the port: \<open>None\<close> is a return with \<^verbatim>\<open>MALFORMED_URI\<close>.\<close>

fun uri_port :: "u32 \<Rightarrow> string \<Rightarrow> u32 option" where
  "uri_port p [] = Some p"
| "uri_port p (d # ds) =
     (if schar d < 0x30 \<or> schar d > 0x39 then None
      else let p' = p * 10 + word_of_int (schar d - 0x30)
           in if p' > 65535 then None else uri_port p' ds)"

fun uri_trsp :: "string \<Rightarrow> sip_avp list \<Rightarrow> sip_avp option \<Rightarrow> sip_avp option" where
  "uri_trsp buf [] t = t"
| "uri_trsp buf (a # as) t =
     uri_trsp buf as
       (if lower_cmp_n (c2stlstr buf (avp_name a)) ''transport'' = 0 then Some a else t)"

definition uri_end :: "string \<Rightarrow> nat \<Rightarrow> uri_fsm \<Rightarrow> uri_fsm out" where
  "uri_end buf c s =
     (let u = u_uri s;
          fin = (\<lambda>p. let u' = u\<lparr>port := p\<rparr>
                     in Out c (s\<lparr>u_uri := u'\<lparr>trsp := uri_trsp buf (uri_params u') (trsp u')\<rparr>\<rparr>) 0)
      in if cs_len (port_str u) \<noteq> 0 then
           (case uri_port 0 (c2stlstr buf (port_str u)) of
              None \<Rightarrow> Out c s MALFORMED_URI
            | Some p \<Rightarrow> fin (ucast p))
         else fin 5060)"

definition uri_fin :: "string \<Rightarrow> nat \<Rightarrow> nat \<Rightarrow> uri_fsm \<Rightarrow> uri_fsm out" where
  "uri_fin buf e c s =
     (let u = u_uri s in
      if c \<noteq> e then Overrun
      else case u_st s of
        URI_USER \<Rightarrow> Out c s MALFORMED_URI
      | URI_PW \<Rightarrow> Out c s MALFORMED_URI
      | URI_HOST \<Rightarrow>
          let s' = s\<lparr>u_uri := u\<lparr>host := cs_end c (host u)\<rparr>\<rparr> in
          if cs_len (host (u_uri s')) = 0 then Out c s' MALFORMED_URI else uri_end buf c s'
      | URI_HOST_V6 \<Rightarrow> Out c s MALFORMED_URI
      | URI_PORT \<Rightarrow> uri_end buf c (s\<lparr>u_uri := u\<lparr>port_str := cs_end c (port_str u)\<rparr>\<rparr>)
      | URI_PNAME \<Rightarrow>
          let n = cs_end c (tmp1 s)
          in uri_end buf c (s\<lparr>u_uri := uri_push_param n cs_null u, tmp1 := n\<rparr>)
      | URI_PVALUE \<Rightarrow>
          let v = cs_end c (tmp2 s)
          in uri_end buf c (s\<lparr>u_uri := uri_push_param (tmp1 s) v u, tmp2 := v\<rparr>)
      | URI_HNAME \<Rightarrow> Out c s MALFORMED_URI
      | URI_HVALUE \<Rightarrow>
          let v = cs_end c (tmp2 s)
          in uri_end buf c (s\<lparr>u_uri := uri_push_hdr (tmp1 s) v u, tmp2 := v\<rparr>))"

definition uri_init :: "string \<Rightarrow> sip_uri \<Rightarrow> nat \<Rightarrow> nat \<Rightarrow> uri_fsm" where
  "uri_init buf uri beg len =
     (if CHR ''@'' \<in> set (take len (drop beg buf))
      then \<lparr>u_st = URI_USER, u_uri = uri\<lparr>user := (user uri)\<lparr>cs_s := beg\<rparr>\<rparr>,
            tmp1 = cs_null, tmp2 = cs_null\<rparr>
      else \<lparr>u_st = URI_HOST, u_uri = uri\<lparr>host := (host uri)\<lparr>cs_s := beg\<rparr>\<rparr>,
            tmp1 = cs_null, tmp2 = cs_null\<rparr>)"

definition parse_sip_uri :: "string \<Rightarrow> sip_uri \<Rightarrow> nat \<Rightarrow> nat \<Rightarrow> uri_fsm out" where
  "parse_sip_uri buf uri beg len =
     scan (\<lambda>_. True) (uri_body buf) (uri_fin buf (beg + len)) (beg + len) beg
       (uri_init buf uri beg len)"

section \<open>The scheme\<close>

text \<open>
  \<^verbatim>\<open>parse_uri\<close> reads \<^verbatim>\<open>sip:\<close> or \<^verbatim>\<open>sips:\<close> in any case and hands the rest to \<^verbatim>\<open>parse_sip_uri\<close>. A text
  that ends before the colon is accepted with the scheme still unknown: the loop ends and the
  function returns 0.
\<close>

datatype scheme_st = URI_BEG | SIP_S | SIP_I | SIP_P | SIPS_S

fun parse_scheme :: "string \<Rightarrow> sip_uri \<Rightarrow> scheme_st \<Rightarrow> nat \<Rightarrow> nat \<Rightarrow> sip_uri out" where
  "parse_scheme buf uri sst c 0 = Out c uri 0"
| "parse_scheme buf uri sst c (Suc n) =
     (let ch = buf ! c;
          rest = (\<lambda>sch. map_out u_uri (parse_sip_uri buf (uri\<lparr>scheme := sch\<rparr>) (c + 1) n))
      in case sst of
           URI_BEG \<Rightarrow>
             if ch = CHR ''s'' \<or> ch = CHR ''S'' then parse_scheme buf uri SIP_S (c + 1) n
             else Out c uri MALFORMED_URI
         | SIP_S \<Rightarrow>
             if ch = CHR ''i'' \<or> ch = CHR ''I'' then parse_scheme buf uri SIP_I (c + 1) n
             else Out c uri MALFORMED_URI
         | SIP_I \<Rightarrow>
             if ch = CHR ''p'' \<or> ch = CHR ''P'' then parse_scheme buf uri SIP_P (c + 1) n
             else Out c uri MALFORMED_URI
         | SIP_P \<Rightarrow>
             if ch = CHR '':'' then rest SIP
             else if ch = CHR ''s'' \<or> ch = CHR ''S'' then parse_scheme buf uri SIPS_S (c + 1) n
             else Out c uri MALFORMED_URI
         | SIPS_S \<Rightarrow>
             if ch = CHR '':'' then rest SIPS else Out c uri MALFORMED_URI)"

definition parse_uri :: "string \<Rightarrow> sip_uri \<Rightarrow> nat \<Rightarrow> nat \<Rightarrow> sip_uri out" where
  "parse_uri buf uri beg len = parse_scheme buf uri URI_BEG beg len"

section \<open>Safety and termination\<close>

definition uri_ok :: "nat \<Rightarrow> nat \<Rightarrow> sip_uri \<Rightarrow> bool" where
  "uri_ok lo hi u \<longleftrightarrow> cs_ok lo hi (user u) \<and> cs_ok lo hi (passwd u) \<and> cs_ok lo hi (host u) \<and>
     cs_ok lo hi (port_str u) \<and> list_all (avp_ok lo hi) (uri_params u) \<and>
     list_all (avp_ok lo hi) (uri_hdrs u)"

text \<open>The slice that a state is filling starts at or before the cursor and has no length yet.\<close>

fun uri_open :: "uri_fsm \<Rightarrow> cstring" where
  "uri_open s = (case u_st s of
     URI_USER \<Rightarrow> user (u_uri s) | URI_PW \<Rightarrow> passwd (u_uri s)
   | URI_HOST \<Rightarrow> host (u_uri s) | URI_HOST_V6 \<Rightarrow> host (u_uri s)
   | URI_PORT \<Rightarrow> port_str (u_uri s) | URI_PNAME \<Rightarrow> tmp1 s | URI_PVALUE \<Rightarrow> tmp2 s
   | URI_HNAME \<Rightarrow> tmp1 s | URI_HVALUE \<Rightarrow> tmp2 s)"

definition uri_inv :: "nat \<Rightarrow> nat \<Rightarrow> nat \<Rightarrow> uri_fsm \<Rightarrow> bool" where
  "uri_inv lo e c s \<longleftrightarrow> lo \<le> c \<and> c \<le> e \<and> uri_ok lo e (u_uri s) \<and>
     lo \<le> cs_s (uri_open s) \<and> cs_s (uri_open s) \<le> c \<and>
     (u_st s = URI_USER \<longrightarrow> cs_len (passwd (u_uri s)) = 0) \<and>
     (u_st s \<in> {URI_USER, URI_PW, URI_HOST, URI_HOST_V6} \<longrightarrow> cs_len (port_str (u_uri s)) = 0) \<and>
     (u_st s \<in> {URI_PVALUE, URI_HVALUE} \<longrightarrow> cs_ok lo e (tmp1 s))"

definition uri_post :: "nat \<Rightarrow> nat \<Rightarrow> nat \<Rightarrow> uri_fsm \<Rightarrow> int \<Rightarrow> bool" where
  "uri_post lo e c s r \<longleftrightarrow> lo \<le> c \<and> c \<le> e \<and> (r = 0 \<or> r = MALFORMED_URI) \<and> uri_ok lo e (u_uri s)"

lemma cs_end_sel [simp]:
  "cs_s (cs_end c cs) = cs_s cs" "cs_len (cs_end c cs) = int c - int (cs_s cs)"
  by (simp_all add: cs_end_def)

lemma cs_ok_end [simp]: "lo \<le> cs_s cs \<Longrightarrow> cs_s cs \<le> c \<Longrightarrow> c \<le> hi \<Longrightarrow> cs_ok lo hi (cs_end c cs)"
  by (simp add: cs_ok_def)

lemma cs_ok_start [simp]: "cs_len cs = 0 \<Longrightarrow> lo \<le> b \<Longrightarrow> b \<le> hi \<Longrightarrow> cs_ok lo hi (cs\<lparr>cs_s := b\<rparr>)"
  by (simp add: cs_ok_def)

lemma cs_ok_set0 [simp]: "lo \<le> b \<Longrightarrow> b \<le> hi \<Longrightarrow> cs_ok lo hi (cs_set b 0)"
  by (simp add: cs_ok_def cs_set_def)

lemmas uri_unfold =
  uri_inv_def uri_post_def uri_ok_def avp_ok_def uri_push_param_def uri_push_hdr_def Let_def

lemma uri_colon_ok:
  "uri_inv lo e c s \<Longrightarrow> c < e \<Longrightarrow> act_ok (uri_inv lo e) (uri_post lo e) c (uri_colon c s)"
  by (cases "u_st s") (simp_all add: uri_colon_def uri_unfold)

lemma uri_at_ok:
  "uri_inv lo e c s \<Longrightarrow> c < e \<Longrightarrow> act_ok (uri_inv lo e) (uri_post lo e) c (uri_at c s)"
  by (cases "u_st s") (simp_all add: uri_at_def uri_unfold)

lemma uri_semicolon_ok:
  "uri_inv lo e c s \<Longrightarrow> c < e \<Longrightarrow> act_ok (uri_inv lo e) (uri_post lo e) c (uri_semicolon c s)"
  by (cases "u_st s") (simp_all add: uri_semicolon_def uri_unfold)

lemma uri_question_ok:
  "uri_inv lo e c s \<Longrightarrow> c < e \<Longrightarrow> act_ok (uri_inv lo e) (uri_post lo e) c (uri_question c s)"
  by (cases "u_st s") (simp_all add: uri_question_def uri_unfold)

lemma uri_equals_ok:
  "uri_inv lo e c s \<Longrightarrow> c < e \<Longrightarrow> act_ok (uri_inv lo e) (uri_post lo e) c (uri_equals c s)"
  by (cases "u_st s") (simp_all add: uri_equals_def uri_unfold)

lemma uri_ampersand_ok:
  "uri_inv lo e c s \<Longrightarrow> c < e \<Longrightarrow> act_ok (uri_inv lo e) (uri_post lo e) c (uri_ampersand c s)"
  by (cases "u_st s") (simp_all add: uri_ampersand_def uri_unfold)

lemma uri_bracket_ok:
  "uri_inv lo e c s \<Longrightarrow> c < e \<Longrightarrow> act_ok (uri_inv lo e) (uri_post lo e) c (uri_bracket ch s)"
  by (cases "u_st s") (simp_all add: uri_bracket_def uri_unfold)

lemma uri_skip_ok:
  "uri_inv lo e c s \<Longrightarrow> c < e \<Longrightarrow> act_ok (uri_inv lo e) (uri_post lo e) c (Next 1 s)"
  by (simp add: uri_inv_def)

lemma uri_body_ok:
  "uri_inv lo e c s \<Longrightarrow> c < e \<Longrightarrow> act_ok (uri_inv lo e) (uri_post lo e) c (uri_body buf c s)"
  unfolding uri_body_def Let_def
  by (simp only: uri_colon_ok uri_at_ok uri_semicolon_ok uri_question_ok uri_equals_ok
      uri_ampersand_ok uri_bracket_ok uri_skip_ok if_split) simp

lemma uri_end_ok:
  assumes "lo \<le> c" and "c \<le> e" and "uri_ok lo e (u_uri s)"
  shows "\<exists>c' s' r. uri_end buf c s = Out c' s' r \<and> uri_post lo e c' s' r"
  using assms by (simp add: uri_end_def Let_def uri_post_def uri_ok_def split: option.split)

lemma uri_fin_ok:
  assumes "uri_inv lo e c s" and "\<not> c < e"
  shows "\<exists>c' s' r. uri_fin buf e c s = Out c' s' r \<and> uri_post lo e c' s' r"
proof -
  have "\<exists>c' s' r. uri_end buf c s1 = Out c' s' r \<and> uri_post lo e c' s' r"
    if "uri_ok lo e (u_uri s1)" for s1
    using assms that by (intro uri_end_ok) (auto simp: uri_inv_def)
  with assms show ?thesis
    by (cases "u_st s") (simp_all add: uri_fin_def uri_unfold, auto)
qed

interpretation uri_loop: parser_loop
  "\<lambda>_. True" "uri_body buf" "uri_fin buf e" e "uri_inv lo e" "uri_post lo e"
  for buf e lo
  by unfold_locales (use uri_body_ok uri_fin_ok in auto)

lemma uri_init_inv:
  "uri_inv beg (beg + len) beg (uri_init buf (new_uri\<lparr>scheme := sch\<rparr>) beg len)"
  by (simp add: uri_init_def uri_unfold new_uri_def cs_null_def cs_ok_def)

lemma uri_ok_mono: "uri_ok lo hi u \<Longrightarrow> lo' \<le> lo \<Longrightarrow> hi \<le> hi' \<Longrightarrow> uri_ok lo' hi' u"
  by (auto simp: uri_ok_def list_all_iff intro: cs_ok_mono avp_ok_mono)

lemma uri_ok_new [simp]: "uri_ok lo hi new_uri"
  by (simp add: uri_ok_def new_uri_def)

lemma parse_scheme_total:
  "\<exists>c' u r. parse_scheme buf new_uri sst c n = Out c' u r \<and> c \<le> c' \<and> c' \<le> c + n \<and>
     (r = 0 \<or> r = MALFORMED_URI) \<and> uri_ok c (c + n) u"
proof (induction n arbitrary: c sst)
  case (Suc n)
  have rest: "\<exists>c' u r. map_out u_uri (parse_sip_uri buf (new_uri\<lparr>scheme := sch\<rparr>) (c + 1) n) = Out c' u r \<and>
      c \<le> c' \<and> c' \<le> c + Suc n \<and> (r = 0 \<or> r = MALFORMED_URI) \<and> uri_ok c (c + Suc n) u" for sch
    using uri_loop.scan_total [OF uri_init_inv, of buf "c + 1" n buf sch]
    by (fastforce simp: parse_sip_uri_def uri_post_def intro: uri_ok_mono)
  have more: "\<exists>c' u r. parse_scheme buf new_uri sst' (c + 1) n = Out c' u r \<and>
      c \<le> c' \<and> c' \<le> c + Suc n \<and> (r = 0 \<or> r = MALFORMED_URI) \<and> uri_ok c (c + Suc n) u" for sst'
    using Suc.IH [of sst' "c + 1"] by (fastforce intro: uri_ok_mono)
  show ?case
    using rest more by (cases sst) (simp_all add: Let_def)
qed (simp add: uri_ok_def new_uri_def)

section \<open>The port\<close>

lemma uri_port_spec:
  "unat p \<le> 65535 \<Longrightarrow>
     uri_port p ds = (if list_all IS_DIGIT ds \<and> dec_val (unat p) ds \<le> 65535
       then Some (of_nat (dec_val (unat p) ds)) else None)"
proof (induction ds arbitrary: p)
  case Nil
  then show ?case by simp
next
  case (Cons d ds)
  let ?p = "p * 10 + word_of_int (schar d - 0x30)"
  show ?case
  proof (cases "IS_DIGIT d")
    case True
    have eq: "?p = of_nat (10 * unat p + dig d)"
      using True by (simp add: dig_def IS_DIGIT_def IS_IN_def)
    have "10 * unat p + dig d < 2 ^ 32" using Cons.prems dig_le [OF True] by simp
    then have p: "unat ?p = 10 * unat p + dig d" unfolding eq unat_of_nat by simp
    then have gt: "?p > 65535 \<longleftrightarrow> 10 * unat p + dig d > 65535" by (simp add: word_less_nat_alt)
    show ?thesis
    proof (cases "?p > 65535")
      case big: True
      then have "dec_val (unat p) (d # ds) > 65535"
        using gt dec_val_ge [of "10 * unat p + dig d" ds] by simp
      with True big show ?thesis by (simp add: IS_DIGIT_def IS_IN_def)
    next
      case False
      with True Cons.IH [of ?p] gt p show ?thesis by (simp add: IS_DIGIT_def IS_IN_def)
    qed
  qed (auto simp: IS_DIGIT_def IS_IN_def)
qed

section \<open>Printing and parsing URIs\<close>

text \<open>The characters that a state of the loop passes over.\<close>

definition quiet :: "uri_st \<Rightarrow> char \<Rightarrow> bool" where
  "quiet us ch \<longleftrightarrow> ch \<notin> (case us of
     URI_USER \<Rightarrow> {CHR '':'', CHR ''@''}
   | URI_PW \<Rightarrow> {CHR ''@''}
   | URI_HOST \<Rightarrow> {CHR '':'', CHR ''@'', CHR '';'', CHR ''?'', CHR ''[''}
   | URI_HOST_V6 \<Rightarrow> {CHR ''@'', CHR '']''}
   | URI_PORT \<Rightarrow> {CHR ''@'', CHR '';'', CHR ''?''}
   | URI_PNAME \<Rightarrow> {CHR ''@'', CHR '';'', CHR ''?'', CHR ''=''}
   | URI_PVALUE \<Rightarrow> {CHR ''@'', CHR '';'', CHR ''?''}
   | URI_HNAME \<Rightarrow> {CHR ''@'', CHR ''='', CHR ''&''}
   | URI_HVALUE \<Rightarrow> {CHR ''@'', CHR ''&''})"

lemma quiet_body: "quiet (u_st s) (buf ! c) \<Longrightarrow> uri_body buf c s = Next 1 s"
  by (cases "u_st s")
    (simp_all add: quiet_def uri_body_def Let_def uri_colon_def uri_at_def uri_semicolon_def
      uri_question_def uri_equals_def uri_ampersand_def uri_bracket_def)

abbreviation uri_run :: "string \<Rightarrow> nat \<Rightarrow> nat \<Rightarrow> uri_fsm \<Rightarrow> uri_fsm out" where
  "uri_run buf e \<equiv> scan (\<lambda>_. True) (uri_body buf) (uri_fin buf e) e"

lemma uri_run_word:
  assumes "buf = p @ w @ q" and "length p + length w \<le> e" and "list_all (quiet (u_st s)) w"
  shows "uri_run buf e (length p) s = uri_run buf e (length p + length w) s"
  using assms(3) by (intro scan_word [OF assms(1,2)]) (auto simp: list_all_iff quiet_body)

lemma uri_run_step:
  "c < e \<Longrightarrow> uri_body buf c s = Next 1 s' \<Longrightarrow> uri_run buf e c s = uri_run buf e (c + 1) s'"
  by (simp add: scan_next)

text \<open>A URI parameter in canonical form; without a value even the name may be empty.\<close>

fun uri_param_ok :: "string \<times> string option \<Rightarrow> bool" where
  "uri_param_ok (n, None) = list_all (quiet URI_PNAME) n"
| "uri_param_ok (n, Some v) =
     (n \<noteq> [] \<and> list_all (quiet URI_PNAME) n \<and> list_all (quiet URI_PVALUE) v)"

text \<open>The open parameter at the end of its text, and the pair it becomes.\<close>

fun uri_param_open :: "nat \<Rightarrow> string \<times> string option \<Rightarrow> uri_fsm \<Rightarrow> uri_fsm" where
  "uri_param_open b (n, None) s = s"
| "uri_param_open b (n, Some v) s =
     s\<lparr>tmp1 := cs_set b (int (length n)), tmp2 := (tmp2 s)\<lparr>cs_s := b + length n + 1\<rparr>,
       u_st := URI_PVALUE\<rparr>"

lemma uri_run_param:
  assumes "buf = p @ print_param x @ q" and "length p + length (print_param x) \<le> e"
    and "uri_param_ok x" and "u_st s = URI_PNAME" and "cs_s (tmp1 s) = length p"
  shows "uri_run buf e (length p) s =
    uri_run buf e (length p + length (print_param x)) (uri_param_open (length p) x s)"
proof (cases x rule: print_param.cases)
  case (1 n)
  with assms uri_run_word [of buf p n q e s] show ?thesis by simp
next
  case (2 n v)
  let ?c = "length p + length n"
  let ?s = "uri_param_open (length p) x s"
  have buf: "buf = p @ n @ (CHR ''='' # v @ q)" using assms(1) 2 by simp
  have "uri_run buf e (length p) s = uri_run buf e ?c s"
    using assms 2 by (intro uri_run_word [OF buf]) auto
  also have "\<dots> = uri_run buf e (?c + 1) ?s"
    using assms 2 by (intro uri_run_step)
      (auto simp: buf uri_body_def nth_append uri_equals_def Let_def cs_end_def cs_set_def)
  also have "\<dots> = uri_run buf e (length (p @ n @ [CHR ''='']) + length v) ?s"
    using assms 2 uri_run_word [of buf "p @ n @ [CHR ''='']" v q e ?s] by simp
  finally show ?thesis using 2 by (simp add: add.assoc)
qed

lemma uri_param_sep:
  assumes "buf ! c = CHR '';''" and "c = b + length (print_param x)" and "c < e"
    and "u_st s = URI_PNAME" and "cs_s (tmp1 s) = b"
  shows "\<exists>s'. uri_run buf e c (uri_param_open b x s) = uri_run buf e (c + 1) s' \<and>
    u_st s' = URI_PNAME \<and> cs_s (tmp1 s') = c + 1 \<and>
    u_uri s' = (u_uri s)\<lparr>uri_params := uri_params (u_uri s) @ [param_avp b x]\<rparr>"
proof -
  have "\<exists>s'. uri_body buf c (uri_param_open b x s) = Next 1 s' \<and>
    u_st s' = URI_PNAME \<and> cs_s (tmp1 s') = c + 1 \<and>
    u_uri s' = (u_uri s)\<lparr>uri_params := uri_params (u_uri s) @ [param_avp b x]\<rparr>"
    using assms
    by (cases x rule: print_param.cases)
      (auto simp: uri_body_def uri_semicolon_def Let_def uri_push_param_def new_avp_def
        cs_end_def cs_set_def)
  with assms(3) show ?thesis by (metis uri_run_step)
qed

lemma uri_param_end:
  assumes "e = b + length (print_param x)" and "u_st s = URI_PNAME" and "cs_s (tmp1 s) = b"
  shows "\<exists>s'. uri_run buf e e (uri_param_open b x s) = uri_end buf e s' \<and>
    u_uri s' = (u_uri s)\<lparr>uri_params := uri_params (u_uri s) @ [param_avp b x]\<rparr>"
  using assms
  by (cases x rule: print_param.cases)
    (auto simp: scan_end uri_fin_def Let_def uri_push_param_def new_avp_def cs_end_def cs_set_def
      intro!: exI)

lemma uri_run_params:
  assumes "buf = p @ print_param x @ print_params xs @ q"
    and "e = length p + length (print_param x @ print_params xs)"
    and "list_all uri_param_ok (x # xs)"
    and "u_st s = URI_PNAME" and "cs_s (tmp1 s) = length p"
  shows "\<exists>s' as. uri_run buf e (length p) s = uri_end buf e s' \<and>
    u_uri s' = (u_uri s)\<lparr>uri_params := uri_params (u_uri s) @ as\<rparr> \<and>
    map (avp_text buf) as = map param_text (x # xs)"
  using assms
proof (induction xs arbitrary: p x s)
  case Nil
  have "uri_run buf e (length p) s = uri_run buf e e (uri_param_open (length p) x s)"
    using Nil by (subst uri_run_param [of buf p x q]) (auto simp: print_params_def)
  with uri_param_end [of e "length p" x s buf] Nil show ?case
    by (auto simp: print_params_def avp_text_param intro!: exI [of _ "[param_avp (length p) x]"])
next
  case (Cons y ys)
  let ?c = "length p + length (print_param x)"
  let ?p = "p @ print_param x @ [CHR '';'']"
  have buf: "buf = ?p @ print_param y @ print_params ys @ q"
    using Cons.prems(1) by (simp add: print_params_def)
  have "uri_run buf e (length p) s = uri_run buf e ?c (uri_param_open (length p) x s)"
    using Cons.prems by (intro uri_run_param [where q = "print_params (y # ys) @ q"]) auto
  moreover obtain s1 where
    "uri_run buf e ?c (uri_param_open (length p) x s) = uri_run buf e (?c + 1) s1"
    and s1: "u_st s1 = URI_PNAME" "cs_s (tmp1 s1) = ?c + 1"
      "u_uri s1 = (u_uri s)\<lparr>uri_params := uri_params (u_uri s) @ [param_avp (length p) x]\<rparr>"
    using uri_param_sep [of buf ?c "length p" x e s] Cons.prems
    by (auto simp: print_params_def nth_append)
  moreover have c: "?c + 1 = length ?p" by simp
  moreover have "avp_text buf (param_avp (length p) x) = param_text x"
    unfolding Cons.prems(1) by (rule avp_text_param)
  moreover obtain s' as where "uri_run buf e (length ?p) s1 = uri_end buf e s'"
    "u_uri s' = (u_uri s1)\<lparr>uri_params := uri_params (u_uri s1) @ as\<rparr>"
    "map (avp_text buf) as = map param_text (y # ys)"
    using Cons.IH [of ?p y s1] buf Cons.prems s1 c by (auto simp: print_params_def)
  ultimately show ?case
    by (intro exI [of _ s'] exI [of _ "param_avp (length p) x # as"]) simp
qed

text \<open>The end of the host or port: the open slice is closed.\<close>

definition uri_close :: "nat \<Rightarrow> uri_fsm \<Rightarrow> sip_uri" where
  "uri_close c s = (if u_st s = URI_HOST then (u_uri s)\<lparr>host := cs_end c (host (u_uri s))\<rparr>
     else (u_uri s)\<lparr>port_str := cs_end c (port_str (u_uri s))\<rparr>)"

lemma uri_run_tail:
  assumes "buf = p @ print_params ps @ q" and "e = length p + length (print_params ps)"
    and "list_all uri_param_ok ps" and "u_st s = URI_PORT \<or> u_st s = URI_HOST \<and> cs_s (host (u_uri s)) < length p"
    and "uri_params (u_uri s) = []"
  shows "\<exists>s' as. uri_run buf e (length p) s = uri_end buf e s' \<and>
    u_uri s' = (uri_close (length p) s)\<lparr>uri_params := as\<rparr> \<and>
    map (avp_text buf) as = map param_text ps"
proof (cases ps)
  case Nil
  then show ?thesis
    using assms
    by (auto simp: print_params_def scan_end uri_fin_def uri_close_def Let_def intro!: exI)
next
  case (Cons x xs)
  let ?p = "p @ [CHR '';'']"
  have buf: "buf = ?p @ print_param x @ print_params xs @ q"
    using assms(1) Cons by (simp add: print_params_def)
  let ?s1 = "s\<lparr>u_uri := uri_close (length p) s, u_st := URI_PNAME, tmp1 := cs_set (length p + 1) 0\<rparr>"
  have "uri_run buf e (length p) s = uri_run buf e (length p + 1) ?s1"
    using assms Cons by (intro uri_run_step)
      (auto simp: buf print_params_def nth_append uri_body_def uri_semicolon_def uri_close_def Let_def)
  moreover obtain s' as where "uri_run buf e (length ?p) ?s1 = uri_end buf e s'"
    "u_uri s' = (u_uri ?s1)\<lparr>uri_params := uri_params (u_uri ?s1) @ as\<rparr>"
    "map (avp_text buf) as = map param_text (x # xs)"
    using uri_run_params [OF buf, of e ?s1] assms Cons by (auto simp: print_params_def cs_set_def)
  ultimately show ?thesis
    using assms(5) Cons
    by (intro exI [of _ s'] exI [of _ as]) (simp add: uri_close_def split: if_splits)
qed

text \<open>A host name or address, or an IPv6 reference in brackets.\<close>

definition host_ok :: "string \<Rightarrow> bool" where
  "host_ok h \<longleftrightarrow> h \<noteq> [] \<and> (list_all (quiet URI_HOST) h \<or>
     (h = CHR ''['' # butlast (tl h) @ [CHR '']''] \<and> list_all (quiet URI_HOST_V6) (butlast (tl h))))"

lemma uri_run_host:
  assumes "buf = p @ h @ q" and "length p + length h \<le> e" and "host_ok h" and "u_st s = URI_HOST"
  shows "uri_run buf e (length p) s = uri_run buf e (length p + length h) s"
proof (cases "list_all (quiet URI_HOST) h")
  case True
  with assms show ?thesis by (intro uri_run_word) auto
next
  case False
  define v where "v = butlast (tl h)"
  from False assms(3) have h: "h = CHR ''['' # v @ [CHR '']'']" and v: "list_all (quiet URI_HOST_V6) v"
    by (auto simp: host_ok_def v_def)
  let ?p = "p @ [CHR ''['']" and ?s = "s\<lparr>u_st := URI_HOST_V6\<rparr>"
  have buf: "buf = ?p @ v @ (CHR '']'' # q)" using assms(1) h by simp
  have "uri_run buf e (length p) s = uri_run buf e (length p + 1) ?s"
    using assms h by (intro uri_run_step) (auto simp: nth_append uri_body_def uri_bracket_def Let_def)
  also have "\<dots> = uri_run buf e (length ?p + length v) ?s"
    using uri_run_word [OF buf, of e ?s] assms(2) v h by simp
  also have "\<dots> = uri_run buf e (length ?p + length v + 1) s"
    using assms h buf
    by (intro uri_run_step) (auto simp: nth_append uri_body_def uri_bracket_def Let_def)
  finally show ?thesis using h by (simp add: add.commute)
qed

definition print_port :: "nat option \<Rightarrow> string" where
  "print_port po = (case po of None \<Rightarrow> [] | Some n \<Rightarrow> CHR '':'' # print_dec n)"

definition print_hostport :: "string \<Rightarrow> nat option \<Rightarrow> (string \<times> string option) list \<Rightarrow> string" where
  "print_hostport h po ps = h @ print_port po @ print_params ps"

definition hostport_ok :: "string \<Rightarrow> nat option \<Rightarrow> (string \<times> string option) list \<Rightarrow> bool" where
  "hostport_ok h po ps \<longleftrightarrow> host_ok h \<and> (\<forall>n. po = Some n \<longrightarrow> n \<le> 65535) \<and> list_all uri_param_ok ps"

lemma digit_not_special: "IS_DIGIT ch \<Longrightarrow> ch \<notin> {CHR ''@'', CHR '':'', CHR '';'', CHR ''?'', CHR ''[''}"
  by (auto simp: IS_DIGIT_def IS_IN_def schar_def)

lemma print_dec_quiet: "list_all (quiet URI_PORT) (print_dec n)"
  using print_dec_digits [of n] digit_not_special by (auto simp: list_all_iff quiet_def)

text \<open>What a parsed URI says about its host, port and parameters.\<close>

definition uri_says :: "string \<Rightarrow> sip_uri \<Rightarrow> string \<Rightarrow> nat option \<Rightarrow> (string \<times> string option) list \<Rightarrow> bool" where
  "uri_says buf u h po ps \<longleftrightarrow> c2stlstr buf (host u) = h \<and>
     port u = of_nat (case po of None \<Rightarrow> 5060 | Some n \<Rightarrow> n) \<and>
     map (avp_text buf) (uri_params u) = map param_text ps"

lemma uri_end_port:
  assumes "port_str (u_uri s) = cs_null \<and> po = None \<or>
    (\<exists>n. po = Some n \<and> n \<le> 65535 \<and> c2stlstr buf (port_str (u_uri s)) = print_dec n \<and>
      cs_len (port_str (u_uri s)) \<noteq> 0)"
  shows "\<exists>s' t. uri_end buf c s = Out c s' 0 \<and>
    u_uri s' = (u_uri s)\<lparr>port := of_nat (case po of None \<Rightarrow> 5060 | Some n \<Rightarrow> n), trsp := t\<rparr>"
  using assms
proof (elim disjE exE conjE)
  fix n assume n: "po = Some n" "n \<le> 65535" "c2stlstr buf (port_str (u_uri s)) = print_dec n"
    "cs_len (port_str (u_uri s)) \<noteq> 0"
  then have "uri_port 0 (print_dec n) = Some (of_nat n)" using uri_port_spec [of 0 "print_dec n"] by simp
  moreover have "ucast (of_nat n :: u32) = (of_nat n :: u16)"
    using n(2) by (simp add: word_unat_eq_iff unsigned_ucast_eq unsigned_of_nat take_bit_eq_mod)
  ultimately show ?thesis using n by (auto simp: uri_end_def Let_def)
qed (auto simp: uri_end_def Let_def cs_null_def)

lemma uri_run_hostport:
  assumes buf: "buf = p @ print_hostport h po ps @ q"
    and e: "e = length p + length (print_hostport h po ps)" and ok: "hostport_ok h po ps"
    and s: "u_st s = URI_HOST" "cs_s (host (u_uri s)) = length p" "port_str (u_uri s) = cs_null"
      "uri_params (u_uri s) = []"
  shows "\<exists>s'. uri_run buf e (length p) s = Out e s' 0 \<and> uri_says buf (u_uri s') h po ps \<and>
    scheme (u_uri s') = scheme (u_uri s) \<and> user (u_uri s') = user (u_uri s) \<and>
    passwd (u_uri s') = passwd (u_uri s)"
proof -
  have h: "host_ok h" "h \<noteq> []" and ps: "list_all uri_param_ok ps"
    using ok by (auto simp: hostport_ok_def host_ok_def)
  let ?c = "length p + length h"
  have run: "uri_run buf e (length p) s = uri_run buf e ?c s"
    using assms h by (intro uri_run_host [where q = "print_port po @ print_params ps @ q"])
      (auto simp: print_hostport_def)
  have host: "c2stlstr buf (cs_end ?c (host (u_uri s))) = h"
    unfolding buf using s(2) by (simp add: print_hostport_def c2stlstr_def)
  show ?thesis
  proof (cases po)
    case None
    have "buf = (p @ h) @ print_params ps @ q" using buf None by (simp add: print_hostport_def print_port_def)
    from uri_run_tail [OF this, of e s] obtain s1 as where
      tail: "uri_run buf e ?c s = uri_end buf e s1"
        "u_uri s1 = (uri_close ?c s)\<lparr>uri_params := as\<rparr>" "map (avp_text buf) as = map param_text ps"
      using e s ps h None by (auto simp: print_hostport_def print_port_def)
    with uri_end_port [of s1 po buf e] s None obtain s' t where
      "uri_end buf e s1 = Out e s' 0" "u_uri s' = (u_uri s1)\<lparr>port := 5060, trsp := t\<rparr>"
      by (auto simp: uri_close_def)
    with tail run host s None show ?thesis by (simp add: uri_says_def uri_close_def)
  next
    case (Some n)
    let ?u = "uri_close ?c s"
    let ?s = "s\<lparr>u_uri := ?u\<lparr>port_str := (port_str ?u)\<lparr>cs_s := ?c + 1\<rparr>\<rparr>, u_st := URI_PORT\<rparr>"
    let ?p = "p @ h @ [CHR '':'']"
    have buf': "buf = ?p @ print_dec n @ (print_params ps @ q)"
      using buf Some by (simp add: print_hostport_def print_port_def)
    have "uri_run buf e ?c s = uri_run buf e (?c + 1) ?s"
      using s e h Some by (intro uri_run_step)
        (auto simp: buf' nth_append uri_body_def uri_colon_def uri_close_def Let_def
          print_hostport_def print_port_def)
    also have "\<dots> = uri_run buf e (length ?p + length (print_dec n)) ?s"
      using uri_run_word [OF buf', of e ?s] e Some print_dec_quiet [of n]
      by (simp add: print_hostport_def print_port_def)
    finally have port: "uri_run buf e ?c s = uri_run buf e (length (?p @ print_dec n)) ?s"
      by (simp add: add.assoc)
    have "buf = (?p @ print_dec n) @ print_params ps @ q" using buf' by simp
    from uri_run_tail [OF this, of e ?s] obtain s1 as where
      tail: "uri_run buf e (length (?p @ print_dec n)) ?s = uri_end buf e s1"
        "u_uri s1 = (uri_close (length (?p @ print_dec n)) ?s)\<lparr>uri_params := as\<rparr>"
        "map (avp_text buf) as = map param_text ps"
      using e s ps Some by (auto simp: print_hostport_def print_port_def uri_close_def)
    have "c2stlstr buf (port_str (u_uri s1)) = print_dec n" "cs_len (port_str (u_uri s1)) \<noteq> 0"
      using tail(2) by (simp_all add: uri_close_def buf' c2stlstr_def)
    with uri_end_port [of s1 po buf e] ok Some obtain s' t where
      "uri_end buf e s1 = Out e s' 0" "u_uri s' = (u_uri s1)\<lparr>port := of_nat n, trsp := t\<rparr>"
      by (auto simp: hostport_ok_def)
    with tail run port host s Some show ?thesis by (simp add: uri_says_def uri_close_def)
  qed
qed

lemma hostport_no_at:
  assumes "hostport_ok h po ps"
  shows "CHR ''@'' \<notin> set (print_hostport h po ps)"
proof -
  have "CHR ''@'' \<notin> set w" if "list_all (quiet us) w" for us w
    using that by (cases us) (auto simp: list_all_iff quiet_def)
  note no_at = this
  have "CHR ''@'' \<notin> set h"
  proof (cases "list_all (quiet URI_HOST) h")
    case False
    with assms obtain v where "h = CHR ''['' # v @ [CHR '']'']" "list_all (quiet URI_HOST_V6) v"
      unfolding hostport_ok_def host_ok_def by blast
    with no_at [of URI_HOST_V6 v] show ?thesis by simp
  qed (rule no_at)
  moreover have "CHR ''@'' \<notin> set (print_param x)" if "uri_param_ok x" for x
    using that no_at by (cases x rule: print_param.cases) auto
  moreover have "CHR ''@'' \<notin> set (print_dec n)" for n
    by (rule no_at [OF print_dec_quiet])
  ultimately show ?thesis
    using assms
    by (auto simp: print_hostport_def print_port_def print_params_def hostport_ok_def list_all_iff
        split: option.splits)
qed

type_synonym userinfo = "(string \<times> string option) option"

fun print_user :: "userinfo \<Rightarrow> string" where
  "print_user None = []"
| "print_user (Some (u, None)) = u @ ''@''"
| "print_user (Some (u, Some w)) = u @ '':'' @ w @ ''@''"

fun user_ok :: "userinfo \<Rightarrow> bool" where
  "user_ok None = True"
| "user_ok (Some (u, None)) = list_all (quiet URI_USER) u"
| "user_ok (Some (u, Some w)) =
     (u \<noteq> [] \<and> list_all (quiet URI_USER) u \<and> list_all (quiet URI_PW) w)"

fun user_text :: "userinfo \<Rightarrow> string \<times> string" where
  "user_text None = ([], [])"
| "user_text (Some (u, None)) = (u, [])"
| "user_text (Some (u, Some w)) = (u, w)"

text \<open>The user part leads to the state in which the host starts.\<close>

lemma uri_run_user:
  assumes buf: "buf = p @ print_user uo @ q" and "user_ok uo" and "uo \<noteq> None"
    and e: "length p + length (print_user uo) \<le> e"
    and s: "u_st s = URI_USER" "cs_s (user (u_uri s)) = length p" "passwd (u_uri s) = cs_null"
  shows "\<exists>s'. uri_run buf e (length p) s = uri_run buf e (length p + length (print_user uo)) s' \<and>
    u_st s' = URI_HOST \<and> cs_s (host (u_uri s')) = length p + length (print_user uo) \<and>
    (c2stlstr buf (user (u_uri s')), c2stlstr buf (passwd (u_uri s'))) = user_text uo \<and>
    port_str (u_uri s') = port_str (u_uri s) \<and> uri_params (u_uri s') = uri_params (u_uri s) \<and>
    scheme (u_uri s') = scheme (u_uri s)"
proof (cases uo rule: print_user.cases)
  case (2 u)
  let ?c = "length p + length u"
  let ?s = "s\<lparr>u_uri := (u_uri s)\<lparr>user := cs_end ?c (user (u_uri s)), host := cs_set (?c + 1) 0\<rparr>,
    u_st := URI_HOST\<rparr>"
  have "uri_run buf e (length p) s = uri_run buf e ?c s"
    using assms 2 by (intro uri_run_word [where q = "''@'' @ q"]) auto
  also have "\<dots> = uri_run buf e (?c + 1) ?s"
    using e s 2 by (intro uri_run_step) (auto simp: buf nth_append uri_body_def uri_at_def Let_def)
  finally show ?thesis
    using s 2 by (intro exI [of _ ?s]) (simp add: buf c2stlstr_def cs_set_def cs_null_def)
next
  case (3 u w)
  let ?c = "length p + length u" and ?p = "p @ u @ '':''"
  let ?s1 = "s\<lparr>u_uri := (u_uri s)\<lparr>user := cs_end ?c (user (u_uri s)),
    passwd := cs_null\<lparr>cs_s := ?c + 1\<rparr>\<rparr>, u_st := URI_PW\<rparr>"
  let ?s = "?s1\<lparr>u_uri := (u_uri ?s1)\<lparr>passwd := cs_end (?c + 1 + length w) (passwd (u_uri ?s1)),
    host := cs_set (?c + 1 + length w + 1) 0\<rparr>, u_st := URI_HOST\<rparr>"
  have buf': "buf = ?p @ w @ (''@'' @ q)" using buf 3 by simp
  have "uri_run buf e (length p) s = uri_run buf e ?c s"
    using assms 3 by (intro uri_run_word [where q = "'':'' @ w @ ''@'' @ q"]) auto
  also have "\<dots> = uri_run buf e (?c + 1) ?s1"
    using assms(2) e s 3
    by (intro uri_run_step) (auto simp: buf' nth_append uri_body_def uri_colon_def Let_def)
  also have "\<dots> = uri_run buf e (?c + 1 + length w) ?s1"
    using uri_run_word [OF buf', of e ?s1] assms(2) e 3 by simp
  also have "\<dots> = uri_run buf e (?c + 1 + length w + 1) ?s"
    using e 3 by (intro uri_run_step) (auto simp: buf' nth_append uri_body_def uri_at_def Let_def)
  finally show ?thesis
    using s 3 by (intro exI [of _ ?s])
      (simp add: buf' c2stlstr_def cs_set_def cs_null_def add.assoc)
qed (use assms in simp)

fun scheme_text :: "bool \<Rightarrow> string" where
  "scheme_text False = ''sip:''"
| "scheme_text True = ''sips:''"

definition print_uri ::
  "bool \<Rightarrow> userinfo \<Rightarrow> string \<Rightarrow> nat option \<Rightarrow> (string \<times> string option) list \<Rightarrow> string" where
  "print_uri sec uo h po ps = scheme_text sec @ print_user uo @ print_hostport h po ps"

lemma parse_uri_scheme:
  assumes "buf = p @ scheme_text sec @ r"
  shows "parse_uri buf u (length p) (length (scheme_text sec) + n) =
    map_out u_uri (parse_sip_uri buf (u\<lparr>scheme := if sec then SIPS else SIP\<rparr>)
      (length (p @ scheme_text sec)) n)"
  using assms
  by (cases sec) (simp_all add: parse_uri_def nth_append eval_nat_numeral Let_def)

lemma parse_sip_uri_print:
  assumes buf: "buf = p @ print_user uo @ print_hostport h po ps @ q"
    and ok: "user_ok uo" "hostport_ok h po ps"
    and n: "n = length (print_user uo @ print_hostport h po ps)"
  shows "\<exists>s. parse_sip_uri buf (new_uri\<lparr>scheme := sch\<rparr>) (length p) n = Out (length p + n) s 0 \<and>
    uri_says buf (u_uri s) h po ps \<and> scheme (u_uri s) = sch \<and>
    (c2stlstr buf (user (u_uri s)), c2stlstr buf (passwd (u_uri s))) = user_text uo"
proof (cases "uo = None")
  case True
  let ?s = "uri_init buf (new_uri\<lparr>scheme := sch\<rparr>) (length p) n"
  have "u_st ?s = URI_HOST" "u_uri ?s = new_uri\<lparr>scheme := sch, host := cs_null\<lparr>cs_s := length p\<rparr>\<rparr>"
    using hostport_no_at [OF ok(2)] True
    by (simp_all add: uri_init_def buf n new_uri_def cs_null_def)
  with uri_run_hostport [of buf p h po ps q _ ?s] buf ok(2) n True show ?thesis
    by (fastforce simp: parse_sip_uri_def new_uri_def c2stlstr_def cs_null_def)
next
  case False
  let ?s = "uri_init buf (new_uri\<lparr>scheme := sch\<rparr>) (length p) n" and ?e = "length p + n"
  have "CHR ''@'' \<in> set (print_user uo)" using False by (cases uo rule: print_user.cases) auto
  then have s: "u_st ?s = URI_USER" "u_uri ?s = new_uri\<lparr>scheme := sch, user := cs_null\<lparr>cs_s := length p\<rparr>\<rparr>"
    by (simp_all add: uri_init_def buf n new_uri_def cs_null_def)
  with uri_run_user [of buf p uo "print_hostport h po ps @ q" ?e ?s] ok(1) False obtain s1 where
    "uri_run buf ?e (length p) ?s = uri_run buf ?e (length (p @ print_user uo)) s1"
    and s1: "u_st s1 = URI_HOST" "cs_s (host (u_uri s1)) = length (p @ print_user uo)"
    "(c2stlstr buf (user (u_uri s1)), c2stlstr buf (passwd (u_uri s1))) = user_text uo"
    "port_str (u_uri s1) = cs_null" "uri_params (u_uri s1) = []" "scheme (u_uri s1) = sch"
    using buf n by (auto simp: new_uri_def)
  moreover have "buf = (p @ print_user uo) @ print_hostport h po ps @ q" using buf by simp
  note uri_run_hostport [OF this _ ok(2) s1(1,2,4,5), of ?e]
  ultimately show ?thesis using n by (fastforce simp: parse_sip_uri_def)
qed

section \<open>Properties\<close>

text \<open>
  C21: the URI parser is total and memory-safe. On every input \<^verbatim>\<open>parse_uri\<close> returns 0 or
  \<^verbatim>\<open>MALFORMED_URI\<close>, and user, password, host, port and every parameter and header of the URI it
  filled, also in the error case, are slices of the input or null.
\<close>

theorem parse_uri_total:
  "\<exists>c' u r. parse_uri buf new_uri beg len = Out c' u r \<and> beg \<le> c' \<and> c' \<le> beg + len \<and>
     (r = 0 \<or> r = MALFORMED_URI) \<and> uri_ok beg (beg + len) u"
  unfolding parse_uri_def by (rule parse_scheme_total)

lemma uri_print_parse:
  assumes "buf = p @ print_uri sec uo h po ps @ q" and "user_ok uo" and "hostport_ok h po ps"
  shows "\<exists>u. parse_uri buf new_uri (length p) (length (print_uri sec uo h po ps)) =
      Out (length p + length (print_uri sec uo h po ps)) u 0 \<and>
    scheme u = (if sec then SIPS else SIP) \<and>
    (c2stlstr buf (user u), c2stlstr buf (passwd u)) = user_text uo \<and>
    uri_says buf u h po ps"
proof -
  let ?n = "length (print_user uo @ print_hostport h po ps)"
  have buf: "buf = p @ scheme_text sec @ (print_user uo @ print_hostport h po ps @ q)"
    and buf': "buf = (p @ scheme_text sec) @ print_user uo @ print_hostport h po ps @ q"
    using assms(1) by (simp_all add: print_uri_def)
  show ?thesis
    using parse_sip_uri_print [OF buf' assms(2,3) refl, of "if sec then SIPS else SIP"]
      parse_uri_scheme [OF buf, of new_uri ?n]
    by (fastforce simp: print_uri_def)
qed

text \<open>
  C13: reading back a printed URI. A URI with scheme, optional user and password, host name
  or bracketed IPv6 address, optional port up to 65535 and parameters, printed into any
  surrounding text, is parsed with code 0 and yields exactly these parts; without a port the
  port is 5060.
\<close>

theorem parse_print_uri:
  assumes "buf = p @ print_uri sec uo h po ps @ q" and "user_ok uo" and "hostport_ok h po ps"
  shows "\<exists>u. parse_uri buf new_uri (length p) (length (print_uri sec uo h po ps)) =
      Out (length p + length (print_uri sec uo h po ps)) u 0 \<and>
    scheme u = (if sec then SIPS else SIP) \<and>
    (c2stlstr buf (user u), c2stlstr buf (passwd u)) = user_text uo \<and>
    uri_says buf u h po ps"
  using assms by (rule uri_print_parse)

theorem parse_print_uri_witness:
  "\<exists>u. parse_uri ''<sip:bob:pw@[::1]:5080;lr>'' new_uri 1 (length ''sip:bob:pw@[::1]:5080;lr'') =
      Out (1 + length ''sip:bob:pw@[::1]:5080;lr'') u 0 \<and> scheme u = SIP \<and>
    (c2stlstr ''<sip:bob:pw@[::1]:5080;lr>'' (user u),
     c2stlstr ''<sip:bob:pw@[::1]:5080;lr>'' (passwd u)) = (''bob'', ''pw'') \<and>
    uri_says ''<sip:bob:pw@[::1]:5080;lr>'' u ''[::1]'' (Some 5080) [(''lr'', None)]"
proof -
  have dec: "print_dec 5080 = ''5080''"
    by (simp add: print_dec.simps digit_char_def char_of_def)
  show ?thesis
    using parse_print_uri [of "''<sip:bob:pw@[::1]:5080;lr>''" "''<''" False
        "Some (''bob'', Some ''pw'')" "''[::1]''" "Some 5080" "[(''lr'', None)]" "''>''"]
    by (simp add: print_uri_def print_hostport_def print_port_def print_params_def dec
        hostport_ok_def host_ok_def quiet_def)
qed

text \<open>
  C32: the port conversion is exact. Starting from 0 it accepts a string of characters if and
  only if all of them are digits and their decimal value is at most 65535, and then yields that
  value; the running 32-bit product never wraps.
\<close>

theorem uri_port_exact:
  "uri_port 0 ds = (if list_all IS_DIGIT ds \<and> dec_val 0 ds \<le> 65535
     then Some (of_nat (dec_val 0 ds)) else None)"
  using uri_port_spec [of 0 ds] by simp

end
