(* ===== verification/Parse_Header.thy ===== *)
theory Parse_Header
  imports Parse_Common
begin

text \<open>
  \<^verbatim>\<open>core/sip/parse_header.h\<close> and \<^verbatim>\<open>core/sip/parse_header.cpp\<close>: splitting a message into headers and
  recognising the type of a header from its name. The theory shows that the splitter is total
  and memory-safe, that it returns exactly the headers that were printed, and which names are
  recognised.
\<close>

section \<open>Header types\<close>

datatype hdr_type =
  H_UNPARSED | H_TO | H_VIA | H_FROM | H_CSEQ | H_RSEQ | H_RACK | H_ROUTE | H_CALL_ID | H_CONTACT
  | H_REQUIRE | H_RECORD_ROUTE | H_CONTENT_TYPE | H_CONTENT_LENGTH | H_MAX_FORWARDS | H_OTHER

text \<open>
  \<^verbatim>\<open>p\<close>, the parsed form of a header, is set by the message parser for a few headers only; it is
  kept with the message.
\<close>

record sip_header =
  h_type :: hdr_type
  h_name :: cstring
  h_value :: cstring

definition new_header :: sip_header where
  "new_header = \<lparr>h_type = H_UNPARSED, h_name = cs_null, h_value = cs_null\<rparr>"

definition mk_header :: "hdr_type \<Rightarrow> cstring \<Rightarrow> cstring \<Rightarrow> sip_header" where
  "mk_header ty n v = \<lparr>h_type = ty, h_name = n, h_value = v\<rparr>"

definition hdr_clear :: "sip_header \<Rightarrow> sip_header" where
  "hdr_clear h = h\<lparr>h_type := H_UNPARSED, h_name := cs_clear (h_name h), h_value := cs_clear (h_value h)\<rparr>"

text \<open>The cases of \<^verbatim>\<open>parse_header_type\<close>, by the length of the name.\<close>

definition type_compact :: "char \<Rightarrow> hdr_type" where
  "type_compact ch =
     (if LOWER_B ch = schar (CHR ''i'') then H_CALL_ID
      else if LOWER_B ch = schar (CHR ''m'') then H_CONTACT
      else if LOWER_B ch = schar (CHR ''l'') then H_CONTENT_LENGTH
      else if LOWER_B ch = schar (CHR ''c'') then H_CONTENT_TYPE
      else if LOWER_B ch = schar (CHR ''f'') then H_FROM
      else if LOWER_B ch = schar (CHR ''t'') then H_TO
      else if LOWER_B ch = schar (CHR ''v'') then H_VIA
      else H_OTHER)"

definition type_4 :: "string \<Rightarrow> hdr_type" where
  "type_4 n =
     (let c0 = n ! 0; c1 = n ! 1 in
      if c0 = CHR ''f'' \<or> c0 = CHR ''F'' then
        if lower_cmp (drop 1 n) (drop 1 ''From'') = 0 then H_FROM else H_UNPARSED
      else if c0 = CHR ''c'' \<or> c0 = CHR ''C'' then
        if lower_cmp (drop 1 n) (drop 1 ''CSeq'') = 0 then H_CSEQ else H_UNPARSED
      else if c0 = CHR ''r'' \<or> c0 = CHR ''R'' then
        if c1 = CHR ''s'' \<or> c1 = CHR ''S'' then
          if lower_cmp (drop 2 n) (drop 2 ''RSeq'') = 0 then H_RSEQ else H_UNPARSED
        else if c1 = CHR ''a'' \<or> c1 = CHR ''A'' then
          if lower_cmp (drop 2 n) (drop 2 ''RAck'') = 0 then H_RACK else H_UNPARSED
        else H_UNPARSED
      else H_UNPARSED)"

definition type_7 :: "string \<Rightarrow> hdr_type" where
  "type_7 n =
     (let c0 = n ! 0; c1 = n ! 1 in
      if c0 = CHR ''c'' \<or> c0 = CHR ''C'' then
        if c1 = CHR ''a'' \<or> c1 = CHR ''A'' then
          if lower_cmp (drop 2 n) (drop 2 ''Call-ID'') = 0 then H_CALL_ID else H_UNPARSED
        else if c1 = CHR ''o'' \<or> c1 = CHR ''O'' then
          if lower_cmp (drop 2 n) (drop 2 ''Contact'') = 0 then H_CONTACT else H_UNPARSED
        else H_OTHER
      else if c0 = CHR ''r'' \<or> c0 = CHR ''R'' then
        if lower_cmp (drop 1 n) (drop 1 ''Require'') = 0 then H_REQUIRE else H_UNPARSED
      else H_OTHER)"

definition type_12 :: "string \<Rightarrow> hdr_type" where
  "type_12 n =
     (let c0 = n ! 0 in
      if c0 = CHR ''c'' \<or> c0 = CHR ''C'' then
        if lower_cmp n ''Content-Type'' = 0 then H_CONTENT_TYPE else H_UNPARSED
      else if c0 = CHR ''r'' \<or> c0 = CHR ''R'' then
        if lower_cmp n ''Record-Route'' = 0 then H_RECORD_ROUTE else H_UNPARSED
      else if c0 = CHR ''m'' \<or> c0 = CHR ''M'' then
        if lower_cmp n ''Max-Forwards'' = 0 then H_MAX_FORWARDS else H_UNPARSED
      else H_UNPARSED)"

definition parse_header_type :: "string \<Rightarrow> hdr_type" where
  "parse_header_type n =
     (let t =
        (if length n = 1 then type_compact (n ! 0)
         else if length n = 2 then
           if lower_cmp n ''To'' = 0 then H_TO else H_UNPARSED
         else if length n = 3 then
           if lower_cmp n ''Via'' = 0 then H_VIA else H_UNPARSED
         else if length n = 4 then type_4 n
         else if length n = 5 then
           if lower_cmp (drop 1 n) (drop 1 ''Route'') = 0 then H_ROUTE else H_UNPARSED
         else if length n = 7 then type_7 n
         else if length n = 12 then type_12 n
         else if length n = 14 then
           if lower_cmp n ''Content-Length'' = 0 then H_CONTENT_LENGTH else H_UNPARSED
         else H_UNPARSED)
      in if t = H_UNPARSED then H_OTHER else t)"

section \<open>Splitting the headers\<close>

datatype hdr_st = H_NAME | H_HCOLON | H_VALUE_SWS | H_VALUE

record hdr_fsm = "hdr_st fsm" +
  hd_begin :: nat
  hd_hdr :: sip_header
  hd_hdrs :: "sip_header list"

definition hdr_set_name :: "nat \<Rightarrow> hdr_fsm \<Rightarrow> hdr_fsm" where
  "hdr_set_name c s =
     s\<lparr>hd_hdr := (hd_hdr s)\<lparr>h_name := cs_set (hd_begin s) (int c - int (hd_begin s))\<rparr>\<rparr>"

definition add_parsed_header :: "string \<Rightarrow> sip_header list \<Rightarrow> sip_header \<Rightarrow> sip_header list" where
  "add_parsed_header buf hdrs hdr =
     hdrs @ [hdr\<lparr>h_type := parse_header_type (c2stlstr buf (h_name hdr))\<rparr>]"

text \<open>\<^verbatim>\<open>hdr->value.set(begin, len); add_parsed_header(hdrs, hdr.release()); hdr.reset(new sip_header())\<close>\<close>

definition hdr_add :: "string \<Rightarrow> int \<Rightarrow> hdr_fsm \<Rightarrow> hdr_fsm" where
  "hdr_add buf len s =
     s\<lparr>hd_hdrs := add_parsed_header buf (hd_hdrs s) ((hd_hdr s)\<lparr>h_value := cs_set (hd_begin s) len\<rparr>),
       hd_hdr := new_header\<rparr>"

definition hdr_name :: "nat \<Rightarrow> char \<Rightarrow> hdr_fsm \<Rightarrow> hdr_fsm act" where
  "hdr_name c ch s =
     (if ch = CR then Next 1 (enter_CR s)
      else if ch = LF then Next 1 (enter_LF s)
      else if ch = CHR '':'' then Next 1 (hdr_set_name c (s\<lparr>st := St H_VALUE_SWS\<rparr>))
      else if ch = SP \<or> ch = HTAB then Next 1 (hdr_set_name c (s\<lparr>st := St H_HCOLON\<rparr>))
      else Next 1 s)"

definition hdr_value_sws :: "nat \<Rightarrow> char \<Rightarrow> hdr_fsm \<Rightarrow> hdr_fsm act" where
  "hdr_value_sws c ch s =
     (if ch = CR then Next 1 (enter_CR s)
      else if ch = LF then Next 1 (enter_LF s)
      else if ch = SP \<or> ch = HTAB then Next 1 s
      else Next 1 (s\<lparr>st := St H_VALUE, hd_begin := c\<rparr>))"

definition hdr_value :: "char \<Rightarrow> hdr_fsm \<Rightarrow> hdr_fsm act" where
  "hdr_value ch s =
     (if ch = CR then Next 1 (enter_CR s)
      else if ch = LF then Next 1 (enter_LF s)
      else Next 1 s)"

definition hdr_hcolon :: "nat \<Rightarrow> char \<Rightarrow> hdr_fsm \<Rightarrow> hdr_fsm act" where
  "hdr_hcolon c ch s =
     (if ch = CHR '':'' then Next 1 (s\<lparr>st := St H_VALUE_SWS\<rparr>)
      else if ch = SP \<or> ch = HTAB then Next 1 s
      else Ret c s MALFORMED_SIP_MSG)"

text \<open>After a line ending; \<open>Next 0\<close> is the \<^verbatim>\<open>(*c)--\<close> that has the character parsed again.\<close>

definition hdr_eol :: "string \<Rightarrow> nat \<Rightarrow> char \<Rightarrow> hdr_fsm \<Rightarrow> hdr_fsm act" where
  "hdr_eol buf c ch s =
     (case saved_st s of
        St H_NAME \<Rightarrow>
          if int c - eol_len s - int (hd_begin s) = 0 then Ret c s 0
          else Ret c s MALFORMED_SIP_MSG
      | St H_VALUE_SWS \<Rightarrow>
          if \<not> IS_WSP ch
          then Next 0 (s\<lparr>hd_begin := c, saved_st := St H_NAME, st := St H_NAME\<rparr>)
          else Next 1 (s\<lparr>st := St H_VALUE_SWS\<rparr>)
      | St H_VALUE \<Rightarrow>
          if \<not> IS_WSP ch
          then
            let s' = hdr_add buf (int c - eol_len s - int (hd_begin s)) s
            in Next 0 (s'\<lparr>hd_begin := c, saved_st := St H_NAME, st := St H_NAME\<rparr>)
          else Next 1 (s\<lparr>st := St H_VALUE\<rparr>)
      | _ \<Rightarrow> Next 1 (s\<lparr>st := saved_st s\<rparr>))"

definition hdr_body :: "string \<Rightarrow> nat \<Rightarrow> hdr_fsm \<Rightarrow> hdr_fsm act" where
  "hdr_body buf c s =
     (let ch = buf ! c in
      case st s of
        St H_NAME \<Rightarrow> hdr_name c ch s
      | St H_VALUE_SWS \<Rightarrow> hdr_value_sws c ch s
      | St H_VALUE \<Rightarrow> hdr_value ch s
      | St H_HCOLON \<Rightarrow> hdr_hcolon c ch s
      | ST_CR \<Rightarrow> case_ST_CR c ch s
      | ST_LF \<Rightarrow> hdr_eol buf c ch s
      | ST_CRLF \<Rightarrow> hdr_eol buf c ch s)"

definition hdr_fin_eol :: "string \<Rightarrow> nat \<Rightarrow> hdr_fsm \<Rightarrow> hdr_fsm out" where
  "hdr_fin_eol buf c s =
     (case saved_st s of
        St H_NAME \<Rightarrow>
          if int c - eol_len s - int (hd_begin s) = 0 then Out c s 0
          else Out c s MALFORMED_SIP_MSG
      | St H_VALUE \<Rightarrow>
          if int c - int (hd_begin s) > 2
          then Out c (hdr_add buf (int c - int (hd_begin s) - eol_len s) s) 0
          else Out c s UNEXPECTED_EOT
      | _ \<Rightarrow> Out c s UNEXPECTED_EOT)"

definition hdr_fin :: "string \<Rightarrow> nat \<Rightarrow> hdr_fsm \<Rightarrow> hdr_fsm out" where
  "hdr_fin buf c s =
     (case st s of
        St H_VALUE \<Rightarrow>
          if int c - int (hd_begin s) > 0 then Out c (hdr_add buf (int c - int (hd_begin s)) s) 0
          else Out c s UNEXPECTED_EOT
      | ST_LF \<Rightarrow> hdr_fin_eol buf c s
      | ST_CRLF \<Rightarrow> hdr_fin_eol buf c s
      | _ \<Rightarrow> Out c s UNEXPECTED_EOT)"

definition hdr_init :: "sip_header list \<Rightarrow> nat \<Rightarrow> hdr_fsm" where
  "hdr_init hdrs c =
     \<lparr>st = St H_NAME, saved_st = St H_NAME, hd_begin = c, hd_hdr = new_header, hd_hdrs = hdrs\<rparr>"

definition parse_headers :: "string \<Rightarrow> sip_header list \<Rightarrow> nat \<Rightarrow> nat \<Rightarrow> hdr_fsm out" where
  "parse_headers buf hdrs c e =
     (if c = e then Out c (hdr_init hdrs c) 0
      else scan (\<lambda>c. buf ! c \<noteq> NUL) (hdr_body buf) (hdr_fin buf) e c (hdr_init hdrs c))"

section \<open>Safety and termination\<close>

definition header_ok :: "nat \<Rightarrow> nat \<Rightarrow> sip_header \<Rightarrow> bool" where
  "header_ok lo hi h \<longleftrightarrow> cs_ok lo hi (h_name h) \<and> cs_ok lo hi (h_value h)"

definition hdr_inv :: "nat \<Rightarrow> nat \<Rightarrow> nat \<Rightarrow> hdr_fsm \<Rightarrow> bool" where
  "hdr_inv lo e c s \<longleftrightarrow>
     lo \<le> hd_begin s \<and> hd_begin s + eol_depth (st s) \<le> c \<and> c \<le> e \<and>
     header_ok lo e (hd_hdr s) \<and> list_all (header_ok lo e) (hd_hdrs s)"

definition hdr_post :: "nat \<Rightarrow> nat \<Rightarrow> nat \<Rightarrow> hdr_fsm \<Rightarrow> int \<Rightarrow> bool" where
  "hdr_post lo e c s r \<longleftrightarrow> lo \<le> c \<and> c \<le> e \<and>
     (r = 0 \<or> r = MALFORMED_SIP_MSG \<or> r = UNEXPECTED_EOT) \<and> list_all (header_ok lo e) (hd_hdrs s)"

lemmas hdr_unfold =
  hdr_inv_def hdr_post_def enter_CR_def enter_LF_def hdr_set_name_def hdr_add_def
  add_parsed_header_def header_ok_def new_header_def cs_ok_def cs_set_def

lemma hdr_name_ok:
  "hdr_inv lo e c s \<Longrightarrow> c < e \<Longrightarrow> st s = St x \<Longrightarrow>
     act_ok (hdr_inv lo e) (hdr_post lo e) c (hdr_name c ch s)"
  by (simp add: hdr_name_def hdr_unfold)

lemma hdr_value_sws_ok:
  "hdr_inv lo e c s \<Longrightarrow> c < e \<Longrightarrow> st s = St x \<Longrightarrow>
     act_ok (hdr_inv lo e) (hdr_post lo e) c (hdr_value_sws c ch s)"
  by (simp add: hdr_value_sws_def hdr_unfold)

lemma hdr_value_ok:
  "hdr_inv lo e c s \<Longrightarrow> c < e \<Longrightarrow> st s = St x \<Longrightarrow>
     act_ok (hdr_inv lo e) (hdr_post lo e) c (hdr_value ch s)"
  by (simp add: hdr_value_def hdr_unfold)

lemma hdr_hcolon_ok:
  "hdr_inv lo e c s \<Longrightarrow> c < e \<Longrightarrow> st s = St x \<Longrightarrow>
     act_ok (hdr_inv lo e) (hdr_post lo e) c (hdr_hcolon c ch s)"
  by (simp add: hdr_hcolon_def hdr_unfold)

lemma hdr_st_cr_ok:
  "hdr_inv lo e c s \<Longrightarrow> c < e \<Longrightarrow> st s = ST_CR \<Longrightarrow>
     act_ok (hdr_inv lo e) (hdr_post lo e) c (case_ST_CR c ch s)"
  by (simp add: case_ST_CR_def hdr_unfold)

lemma hdr_eol_ok:
  "hdr_inv lo e c s \<Longrightarrow> c < e \<Longrightarrow> st s = ST_LF \<or> st s = ST_CRLF \<Longrightarrow>
     act_ok (hdr_inv lo e) (hdr_post lo e) c (hdr_eol buf c ch s) \<or>
     (\<exists>s'. hdr_eol buf c ch s = Next 0 s' \<and> hdr_inv lo e c s' \<and> st s' = St H_NAME)"
  using eol_depth_le [of "saved_st s"]
  by (cases "saved_st s" rule: fsm_st.exhaust)
    (auto simp: hdr_eol_def hdr_unfold eol_len_def Let_def split: hdr_st.split)

lemma hdr_body_ok:
  assumes "hdr_inv lo e c s" and "c < e"
  shows "act_ok (hdr_inv lo e) (hdr_post lo e) c (hdr_body buf c s) \<or>
    (\<exists>s'. hdr_body buf c s = Next 0 s' \<and> act_ok (hdr_inv lo e) (hdr_post lo e) c (hdr_body buf c s'))"
proof (cases "st s = ST_LF \<or> st s = ST_CRLF")
  case True
  have again: "act_ok (hdr_inv lo e) (hdr_post lo e) c (hdr_body buf c s')"
    if "hdr_inv lo e c s'" "st s' = St H_NAME" for s'
    using that assms(2) by (simp add: hdr_body_def Let_def hdr_name_ok)
  from True have eq: "hdr_body buf c s = hdr_eol buf c (buf ! c) s"
    by (auto simp: hdr_body_def Let_def)
  from hdr_eol_ok [OF assms True, of buf "buf ! c"] show ?thesis
    unfolding eq using again by blast
next
  case False
  then show ?thesis
    using assms
    by (cases "st s" rule: fsm_st.exhaust)
      (simp_all add: hdr_body_def Let_def hdr_name_ok hdr_value_sws_ok hdr_value_ok hdr_hcolon_ok
        hdr_st_cr_ok split: hdr_st.split)
qed

lemma hdr_fin_eol_ok:
  "hdr_inv lo e c s \<Longrightarrow> st s = ST_LF \<or> st s = ST_CRLF \<Longrightarrow>
     \<exists>c' s' r. hdr_fin_eol buf c s = Out c' s' r \<and> hdr_post lo e c' s' r"
  by (cases "saved_st s" rule: fsm_st.exhaust)
    (auto simp: hdr_fin_eol_def hdr_unfold eol_len_def split: hdr_st.split)

lemma hdr_fin_ok:
  assumes "hdr_inv lo e c s"
  shows "\<exists>c' s' r. hdr_fin buf c s = Out c' s' r \<and> hdr_post lo e c' s' r"
  using assms hdr_fin_eol_ok [OF assms, of buf]
  by (cases "st s" rule: fsm_st.exhaust)
    (auto simp: hdr_fin_def hdr_unfold split: hdr_st.split)

interpretation hdr_loop: parser_loop
  "\<lambda>c. buf ! c \<noteq> NUL" "hdr_body buf" "hdr_fin buf" e "hdr_inv lo e" "hdr_post lo e"
  for buf e lo
  by unfold_locales (use hdr_body_ok hdr_fin_ok in auto)

section \<open>Which names are recognised\<close>

fun hdr_text :: "hdr_type \<Rightarrow> string" where
  "hdr_text H_TO = ''To''"
| "hdr_text H_VIA = ''Via''"
| "hdr_text H_FROM = ''From''"
| "hdr_text H_CSEQ = ''CSeq''"
| "hdr_text H_RSEQ = ''RSeq''"
| "hdr_text H_RACK = ''RAck''"
| "hdr_text H_ROUTE = ''Route''"
| "hdr_text H_CALL_ID = ''Call-ID''"
| "hdr_text H_CONTACT = ''Contact''"
| "hdr_text H_REQUIRE = ''Require''"
| "hdr_text H_RECORD_ROUTE = ''Record-Route''"
| "hdr_text H_CONTENT_TYPE = ''Content-Type''"
| "hdr_text H_CONTENT_LENGTH = ''Content-Length''"
| "hdr_text H_MAX_FORWARDS = ''Max-Forwards''"
| "hdr_text H_UNPARSED = []"
| "hdr_text H_OTHER = []"

text \<open>Equality up to the case bit.\<close>

definition same_name :: "string \<Rightarrow> string \<Rightarrow> bool" where
  "same_name m n \<longleftrightarrow> map LOWER_B m = map LOWER_B n"

lemma LOWER_B_letters:
  "LOWER_B ch = LOWER_B (CHR ''f'') \<longleftrightarrow> ch = CHR ''f'' \<or> ch = CHR ''F''"
  "LOWER_B ch = LOWER_B (CHR ''c'') \<longleftrightarrow> ch = CHR ''c'' \<or> ch = CHR ''C''"
  "LOWER_B ch = LOWER_B (CHR ''r'') \<longleftrightarrow> ch = CHR ''r'' \<or> ch = CHR ''R''"
  "LOWER_B ch = LOWER_B (CHR ''s'') \<longleftrightarrow> ch = CHR ''s'' \<or> ch = CHR ''S''"
  "LOWER_B ch = LOWER_B (CHR ''a'') \<longleftrightarrow> ch = CHR ''a'' \<or> ch = CHR ''A''"
  "LOWER_B ch = LOWER_B (CHR ''o'') \<longleftrightarrow> ch = CHR ''o'' \<or> ch = CHR ''O''"
  "LOWER_B ch = LOWER_B (CHR ''m'') \<longleftrightarrow> ch = CHR ''m'' \<or> ch = CHR ''M''"
  by (cases ch; auto simp: LOWER_B_def schar_def)+

lemma LOWER_B_upper:
  "LOWER_B (CHR ''F'') = LOWER_B (CHR ''f'')" "LOWER_B (CHR ''C'') = LOWER_B (CHR ''c'')"
  "LOWER_B (CHR ''R'') = LOWER_B (CHR ''r'')" "LOWER_B (CHR ''S'') = LOWER_B (CHR ''s'')"
  "LOWER_B (CHR ''A'') = LOWER_B (CHR ''a'')" "LOWER_B (CHR ''M'') = LOWER_B (CHR ''m'')"
  by (simp_all add: LOWER_B_def schar_def)

lemma same_len: "same_name m n \<Longrightarrow> length m = length n"
  unfolding same_name_def by (rule map_eq_imp_length_eq)

lemma same_Cons:
  "n \<noteq> [] \<Longrightarrow> same_name n (x # xs) \<longleftrightarrow> LOWER_B (n ! 0) = LOWER_B x \<and> same_name (drop 1 n) xs"
  by (cases n) (auto simp: same_name_def)

lemma cmp_same: "length m = length n \<Longrightarrow> lower_cmp m n = 0 \<longleftrightarrow> same_name m n"
  by (simp add: same_name_def lower_cmp_zero_iff)

definition strict_type :: "hdr_type \<Rightarrow> bool" where
  "strict_type ty \<longleftrightarrow> ty \<notin> {H_UNPARSED, H_OTHER, H_ROUTE}"

lemma same_1:
  "1 \<le> length n \<Longrightarrow> same_name n (x # xs) \<longleftrightarrow> LOWER_B (n ! 0) = LOWER_B x \<and> same_name (drop 1 n) xs"
  by (rule same_Cons) auto

lemma same_2:
  "2 \<le> length n \<Longrightarrow> same_name n (x # y # xs) \<longleftrightarrow>
     LOWER_B (n ! 0) = LOWER_B x \<and> LOWER_B (n ! 1) = LOWER_B y \<and> same_name (drop 2 n) xs"
  by (cases n; cases "tl n") (auto simp: same_name_def)

lemma same_other: "length n \<noteq> length (hdr_text ty) \<Longrightarrow> \<not> same_name n (hdr_text ty)"
  using same_len by blast

lemmas type_unfold = parse_header_type_def Let_def strict_type_def LOWER_B_letters LOWER_B_upper

lemma header_type_4:
  assumes n: "length n = 4" and "strict_type ty"
  shows "parse_header_type n = ty \<longleftrightarrow> same_name n (hdr_text ty)"
proof -
  have "parse_header_type n = (if type_4 n = H_UNPARSED then H_OTHER else type_4 n)"
    using n by (simp add: parse_header_type_def Let_def)
  moreover have cmp: "lower_cmp (drop 1 n) ''rom'' = 0 \<longleftrightarrow> same_name (drop 1 n) ''rom''"
    "lower_cmp (drop 1 n) ''Seq'' = 0 \<longleftrightarrow> same_name (drop 1 n) ''Seq''"
    "lower_cmp (drop 2 n) ''eq'' = 0 \<longleftrightarrow> same_name (drop 2 n) ''eq''"
    "lower_cmp (drop 2 n) ''ck'' = 0 \<longleftrightarrow> same_name (drop 2 n) ''ck''"
    using n by (simp_all add: cmp_same)
  moreover have "same_name n ''From'' \<longleftrightarrow> LOWER_B (n ! 0) = LOWER_B (CHR ''F'') \<and> same_name (drop 1 n) ''rom''"
    "same_name n ''CSeq'' \<longleftrightarrow> LOWER_B (n ! 0) = LOWER_B (CHR ''C'') \<and> same_name (drop 1 n) ''Seq''"
    using n by (auto simp only: same_1)
  moreover have "same_name n ''RSeq'' \<longleftrightarrow> LOWER_B (n ! 0) = LOWER_B (CHR ''R'') \<and>
      LOWER_B (n ! 1) = LOWER_B (CHR ''S'') \<and> same_name (drop 2 n) ''eq''"
    "same_name n ''RAck'' \<longleftrightarrow> LOWER_B (n ! 0) = LOWER_B (CHR ''R'') \<and>
      LOWER_B (n ! 1) = LOWER_B (CHR ''A'') \<and> same_name (drop 2 n) ''ck''"
    using n by (auto simp only: same_2)
  ultimately show ?thesis
    using assms same_other [of n ty]
    by (cases ty) (simp_all add: type_4_def type_unfold)
qed

lemma type_7_iff:
  assumes n: "length n = 7"
  shows "type_7 n = H_CALL_ID \<longleftrightarrow> same_name n ''Call-ID''"
    and "type_7 n = H_CONTACT \<longleftrightarrow> same_name n ''Contact''"
    and "type_7 n = H_REQUIRE \<longleftrightarrow> same_name n ''Require''"
    and "type_7 n \<in> {H_CALL_ID, H_CONTACT, H_REQUIRE, H_OTHER, H_UNPARSED}"
proof -
  have "lower_cmp (drop 1 n) ''equire'' = 0 \<longleftrightarrow> same_name (drop 1 n) ''equire''"
    "lower_cmp (drop 2 n) ''ll-ID'' = 0 \<longleftrightarrow> same_name (drop 2 n) ''ll-ID''"
    "lower_cmp (drop 2 n) ''ntact'' = 0 \<longleftrightarrow> same_name (drop 2 n) ''ntact''"
    using n by (simp_all add: cmp_same)
  then have eq: "type_7 n =
     (if LOWER_B (n ! 0) = LOWER_B (CHR ''c'') then
        if LOWER_B (n ! 1) = LOWER_B (CHR ''a'') then
          if same_name (drop 2 n) ''ll-ID'' then H_CALL_ID else H_UNPARSED
        else if LOWER_B (n ! 1) = LOWER_B (CHR ''o'') then
          if same_name (drop 2 n) ''ntact'' then H_CONTACT else H_UNPARSED
        else H_OTHER
      else if LOWER_B (n ! 0) = LOWER_B (CHR ''r'') then
        if same_name (drop 1 n) ''equire'' then H_REQUIRE else H_UNPARSED
      else H_OTHER)"
    by (simp add: type_7_def Let_def LOWER_B_letters)
  have ne: "LOWER_B (CHR ''r'') \<noteq> LOWER_B (CHR ''c'')" "LOWER_B (CHR ''o'') \<noteq> LOWER_B (CHR ''a'')"
    by (simp_all add: LOWER_B_def schar_def)
  have "same_name n ''Require'' \<longleftrightarrow>
      LOWER_B (n ! 0) = LOWER_B (CHR ''r'') \<and> same_name (drop 1 n) ''equire''"
    unfolding LOWER_B_upper(3) [symmetric] using n by (auto simp only: same_1)
  moreover have "same_name n ''Call-ID'' \<longleftrightarrow> LOWER_B (n ! 0) = LOWER_B (CHR ''c'') \<and>
      LOWER_B (n ! 1) = LOWER_B (CHR ''a'') \<and> same_name (drop 2 n) ''ll-ID''"
    "same_name n ''Contact'' \<longleftrightarrow> LOWER_B (n ! 0) = LOWER_B (CHR ''c'') \<and>
      LOWER_B (n ! 1) = LOWER_B (CHR ''o'') \<and> same_name (drop 2 n) ''ntact''"
    unfolding LOWER_B_upper(2) [symmetric] using n by (auto simp only: same_2)
  ultimately show "type_7 n = H_CALL_ID \<longleftrightarrow> same_name n ''Call-ID''"
    "type_7 n = H_CONTACT \<longleftrightarrow> same_name n ''Contact''"
    "type_7 n = H_REQUIRE \<longleftrightarrow> same_name n ''Require''"
    "type_7 n \<in> {H_CALL_ID, H_CONTACT, H_REQUIRE, H_OTHER, H_UNPARSED}"
    unfolding eq using ne by auto
qed

lemma header_type_7:
  assumes n: "length n = 7" and "strict_type ty"
  shows "parse_header_type n = ty \<longleftrightarrow> same_name n (hdr_text ty)"
proof -
  have "parse_header_type n = (if type_7 n = H_UNPARSED then H_OTHER else type_7 n)"
    using n by (simp add: parse_header_type_def Let_def)
  with type_7_iff [OF n] same_other [of n ty] assms show ?thesis
    by (cases ty) (auto simp: strict_type_def)
qed

lemma type_12_iff:
  assumes n: "length n = 12"
  shows "type_12 n = H_CONTENT_TYPE \<longleftrightarrow> same_name n ''Content-Type''"
    and "type_12 n = H_RECORD_ROUTE \<longleftrightarrow> same_name n ''Record-Route''"
    and "type_12 n = H_MAX_FORWARDS \<longleftrightarrow> same_name n ''Max-Forwards''"
    and "type_12 n \<in> {H_CONTENT_TYPE, H_RECORD_ROUTE, H_MAX_FORWARDS, H_UNPARSED}"
proof -
  have "lower_cmp n ''Content-Type'' = 0 \<longleftrightarrow> same_name n ''Content-Type''"
    "lower_cmp n ''Record-Route'' = 0 \<longleftrightarrow> same_name n ''Record-Route''"
    "lower_cmp n ''Max-Forwards'' = 0 \<longleftrightarrow> same_name n ''Max-Forwards''"
    using n by (simp_all add: cmp_same)
  then have eq: "type_12 n =
     (if LOWER_B (n ! 0) = LOWER_B (CHR ''c'') then
        if same_name n ''Content-Type'' then H_CONTENT_TYPE else H_UNPARSED
      else if LOWER_B (n ! 0) = LOWER_B (CHR ''r'') then
        if same_name n ''Record-Route'' then H_RECORD_ROUTE else H_UNPARSED
      else if LOWER_B (n ! 0) = LOWER_B (CHR ''m'') then
        if same_name n ''Max-Forwards'' then H_MAX_FORWARDS else H_UNPARSED
      else H_UNPARSED)"
    by (simp add: type_12_def Let_def LOWER_B_letters)
  have ne: "LOWER_B (CHR ''r'') \<noteq> LOWER_B (CHR ''c'')" "LOWER_B (CHR ''m'') \<noteq> LOWER_B (CHR ''c'')"
    "LOWER_B (CHR ''m'') \<noteq> LOWER_B (CHR ''r'')"
    by (simp_all add: LOWER_B_def schar_def)
  have "LOWER_B (n ! 0) = LOWER_B (CHR ''C'')" if "same_name n ''Content-Type''"
    using that n by (auto simp only: same_1)
  moreover have "LOWER_B (n ! 0) = LOWER_B (CHR ''R'')" if "same_name n ''Record-Route''"
    using that n by (auto simp only: same_1)
  moreover have "LOWER_B (n ! 0) = LOWER_B (CHR ''M'')" if "same_name n ''Max-Forwards''"
    using that n by (auto simp only: same_1)
  ultimately show "type_12 n = H_CONTENT_TYPE \<longleftrightarrow> same_name n ''Content-Type''"
    "type_12 n = H_RECORD_ROUTE \<longleftrightarrow> same_name n ''Record-Route''"
    "type_12 n = H_MAX_FORWARDS \<longleftrightarrow> same_name n ''Max-Forwards''"
    "type_12 n \<in> {H_CONTENT_TYPE, H_RECORD_ROUTE, H_MAX_FORWARDS, H_UNPARSED}"
    unfolding eq LOWER_B_upper using ne by auto
qed

lemma header_type_12:
  assumes n: "length n = 12" and "strict_type ty"
  shows "parse_header_type n = ty \<longleftrightarrow> same_name n (hdr_text ty)"
proof -
  have "parse_header_type n = (if type_12 n = H_UNPARSED then H_OTHER else type_12 n)"
    using n by (simp add: parse_header_type_def Let_def)
  with type_12_iff [OF n] same_other [of n ty] assms show ?thesis
    by (cases ty) (auto simp: strict_type_def)
qed

lemma header_type_strict:
  assumes "length n \<noteq> 1" and "strict_type ty"
  shows "parse_header_type n = ty \<longleftrightarrow> same_name n (hdr_text ty)"
proof -
  consider "length n = 4" | "length n = 7" | "length n = 12" | "length n \<notin> {4, 7, 12}" by auto
  then show ?thesis
  proof cases
    case 4
    have "length n = 2 \<Longrightarrow> lower_cmp n ''To'' = 0 \<longleftrightarrow> same_name n ''To''"
      "length n = 3 \<Longrightarrow> lower_cmp n ''Via'' = 0 \<longleftrightarrow> same_name n ''Via''"
      "length n = 14 \<Longrightarrow> lower_cmp n ''Content-Length'' = 0 \<longleftrightarrow> same_name n ''Content-Length''"
      by (simp_all add: cmp_same)
    with 4 assms same_other [of n ty] show ?thesis
      by (cases ty) (auto simp: parse_header_type_def Let_def strict_type_def)
  qed (use assms header_type_4 header_type_7 header_type_12 in auto)
qed

section \<open>Printing and parsing headers\<close>

abbreviation hdr_run :: "string \<Rightarrow> nat \<Rightarrow> nat \<Rightarrow> hdr_fsm \<Rightarrow> hdr_fsm out" where
  "hdr_run buf \<equiv> scan (\<lambda>c. buf ! c \<noteq> NUL) (hdr_body buf) (hdr_fin buf)"

definition name_ok :: "string \<Rightarrow> bool" where
  "name_ok n \<longleftrightarrow> n \<noteq> [] \<and> (\<forall>ch \<in> set n. ch \<notin> {CR, LF, SP, HTAB, CHR '':'', NUL})"

definition value_ok :: "string \<Rightarrow> bool" where
  "value_ok v \<longleftrightarrow> v \<noteq> [] \<and> hd v \<notin> {SP, HTAB} \<and> (\<forall>ch \<in> set v. ch \<notin> {CR, LF, NUL})"

definition print_header :: "string \<times> string \<Rightarrow> string" where
  "print_header h = fst h @ '': '' @ snd h @ [CR, LF]"

definition print_headers :: "(string \<times> string) list \<Rightarrow> string" where
  "print_headers hs = concat (map print_header hs) @ [CR, LF]"

definition hdr_pair_ok :: "string \<times> string \<Rightarrow> bool" where
  "hdr_pair_ok h \<longleftrightarrow> name_ok (fst h) \<and> value_ok (snd h)"

definition header_says :: "string \<Rightarrow> sip_header \<Rightarrow> string \<times> string \<Rightarrow> bool" where
  "header_says buf h nv \<longleftrightarrow> c2stlstr buf (h_name h) = fst nv \<and> c2stlstr buf (h_value h) = snd nv \<and>
     h_type h = parse_header_type (fst nv)"

text \<open>One line up to its line ending.\<close>

lemma hdr_run_value:
  assumes buf: "buf = p @ v @ CR # LF # q" and e: "length p + length v + 2 \<le> e" and v: "value_ok v"
    and s: "st s = St H_VALUE_SWS"
  shows "hdr_run buf e (length p) s = hdr_run buf e (length p + length v + 2)
    (s\<lparr>hd_begin := length p, saved_st := St H_VALUE, st := ST_CRLF\<rparr>)"
proof -
  from v obtain x v' where vx: "v = x # v'" by (cases v) (auto simp: value_ok_def)
  let ?s1 = "s\<lparr>st := St H_VALUE, hd_begin := length p\<rparr>"
  let ?c = "length p + length v"
  have "hdr_run buf e (length p) s = hdr_run buf e (length p + 1) ?s1"
    using buf e v s vx
    by (intro scan_next) (auto simp: hdr_body_def hdr_value_sws_def value_ok_def)
  also have "\<dots> = hdr_run buf e (length (p @ [x]) + length v') ?s1"
  proof -
    have "hdr_run buf e (length (p @ [x])) ?s1 = hdr_run buf e (length (p @ [x]) + length v') ?s1"
      using buf e v vx by (intro scan_word [where buf = buf and q = "CR # LF # q"])
        (auto simp: hdr_body_def hdr_value_def value_ok_def)
    then show ?thesis by simp
  qed
  also have "\<dots> = hdr_run buf e ?c ?s1" using vx by simp
  also have "\<dots> = hdr_run buf e (?c + 1) (enter_CR ?s1)"
    using e by (intro scan_next) (auto simp: buf hdr_body_def hdr_value_def nth_append)
  also have "\<dots> = hdr_run buf e (?c + 1 + 1) ((enter_CR ?s1)\<lparr>st := ST_CRLF\<rparr>)"
    using e by (intro scan_next) (auto simp: buf hdr_body_def case_ST_CR_def nth_append)
  finally show ?thesis by (simp add: enter_CR_def)
qed

lemma hdr_run_line:
  assumes buf: "buf = p @ print_header (n, v) @ q" and e: "length p + length (print_header (n, v)) \<le> e"
    and nv: "name_ok n" "value_ok v" and s: "st s = St H_NAME" "hd_begin s = length p"
  shows "hdr_run buf e (length p) s = hdr_run buf e (length p + length (print_header (n, v)))
    (s\<lparr>hd_hdr := (hd_hdr s)\<lparr>h_name := cs_set (length p) (int (length n))\<rparr>,
       hd_begin := length p + length n + 2, saved_st := St H_VALUE, st := ST_CRLF\<rparr>)"
proof -
  let ?c = "length p + length n"
  let ?s1 = "hdr_set_name ?c (s\<lparr>st := St H_VALUE_SWS\<rparr>)"
  have buf': "buf = p @ n @ (CHR '':'' # SP # v @ CR # LF # q)"
    using buf by (simp add: print_header_def)
  have "hdr_run buf e (length p) s = hdr_run buf e ?c s"
    using e nv(1) s
    by (intro scan_word [OF buf']) (auto simp: print_header_def hdr_body_def hdr_name_def name_ok_def)
  also have "\<dots> = hdr_run buf e (?c + 1) ?s1"
    using e s by (intro scan_next)
      (auto simp: buf' print_header_def hdr_body_def hdr_name_def nth_append)
  also have "\<dots> = hdr_run buf e (?c + 1 + 1) ?s1"
    using e by (intro scan_next)
      (auto simp: buf' print_header_def hdr_body_def hdr_value_sws_def hdr_set_name_def nth_append)
  also have "\<dots> = hdr_run buf e (length (p @ n @ '': '') + length v + 2)
      (?s1\<lparr>hd_begin := length (p @ n @ '': ''), saved_st := St H_VALUE, st := ST_CRLF\<rparr>)"
    using hdr_run_value [of buf "p @ n @ '': ''" v q e ?s1] buf' e nv(2)
    by (simp add: print_header_def hdr_set_name_def)
  finally show ?thesis
    using s(2) by (simp add: print_header_def hdr_set_name_def add.assoc)
qed

text \<open>The first character of the next line closes the header.\<close>

lemma hdr_run_close:
  assumes "c < e" and "buf ! c \<notin> {NUL, SP, HTAB}" and "st s = ST_CRLF" and "saved_st s = St H_VALUE"
  shows "hdr_run buf e c s = hdr_run buf e c
    ((hdr_add buf (int c - 2 - int (hd_begin s)) s)\<lparr>hd_begin := c, saved_st := St H_NAME, st := St H_NAME\<rparr>)"
proof -
  let ?s = "(hdr_add buf (int c - 2 - int (hd_begin s)) s)\<lparr>hd_begin := c, saved_st := St H_NAME, st := St H_NAME\<rparr>"
  have "\<exists>s''. hdr_body buf c ?s = Next 1 s''"
    by (simp add: hdr_body_def hdr_name_def Let_def)
  then obtain s'' where "hdr_body buf c ?s = Next 1 s''" ..
  moreover have "hdr_body buf c s = Next 0 ?s"
    using assms by (auto simp: hdr_body_def hdr_eol_def IS_WSP_def eol_len_def Let_def)
  ultimately show ?thesis
    using assms by (intro scan_again_eq [where k = 1]) auto
qed

lemma hdr_run_end:
  assumes buf: "buf = p @ CR # LF # q" and e: "length p + 2 \<le> e"
    and s: "st s = St H_NAME" "hd_begin s = length p"
  shows "hdr_run buf e (length p) s =
    Out (length p + 2) (s\<lparr>saved_st := St H_NAME, st := ST_CRLF\<rparr>) 0"
proof -
  let ?s = "s\<lparr>saved_st := St H_NAME, st := ST_CRLF\<rparr>" and ?c = "length p + 2"
  have "hdr_run buf e (length p) s = hdr_run buf e (length p + 1) (enter_CR s)"
    using e s by (intro scan_next) (auto simp: buf hdr_body_def hdr_name_def)
  also have "\<dots> = hdr_run buf e (length p + 1 + 1) ((enter_CR s)\<lparr>st := ST_CRLF\<rparr>)"
    using e by (intro scan_next) (auto simp: buf hdr_body_def case_ST_CR_def nth_append)
  also have "\<dots> = hdr_run buf e ?c ?s" using s by (simp add: enter_CR_def)
  also have "\<dots> = Out ?c ?s 0"
  proof (cases "?c < e \<and> buf ! ?c \<noteq> NUL")
    case True
    then show ?thesis
      using s by (intro scan_ret) (auto simp: hdr_body_def hdr_eol_def eol_len_def)
  next
    case False
    then show ?thesis
      using s by (subst scan_end) (auto simp: hdr_fin_def hdr_fin_eol_def eol_len_def)
  qed
  finally show ?thesis .
qed

lemma hdr_run_lines:
  assumes "buf = p @ concat (map print_header hs) @ CR # LF # q"
    and "length p + length (concat (map print_header hs)) + 2 \<le> e"
    and "list_all hdr_pair_ok hs" and "st s = St H_NAME" and "hd_begin s = length p"
    and "hd_hdr s = new_header"
  shows "\<exists>s' as. hdr_run buf e (length p) s =
      Out (length p + length (concat (map print_header hs)) + 2) s' 0 \<and>
    hd_hdrs s' = hd_hdrs s @ as \<and> list_all2 (header_says buf) as hs"
  using assms
proof (induction hs arbitrary: p s)
  case Nil
  then show ?case using hdr_run_end [of buf p q e s] by simp
next
  case (Cons h hs)
  obtain n v where h: "h = (n, v)" by fastforce
  let ?p = "p @ print_header h"
  let ?rest = "concat (map print_header hs) @ CR # LF # q"
  let ?s1 = "s\<lparr>hd_hdr := (hd_hdr s)\<lparr>h_name := cs_set (length p) (int (length n))\<rparr>,
       hd_begin := length p + length n + 2, saved_st := St H_VALUE, st := ST_CRLF\<rparr>"
  let ?s2 = "(hdr_add buf (int (length ?p) - 2 - int (hd_begin ?s1)) ?s1)
       \<lparr>hd_begin := length ?p, saved_st := St H_NAME, st := St H_NAME\<rparr>"
  let ?h = "\<lparr>h_type = parse_header_type n, h_name = cs_set (length p) (int (length n)),
       h_value = cs_set (length p + length n + 2) (int (length v))\<rparr>"
  have buf: "buf = ?p @ ?rest" using Cons.prems(1) by simp
  have nm: "c2stlstr buf (cs_set (length p) (int (length n))) = n"
    and vl: "c2stlstr buf (cs_set (length p + length n + 2) (int (length v))) = v"
    using c2stlstr_middle [of _ p _ n] c2stlstr_middle [of _ "p @ n @ '': ''" _ v]
    by (simp_all add: buf h print_header_def)
  have nx: "buf ! length ?p \<notin> {NUL, SP, HTAB}" "length ?p < e"
    using Cons.prems(2,3)
    by (cases hs; auto simp: buf nth_append hdr_pair_ok_def name_ok_def print_header_def neq_Nil_conv)+
  have "hdr_run buf e (length p) s = hdr_run buf e (length ?p) ?s1"
    using hdr_run_line [of buf p n v ?rest e s] Cons.prems h by (simp add: hdr_pair_ok_def)
  also have "\<dots> = hdr_run buf e (length ?p) ?s2"
    using nx by (intro hdr_run_close) auto
  finally have "hdr_run buf e (length p) s = hdr_run buf e (length ?p) ?s2" .
  moreover have "hd_hdrs ?s2 = hd_hdrs s @ [?h]" "hd_hdr ?s2 = new_header"
    using Cons.prems(6) nm
    by (simp_all add: hdr_add_def add_parsed_header_def new_header_def h print_header_def)
  moreover have "header_says buf ?h h" using nm vl h by (simp add: header_says_def)
  ultimately show ?case
    using Cons.IH [of ?p ?s2] Cons.prems(2,3) buf by fastforce
qed

section \<open>Properties\<close>

lemma headers_total:
  "\<exists>c' s r. parse_headers buf [] c (c + len) = Out c' s r \<and> c \<le> c' \<and> c' \<le> c + len \<and>
     (r = 0 \<or> r = MALFORMED_SIP_MSG \<or> r = UNEXPECTED_EOT) \<and>
     list_all (header_ok c (c + len)) (hd_hdrs s)"
proof (cases "len = 0")
  case False
  have "hdr_inv c (c + len) c (hdr_init [] c)"
    by (simp add: hdr_inv_def hdr_init_def header_ok_def new_header_def)
  from hdr_loop.scan_total [OF this, of buf] False show ?thesis
    by (auto simp: parse_headers_def hdr_post_def)
qed (simp add: parse_headers_def hdr_init_def)

text \<open>
  C22: the header splitter is total and memory-safe: on every buffer it terminates, also where
  it steps back to parse a character twice, returns 0, \<^verbatim>\<open>MALFORMED_SIP_MSG\<close> or \<^verbatim>\<open>UNEXPECTED_EOT\<close>
  with the cursor inside the message, and every name and value it collected is a slice of the
  message.
\<close>

theorem parse_headers_total:
  "\<exists>c' s r. parse_headers buf [] c (c + len) = Out c' s r \<and> c \<le> c' \<and> c' \<le> c + len \<and>
     (r = 0 \<or> r = MALFORMED_SIP_MSG \<or> r = UNEXPECTED_EOT) \<and>
     list_all (header_ok c (c + len)) (hd_hdrs s)"
  by (rule headers_total)

lemma headers_print_parse:
  assumes "buf = p @ print_headers hs @ body" and "list_all hdr_pair_ok hs"
    and "length p + length (print_headers hs) \<le> e"
  shows "\<exists>s. parse_headers buf [] (length p) e = Out (length p + length (print_headers hs)) s 0 \<and>
    list_all2 (header_says buf) (hd_hdrs s) hs"
proof -
  have "length p \<noteq> e" using assms(3) by (simp add: print_headers_def)
  with hdr_run_lines [of buf p hs body e "hdr_init [] (length p)"] assms show ?thesis
    by (auto simp: print_headers_def parse_headers_def hdr_init_def)
qed

text \<open>
  C9: reading back a header block. Headers with a name and a value on one line each, followed by
  an empty line and any body, are returned with code 0 in order, each with its name, its value
  and the type that belongs to its name, and the cursor stands at the first byte of the body.
\<close>

theorem parse_print_headers:
  assumes "buf = p @ print_headers hs @ body" and "list_all hdr_pair_ok hs"
    and "length p + length (print_headers hs) \<le> e"
  shows "\<exists>s. parse_headers buf [] (length p) e = Out (length p + length (print_headers hs)) s 0 \<and>
    list_all2 (header_says buf) (hd_hdrs s) hs"
  using assms by (rule headers_print_parse)

theorem parse_print_headers_witness:
  "\<exists>s. parse_headers ([] @ print_headers [(''To'', ''<a>''), (''m'', ''b'')] @ ''xyz'') [] 0
      (length (print_headers [(''To'', ''<a>''), (''m'', ''b'')] @ ''xyz'')) =
      Out (length (print_headers [(''To'', ''<a>''), (''m'', ''b'')])) s 0 \<and>
    list_all2 (header_says (print_headers [(''To'', ''<a>''), (''m'', ''b'')] @ ''xyz''))
      (hd_hdrs s) [(''To'', ''<a>''), (''m'', ''b'')]"
  using parse_print_headers [of "print_headers [(''To'', ''<a>''), (''m'', ''b'')] @ ''xyz''" "[]"
      "[(''To'', ''<a>''), (''m'', ''b'')]" "''xyz''"
      "length (print_headers [(''To'', ''<a>''), (''m'', ''b'')] @ ''xyz'')"]
  by (simp add: hdr_pair_ok_def name_ok_def value_ok_def)

text \<open>
  C25: header names are recognised exactly. A name of more than one character has one of the
  known types, other than Route, if and only if it is the name of that type up to the bit 0x20 of
  its characters, which is the case of a letter; for Route only the last four letters are compared, so any first character is
  accepted.
\<close>

theorem header_type_exact:
  assumes "length n \<noteq> 1"
  shows "(strict_type ty \<longrightarrow> (parse_header_type n = ty \<longleftrightarrow> same_name n (hdr_text ty))) \<and>
    parse_header_type (x # ''oute'') = H_ROUTE"
  using header_type_strict [OF assms]
  by (simp add: parse_header_type_def Let_def)

theorem header_type_exact_witness:
  "parse_header_type ''cONTACT'' = H_CONTACT \<and> parse_header_type ''Xoute'' = H_ROUTE"
  using header_type_exact [of "''cONTACT''" H_CONTACT "CHR ''X''"]
  by (simp add: strict_type_def same_name_def LOWER_B_def schar_def)

end
