(* ===== verification/Am_Utils.thy ===== *)
theory Am_Utils
  imports Parse_Common
begin

text \<open>
  From \<^verbatim>\<open>core/AmUtils.cpp\<close>: the conversions between unsigned integers and decimal strings, which the
  Via parser and the message writers use. For \<^verbatim>\<open>str2i\<close>, \<open>None\<close> is the return value \<^verbatim>\<open>true\<close> (error).
\<close>

text \<open>The second loop of \<^verbatim>\<open>str2i\<close>; \<open>i\<close> counts the digits.\<close>

fun str2i_loop :: "char \<Rightarrow> u32 \<Rightarrow> nat \<Rightarrow> string \<Rightarrow> u32 option" where
  "str2i_loop sep ret i [] = Some ret"
| "str2i_loop sep ret i (ch # str) =
     (if ch = NUL then Some ret
      else if IS_DIGIT ch then
        let digit = word_of_int (schar ch - 0x30)
        in if ret > (0xFFFFFFFF - digit) div 10 then None
           else
             let ret' = ret * 10 + digit
             in if i + 1 > 10 then None else str2i_loop sep ret' (i + 1) str
      else if ch \<noteq> sep \<and> ch \<noteq> CR \<and> ch \<noteq> LF then None
      else Some ret)"

definition str2i :: "string \<Rightarrow> u32 option" where
  "str2i str = str2i_loop SP 0 0 (dropWhile (\<lambda>ch. ch = SP) str)"

lemma word_div10_less:
  assumes "d \<le> 9"
  shows "n \<le> (0xFFFFFFFF - of_nat d) div (10 :: u32) \<longleftrightarrow> 10 * unat n + d < 2 ^ 32"
proof -
  have "unat (of_nat d :: u32) = d" using assms by (simp add: unat_of_nat)
  then have "unat (0xFFFFFFFF - of_nat d :: u32) = 0xFFFFFFFF - d"
    using assms by (simp add: unat_sub word_le_nat_alt)
  then have "unat ((0xFFFFFFFF - of_nat d) div (10 :: u32)) = (0xFFFFFFFF - d) div 10"
    by (simp add: unat_div)
  then show ?thesis using assms by (simp add: word_le_nat_alt) linarith
qed

text \<open>A number of at most ten digits is converted exactly if it fits 32 bits, and rejected otherwise.\<close>

lemma str2i_loop_digits:
  "list_all IS_DIGIT ds \<Longrightarrow> i + length ds \<le> 10 \<Longrightarrow> n < 2 ^ 32 \<Longrightarrow>
     str2i_loop sep (of_nat n) i ds =
       (if dec_val n ds < 2 ^ 32 then Some (of_nat (dec_val n ds)) else None)"
proof (induction ds arbitrary: n i)
  case (Cons d ds)
  have d: "IS_DIGIT d" and nul: "d \<noteq> NUL" using Cons.prems(1)
    by (auto simp: IS_DIGIT_def IS_IN_def schar_def)
  have dig: "(word_of_int (schar d - 0x30) :: u32) = of_nat (dig d)"
    by (simp add: schar_dig [OF d])
  have un: "unat (of_nat n :: u32) = n" using Cons.prems(3) by (simp add: unat_of_nat)
  have lim: "of_nat n > (0xFFFFFFFF - of_nat (dig d)) div (10 :: u32) \<longleftrightarrow> 2 ^ 32 \<le> 10 * n + dig d"
    using word_div10_less [OF dig_le [OF d], of "of_nat n"] un by (simp only: not_le [symmetric]) simp
  show ?case
  proof (cases "10 * n + dig d < 2 ^ 32")
    case True
    have "str2i_loop sep (of_nat n) i (d # ds) =
        str2i_loop sep (of_nat n * 10 + of_nat (dig d)) (i + 1) ds"
      using d nul lim True Cons.prems(2) dig by (simp add: Let_def)
    also have "of_nat n * 10 + of_nat (dig d) = (of_nat (10 * n + dig d) :: u32)" by simp
    also have "str2i_loop sep (of_nat (10 * n + dig d)) (i + 1) ds =
        (if dec_val (10 * n + dig d) ds < 2 ^ 32
         then Some (of_nat (dec_val (10 * n + dig d) ds)) else None)"
      using Cons.prems True by (intro Cons.IH) auto
    finally show ?thesis by simp
  next
    case False
    then have "\<not> dec_val n (d # ds) < 2 ^ 32" using dec_val_ge [of "10 * n + dig d" ds] by simp
    with d nul lim False dig show ?thesis by (simp add: Let_def)
  qed
qed simp

section \<open>Writing numbers\<close>

text \<open>The loop of \<^verbatim>\<open>int2str\<close>; \<open>i\<close> is the free part of the buffer, and the digits go to its end.\<close>

fun int2str_loop :: "nat \<Rightarrow> nat \<Rightarrow> string \<Rightarrow> string" where
  "int2str_loop 0 quot buffer = buffer"
| "int2str_loop (Suc i) quot buffer =
     (let buffer' = digit_char (quot mod 10) # buffer in
      if i \<noteq> 0 \<and> quot div 10 \<noteq> 0 then int2str_loop i (quot div 10) buffer' else buffer')"

definition int2str :: "u32 \<Rightarrow> string" where
  "int2str val = int2str_loop 62 (unat val) []"

lemma int2str_loop_dec: "0 < i \<Longrightarrow> n < 10 ^ i \<Longrightarrow> int2str_loop i n b = print_dec n @ b"
proof (induction i arbitrary: n b)
  case (Suc i)
  have step: "print_dec n = print_dec (n div 10) @ [digit_char (n mod 10)]" if "\<not> n < 10"
    using that by (subst print_dec.simps) simp
  show ?case
  proof (cases "n < 10")
    case True
    then show ?thesis by (simp add: print_dec.simps [of n])
  next
    case False
    with Suc.prems have "i \<noteq> 0" "n div 10 < 10 ^ i" by (auto intro: Nat.gr0I simp: less_mult_imp_div_less)
    with False Suc.IH show ?thesis by (simp add: step Let_def div_greater_zero_iff)
  qed
qed simp

lemma int2str_dec: "int2str val = print_dec (unat val)"
proof -
  have "unat val < 10 ^ 62" using unsigned_less [of val, where ?'a = nat] by simp
  then show ?thesis by (simp add: int2str_def int2str_loop_dec)
qed

lemma print_dec_length: "0 < k \<Longrightarrow> n < 10 ^ k \<Longrightarrow> length (print_dec n) \<le> k"
proof (induction k arbitrary: n)
  case (Suc k)
  show ?case
  proof (cases "n < 10")
    case False
    with Suc.prems have "k \<noteq> 0" "n div 10 < 10 ^ k" by (auto intro: Nat.gr0I simp: less_mult_imp_div_less)
    with False Suc.IH show ?thesis by (subst print_dec.simps) simp
  qed (simp add: print_dec.simps)
qed simp

text \<open>
  C33: numbers survive being written and read. Every unsigned integer is written by \<^verbatim>\<open>int2str\<close>
  as a decimal string of at most ten characters, which \<^verbatim>\<open>str2i\<close> reads back as the same number.
\<close>

theorem str2i_int2str: "str2i (int2str val) = Some val \<and> length (int2str val) \<le> 10"
proof -
  have small: "unat val < 2 ^ 32" using unsigned_less [of val, where ?'a = nat] by simp
  then have len: "length (int2str val) \<le> 10"
    unfolding int2str_dec by (intro print_dec_length) simp_all
  have "IS_DIGIT (hd (print_dec (unat val)))"
    using print_dec_digits [of "unat val"] print_dec_not_Nil [of "unat val"]
    by (cases "print_dec (unat val)") auto
  then have "dropWhile (\<lambda>ch. ch = SP) (int2str val) = int2str val"
    unfolding int2str_dec using print_dec_not_Nil [of "unat val"]
    by (cases "print_dec (unat val)") (auto simp: IS_DIGIT_def IS_IN_def schar_def)
  moreover have "str2i_loop SP 0 0 (int2str val) = Some (of_nat (unat val))"
    using str2i_loop_digits [of "int2str val" 0 0 SP] len small by (simp add: int2str_dec)
  ultimately show ?thesis using len by (simp add: str2i_def)
qed

end
