(* ===== verification/Parse_Via.thy ===== *)
theory Parse_Via
  imports Am_Utils
begin

text \<open>
  \<^verbatim>\<open>core/sip/parse_via.h\<close> and \<^verbatim>\<open>core/sip/parse_via.cpp\<close>: the Via header. Four parsers call each
  other on one cursor: the transport, the sent-by part, the parameters and the list of them.
  Each is total and keeps its slices in bounds; a printed Via is read back.
\<close>

section \<open>Data\<close>

datatype trans_type = TT_UNPARSED | TT_UDP | TT_TCP | TT_TLS | TT_SCTP | TT_OTHER

record sip_transport =
  tr_type :: trans_type
  tr_val :: cstring

record via_parm =
  vp_eop :: nat
  vp_params :: "sip_avp list"
  vp_trans :: sip_transport
  vp_host :: cstring
  vp_port :: cstring
  vp_port_i :: u32
  vp_branch :: cstring
  vp_recved :: cstring
  vp_has_rport :: bool
  vp_rport :: cstring
  vp_rport_i :: u32

definition new_via_parm :: via_parm where
  "new_via_parm = \<lparr>vp_eop = 0, vp_params = [], vp_trans = \<lparr>tr_type = TT_UNPARSED, tr_val = cs_null\<rparr>,
     vp_host = cs_null, vp_port = cs_null, vp_port_i = 0, vp_branch = cs_null, vp_recved = cs_null,
     vp_has_rport = False, vp_rport = cs_null, vp_rport_i = 0\<rparr>"

definition copy_via_parm :: "via_parm \<Rightarrow> via_parm" where
  "copy_via_parm p = p\<lparr>vp_eop := 0, vp_params := []\<rparr>"

section \<open>The transport\<close>

text \<open>
  The loop condition \<^verbatim>\<open>**c && (*c!=end)\<close> reads the character behind the slice before it compares
  the pointers; the order makes no difference to the result. \<open>len\<close> of the cases is what is left
  behind \<^verbatim>\<open>SIP/2.0/\<close>.
\<close>

datatype tr_st = TR_BEG | TR_UDP | TR_T | TR_TCP | TR_TLS | TR_SCTP | TR_OTHER

record tr_fsm =
  tr_state :: tr_st
  tr_t :: sip_transport

definition ci :: "char \<Rightarrow> char \<Rightarrow> char \<Rightarrow> bool" where
  "ci ch lo up \<longleftrightarrow> ch = lo \<or> ch = up"

definition tr_end_val :: "nat \<Rightarrow> sip_transport \<Rightarrow> sip_transport" where
  "tr_end_val c t = t\<lparr>tr_val := (tr_val t)\<lparr>cs_len := int c - int (cs_s (tr_val t))\<rparr>\<rparr>"

definition tr_beg :: "string \<Rightarrow> nat \<Rightarrow> nat \<Rightarrow> char \<Rightarrow> tr_fsm \<Rightarrow> tr_fsm act" where
  "tr_beg buf len c ch s =
     (if ci ch CHR ''u'' CHR ''U'' then
        if len \<ge> 3 \<and> ci (buf ! (c + 1)) CHR ''d'' CHR ''D'' \<and> ci (buf ! (c + 2)) CHR ''p'' CHR ''P''
        then Next 3 (s\<lparr>tr_t := (tr_t s)\<lparr>tr_type := TT_UDP\<rparr>, tr_state := TR_UDP\<rparr>)
        else Next 1 (s\<lparr>tr_state := TR_OTHER\<rparr>)
      else if ci ch CHR ''t'' CHR ''T'' then Next 1 (s\<lparr>tr_state := TR_T\<rparr>)
      else if ci ch CHR ''s'' CHR ''S'' then
        if len \<ge> 4 \<and> ci (buf ! (c + 1)) CHR ''c'' CHR ''C'' \<and> ci (buf ! (c + 2)) CHR ''t'' CHR ''T'' \<and>
           ci (buf ! (c + 3)) CHR ''p'' CHR ''P''
        then Next 4 (s\<lparr>tr_t := (tr_t s)\<lparr>tr_type := TT_SCTP\<rparr>, tr_state := TR_SCTP\<rparr>)
        else Next 1 (s\<lparr>tr_state := TR_OTHER\<rparr>)
      else Next 1 (s\<lparr>tr_state := TR_OTHER\<rparr>))"

definition tr_tx :: "string \<Rightarrow> nat \<Rightarrow> nat \<Rightarrow> char \<Rightarrow> tr_fsm \<Rightarrow> tr_fsm act" where
  "tr_tx buf len c ch s =
     (if ci ch CHR ''l'' CHR ''L'' then
        if len \<ge> 3 \<and> ci (buf ! (c + 1)) CHR ''s'' CHR ''S''
        then Next 2 (s\<lparr>tr_t := (tr_t s)\<lparr>tr_type := TT_TLS\<rparr>, tr_state := TR_TLS\<rparr>)
        else Next 1 (s\<lparr>tr_state := TR_OTHER\<rparr>)
      else if ci ch CHR ''c'' CHR ''C'' then
        if len \<ge> 3 \<and> ci (buf ! (c + 1)) CHR ''p'' CHR ''P''
        then Next 2 (s\<lparr>tr_t := (tr_t s)\<lparr>tr_type := TT_TCP\<rparr>, tr_state := TR_TCP\<rparr>)
        else Next 1 (s\<lparr>tr_state := TR_OTHER\<rparr>)
      else Next 1 (s\<lparr>tr_state := TR_OTHER\<rparr>))"

definition tr_body :: "string \<Rightarrow> nat \<Rightarrow> nat \<Rightarrow> tr_fsm \<Rightarrow> tr_fsm act" where
  "tr_body buf len c s =
     (let ch = buf ! c; sep = (ch = NUL \<or> ch = CR \<or> ch = LF \<or> ch = SP) in
      case tr_state s of
        TR_BEG \<Rightarrow> tr_beg buf len c ch s
      | TR_T \<Rightarrow> tr_tx buf len c ch s
      | TR_OTHER \<Rightarrow>
          if sep then Ret c (s\<lparr>tr_t := (tr_end_val c (tr_t s))\<lparr>tr_type := TT_OTHER\<rparr>\<rparr>) 0
          else Next 1 s
      | _ \<Rightarrow>
          if sep then Ret c (s\<lparr>tr_t := tr_end_val c (tr_t s)\<rparr>) 0
          else Next 1 (s\<lparr>tr_state := TR_OTHER\<rparr>))"

definition tr_fin :: "nat \<Rightarrow> nat \<Rightarrow> tr_fsm \<Rightarrow> tr_fsm out" where
  "tr_fin e c s =
     (if c > e then Overrun
      else Out c (s\<lparr>tr_t := (tr_end_val c (tr_t s))\<lparr>tr_type := TT_OTHER\<rparr>\<rparr>) 0)"

definition parse_transport :: "string \<Rightarrow> sip_transport \<Rightarrow> nat \<Rightarrow> nat \<Rightarrow> sip_transport out" where
  "parse_transport buf t c len =
     (if len < 7 + 2 then Out c t MALFORMED_SIP_MSG
      else if parse_sip_version (c2stlstr buf (cs_set c 7)) \<noteq> 0 then Out c t MALFORMED_SIP_MSG
      else if buf ! (c + 7) \<noteq> CHR ''/'' then Out (c + 8) t MALFORMED_SIP_MSG
      else
        map_out tr_t
          (scan (\<lambda>c. buf ! c \<noteq> NUL) (tr_body buf (len - 8)) (tr_fin (c + len)) (c + len) (c + 8)
             \<lparr>tr_state = TR_BEG, tr_t = t\<lparr>tr_val := (tr_val t)\<lparr>cs_s := c + 8\<rparr>\<rparr>\<rparr>))"

section \<open>The sent-by part\<close>

datatype by_st = BY_HOST | BY_HOST_V6 | BY_COLON | BY_PORT_SWS | BY_PORT

record by_fsm = "by_st fsm" +
  by_beg :: nat
  by_v :: via_parm

definition by_set_host :: "int \<Rightarrow> by_fsm \<Rightarrow> by_fsm" where
  "by_set_host len s = s\<lparr>by_v := (by_v s)\<lparr>vp_host := cs_set (by_beg s) len\<rparr>\<rparr>"

definition by_set_port :: "int \<Rightarrow> by_fsm \<Rightarrow> by_fsm" where
  "by_set_port len s = s\<lparr>by_v := (by_v s)\<lparr>vp_port := cs_set (by_beg s) len\<rparr>\<rparr>"

text \<open>The \<^verbatim>\<open>switch\<close> behind the label \<^verbatim>\<open>end_by\<close>.\<close>

definition by_end :: "nat \<Rightarrow> by_fsm \<Rightarrow> by_fsm \<times> int" where
  "by_end c s =
     (let eol = (if saved_st s = St BY_PORT
                 then by_set_port (int c - eol_len s - int (by_beg s)) s else s)
      in case st s of
           St BY_HOST \<Rightarrow> (by_set_host (int c - int (by_beg s)) s, 0)
         | St BY_PORT \<Rightarrow> (by_set_port (int c - int (by_beg s)) s, 0)
         | ST_LF \<Rightarrow> (eol, 0)
         | ST_CRLF \<Rightarrow> (eol, 0)
         | St BY_COLON \<Rightarrow> (s, 0)
         | _ \<Rightarrow> (s, UNDEFINED_ERR))"

definition goto_end_by :: "nat \<Rightarrow> by_fsm \<Rightarrow> by_fsm act" where
  "goto_end_by c s = (let (s', r) = by_end c s in Ret c s' r)"

definition by_host :: "nat \<Rightarrow> char \<Rightarrow> by_fsm \<Rightarrow> by_fsm act" where
  "by_host c ch s =
     (if ch = CR then Next 1 (enter_CR s)
      else if ch = LF then Next 1 (enter_LF s)
      else if ch = CHR ''['' then Next 1 (s\<lparr>st := St BY_HOST_V6\<rparr>)
      else if ch = CHR '':'' then
        Next 1 (by_set_host (int c - int (by_beg s)) (s\<lparr>st := St BY_PORT_SWS\<rparr>))
      else if ch = CHR '';'' then goto_end_by c s
      else if ch = SP \<or> ch = HTAB then
        Next 1 (by_set_host (int c - int (by_beg s)) (s\<lparr>st := St BY_COLON\<rparr>))
      else Next 1 s)"

definition by_host_v6 :: "nat \<Rightarrow> char \<Rightarrow> by_fsm \<Rightarrow> by_fsm act" where
  "by_host_v6 c ch s =
     (if ch = CHR '']'' then
        Next 1 (by_set_host (int c + 1 - int (by_beg s)) (s\<lparr>st := St BY_COLON\<rparr>))
      else if ch = SP \<or> ch = HTAB \<or> ch = CR \<or> ch = LF then Ret c s MALFORMED_SIP_MSG
      else Next 1 s)"

definition by_colon :: "nat \<Rightarrow> char \<Rightarrow> by_fsm \<Rightarrow> by_fsm act" where
  "by_colon c ch s =
     (if ch = CR then Next 1 (enter_CR s)
      else if ch = LF then Next 1 (enter_LF s)
      else if ch = CHR '':'' then Next 1 (s\<lparr>st := St BY_PORT_SWS\<rparr>)
      else if ch = CHR '';'' then goto_end_by c s
      else if ch = SP \<or> ch = HTAB then Next 1 s
      else Ret c s MALFORMED_SIP_MSG)"

definition by_port_sws :: "nat \<Rightarrow> char \<Rightarrow> by_fsm \<Rightarrow> by_fsm act" where
  "by_port_sws c ch s =
     (if ch = CR then Next 1 (enter_CR s)
      else if ch = LF then Next 1 (enter_LF s)
      else if ch = SP \<or> ch = HTAB then Next 1 s
      else Next 0 (s\<lparr>st := St BY_PORT, by_beg := c, by_v := (by_v s)\<lparr>vp_port_i := 0\<rparr>\<rparr>))"

text \<open>After \<^verbatim>\<open>case_CR_LF\<close> the \<^verbatim>\<open>break\<close> leaves the inner \<^verbatim>\<open>switch\<close> only, and the line ending is then tested as a digit.\<close>

definition by_port :: "nat \<Rightarrow> char \<Rightarrow> by_fsm \<Rightarrow> by_fsm act" where
  "by_port c ch s =
     (if ch = SP \<or> ch = HTAB \<or> ch = CHR '';'' then goto_end_by c s
      else
        let s1 = (if ch = CR then enter_CR s else if ch = LF then enter_LF s else s) in
        if schar ch < 0x30 \<or> schar ch > 0x39 then Ret c s1 MALFORMED_SIP_MSG
        else
          let p = vp_port_i (by_v s1) * 10 + word_of_int (schar ch - 0x30);
              s2 = s1\<lparr>by_v := (by_v s1)\<lparr>vp_port_i := p\<rparr>\<rparr>
          in if p > 65535 then Ret c s2 MALFORMED_SIP_MSG else Next 1 s2)"


definition by_eol :: "nat \<Rightarrow> by_fsm \<Rightarrow> by_fsm act" where
  "by_eol c s =
     (if saved_st s = St BY_PORT then goto_end_by c s
      else
        let s' = (if saved_st s = St BY_HOST
                  then by_set_host (int c - eol_len s - int (by_beg s)) (s\<lparr>saved_st := St BY_COLON\<rparr>)
                  else s)
        in Next 1 (s'\<lparr>st := saved_st s'\<rparr>))"

definition by_body :: "string \<Rightarrow> nat \<Rightarrow> by_fsm \<Rightarrow> by_fsm act" where
  "by_body buf c s =
     (let ch = buf ! c in
      case st s of
        St BY_HOST \<Rightarrow> by_host c ch s
      | St BY_HOST_V6 \<Rightarrow> by_host_v6 c ch s
      | St BY_COLON \<Rightarrow> by_colon c ch s
      | St BY_PORT_SWS \<Rightarrow> by_port_sws c ch s
      | St BY_PORT \<Rightarrow> by_port c ch s
      | ST_CR \<Rightarrow> case_ST_CR c ch s
      | ST_LF \<Rightarrow> by_eol c s
      | ST_CRLF \<Rightarrow> by_eol c s)"

definition by_fin :: "nat \<Rightarrow> nat \<Rightarrow> by_fsm \<Rightarrow> by_fsm out" where
  "by_fin e c s = (if c \<noteq> e then Overrun else let (s', r) = by_end c s in Out c s' r)"

definition parse_by :: "string \<Rightarrow> via_parm \<Rightarrow> nat \<Rightarrow> nat \<Rightarrow> by_fsm out" where
  "parse_by buf v c len =
     scan (\<lambda>_. True) (by_body buf) (by_fin (c + len)) (c + len) c
       \<lparr>st = St BY_HOST, saved_st = St BY_HOST, by_beg = c, by_v = v\<rparr>"

section \<open>The parameters\<close>

datatype vpn_st =
  VP_BEG | VP_BRANCH1 | VP_BRANCH2 | VP_BRANCH3 | VP_BRANCH4 | VP_BRANCH5 | VP_BRANCH
  | VP_R | VP_RECVD1 | VP_RECVD2 | VP_RECVD3 | VP_RECVD4 | VP_RECVD5 | VP_RECVD6 | VP_RECVD
  | VP_RPORT1 | VP_RPORT2 | VP_RPORT3 | VP_RPORT | VP_OTHER

definition case_VIA_PARAM :: "char \<Rightarrow> char \<Rightarrow> char \<Rightarrow> vpn_st \<Rightarrow> vpn_st" where
  "case_VIA_PARAM ch ch1 ch2 st2 = (if ch = ch1 \<or> ch = ch2 then st2 else VP_OTHER)"

fun via_pname_step :: "char \<Rightarrow> vpn_st \<Rightarrow> vpn_st" where
  "via_pname_step ch VP_BEG =
     (if ci ch CHR ''b'' CHR ''B'' then VP_BRANCH1
      else if ci ch CHR ''r'' CHR ''R'' then VP_R else VP_OTHER)"
| "via_pname_step ch VP_R =
     (if ci ch CHR ''e'' CHR ''E'' then VP_RECVD1
      else if ci ch CHR ''p'' CHR ''P'' then VP_RPORT1 else VP_OTHER)"
| "via_pname_step ch VP_BRANCH1 = case_VIA_PARAM ch CHR ''r'' CHR ''R'' VP_BRANCH2"
| "via_pname_step ch VP_BRANCH2 = case_VIA_PARAM ch CHR ''a'' CHR ''A'' VP_BRANCH3"
| "via_pname_step ch VP_BRANCH3 = case_VIA_PARAM ch CHR ''n'' CHR ''N'' VP_BRANCH4"
| "via_pname_step ch VP_BRANCH4 = case_VIA_PARAM ch CHR ''c'' CHR ''C'' VP_BRANCH5"
| "via_pname_step ch VP_BRANCH5 = case_VIA_PARAM ch CHR ''h'' CHR ''H'' VP_BRANCH"
| "via_pname_step ch VP_RECVD1 = case_VIA_PARAM ch CHR ''c'' CHR ''C'' VP_RECVD2"
| "via_pname_step ch VP_RECVD2 = case_VIA_PARAM ch CHR ''e'' CHR ''E'' VP_RECVD3"
| "via_pname_step ch VP_RECVD3 = case_VIA_PARAM ch CHR ''i'' CHR ''I'' VP_RECVD4"
| "via_pname_step ch VP_RECVD4 = case_VIA_PARAM ch CHR ''v'' CHR ''V'' VP_RECVD5"
| "via_pname_step ch VP_RECVD5 = case_VIA_PARAM ch CHR ''e'' CHR ''E'' VP_RECVD6"
| "via_pname_step ch VP_RECVD6 = case_VIA_PARAM ch CHR ''d'' CHR ''D'' VP_RECVD"
| "via_pname_step ch VP_RPORT1 = case_VIA_PARAM ch CHR ''o'' CHR ''O'' VP_RPORT2"
| "via_pname_step ch VP_RPORT2 = case_VIA_PARAM ch CHR ''r'' CHR ''R'' VP_RPORT3"
| "via_pname_step ch VP_RPORT3 = case_VIA_PARAM ch CHR ''t'' CHR ''T'' VP_RPORT"
| "via_pname_step ch VP_BRANCH = VP_BRANCH"
| "via_pname_step ch VP_RECVD = VP_RECVD"
| "via_pname_step ch VP_RPORT = VP_RPORT"
| "via_pname_step ch VP_OTHER = VP_OTHER"

text \<open>
  The loop over the characters of a name. \<^verbatim>\<open>goto next_param\<close> in the state \<^verbatim>\<open>VP_OTHER\<close> leaves it
  early; the state is \<^verbatim>\<open>VP_OTHER\<close> then and stays so here, with the same effect (none).
\<close>

definition via_pname :: "string \<Rightarrow> vpn_st" where
  "via_pname n = foldl (\<lambda>st ch. via_pname_step ch st) VP_BEG n"

definition via_set_param :: "string \<Rightarrow> sip_avp \<Rightarrow> via_parm \<Rightarrow> via_parm" where
  "via_set_param buf a v =
     (case via_pname (c2stlstr buf (avp_name a)) of
        VP_BRANCH \<Rightarrow> v\<lparr>vp_branch := avp_value a\<rparr>
      | VP_RECVD \<Rightarrow> v\<lparr>vp_recved := avp_value a\<rparr>
      | VP_RPORT \<Rightarrow>
          let v1 = v\<lparr>vp_has_rport := True, vp_rport := avp_value a\<rparr> in
          if cs_len (vp_rport v1) \<noteq> 0 then
            (case str2i (c2stlstr buf (vp_rport v1)) of
               Some i \<Rightarrow> v1\<lparr>vp_rport_i := i\<rparr>
             | None \<Rightarrow> v1)
          else v1\<lparr>vp_rport := (vp_rport v1)\<lparr>cs_s := nat (int (cs_s (avp_name a)) + cs_len (avp_name a))\<rparr>\<rparr>
      | _ \<Rightarrow> v)"

definition parse_via_params :: "string \<Rightarrow> via_parm \<Rightarrow> nat \<Rightarrow> nat \<Rightarrow> via_parm out" where
  "parse_via_params buf v c len =
     (case parse_gen_params_sc buf (vp_params v) c len CHR '','' of
        Out c' s r \<Rightarrow>
          let v1 = v\<lparr>vp_params := gp_params s\<rparr> in
          if r \<noteq> 0 then Out c' v1 r
          else Out c' (fold (via_set_param buf) (vp_params v1) v1) r
      | Overrun \<Rightarrow> Overrun
      | Diverge \<Rightarrow> Diverge)"

section \<open>The header\<close>

datatype v_st = V_TRANS | V_URI | V_PARM_SEP | V_PARM_SEP_SWS

record v_fsm = "v_st fsm" +
  v_parm :: via_parm
  v_parms :: "via_parm list"

text \<open>
  A call that did not return would not let \<^verbatim>\<open>parse_via\<close> return either; \<open>Next 0\<close> with the state
  unchanged is reported as \<open>Diverge\<close> by the loop.
\<close>

definition v_trans :: "string \<Rightarrow> nat \<Rightarrow> nat \<Rightarrow> v_fsm \<Rightarrow> v_fsm act" where
  "v_trans buf e c s =
     (case parse_transport buf (vp_trans (v_parm s)) c (e - c) of
        Out c' t r \<Rightarrow>
          let s1 = s\<lparr>v_parm := (v_parm s)\<lparr>vp_trans := t\<rparr>\<rparr> in
          if r \<noteq> 0 then Ret c' s1 r
          else Next (c' - c + 1) (s1\<lparr>st := St V_URI\<rparr>)
      | _ \<Rightarrow> Next 0 s)"

definition v_sent_by :: "string \<Rightarrow> nat \<Rightarrow> nat \<Rightarrow> v_fsm \<Rightarrow> v_fsm act" where
  "v_sent_by buf e c s =
     (case parse_by buf (v_parm s) c (e - c) of
        Out c1 b r \<Rightarrow>
          if r \<noteq> 0 then Ret c1 (s\<lparr>v_parm := by_v b\<rparr>) r
          else
            (case parse_via_params buf (by_v b) c1 (e - c1) of
               Out c2 v r' \<Rightarrow>
                 if r' \<noteq> 0 then Ret c2 (s\<lparr>v_parm := v\<rparr>) r'
                 else Next (c2 - c)
                   (s\<lparr>st := St V_PARM_SEP, v_parm := new_via_parm,
                      v_parms := v_parms s @ [v\<lparr>vp_eop := c2\<rparr>]\<rparr>)
             | _ \<Rightarrow> Next 0 s)
      | _ \<Rightarrow> Next 0 s)"

definition v_uri :: "string \<Rightarrow> nat \<Rightarrow> nat \<Rightarrow> char \<Rightarrow> v_fsm \<Rightarrow> v_fsm act" where
  "v_uri buf e c ch s =
     (if ch = CR then Next 1 (enter_CR s)
      else if ch = LF then Next 1 (enter_LF s)
      else if ch = SP \<or> ch = HTAB then Next 1 s
      else v_sent_by buf e c s)"

definition v_parm_sep :: "nat \<Rightarrow> char \<Rightarrow> v_fsm \<Rightarrow> v_fsm act" where
  "v_parm_sep c ch s =
     (if ch = CR then Next 1 (enter_CR s)
      else if ch = LF then Next 1 (enter_LF s)
      else if ch = SP \<or> ch = HTAB then Next 1 s
      else if ch = CHR '','' then Next 1 (s\<lparr>st := St V_PARM_SEP_SWS\<rparr>)
      else Ret c s MALFORMED_SIP_MSG)"

definition v_parm_sep_sws :: "nat \<Rightarrow> char \<Rightarrow> v_fsm \<Rightarrow> v_fsm act" where
  "v_parm_sep_sws c ch s =
     (if ch = CR then Next 1 (enter_CR s)
      else if ch = LF then Next 1 (enter_LF s)
      else if ch = SP \<or> ch = HTAB then Next 1 s
      else Next 0 (s\<lparr>st := St V_TRANS\<rparr>))"

definition v_body :: "string \<Rightarrow> nat \<Rightarrow> nat \<Rightarrow> v_fsm \<Rightarrow> v_fsm act" where
  "v_body buf e c s =
     (let ch = buf ! c in
      case st s of
        St V_TRANS \<Rightarrow> v_trans buf e c s
      | St V_URI \<Rightarrow> v_uri buf e c ch s
      | St V_PARM_SEP \<Rightarrow> v_parm_sep c ch s
      | St V_PARM_SEP_SWS \<Rightarrow> v_parm_sep_sws c ch s
      | ST_CR \<Rightarrow> case_ST_CR c ch s
      | _ \<Rightarrow> Next 1 (s\<lparr>st := saved_st s\<rparr>))"

definition parse_via :: "string \<Rightarrow> via_parm list \<Rightarrow> nat \<Rightarrow> nat \<Rightarrow> v_fsm out" where
  "parse_via buf parms beg len =
     scan (\<lambda>_. True) (v_body buf (beg + len)) (\<lambda>c s. Out c s 0) (beg + len) beg
       \<lparr>st = St V_TRANS, saved_st = St V_TRANS, v_parm = new_via_parm, v_parms = parms\<rparr>"

section \<open>Safety and termination\<close>

definition tr_ok :: "nat \<Rightarrow> nat \<Rightarrow> sip_transport \<Rightarrow> bool" where
  "tr_ok lo hi t \<longleftrightarrow> cs_ok lo hi (tr_val t)"

definition via_parm_ok :: "nat \<Rightarrow> nat \<Rightarrow> via_parm \<Rightarrow> bool" where
  "via_parm_ok lo hi v \<longleftrightarrow>
     list_all (avp_ok lo hi) (vp_params v) \<and> tr_ok lo hi (vp_trans v) \<and> cs_ok lo hi (vp_host v) \<and>
     cs_ok lo hi (vp_port v) \<and> cs_ok lo hi (vp_branch v) \<and> cs_ok lo hi (vp_recved v) \<and>
     cs_ok lo hi (vp_rport v) \<and> vp_eop v \<le> hi \<and> vp_port_i v \<le> 65535 \<and>
     (vp_rport_i v \<noteq> 0 \<longrightarrow> vp_params v \<noteq> [])"

text \<open>Where the number of \<^verbatim>\<open>rport\<close> comes from: it is 0, or \<^verbatim>\<open>str2i\<close> reads it from one of the parameters of that name.\<close>

definition rport_read :: "string \<Rightarrow> via_parm \<Rightarrow> bool" where
  "rport_read buf v \<longleftrightarrow> vp_rport_i v = 0 \<or>
     (\<exists>a \<in> set (vp_params v). via_pname (c2stlstr buf (avp_name a)) = VP_RPORT \<and>
        str2i (c2stlstr buf (avp_value a)) = Some (vp_rport_i v))"


subsection \<open>Transport\<close>

definition tr_inv :: "nat \<Rightarrow> nat \<Rightarrow> nat \<Rightarrow> tr_fsm \<Rightarrow> bool" where
  "tr_inv b e c s \<longleftrightarrow> cs_s (tr_val (tr_t s)) = b \<and> b \<le> c \<and> c \<le> e \<and>
     (tr_state s = TR_BEG \<longrightarrow> c = b) \<and> (tr_state s = TR_T \<longrightarrow> c = b + 1)"

definition tr_post :: "nat \<Rightarrow> nat \<Rightarrow> nat \<Rightarrow> tr_fsm \<Rightarrow> int \<Rightarrow> bool" where
  "tr_post b e c s r \<longleftrightarrow> b \<le> c \<and> c \<le> e \<and> tr_ok b e (tr_t s) \<and> r = 0"

lemmas tr_unfold = tr_inv_def tr_post_def tr_ok_def tr_end_val_def cs_ok_def

lemma tr_beg_ok:
  "tr_inv b e c s \<Longrightarrow> c < e \<Longrightarrow> tr_state s = TR_BEG \<Longrightarrow> len = e - b \<Longrightarrow>
     act_ok (tr_inv b e) (tr_post b e) c (tr_beg buf len c ch s)"
  by (auto simp add: tr_beg_def tr_unfold)

lemma tr_tx_ok:
  "tr_inv b e c s \<Longrightarrow> c < e \<Longrightarrow> tr_state s = TR_T \<Longrightarrow> len = e - b \<Longrightarrow>
     act_ok (tr_inv b e) (tr_post b e) c (tr_tx buf len c ch s)"
  by (auto simp add: tr_tx_def tr_unfold)

lemma tr_body_ok:
  "tr_inv b e c s \<Longrightarrow> c < e \<Longrightarrow> act_ok (tr_inv b e) (tr_post b e) c (tr_body buf (e - b) c s)"
  by (cases "tr_state s")
    (simp_all add: tr_body_def Let_def tr_beg_ok tr_tx_ok, simp_all add: tr_unfold)

lemma tr_fin_ok:
  "tr_inv b e c s \<Longrightarrow> \<exists>c' s' r. tr_fin e c s = Out c' s' r \<and> tr_post b e c' s' r"
  by (simp add: tr_fin_def tr_unfold)

interpretation tr_loop: parser_loop "\<lambda>c. buf ! c \<noteq> NUL" "tr_body buf (e - b)" "tr_fin e" e
    "tr_inv b e" "tr_post b e" for buf e b
  by unfold_locales (auto simp: tr_body_ok tr_fin_ok)

lemma parse_transport_total:
  assumes "tr_ok lo (c + len) t" and "lo \<le> c"
  shows "\<exists>c' t' r. parse_transport buf t c len = Out c' t' r \<and> c \<le> c' \<and> c' \<le> c + len \<and>
    tr_ok lo (c + len) t' \<and> (r = 0 \<or> r = MALFORMED_SIP_MSG)"
proof (cases "len \<ge> 9 \<and> parse_sip_version (c2stlstr buf (cs_set c 7)) = 0 \<and> buf ! (c + 7) = CHR ''/''")
  case True
  let ?s = "\<lparr>tr_state = TR_BEG, tr_t = t\<lparr>tr_val := (tr_val t)\<lparr>cs_s := c + 8\<rparr>\<rparr>\<rparr>"
  have e: "c + len - (c + 8) = len - 8" by simp
  have "tr_inv (c + 8) (c + len) (c + 8) ?s" using True by (simp add: tr_inv_def)
  from tr_loop.scan_total [OF this, of buf] True assms(2) show ?thesis
    by (auto simp: parse_transport_def e tr_post_def tr_ok_def dest: cs_ok_mono [where lo' = lo and hi' = "c + len"])
next
  case False
  with assms show ?thesis by (auto simp: parse_transport_def)
qed

subsection \<open>Sent-by\<close>

definition by_inv :: "nat \<Rightarrow> nat \<Rightarrow> nat \<Rightarrow> sip_avp list \<Rightarrow> nat \<Rightarrow> by_fsm \<Rightarrow> bool" where
  "by_inv lo e c0 ps c s \<longleftrightarrow> c0 \<le> by_beg s \<and> by_beg s + eol_depth (st s) \<le> c \<and> c \<le> e \<and>
     via_parm_ok lo e (by_v s) \<and> vp_params (by_v s) = ps"

definition by_post :: "nat \<Rightarrow> nat \<Rightarrow> nat \<Rightarrow> sip_avp list \<Rightarrow> nat \<Rightarrow> by_fsm \<Rightarrow> int \<Rightarrow> bool" where
  "by_post lo e c0 ps c s r \<longleftrightarrow> c0 \<le> c \<and> c \<le> e \<and> r \<in> {0, MALFORMED_SIP_MSG, UNDEFINED_ERR} \<and>
     (r = 0 \<longrightarrow> via_parm_ok lo e (by_v s) \<and> vp_params (by_v s) = ps)"

lemma via_parm_ok_host:
  "via_parm_ok lo e v \<Longrightarrow> lo \<le> b \<Longrightarrow> 0 \<le> n \<Longrightarrow> int b + n \<le> int e \<Longrightarrow>
     via_parm_ok lo e (v\<lparr>vp_host := cs_set b n\<rparr>)"
  by (simp add: via_parm_ok_def cs_ok_set)

lemma via_parm_ok_port:
  "via_parm_ok lo e v \<Longrightarrow> lo \<le> b \<Longrightarrow> 0 \<le> n \<Longrightarrow> int b + n \<le> int e \<Longrightarrow>
     via_parm_ok lo e (v\<lparr>vp_port := cs_set b n\<rparr>)"
  by (simp add: via_parm_ok_def cs_ok_set)

lemma via_parm_ok_port_i:
  "via_parm_ok lo e v \<Longrightarrow> p \<le> 65535 \<Longrightarrow> via_parm_ok lo e (v\<lparr>vp_port_i := p\<rparr>)"
  by (simp add: via_parm_ok_def)

lemmas by_unfold =
  by_inv_def by_post_def enter_CR_def enter_LF_def by_set_host_def by_set_port_def
  via_parm_ok_host via_parm_ok_port via_parm_ok_port_i

lemma goto_end_by_ok:
  "by_inv lo e c0 ps c s \<Longrightarrow> lo \<le> c0 \<Longrightarrow> (st s = ST_CRLF \<longrightarrow> by_beg s + 2 \<le> c) \<Longrightarrow>
     act_ok I (by_post lo e c0 ps) c (goto_end_by c s)"
  by (cases "st s" rule: fsm_st.exhaust)
    (simp_all add: goto_end_by_def by_end_def by_unfold eol_len_def split: by_st.split)

lemma by_host_ok:
  "by_inv lo e c0 ps c s \<Longrightarrow> lo \<le> c0 \<Longrightarrow> c < e \<Longrightarrow> st s = St x \<Longrightarrow>
     act_ok (by_inv lo e c0 ps) (by_post lo e c0 ps) c (by_host c ch s)"
  by (simp add: by_host_def goto_end_by_ok) (simp add: by_unfold)

lemma by_host_v6_ok:
  "by_inv lo e c0 ps c s \<Longrightarrow> lo \<le> c0 \<Longrightarrow> c < e \<Longrightarrow> st s = St x \<Longrightarrow>
     act_ok (by_inv lo e c0 ps) (by_post lo e c0 ps) c (by_host_v6 c ch s)"
  by (simp add: by_host_v6_def by_unfold)

lemma by_colon_ok:
  "by_inv lo e c0 ps c s \<Longrightarrow> lo \<le> c0 \<Longrightarrow> c < e \<Longrightarrow> st s = St x \<Longrightarrow>
     act_ok (by_inv lo e c0 ps) (by_post lo e c0 ps) c (by_colon c ch s)"
  by (simp add: by_colon_def goto_end_by_ok) (simp add: by_unfold)

lemma by_port_ok:
  "by_inv lo e c0 ps c s \<Longrightarrow> lo \<le> c0 \<Longrightarrow> c < e \<Longrightarrow> st s = St x \<Longrightarrow>
     act_ok (by_inv lo e c0 ps) (by_post lo e c0 ps) c (by_port c ch s)"
  by (simp add: by_port_def goto_end_by_ok Let_def) (auto simp add: by_unfold)

lemma by_port_sws_ok:
  assumes "by_inv lo e c0 ps c s" and "lo \<le> c0" and "c < e" and "st s = St x"
  shows "act_ok (by_inv lo e c0 ps) (by_post lo e c0 ps) c (by_port_sws c ch s) \<or>
    (\<exists>s'. by_port_sws c ch s = Next 0 s' \<and> st s' = St BY_PORT \<and> by_inv lo e c0 ps c s')"
  using assms by (auto simp add: by_port_sws_def by_unfold)

lemma by_eol_ok:
  "by_inv lo e c0 ps c s \<Longrightarrow> lo \<le> c0 \<Longrightarrow> c < e \<Longrightarrow> st s = ST_LF \<or> st s = ST_CRLF \<Longrightarrow>
     act_ok (by_inv lo e c0 ps) (by_post lo e c0 ps) c (by_eol c s)"
  using eol_depth_le [of "saved_st s"]
  by (auto simp add: by_eol_def goto_end_by_ok Let_def by_unfold eol_len_def)


lemma by_body_ok:
  assumes "by_inv lo e c0 ps c s" and "c < e" and "lo \<le> c0"
  shows "act_ok (by_inv lo e c0 ps) (by_post lo e c0 ps) c (by_body buf c s) \<or>
    (\<exists>s'. by_body buf c s = Next 0 s' \<and>
      act_ok (by_inv lo e c0 ps) (by_post lo e c0 ps) c (by_body buf c s'))"
proof (cases "st s = St BY_PORT_SWS")
  case True
  with by_port_sws_ok [OF assms(1,3,2) True] assms by_port_ok show ?thesis
    by (fastforce simp: by_body_def Let_def)
next
  case False
  have "act_ok (by_inv lo e c0 ps) (by_post lo e c0 ps) c (case_ST_CR c ch s)"
    if "st s = ST_CR" for ch
    using that assms by (simp add: case_ST_CR_def by_unfold)
  with False assms have "act_ok (by_inv lo e c0 ps) (by_post lo e c0 ps) c (by_body buf c s)"
    by (cases "st s" rule: fsm_st.exhaust)
      (simp_all add: by_body_def Let_def by_host_ok by_host_v6_ok by_colon_ok by_port_ok by_eol_ok
        split: by_st.split)
  then show ?thesis ..
qed

lemma by_fin_ok:
  assumes "by_inv lo e c0 ps c s" and "\<not> c < e" and "lo \<le> c0"
  shows "\<exists>c' s' r. by_fin e c s = Out c' s' r \<and> by_post lo e c0 ps c' s' r"
proof -
  have "st s = ST_CRLF \<longrightarrow> by_beg s + 2 \<le> c" using assms by (auto simp: by_inv_def)
  with goto_end_by_ok [OF assms(1,3)] have "act_ok (\<lambda>_ _. True) (by_post lo e c0 ps) c (goto_end_by c s)" .
  with assms show ?thesis
    by (auto simp: by_fin_def goto_end_by_def by_inv_def split: prod.splits)
qed

interpretation by_loop: parser_loop "\<lambda>_. True" "by_body buf" "by_fin e" e
    "\<lambda>c s. lo \<le> c0 \<and> by_inv lo e c0 ps c s" "by_post lo e c0 ps" for buf e lo c0 ps
proof unfold_locales
  fix c s
  assume *: "lo \<le> c0 \<and> by_inv lo e c0 ps c s" "c < e"
  have mono: "act_ok (\<lambda>c s. lo \<le> c0 \<and> by_inv lo e c0 ps c s) (by_post lo e c0 ps) c a =
      act_ok (by_inv lo e c0 ps) (by_post lo e c0 ps) c a" for a
    using * by (cases a) auto
  show "act_ok (\<lambda>c s. lo \<le> c0 \<and> by_inv lo e c0 ps c s) (by_post lo e c0 ps) c (by_body buf c s) \<or>
      (\<exists>s'. by_body buf c s = Next 0 s' \<and>
        act_ok (\<lambda>c s. lo \<le> c0 \<and> by_inv lo e c0 ps c s) (by_post lo e c0 ps) c (by_body buf c s'))"
    unfolding mono using by_body_ok * by blast
qed (auto simp: by_fin_ok)

lemma parse_by_total:
  assumes "via_parm_ok lo (c + len) v" and "lo \<le> c"
  shows "\<exists>c' s r. parse_by buf v c len = Out c' s r \<and> by_post lo (c + len) c (vp_params v) c' s r"
proof -
  have "by_inv lo (c + len) c (vp_params v) c
      \<lparr>st = St BY_HOST, saved_st = St BY_HOST, by_beg = c, by_v = v\<rparr>"
    using assms by (simp add: by_inv_def)
  with assms(2) by_loop.scan_total [of lo c "c + len" "vp_params v" c _ buf] show ?thesis
    by (simp add: parse_by_def)
qed

subsection \<open>Parameters and header\<close>

lemma via_set_param_ok:
  assumes "via_parm_ok lo e v" and "avp_ok lo e a" and "vp_params v \<noteq> []"
  shows "via_parm_ok lo e (via_set_param buf a v) \<and>
    vp_params (via_set_param buf a v) = vp_params v"
proof -
  have "cs_ok lo e ((avp_value a)\<lparr>cs_s := nat (int (cs_s (avp_name a)) + cs_len (avp_name a))\<rparr>)"
    if "cs_len (avp_value a) = 0" and "via_pname (c2stlstr buf (avp_name a)) = VP_RPORT"
  proof -
    have "avp_name a \<noteq> cs_null" using that(2) by (auto simp: via_pname_def)
    with that(1) assms(2) show ?thesis by (auto simp: avp_ok_def cs_ok_def)
  qed
  with assms show ?thesis
    by (auto simp: via_set_param_def via_parm_ok_def avp_ok_def Let_def split: vpn_st.splits option.splits)
qed

lemma via_set_params_ok:
  "via_parm_ok lo e v \<Longrightarrow> list_all (avp_ok lo e) as \<Longrightarrow> as = [] \<or> vp_params v \<noteq> [] \<Longrightarrow>
     via_parm_ok lo e (fold (via_set_param buf) as v)"
  by (induction as arbitrary: v) (auto simp: via_set_param_ok)

lemma via_set_params_read:
  "rport_read buf v \<Longrightarrow> set as \<subseteq> set (vp_params v) \<Longrightarrow> rport_read buf (fold (via_set_param buf) as v)"
proof (induction as arbitrary: v)
  case (Cons a as)
  have "vp_params (via_set_param buf a v) = vp_params v" "rport_read buf (via_set_param buf a v)"
    using Cons.prems by (auto simp: via_set_param_def rport_read_def Let_def split: vpn_st.splits option.splits)
  with Cons show ?case by simp
qed simp

lemma parse_via_params_total:
  assumes "via_parm_ok lo (c + len) v" and "vp_params v = []" and "lo \<le> c"
  shows "\<exists>c' v' r. parse_via_params buf v c len = Out c' v' r \<and> c \<le> c' \<and> c' \<le> c + len \<and>
    (r = 0 \<or> r = MALFORMED_SIP_MSG) \<and> via_parm_ok lo (c + len) v' \<and> rport_read buf v'"
proof -
  obtain c' s r where g: "parse_gen_params_sc buf [] c len CHR '','' = Out c' s r"
    "c \<le> c'" "c' \<le> c + len" "r = 0 \<or> r = MALFORMED_SIP_MSG" "list_all (avp_ok c (c + len)) (gp_params s)"
    using gen_params_total [of c c len "[]" buf "CHR '',''" True]
    by (auto simp: parse_gen_params_sc_def)
  have ps: "list_all (avp_ok lo (c + len)) (gp_params s)"
    using g(5) assms(3) by (auto simp: list_all_iff intro: avp_ok_mono)
  let ?v = "v\<lparr>vp_params := gp_params s\<rparr>"
  have v: "via_parm_ok lo (c + len) ?v" "rport_read buf ?v"
    using assms(1,2) ps by (auto simp: via_parm_ok_def rport_read_def)
  have "via_parm_ok lo (c + len) (fold (via_set_param buf) (vp_params ?v) ?v)"
    "rport_read buf (fold (via_set_param buf) (vp_params ?v) ?v)"
    using via_set_params_ok [OF v(1)] ps via_set_params_read [OF v(2), of "vp_params ?v"] by simp_all
  with v g assms(2) show ?thesis
    by (auto simp: parse_via_params_def Let_def)
qed


definition v_inv :: "string \<Rightarrow> nat \<Rightarrow> nat \<Rightarrow> nat \<Rightarrow> v_fsm \<Rightarrow> bool" where
  "v_inv buf lo e c s \<longleftrightarrow> lo \<le> c \<and> c \<le> e + 1 \<and> via_parm_ok lo e (v_parm s) \<and> vp_params (v_parm s) = [] \<and>
     list_all (via_parm_ok lo e) (v_parms s) \<and> list_all (rport_read buf) (v_parms s)"

definition v_post :: "string \<Rightarrow> nat \<Rightarrow> nat \<Rightarrow> nat \<Rightarrow> v_fsm \<Rightarrow> int \<Rightarrow> bool" where
  "v_post buf lo e c s r \<longleftrightarrow> r \<in> {0, MALFORMED_SIP_MSG, UNDEFINED_ERR} \<and>
     list_all (via_parm_ok lo e) (v_parms s) \<and> list_all (rport_read buf) (v_parms s)"

lemma via_parm_ok_new [simp]: "via_parm_ok lo e new_via_parm" "vp_params new_via_parm = []"
  by (simp_all add: via_parm_ok_def new_via_parm_def tr_ok_def)

lemmas v_unfold = v_inv_def v_post_def enter_CR_def enter_LF_def

lemma v_trans_ok:
  assumes "v_inv buf lo e c s" and "c < e"
  shows "act_ok (v_inv buf lo e) (v_post buf lo e) c (v_trans buf e c s)"
proof -
  have "tr_ok lo (c + (e - c)) (vp_trans (v_parm s))" "lo \<le> c"
    using assms by (simp_all add: v_inv_def via_parm_ok_def)
  from parse_transport_total [OF this, of buf] assms show ?thesis
    by (auto simp: v_trans_def Let_def v_unfold via_parm_ok_def)
qed

lemma v_sent_by_ok:
  assumes "v_inv buf lo e c s" and "c < e"
  shows "act_ok (v_inv buf lo e) (v_post buf lo e) c (v_sent_by buf e c s) \<or>
    (\<exists>s'. v_sent_by buf e c s = Next 0 s' \<and> st s' = St V_PARM_SEP \<and> v_inv buf lo e c s')"
proof -
  have v: "via_parm_ok lo (c + (e - c)) (v_parm s)" "lo \<le> c" and e: "c + (e - c) = e"
    using assms by (simp_all add: v_inv_def)
  obtain c1 b r where by1: "parse_by buf (v_parm s) c (e - c) = Out c1 b r"
    and by2: "by_post lo e c [] c1 b r"
    using parse_by_total [OF v, of buf] assms(1) e by (auto simp: v_inv_def)
  show ?thesis
  proof (cases "r = 0")
    case True
    with by2 have "via_parm_ok lo (c1 + (e - c1)) (by_v b)" "vp_params (by_v b) = []" "lo \<le> c1"
      and c1: "c1 + (e - c1) = e" "c \<le> c1"
      using v(2) by (auto simp: by_post_def)
    from parse_via_params_total [OF this(1-3), of buf] obtain c2 w r2 where
      "parse_via_params buf (by_v b) c1 (e - c1) = Out c2 w r2" "c1 \<le> c2" "c2 \<le> e"
      "r2 = 0 \<or> r2 = MALFORMED_SIP_MSG" and w: "via_parm_ok lo e w" "rport_read buf w"
      unfolding c1 by blast
    moreover have "via_parm_ok lo e (w\<lparr>vp_eop := c2\<rparr>)" if "c2 \<le> e" using w that by (simp add: via_parm_ok_def)
    moreover have "rport_read buf (w\<lparr>vp_eop := c2\<rparr>)" using w by (simp add: rport_read_def)
    ultimately show ?thesis
      using True by1 assms c1 by (auto simp: v_sent_by_def v_unfold)
  next
    case False
    with by1 by2 assms show ?thesis by (auto simp: v_sent_by_def v_unfold by_post_def)
  qed
qed

lemma v_parm_sep_ok:
  "v_inv buf lo e c s \<Longrightarrow> c < e \<Longrightarrow> act_ok (v_inv buf lo e) (v_post buf lo e) c (v_parm_sep c ch s)"
  by (simp add: v_parm_sep_def v_unfold)

lemma v_body_ok:
  assumes "v_inv buf lo e c s" and "c < e"
  shows "act_ok (v_inv buf lo e) (v_post buf lo e) c (v_body buf e c s) \<or>
    (\<exists>s'. v_body buf e c s = Next 0 s' \<and> act_ok (v_inv buf lo e) (v_post buf lo e) c (v_body buf e c s'))"
proof (cases "st s" rule: fsm_st.exhaust)
  case (St x)
  show ?thesis
  proof (cases x)
    case V_URI
    then have body: "v_body buf e c s = v_uri buf e c (buf ! c) s" using St by (simp add: v_body_def)
    have again: "v_body buf e c s' = v_parm_sep c (buf ! c) s'" if "st s' = St V_PARM_SEP" for s'
      using that by (simp add: v_body_def)
    show ?thesis
    proof (cases "buf ! c \<in> {CR, LF, SP, HTAB}")
      case True
      with assms show ?thesis by (auto simp: body v_uri_def v_unfold)
    next
      case False
      then have "v_body buf e c s = v_sent_by buf e c s" by (simp add: body v_uri_def)
      with v_sent_by_ok [OF assms] show ?thesis
        using again v_parm_sep_ok [OF _ assms(2)] by metis
    qed
  next
    case V_PARM_SEP_SWS
    have "v_inv buf lo e c (s\<lparr>st := St V_TRANS\<rparr>)" using assms by (simp add: v_inv_def)
    with St V_PARM_SEP_SWS v_trans_ok assms(2) have "st s = St V_PARM_SEP_SWS"
      "act_ok (v_inv buf lo e) (v_post buf lo e) c (v_trans buf e c (s\<lparr>st := St V_TRANS\<rparr>))" by auto
    with assms show ?thesis
      by (auto simp: v_body_def Let_def v_parm_sep_sws_def v_unfold)
  qed (use St assms in \<open>simp_all add: v_body_def Let_def v_trans_ok v_parm_sep_ok\<close>)
qed (use assms in \<open>simp_all add: v_body_def Let_def case_ST_CR_def v_unfold\<close>)

interpretation v_loop: parser_loop "\<lambda>_. True" "v_body buf e" "\<lambda>c s. Out c s 0" e
    "v_inv buf lo e" "v_post buf lo e" for buf e lo
  by unfold_locales (auto simp: v_body_ok, auto simp: v_inv_def v_post_def)

lemma via_total:
  "\<exists>c s r. parse_via buf [] beg len = Out c s r \<and> r \<in> {0, MALFORMED_SIP_MSG, UNDEFINED_ERR} \<and>
     list_all (via_parm_ok beg (beg + len)) (v_parms s) \<and> list_all (rport_read buf) (v_parms s)"
proof -
  have "v_inv buf beg (beg + len) beg
      \<lparr>st = St V_TRANS, saved_st = St V_TRANS, v_parm = new_via_parm, v_parms = []\<rparr>"
    by (simp add: v_inv_def)
  from v_loop.scan_total [OF this] show ?thesis
    by (auto simp: parse_via_def v_post_def)
qed


text \<open>
  C23: on every buffer and slice, the Via parser returns: it neither loops nor
  steps over the end of the slice. It returns success or one of two error codes, every slice it
  records (transport, host, port, branch, received, rport, and each parameter name and value)
  lies inside the header, and the port number of the sent-by address is at most 65535. The number
  of the rport parameter has no such bound: it is 0 or the 32-bit number that \<^verbatim>\<open>str2i\<close> reads from the
  value of such a parameter.
\<close>

theorem parse_via_total:
  "\<exists>c s r. parse_via buf [] beg len = Out c s r \<and> r \<in> {0, MALFORMED_SIP_MSG, UNDEFINED_ERR} \<and>
     list_all (via_parm_ok beg (beg + len)) (v_parms s) \<and> list_all (rport_read buf) (v_parms s)"
  by (rule via_total)

section \<open>Printing and parsing\<close>

fun trans_name :: "trans_type \<Rightarrow> string" where
  "trans_name TT_UDP = ''UDP''"
| "trans_name TT_TCP = ''TCP''"
| "trans_name TT_TLS = ''TLS''"
| "trans_name TT_SCTP = ''SCTP''"
| "trans_name _ = []"

definition via_host :: "string \<Rightarrow> bool" where
  "via_host h \<longleftrightarrow> h \<noteq> [] \<and> (\<forall>ch \<in> set h. ch \<notin> {CR, LF, SP, HTAB, CHR ''['', CHR '':'', CHR '';''})"

fun print_via_port :: "nat option \<Rightarrow> string" where
  "print_via_port None = []"
| "print_via_port (Some n) = CHR '':'' # print_dec n"

definition print_via :: "trans_type \<Rightarrow> string \<Rightarrow> nat option \<Rightarrow> (string \<times> string option) list \<Rightarrow> string" where
  "print_via t h port ps = ''SIP/2.0/'' @ trans_name t @ SP # h @ print_via_port port @ print_params ps"

text \<open>The value of the last parameter whose name the parser takes for the given one.\<close>

definition last_param :: "vpn_st \<Rightarrow> (string \<times> string) list \<Rightarrow> string \<Rightarrow> string" where
  "last_param k ps v = fold (\<lambda>(n, x) acc. if via_pname n = k then x else acc) ps v"

lemma tr_run_name:
  assumes "\<And>i. i \<le> length (trans_name t) \<Longrightarrow> buf ! (b + i) = (trans_name t @ [SP]) ! i"
    and "t \<notin> {TT_UNPARSED, TT_OTHER}" and "b + length (trans_name t) < e"
  shows "\<exists>s'. scan (\<lambda>c. buf ! c \<noteq> NUL) (tr_body buf (e - b)) (tr_fin e) e b
      \<lparr>tr_state = TR_BEG, tr_t = t1\<rparr> = Out (b + length (trans_name t)) s' 0 \<and> tr_type (tr_t s') = t"
proof -
  note run = scan.simps [of "\<lambda>c. buf ! c \<noteq> NUL" "tr_body buf (e - b)" "tr_fin e" e]
  note step = tr_body_def tr_beg_def tr_tx_def ci_def tr_end_val_def
  have ch: "buf ! b = (trans_name t @ [SP]) ! 0" "buf ! (b + 1) = (trans_name t @ [SP]) ! 1"
    "buf ! (b + 2) = (trans_name t @ [SP]) ! 2" "buf ! (b + 3) = (trans_name t @ [SP]) ! 3"
    using assms(1) [of 0] assms(1) [of 1] assms(1) [of 2] assms(1) [of 3] assms(2)
    by (cases t; simp)+
  have len: "length (trans_name t) \<le> e - b" using assms(3) by simp
  show ?thesis
  proof (cases t)
    case TT_UDP
    with ch len assms(3) show ?thesis
      by (simp add: run [of b] run [of "b + 3"] step)
  next
    case TT_TCP
    with ch len assms(3) show ?thesis
      by (simp add: run [of b] run [of "Suc b"] run [of "Suc (Suc (Suc b))"] step numeral_3_eq_3)
  next
    case TT_TLS
    with ch len assms(3) show ?thesis
      by (simp add: run [of b] run [of "Suc b"] run [of "Suc (Suc (Suc b))"] step numeral_3_eq_3)
  next
    case TT_SCTP
    with ch len assms(3) assms(1) [of 4] show ?thesis
      by (simp add: run [of b] run [of "b + 4"] step)
  qed (use assms(2) in simp_all)
qed

lemma parse_transport_print:
  assumes "buf = p @ ''SIP/2.0/'' @ trans_name t @ SP # q" and "t \<notin> {TT_UNPARSED, TT_OTHER}"
    and "length (trans_name t) + 9 \<le> len"
  shows "\<exists>t'. parse_transport buf t0 (length p) len = Out (length p + 8 + length (trans_name t)) t' 0 \<and>
    tr_type t' = t"
proof -
  have buf: "buf = p @ ''SIP/2.0'' @ CHR ''/'' # trans_name t @ SP # q" using assms(1) by simp
  have v: "parse_sip_version (c2stlstr buf (cs_set (length p) 7)) = 0"
    unfolding buf by (subst c2stlstr_middle) (simp_all add: parse_sip_version_def)
  have sl: "buf ! (length p + 7) = CHR ''/''" unfolding buf by (simp add: nth_append)
  have "buf ! (length p + 8 + i) = (trans_name t @ [SP]) ! i" if "i \<le> length (trans_name t)" for i
    using that unfolding buf by (simp add: nth_append add.assoc)
  from tr_run_name [OF this assms(2), of "length p + len"
      "t0\<lparr>tr_val := (tr_val t0)\<lparr>cs_s := length p + 8\<rparr>\<rparr>"] v sl assms(3)
  show ?thesis by (auto simp: parse_transport_def)
qed

text \<open>Where the sent-by part ends: at a semicolon or at the end of the header.\<close>

abbreviation by_run :: "string \<Rightarrow> nat \<Rightarrow> nat \<Rightarrow> by_fsm \<Rightarrow> by_fsm out" where
  "by_run buf e \<equiv> scan (\<lambda>_. True) (by_body buf) (by_fin e) e"

definition by_stop :: "string \<Rightarrow> nat \<Rightarrow> nat \<Rightarrow> bool" where
  "by_stop buf e c \<longleftrightarrow> c = e \<or> (c < e \<and> buf ! c = CHR '';'')"

lemma by_run_stop:
  assumes "by_stop buf e c" and "st s = St BY_HOST \<or> st s = St BY_PORT"
  shows "by_run buf e c s = (let (s', r) = by_end c s in Out c s' r)"
proof (cases "c = e")
  case True
  then show ?thesis by (simp add: scan_end by_fin_def)
next
  case False
  with assms have "c < e" "by_body buf c s = goto_end_by c s"
    by (auto simp: by_stop_def by_body_def by_host_def by_port_def)
  then show ?thesis
    by (cases "by_end c s") (simp add: scan_ret goto_end_by_def)
qed

lemma by_body_digit:
  assumes "IS_DIGIT (buf ! c)" and "st s = St BY_PORT" and "vp_port_i (by_v s) = of_nat n"
    and "10 * n + dig (buf ! c) \<le> 65535"
  shows "by_body buf c s =
    Next 1 (s\<lparr>by_v := (by_v s)\<lparr>vp_port_i := of_nat (10 * n + dig (buf ! c))\<rparr>\<rparr>)"
proof -
  let ?d = "buf ! c"
  have d: "?d \<notin> {SP, HTAB, CHR '';'', CR, LF}"
    using assms(1) by (auto simp: IS_DIGIT_def IS_IN_def schar_def)
  have val: "of_nat n * 10 + word_of_int (schar ?d - 0x30) = (of_nat (10 * n + dig ?d) :: u32)"
    using schar_dig [OF assms(1)] by simp
  have "(of_nat (10 * n + dig ?d) :: u32) \<le> 65535"
    using assms(4) by (simp only: word_le_nat_alt unat_of_nat) simp
  with assms d val show ?thesis
    by (simp add: by_body_def by_port_def IS_DIGIT_def IS_IN_def Let_def not_less [symmetric] mult.commute)
qed

lemma by_run_port:
  assumes "buf = p @ ds @ q" and "length p + length ds \<le> e" and "list_all IS_DIGIT ds"
    and "st s = St BY_PORT" and "vp_port_i (by_v s) = of_nat n" and "dec_val n ds \<le> 65535"
  shows "by_run buf e (length p) s = by_run buf e (length p + length ds)
    (s\<lparr>by_v := (by_v s)\<lparr>vp_port_i := of_nat (dec_val n ds)\<rparr>\<rparr>)"
  using assms
proof (induction ds arbitrary: p s n)
  case Nil
  then have "s\<lparr>by_v := (by_v s)\<lparr>vp_port_i := of_nat (dec_val n [])\<rparr>\<rparr> = s" by simp
  then show ?case by simp
next
  case (Cons d ds)
  let ?n = "10 * n + dig d"
  let ?s = "s\<lparr>by_v := (by_v s)\<lparr>vp_port_i := of_nat ?n\<rparr>\<rparr>"
  have at: "buf ! length p = d" using Cons.prems(1) by simp
  have n: "?n \<le> 65535" using Cons.prems(6) dec_val_ge [of ?n ds] by simp
  have "by_body buf (length p) s = Next 1 ?s"
    using by_body_digit [of buf "length p" s n] Cons.prems(3-5) n unfolding at by simp
  then have "by_run buf e (length p) s = by_run buf e (length (p @ [d])) ?s"
    using Cons.prems(2) by (simp add: scan_next)
  also have "\<dots> = by_run buf e (length (p @ [d]) + length ds)
      (?s\<lparr>by_v := (by_v ?s)\<lparr>vp_port_i := of_nat (dec_val ?n ds)\<rparr>\<rparr>)"
    using Cons.prems by (intro Cons.IH) auto
  finally show ?case by simp
qed

lemma by_run_host:
  assumes "buf = p @ h @ q" and "length p + length h \<le> e" and "via_host h" and "st s = St BY_HOST"
  shows "by_run buf e (length p) s = by_run buf e (length p + length h) s"
  using assms
  by (intro scan_word [where buf = buf and q = q]) (auto simp: by_body_def by_host_def via_host_def)

text \<open>What \<^verbatim>\<open>parse_by\<close> leaves of a printed host and port.\<close>

definition by_result :: "string \<Rightarrow> string \<Rightarrow> nat option \<Rightarrow> via_parm \<Rightarrow> via_parm \<Rightarrow> bool" where
  "by_result buf h port v v' \<longleftrightarrow> c2stlstr buf (vp_host v') = h \<and>
     c2stlstr buf (vp_port v') = (case port of None \<Rightarrow> [] | Some n \<Rightarrow> print_dec n) \<and>
     vp_port_i v' = (case port of None \<Rightarrow> 0 | Some n \<Rightarrow> of_nat n) \<and>
     vp_trans v' = vp_trans v \<and> vp_params v' = vp_params v \<and> vp_branch v' = vp_branch v \<and>
     vp_recved v' = vp_recved v"

lemma parse_by_print:
  assumes "buf = p @ h @ print_via_port port @ q" and "via_host h"
    and "port = None \<or> (\<exists>n \<le> 65535. port = Some n)"
    and "c = length p + length (h @ print_via_port port)" and "by_stop buf (length p + len) c"
    and "vp_port v = cs_null" and "vp_port_i v = 0"
  shows "\<exists>s. parse_by buf v (length p) len = Out c s 0 \<and> by_result buf h port v (by_v s)"
proof -
  let ?e = "length p + len" and ?ch = "length p + length h"
  define s0 where "s0 = \<lparr>st = St BY_HOST, saved_st = St BY_HOST, by_beg = length p, by_v = v\<rparr>"
  have ce: "c \<le> ?e" using assms(5) by (auto simp: by_stop_def)
  have run: "parse_by buf v (length p) len = by_run buf ?e ?ch s0"
    unfolding parse_by_def s0_def [symmetric]
    using assms(1,2,4) ce by (intro by_run_host [where q = "print_via_port port @ q"]) (auto simp: s0_def)
  have host: "c2stlstr buf (cs_set (length p) (int (length h))) = h"
    using assms(1) by (simp add: c2stlstr_middle)
  show ?thesis
  proof (cases port)
    case None
    then have "?ch = c" "int c - int (length p) = int (length h)" using assms(4) by simp_all
    with run by_run_stop [OF assms(5), of s0] None host assms(6,7) show ?thesis
      by (simp add: by_end_def s0_def by_set_host_def by_result_def)
  next
    case (Some n)
    let ?p = "p @ h @ [CHR '':'']"
    let ?s1 = "by_set_host (int (length h)) (s0\<lparr>st := St BY_PORT_SWS\<rparr>)"
    define s2 where "s2 = ?s1\<lparr>st := St BY_PORT, by_beg := length ?p, by_v := (by_v ?s1)\<lparr>vp_port_i := 0\<rparr>\<rparr>"
    have n: "n \<le> 65535" using Some assms(3) by auto
    have buf: "buf = ?p @ print_dec n @ q" using assms(1) Some by simp
    have e: "length ?p + length (print_dec n) = c" using assms(4) Some by simp
    obtain d ds where d: "print_dec n = d # ds" by (cases "print_dec n") simp_all
    have dd: "d \<notin> {SP, HTAB, CR, LF}"
      using print_dec_digits [of n] d by (auto simp: IS_DIGIT_def IS_IN_def schar_def)
    have "by_run buf ?e ?ch s0 = by_run buf ?e (length ?p) ?s1"
      using assms(1,4) ce Some
      by (simp add: scan_next by_body_def by_host_def s0_def nth_append by_set_host_def)
    also have "\<dots> = by_run buf ?e (length ?p) s2"
    proof (rule scan_again_eq)
      have at: "buf ! length ?p = d" unfolding buf d by (simp add: nth_append)
      show "by_body buf (length ?p) ?s1 = Next 0 s2"
        unfolding s2_def by_body_def Let_def at using dd
        by (simp add: by_port_sws_def by_set_host_def)
      show "length ?p < ?e" using e ce d by simp
      have "IS_DIGIT d" using print_dec_digits [of n] d by simp
      with by_body_digit [of buf "length ?p" s2 0] dig_le [of d]
      show "by_body buf (length ?p) s2 =
          Next 1 (s2\<lparr>by_v := (by_v s2)\<lparr>vp_port_i := of_nat (10 * 0 + dig d)\<rparr>\<rparr>)"
        unfolding at by (simp add: s2_def)
    qed simp_all
    also have "\<dots> = by_run buf ?e c (s2\<lparr>by_v := (by_v s2)\<lparr>vp_port_i := of_nat n\<rparr>\<rparr>)"
      using by_run_port [OF buf, of ?e s2 0] e ce n by (simp add: s2_def by_set_host_def)
    finally have "parse_by buf v (length p) len =
        by_run buf ?e c (s2\<lparr>by_v := (by_v s2)\<lparr>vp_port_i := of_nat n\<rparr>\<rparr>)"
      using run by simp
    moreover have "c2stlstr buf (cs_set (length ?p) (int c - int (length ?p))) = print_dec n"
      unfolding buf using e by (intro c2stlstr_middle) auto
    ultimately show ?thesis
      using by_run_stop [OF assms(5), of "s2\<lparr>by_v := (by_v s2)\<lparr>vp_port_i := of_nat n\<rparr>\<rparr>"] host Some
      by (simp add: by_end_def s0_def s2_def by_set_host_def by_set_port_def by_result_def)
  qed
qed

text \<open>The parameters do not touch the sent-by fields, and the last of a name wins.\<close>

lemma via_set_param_text:
  "vp_trans (via_set_param buf a v) = vp_trans v" "vp_host (via_set_param buf a v) = vp_host v"
  "vp_port (via_set_param buf a v) = vp_port v" "vp_port_i (via_set_param buf a v) = vp_port_i v"
  "vp_params (via_set_param buf a v) = vp_params v"
  "c2stlstr buf (vp_branch (via_set_param buf a v)) =
     last_param VP_BRANCH [avp_text buf a] (c2stlstr buf (vp_branch v))"
  "c2stlstr buf (vp_recved (via_set_param buf a v)) =
     last_param VP_RECVD [avp_text buf a] (c2stlstr buf (vp_recved v))"
  by (simp_all add: via_set_param_def last_param_def avp_text_def Let_def
      split: vpn_st.split option.split)

lemma via_set_params_text:
  "vp_trans (fold (via_set_param buf) as v) = vp_trans v \<and>
   vp_host (fold (via_set_param buf) as v) = vp_host v \<and>
   vp_port (fold (via_set_param buf) as v) = vp_port v \<and>
   vp_port_i (fold (via_set_param buf) as v) = vp_port_i v \<and>
   vp_params (fold (via_set_param buf) as v) = vp_params v \<and>
   c2stlstr buf (vp_branch (fold (via_set_param buf) as v)) =
     last_param VP_BRANCH (map (avp_text buf) as) (c2stlstr buf (vp_branch v)) \<and>
   c2stlstr buf (vp_recved (fold (via_set_param buf) as v)) =
     last_param VP_RECVD (map (avp_text buf) as) (c2stlstr buf (vp_recved v))"
  by (induction as arbitrary: v) (simp_all add: via_set_param_text last_param_def)

definition via_says ::
  "string \<Rightarrow> trans_type \<Rightarrow> string \<Rightarrow> nat option \<Rightarrow> (string \<times> string option) list \<Rightarrow> via_parm \<Rightarrow> bool" where
  "via_says buf t h port ps v \<longleftrightarrow> tr_type (vp_trans v) = t \<and> c2stlstr buf (vp_host v) = h \<and>
     c2stlstr buf (vp_port v) = (case port of None \<Rightarrow> [] | Some n \<Rightarrow> print_dec n) \<and>
     vp_port_i v = (case port of None \<Rightarrow> 0 | Some n \<Rightarrow> of_nat n) \<and>
     map (avp_text buf) (vp_params v) = map param_text ps \<and>
     c2stlstr buf (vp_branch v) = last_param VP_BRANCH (map param_text ps) [] \<and>
     c2stlstr buf (vp_recved v) = last_param VP_RECVD (map param_text ps) []"

lemma v_sent_by_print:
  assumes buf: "buf = p @ h @ print_via_port port @ print_params ps @ q" and h: "via_host h"
    and port: "port = None \<or> (\<exists>n \<le> 65535. port = Some n)" and ps: "list_all (param_ok CHR '','') ps"
    and e: "e = length p + length (h @ print_via_port port @ print_params ps)"
    and s: "v_parm s = new_via_parm\<lparr>vp_trans := t\<rparr>"
  shows "\<exists>s' v. v_sent_by buf e (length p) s = Next (e - length p) s' \<and>
    v_parms s' = v_parms s @ [v] \<and> via_says buf (tr_type t) h port ps v"
proof -
  define c where "c = length p + length (h @ print_via_port port)"
  have stop: "by_stop buf (length p + (e - length p)) c"
  proof (cases ps)
    case Nil
    then show ?thesis using e by (simp add: by_stop_def c_def print_params_def)
  next
    case (Cons x xs)
    then show ?thesis
      unfolding by_stop_def c_def buf e by (auto simp: print_params_def nth_append)
  qed
  have "\<exists>b. parse_by buf (v_parm s) (length p) (e - length p) = Out c b 0 \<and>
      by_result buf h port (v_parm s) (by_v b)"
    by (rule parse_by_print [where q = "print_params ps @ q"])
      (use buf h port stop in \<open>simp_all add: c_def s new_via_parm_def\<close>)
  then obtain b where b: "parse_by buf (v_parm s) (length p) (e - length p) = Out c b 0"
    "by_result buf h port (v_parm s) (by_v b)" by blast
  have "\<exists>g as. parse_gen_params_sc buf [] c (length (print_params ps)) CHR '','' =
      Out (c + length (print_params ps)) g 0 \<and>
      gp_params g = [] @ as \<and> map (avp_text buf) as = map param_text ps"
    using gp_run_print_params [of buf "p @ h @ print_via_port port" ps q "CHR '',''" "[]"] buf ps
    by (simp add: c_def)
  moreover have len: "length (print_params ps) = e - c" "c + (e - c) = e" "length p \<le> e"
    using e by (simp_all add: c_def)
  ultimately obtain g as where g: "parse_gen_params_sc buf [] c (e - c) CHR '','' = Out e g 0"
    "gp_params g = as" "map (avp_text buf) as = map param_text ps" by auto
  have par: "vp_params (by_v b) = []" using b(2) s by (simp add: by_result_def)
  define w where "w = fold (via_set_param buf) as ((by_v b)\<lparr>vp_params := as\<rparr>)"
  have "parse_via_params buf (by_v b) c (e - c) = Out e w 0"
    using g par by (simp add: parse_via_params_def w_def)
  moreover have "via_says buf (tr_type t) h port ps (w\<lparr>vp_eop := e\<rparr>)"
    using b(2) g(3) via_set_params_text [of buf as "(by_v b)\<lparr>vp_params := as\<rparr>"] s
    by (simp add: via_says_def w_def by_result_def new_via_parm_def)
  ultimately show ?thesis
    using b(1) by (simp add: v_sent_by_def)
qed


lemma via_print_parse:
  assumes "buf = p @ print_via t h port ps @ q" and "t \<notin> {TT_UNPARSED, TT_OTHER}" and "via_host h"
    and "port = None \<or> (\<exists>n \<le> 65535. port = Some n)" and "list_all (param_ok CHR '','') ps"
  shows "\<exists>c s v. parse_via buf [] (length p) (length (print_via t h port ps)) = Out c s 0 \<and>
    v_parms s = [v] \<and> via_says buf t h port ps v"
proof -
  define e where "e = length p + length (print_via t h port ps)"
  define s0 where
    "s0 = \<lparr>st = St V_TRANS, saved_st = St V_TRANS, v_parm = new_via_parm, v_parms = []\<rparr>"
  let ?run = "scan (\<lambda>_. True) (v_body buf e) (\<lambda>c s. Out c s 0) e"
  let ?p = "p @ ''SIP/2.0/'' @ trans_name t @ [SP]"
  have b1: "buf = p @ ''SIP/2.0/'' @ trans_name t @ SP # h @ print_via_port port @ print_params ps @ q"
    and b2: "buf = ?p @ h @ print_via_port port @ print_params ps @ q"
    using assms(1) by (simp_all add: print_via_def)
  have len: "length p < e" "length (trans_name t) + 9 \<le> e - length p"
    and e2: "e = length ?p + length (h @ print_via_port port @ print_params ps)"
    by (simp_all add: e_def print_via_def)
  obtain t' where t': "parse_transport buf (vp_trans (v_parm s0)) (length p) (e - length p) =
      Out (length p + 8 + length (trans_name t)) t' 0" "tr_type t' = t"
    using parse_transport_print [OF b1 assms(2) len(2)] by blast
  define s1 where "s1 = s0\<lparr>v_parm := new_via_parm\<lparr>vp_trans := t'\<rparr>, st := St V_URI\<rparr>"
  have "v_body buf e (length p) s0 = Next (9 + length (trans_name t)) s1"
    using t' by (simp add: v_body_def v_trans_def s1_def s0_def)
  then have r1: "?run (length p) s0 = ?run (length ?p) s1"
    using len
    by (subst scan_next [where k = "9 + length (trans_name t)" and st' = s1])
      (simp_all add: eval_nat_numeral)
  obtain s2 v where s2: "v_sent_by buf e (length ?p) s1 = Next (e - length ?p) s2"
    "v_parms s2 = v_parms s1 @ [v]" "via_says buf t h port ps v"
    using v_sent_by_print [OF b2 assms(3-5) e2, of s1 t'] t'(2) by (auto simp: s1_def)
  obtain x h' where x: "h = x # h'" "x \<notin> {CR, LF, SP, HTAB}"
    using assms(3) by (cases h) (auto simp: via_host_def)
  then have lt: "length ?p < e" using e2 by simp
  moreover have "buf ! length ?p = x" unfolding b2 x(1) by (simp only: append_Cons nth_append_length)
  ultimately have "v_body buf e (length ?p) s1 = Next (e - length ?p) s2"
    using s2(1) x(2) by (simp add: v_body_def v_uri_def s1_def)
  then have "?run (length ?p) s1 = Out e s2 0"
    by (rule scan_to_end [OF lt TrueI])
  with r1 s2 show ?thesis
    by (simp add: parse_via_def e_def [symmetric] s0_def [symmetric] s1_def) (simp add: s0_def)
qed

text \<open>
  C15: reading back a Via header. A printed transport (UDP, TCP, TLS or SCTP), host, optional
  port up to 65535 and parameter list are parsed with code 0 into one Via value with exactly
  these parts; branch and received are the values of the last parameters whose names begin with
  \<^verbatim>\<open>branch\<close> and \<^verbatim>\<open>received\<close> in any case. A parameter named \<^verbatim>\<open>branch\<close> is therefore found, and so is
  one named \<^verbatim>\<open>branched\<close>, because the name scanner has no transition out of its last states.
\<close>

theorem parse_print_via:
  assumes "buf = p @ print_via t h port ps @ q" and "t \<notin> {TT_UNPARSED, TT_OTHER}" and "via_host h"
    and "port = None \<or> (\<exists>n \<le> 65535. port = Some n)" and "list_all (param_ok CHR '','') ps"
  shows "\<exists>c s v. parse_via buf [] (length p) (length (print_via t h port ps)) = Out c s 0 \<and>
    v_parms s = [v] \<and> via_says buf t h port ps v"
  using assms by (rule via_print_parse)

theorem parse_print_via_witness:
  "\<exists>c s v. parse_via ''SIP/2.0/TCP a.b:5061;branch=z9hG4bK7;rport'' [] 0
      (length ''SIP/2.0/TCP a.b:5061;branch=z9hG4bK7;rport'') = Out c s 0 \<and>
    v_parms s = [v] \<and>
    via_says ''SIP/2.0/TCP a.b:5061;branch=z9hG4bK7;rport'' TT_TCP ''a.b'' (Some 5061)
      [(''branch'', Some ''z9hG4bK7''), (''rport'', None)] v"
proof -
  have dec: "print_dec 5061 = ''5061''"
    by (simp add: print_dec.simps digit_char_def char_of_def)
  show ?thesis
    using parse_print_via [of "''SIP/2.0/TCP a.b:5061;branch=z9hG4bK7;rport''" "[]" TT_TCP "''a.b''"
        "Some 5061" "[(''branch'', Some ''z9hG4bK7''), (''rport'', None)]" "[]"]
    by (simp add: print_via_def print_params_def dec via_host_def param_name_def param_value_def)
qed

end
