(* ===== verification/Parse_Nameaddr.thy ===== *)
theory Parse_Nameaddr
  imports Parse_Uri
begin

text \<open>
  \<^verbatim>\<open>core/sip/parse_nameaddr.cpp\<close> and \<^verbatim>\<open>core/sip/parse_from_to.cpp\<close>: name-addr values
  (\<^verbatim>\<open>"Bob" <sip:bob@b.com>;tag=1\<close>), lists of them, and the From and To headers with their tag.
  The parser hands the parameters to the generic parameter parser; safety and the round trip are
  built on the lemmas about that one.
\<close>

section \<open>Data\<close>

record sip_nameaddr =
  na_name :: cstring
  na_addr :: cstring
  na_uri :: sip_uri
  na_params :: "sip_avp list"

definition new_nameaddr :: sip_nameaddr where
  "new_nameaddr = \<lparr>na_name = cs_null, na_addr = cs_null, na_uri = new_uri, na_params = []\<rparr>"

datatype na_st =
  NA_SWS | NA_MAYBE_URI | NA_MAYBE_URI_END | NA_DISP | NA_DISP_QUOTED | NA_DISP_LAQUOT | NA_URI

record na_fsm = "na_st fsm" +
  na_beg :: nat
  na_uri_end :: nat
  na_na :: sip_nameaddr

section \<open>parse_nameaddr\<close>

definition na_set_name :: "int \<Rightarrow> na_fsm \<Rightarrow> na_fsm" where
  "na_set_name len s = s\<lparr>na_na := (na_na s)\<lparr>na_name := cs_set (na_beg s) len\<rparr>\<rparr>"

definition na_set_addr :: "int \<Rightarrow> na_fsm \<Rightarrow> na_fsm" where
  "na_set_addr len s = s\<lparr>na_na := (na_na s)\<lparr>na_addr := cs_set (na_beg s) len\<rparr>\<rparr>"

text \<open>
  \<^verbatim>\<open>return parse_gen_params_sc(&na->params, c, end-*c, 0)\<close>. If that call did not return, neither
  would this function: \<open>Next 0\<close> twice is \<open>Diverge\<close>.
\<close>

definition na_gen_params :: "string \<Rightarrow> nat \<Rightarrow> nat \<Rightarrow> na_fsm \<Rightarrow> na_fsm act" where
  "na_gen_params buf e c s =
     (case parse_gen_params_sc buf (na_params (na_na s)) c (e - c) NUL of
        Out c' gp r \<Rightarrow> Ret c' (s\<lparr>na_na := (na_na s)\<lparr>na_params := gp_params gp\<rparr>\<rparr>) r
      | _ \<Rightarrow> Next 0 s)"

definition na_sws :: "nat \<Rightarrow> char \<Rightarrow> na_fsm \<Rightarrow> na_fsm act" where
  "na_sws c ch s =
     (if ch = DQUOTE then Next 1 (s\<lparr>st := St NA_DISP_QUOTED, na_beg := c\<rparr>)
      else if ch = CHR ''<'' then Next 1 (s\<lparr>st := St NA_URI, na_beg := c + 1\<rparr>)
      else if ch = CR \<or> ch = LF \<or> ch = SP \<or> ch = HTAB then Next 1 s
      else Next 1 (s\<lparr>st := St NA_MAYBE_URI, na_beg := c\<rparr>))"

definition na_maybe_uri :: "string \<Rightarrow> nat \<Rightarrow> nat \<Rightarrow> char \<Rightarrow> na_fsm \<Rightarrow> na_fsm act" where
  "na_maybe_uri buf e c ch s =
     (if ch = CR then Next 1 (enter_CR s)
      else if ch = LF then Next 1 (enter_LF s)
      else if ch = SP \<or> ch = HTAB then Next 1 (s\<lparr>st := St NA_MAYBE_URI_END, na_uri_end := c\<rparr>)
      else if ch = CHR ''<'' then
        Next 1 ((na_set_name (int c - int (na_beg s)) (s\<lparr>st := St NA_URI\<rparr>))\<lparr>na_beg := c + 1\<rparr>)
      else if ch = CHR '';'' then
        na_gen_params buf e c (na_set_addr (int c - int (na_beg s)) s)
      else Next 1 s)"

definition na_maybe_uri_end :: "string \<Rightarrow> nat \<Rightarrow> nat \<Rightarrow> char \<Rightarrow> na_fsm \<Rightarrow> na_fsm act" where
  "na_maybe_uri_end buf e c ch s =
     (if ch = CR then Next 1 (enter_CR s)
      else if ch = LF then Next 1 (enter_LF s)
      else if ch = CHR '';'' then
        na_gen_params buf e c (na_set_addr (int (na_uri_end s) - int (na_beg s)) s)
      else if ch = CHR ''<'' then
        Next 1 ((na_set_name (int (na_uri_end s) - int (na_beg s)) (s\<lparr>st := St NA_URI\<rparr>))
                  \<lparr>na_beg := c + 1\<rparr>)
      else if ch = SP \<or> ch = HTAB then Next 1 s
      else Next 1 (s\<lparr>st := St NA_DISP\<rparr>))"

definition na_disp :: "nat \<Rightarrow> char \<Rightarrow> na_fsm \<Rightarrow> na_fsm act" where
  "na_disp c ch s =
     (if ch = DQUOTE then Next 1 (s\<lparr>st := St NA_DISP_QUOTED, na_beg := c\<rparr>)
      else if ch = CHR ''<'' then
        Next 1 ((na_set_name (int c - int (na_beg s)) (s\<lparr>st := St NA_URI\<rparr>))\<lparr>na_beg := c + 1\<rparr>)
      else Next 1 s)"

definition na_disp_quoted :: "nat \<Rightarrow> nat \<Rightarrow> char \<Rightarrow> na_fsm \<Rightarrow> na_fsm act" where
  "na_disp_quoted e c ch s =
     (if ch = DQUOTE then
        Next 1 (na_set_name (int c - int (na_beg s) + 1) (s\<lparr>st := St NA_DISP_LAQUOT\<rparr>))
      else if ch = BACKSLASH then
        (if c + 1 = e then Ret (c + 1) s MALFORMED_SIP_MSG else Next 2 s)
      else Next 1 s)"

definition na_disp_laquot :: "nat \<Rightarrow> char \<Rightarrow> na_fsm \<Rightarrow> na_fsm act" where
  "na_disp_laquot c ch s =
     (if ch = CR then Next 1 (enter_CR s)
      else if ch = LF then Next 1 (enter_LF s)
      else if ch = CHR ''<'' then Next 1 (s\<lparr>st := St NA_URI, na_beg := c + 1\<rparr>)
      else if ch = SP \<or> ch = HTAB then Next 1 s
      else Ret c s MALFORMED_SIP_MSG)"

definition na_uri_case :: "string \<Rightarrow> nat \<Rightarrow> nat \<Rightarrow> char \<Rightarrow> na_fsm \<Rightarrow> na_fsm act" where
  "na_uri_case buf e c ch s =
     (if ch = CHR ''>'' then
        na_gen_params buf e (c + 1) (na_set_addr (int c - int (na_beg s)) s)
      else Next 1 s)"

definition na_eol :: "nat \<Rightarrow> na_fsm \<Rightarrow> na_fsm act" where
  "na_eol c s =
     (let s' = (if saved_st s = St NA_MAYBE_URI
                then s\<lparr>saved_st := St NA_MAYBE_URI_END, na_uri_end := nat (int c - eol_len s)\<rparr>
                else s)
      in Next 1 (s'\<lparr>st := saved_st s'\<rparr>))"

definition na_body :: "string \<Rightarrow> nat \<Rightarrow> nat \<Rightarrow> na_fsm \<Rightarrow> na_fsm act" where
  "na_body buf e c s =
     (let ch = buf ! c in
      case st s of
        St NA_SWS \<Rightarrow> na_sws c ch s
      | St NA_MAYBE_URI \<Rightarrow> na_maybe_uri buf e c ch s
      | St NA_MAYBE_URI_END \<Rightarrow> na_maybe_uri_end buf e c ch s
      | St NA_DISP \<Rightarrow> na_disp c ch s
      | St NA_DISP_QUOTED \<Rightarrow> na_disp_quoted e c ch s
      | St NA_DISP_LAQUOT \<Rightarrow> na_disp_laquot c ch s
      | St NA_URI \<Rightarrow> na_uri_case buf e c ch s
      | ST_CR \<Rightarrow> case_ST_CR c ch s
      | ST_LF \<Rightarrow> na_eol c s
      | ST_CRLF \<Rightarrow> na_eol c s)"

definition na_fin :: "string \<Rightarrow> nat \<Rightarrow> nat \<Rightarrow> na_fsm \<Rightarrow> na_fsm out" where
  "na_fin buf e c s =
     (let done = (\<lambda>s. case na_gen_params buf e c (na_set_addr (int (na_uri_end s) - int (na_beg s)) s) of
                   Ret c' s' r \<Rightarrow> Out c' s' r
                 | Next _ _ \<Rightarrow> Diverge)
      in if c \<noteq> e then Overrun
         else if st s = St NA_MAYBE_URI then done (s\<lparr>na_uri_end := c\<rparr>)
         else if st s = St NA_MAYBE_URI_END then done s
         else Out c s MALFORMED_SIP_MSG)"

definition na_init :: "sip_nameaddr \<Rightarrow> nat \<Rightarrow> na_fsm" where
  "na_init na c = \<lparr>st = St NA_SWS, saved_st = St NA_SWS, na_beg = c, na_uri_end = 0, na_na = na\<rparr>"

definition parse_nameaddr :: "string \<Rightarrow> sip_nameaddr \<Rightarrow> nat \<Rightarrow> nat \<Rightarrow> sip_nameaddr out" where
  "parse_nameaddr buf na c len =
     map_out na_na
       (scan (\<lambda>_. True) (na_body buf (c + len)) (na_fin buf (c + len)) (c + len) c (na_init na c))"

definition parse_nameaddr_uri :: "string \<Rightarrow> sip_nameaddr \<Rightarrow> nat \<Rightarrow> nat \<Rightarrow> sip_nameaddr out" where
  "parse_nameaddr_uri buf na c len =
     (case parse_nameaddr buf na c len of
        Out c' na' r \<Rightarrow>
          if r < 0 then Out c' na' (-1)
          else
            (case parse_uri buf (na_uri na') (cs_s (na_addr na')) (nat (cs_len (na_addr na'))) of
               Out _ u r' \<Rightarrow> Out c' (na'\<lparr>na_uri := u\<rparr>) (if r' < 0 then -1 else 0)
             | Overrun \<Rightarrow> Overrun
             | Diverge \<Rightarrow> Diverge)
      | Overrun \<Rightarrow> Overrun
      | Diverge \<Rightarrow> Diverge)"

section \<open>Lists of name-addrs\<close>

datatype rr_st = RR_BEGIN | RR_QUOTED | RR_SWS | RR_SEP_SWS | RR_NXT_NA

record rr_fsm =
  rr_state :: rr_st
  rr_na_end :: "nat option"

definition is_lws :: "char \<Rightarrow> bool" where
  "is_lws ch \<longleftrightarrow> ch = SP \<or> ch = HTAB \<or> ch = CR \<or> ch = LF"

text \<open>The \<^verbatim>\<open>switch\<close> behind the labels \<^verbatim>\<open>nxt_nameaddr\<close> and \<^verbatim>\<open>error\<close>; a null \<^verbatim>\<open>na_end\<close> is \<open>None\<close>.\<close>

definition rr_fin :: "nat \<Rightarrow> rr_fsm \<Rightarrow> rr_fsm out" where
  "rr_fin c s =
     (case rr_state s of
        RR_QUOTED \<Rightarrow> Out c s (-1)
      | RR_SEP_SWS \<Rightarrow> Out c (s\<lparr>rr_na_end := Some c\<rparr>) 0
      | RR_BEGIN \<Rightarrow> Out c (s\<lparr>rr_na_end := Some c\<rparr>) 0
      | RR_NXT_NA \<Rightarrow> Out c s 1
      | RR_SWS \<Rightarrow> Out c s 0)"

definition rr_body :: "string \<Rightarrow> nat \<Rightarrow> nat \<Rightarrow> rr_fsm \<Rightarrow> rr_fsm act" where
  "rr_body buf e c s =
     (let ch = buf ! c in
      case rr_state s of
        RR_BEGIN \<Rightarrow>
          if is_lws ch then Next 1 \<lparr>rr_state = RR_SWS, rr_na_end = Some c\<rparr>
          else if ch = CHR '','' then Next 1 \<lparr>rr_state = RR_SEP_SWS, rr_na_end = Some c\<rparr>
          else if ch = DQUOTE then Next 1 (s\<lparr>rr_state := RR_QUOTED\<rparr>)
          else Next 1 s
      | RR_QUOTED \<Rightarrow>
          if ch = BACKSLASH then (if c + 1 = e then Ret (c + 1) s (-1) else Next 2 s)
          else if ch = DQUOTE then Next 1 (s\<lparr>rr_state := RR_BEGIN\<rparr>)
          else Next 1 s
      | RR_SWS \<Rightarrow>
          if is_lws ch then Next 1 s
          else if ch = CHR '','' then Next 1 (s\<lparr>rr_state := RR_SEP_SWS\<rparr>)
          else Next 1 \<lparr>rr_state = RR_BEGIN, rr_na_end = None\<rparr>
      | RR_SEP_SWS \<Rightarrow>
          if is_lws ch then Next 1 s
          else Ret c (s\<lparr>rr_state := RR_NXT_NA\<rparr>) 1
      | RR_NXT_NA \<Rightarrow> Next 1 s)"

definition skip_2_next_nameaddr :: "string \<Rightarrow> nat \<Rightarrow> nat \<Rightarrow> rr_fsm out" where
  "skip_2_next_nameaddr buf c e =
     scan (\<lambda>_. True) (rr_body buf e) rr_fin e c \<lparr>rr_state = RR_BEGIN, rr_na_end = None\<rparr>"

text \<open>
  \<^verbatim>\<open>parse_nameaddr_list\<close>: the loop ends because \<^verbatim>\<open>skip_2_next_nameaddr\<close> moves the cursor whenever
  it returns 1; a call that would not return is \<open>None\<close>.
\<close>

function parse_nameaddr_list ::
  "string \<Rightarrow> cstring list \<Rightarrow> nat \<Rightarrow> nat \<Rightarrow> (cstring list \<times> int) option" where
  "parse_nameaddr_list buf nas c e =
     (if c < e then
        (case skip_2_next_nameaddr buf c e of
           Out c' s err \<Rightarrow>
             if err < 0 then Some (nas, -1)
             else
               let nas' = (case rr_na_end s of
                             None \<Rightarrow> nas
                           | Some na_end \<Rightarrow> nas @ [cs_set c (int na_end - int c)])
               in if err = 0 then Some (nas', 0)
                  else if c < c' then parse_nameaddr_list buf nas' c' e
                  else None
         | _ \<Rightarrow> None)
      else Some (nas, 0))"
  by pat_completeness auto
termination by (relation "measure (\<lambda>(buf, nas, c, e). e - c)") auto

declare parse_nameaddr_list.simps [simp del]

definition parse_first_nameaddr :: "string \<Rightarrow> sip_nameaddr \<Rightarrow> nat \<Rightarrow> nat \<Rightarrow> sip_nameaddr out" where
  "parse_first_nameaddr buf na c len =
     (case skip_2_next_nameaddr buf c (c + len) of
        Out c' s err \<Rightarrow>
          if err < 0 then Out c na (-1)
          else parse_nameaddr buf na c (the (rr_na_end s) - c)
      | Overrun \<Rightarrow> Overrun
      | Diverge \<Rightarrow> Diverge)"

section \<open>From and To\<close>

record sip_from_to =
  ft_nameaddr :: sip_nameaddr
  ft_tag :: cstring

definition new_from_to :: sip_from_to where
  "new_from_to = \<lparr>ft_nameaddr = new_nameaddr, ft_tag = cs_null\<rparr>"

datatype ft_st = FTP_BEG | FTP_TAG1 | FTP_TAG2 | FTP_TAG3 | FTP_OTHER

text \<open>
  The loop over the characters of a parameter name; \<open>None\<close> is the \<^verbatim>\<open>goto next_param\<close>. The \<^verbatim>\<open>switch\<close>
  has no case for \<^verbatim>\<open>FTP_TAG3\<close>, so that state is kept over all further characters.
\<close>

fun ft_scan :: "ft_st \<Rightarrow> string \<Rightarrow> ft_st option" where
  "ft_scan s [] = Some s"
| "ft_scan s (x # xs) =
     (case s of
        FTP_BEG \<Rightarrow> ft_scan (if x = CHR ''t'' \<or> x = CHR ''T'' then FTP_TAG1 else FTP_OTHER) xs
      | FTP_TAG1 \<Rightarrow> ft_scan (if x = CHR ''a'' \<or> x = CHR ''A'' then FTP_TAG2 else FTP_OTHER) xs
      | FTP_TAG2 \<Rightarrow> ft_scan (if x = CHR ''g'' \<or> x = CHR ''G'' then FTP_TAG3 else FTP_OTHER) xs
      | FTP_TAG3 \<Rightarrow> ft_scan FTP_TAG3 xs
      | FTP_OTHER \<Rightarrow> None)"

fun ft_find_tag :: "string \<Rightarrow> sip_avp list \<Rightarrow> cstring \<Rightarrow> cstring" where
  "ft_find_tag buf [] tag = tag"
| "ft_find_tag buf (a # as) tag =
     ft_find_tag buf as
       (if ft_scan FTP_BEG (c2stlstr buf (avp_name a)) = Some FTP_TAG3 then avp_value a else tag)"

definition parse_from_to :: "string \<Rightarrow> sip_from_to \<Rightarrow> nat \<Rightarrow> nat \<Rightarrow> sip_from_to out" where
  "parse_from_to buf ft beg len =
     (case parse_nameaddr buf (ft_nameaddr ft) beg len of
        Out c na r \<Rightarrow>
          if r \<noteq> 0 then Out c (ft\<lparr>ft_nameaddr := na\<rparr>) r
          else Out c (ft\<lparr>ft_nameaddr := na, ft_tag := ft_find_tag buf (na_params na) (ft_tag ft)\<rparr>) r
      | Overrun \<Rightarrow> Overrun
      | Diverge \<Rightarrow> Diverge)"

section \<open>Safety and termination\<close>

definition na_ok :: "nat \<Rightarrow> nat \<Rightarrow> sip_nameaddr \<Rightarrow> bool" where
  "na_ok lo hi na \<longleftrightarrow> cs_ok lo hi (na_name na) \<and> cs_ok lo hi (na_addr na) \<and>
     list_all (avp_ok lo hi) (na_params na)"

definition na_inv :: "nat \<Rightarrow> nat \<Rightarrow> nat \<Rightarrow> na_fsm \<Rightarrow> bool" where
  "na_inv lo e c s \<longleftrightarrow> lo \<le> na_beg s \<and> na_beg s + eol_depth (st s) \<le> c \<and> c \<le> e \<and> na_ok lo e (na_na s) \<and>
     (st s = St NA_MAYBE_URI_END \<or> eol_depth (st s) > 0 \<and> saved_st s = St NA_MAYBE_URI_END \<longrightarrow>
        na_beg s \<le> na_uri_end s \<and> na_uri_end s \<le> c)"

definition na_post :: "nat \<Rightarrow> nat \<Rightarrow> nat \<Rightarrow> na_fsm \<Rightarrow> int \<Rightarrow> bool" where
  "na_post lo e c s r \<longleftrightarrow> lo \<le> c \<and> c \<le> e \<and> (r = 0 \<or> r = MALFORMED_SIP_MSG) \<and> na_ok lo e (na_na s)"

lemmas na_unfold =
  na_inv_def na_post_def na_ok_def enter_CR_def enter_LF_def na_set_name_def na_set_addr_def
  cs_ok_def cs_set_def

lemma na_gen_params_ok:
  assumes "na_ok lo e (na_na s)" and "lo \<le> c" and "c \<le> e"
  shows "\<exists>c' s' r. na_gen_params buf e c s = Ret c' s' r \<and> na_post lo e c' s' r"
proof -
  have "list_all (avp_ok lo (c + (e - c))) (na_params (na_na s))"
    using assms by (simp add: na_ok_def)
  from gen_params_total [OF this assms(2), of buf NUL True] assms show ?thesis
    by (auto simp: na_gen_params_def parse_gen_params_sc_def na_post_def na_ok_def)
qed

lemma na_gen_params_act:
  assumes "na_ok lo e (na_na s)" and "lo \<le> c" and "c \<le> e"
  shows "act_ok (na_inv lo e) (na_post lo e) c0 (na_gen_params buf e c s)"
  using na_gen_params_ok [OF assms, of buf] by auto

lemma na_sws_ok:
  "na_inv lo e c s \<Longrightarrow> c < e \<Longrightarrow> st s = St NA_SWS \<Longrightarrow>
     act_ok (na_inv lo e) (na_post lo e) c (na_sws c ch s)"
  by (simp add: na_sws_def na_unfold)

lemma na_maybe_uri_ok:
  assumes "na_inv lo e c s" and "c < e" and "st s = St NA_MAYBE_URI"
  shows "act_ok (na_inv lo e) (na_post lo e) c (na_maybe_uri buf e c ch s)"
proof -
  have "act_ok (na_inv lo e) (na_post lo e) c
      (na_gen_params buf e c (na_set_addr (int c - int (na_beg s)) s))"
    using assms by (intro na_gen_params_act) (auto simp: na_unfold)
  with assms show ?thesis by (simp add: na_maybe_uri_def na_unfold)
qed

lemma na_maybe_uri_end_ok:
  assumes "na_inv lo e c s" and "c < e" and "st s = St NA_MAYBE_URI_END"
  shows "act_ok (na_inv lo e) (na_post lo e) c (na_maybe_uri_end buf e c ch s)"
proof -
  have "act_ok (na_inv lo e) (na_post lo e) c
      (na_gen_params buf e c (na_set_addr (int (na_uri_end s) - int (na_beg s)) s))"
    using assms by (intro na_gen_params_act) (auto simp: na_unfold)
  with assms show ?thesis by (simp add: na_maybe_uri_end_def na_unfold)
qed

lemma na_disp_ok:
  "na_inv lo e c s \<Longrightarrow> c < e \<Longrightarrow> st s = St NA_DISP \<Longrightarrow>
     act_ok (na_inv lo e) (na_post lo e) c (na_disp c ch s)"
  by (simp add: na_disp_def na_unfold)

lemma na_disp_quoted_ok:
  "na_inv lo e c s \<Longrightarrow> c < e \<Longrightarrow> st s = St NA_DISP_QUOTED \<Longrightarrow>
     act_ok (na_inv lo e) (na_post lo e) c (na_disp_quoted e c ch s)"
  by (simp add: na_disp_quoted_def na_unfold)

lemma na_disp_laquot_ok:
  "na_inv lo e c s \<Longrightarrow> c < e \<Longrightarrow> st s = St NA_DISP_LAQUOT \<Longrightarrow>
     act_ok (na_inv lo e) (na_post lo e) c (na_disp_laquot c ch s)"
  by (simp add: na_disp_laquot_def na_unfold)

lemma na_uri_case_ok:
  assumes "na_inv lo e c s" and "c < e" and "st s = St NA_URI"
  shows "act_ok (na_inv lo e) (na_post lo e) c (na_uri_case buf e c ch s)"
proof -
  have "act_ok (na_inv lo e) (na_post lo e) c
      (na_gen_params buf e (c + 1) (na_set_addr (int c - int (na_beg s)) s))"
    using assms by (intro na_gen_params_act) (auto simp: na_unfold)
  with assms show ?thesis by (simp add: na_uri_case_def na_unfold)
qed

lemma na_st_cr_ok:
  "na_inv lo e c s \<Longrightarrow> c < e \<Longrightarrow> st s = ST_CR \<Longrightarrow>
     act_ok (na_inv lo e) (na_post lo e) c (case_ST_CR c ch s)"
  by (simp add: case_ST_CR_def na_unfold le_SucI)

lemma na_eol_ok:
  "na_inv lo e c s \<Longrightarrow> c < e \<Longrightarrow> st s = ST_LF \<or> st s = ST_CRLF \<Longrightarrow>
     act_ok (na_inv lo e) (na_post lo e) c (na_eol c s)"
  using eol_depth_le [of "saved_st s"]
  by (auto simp: na_eol_def na_unfold eol_len_def Let_def)

lemma na_body_ok:
  assumes "na_inv lo e c s" and "c < e"
  shows "act_ok (na_inv lo e) (na_post lo e) c (na_body buf e c s)"
  using assms
  by (cases "st s" rule: fsm_st.exhaust)
    (simp_all add: na_body_def Let_def na_sws_ok na_maybe_uri_ok na_maybe_uri_end_ok na_disp_ok
      na_disp_quoted_ok na_disp_laquot_ok na_uri_case_ok na_st_cr_ok na_eol_ok split: na_st.split)

lemma na_fin_ok:
  assumes "na_inv lo e c s" and "\<not> c < e"
  shows "\<exists>c' s' r. na_fin buf e c s = Out c' s' r \<and> na_post lo e c' s' r"
proof -
  have gen: "\<exists>c' s' r. na_gen_params buf e c s1 = Ret c' s' r \<and> na_post lo e c' s' r"
    if "na_ok lo e (na_na s1)" for s1
    using assms that by (intro na_gen_params_ok) (auto simp: na_inv_def)
  let ?f = "\<lambda>s. na_set_addr (int (na_uri_end s) - int (na_beg s)) s"
  consider "st s = St NA_MAYBE_URI" | "st s = St NA_MAYBE_URI_END"
    | "st s \<noteq> St NA_MAYBE_URI" "st s \<noteq> St NA_MAYBE_URI_END" by blast
  then show ?thesis
  proof cases
    case 1
    then have "na_ok lo e (na_na (?f (s\<lparr>na_uri_end := c\<rparr>)))" using assms by (simp add: na_unfold)
    from gen [OF this] 1 assms show ?thesis by (auto simp: na_fin_def na_inv_def)
  next
    case 2
    then have "na_ok lo e (na_na (?f s))" using assms by (auto simp: na_unfold)
    from gen [OF this] 2 assms show ?thesis by (auto simp: na_fin_def na_inv_def)
  next
    case 3
    with assms show ?thesis by (auto simp: na_fin_def na_unfold)
  qed
qed

interpretation na_loop: parser_loop
  "\<lambda>_. True" "na_body buf e" "na_fin buf e" e "na_inv lo e" "na_post lo e"
  for buf e lo
  by unfold_locales (use na_body_ok na_fin_ok in auto)

lemma na_inv_init: "na_inv c (c + len) c (na_init new_nameaddr c)"
  by (simp add: na_inv_def na_init_def na_ok_def new_nameaddr_def)

lemma parse_nameaddr_safe:
  "\<exists>c' na r. parse_nameaddr buf new_nameaddr c len = Out c' na r \<and> c \<le> c' \<and> c' \<le> c + len \<and>
     (r = 0 \<or> r = MALFORMED_SIP_MSG) \<and> na_ok c (c + len) na"
  using na_loop.scan_total [OF na_inv_init, of buf c len]
  by (auto simp: parse_nameaddr_def na_post_def)

text \<open>The tag is null or the value of one of the parameters.\<close>

lemma ft_find_tag_ok:
  "list_all (avp_ok lo hi) as \<Longrightarrow> cs_ok lo hi tag \<Longrightarrow> cs_ok lo hi (ft_find_tag buf as tag)"
  by (induction as arbitrary: tag) (auto simp: avp_ok_def)

text \<open>The splitter of lists.\<close>

definition rr_inv :: "nat \<Rightarrow> nat \<Rightarrow> nat \<Rightarrow> rr_fsm \<Rightarrow> bool" where
  "rr_inv lo e c s \<longleftrightarrow> lo \<le> c \<and> c \<le> e \<and> rr_state s \<noteq> RR_NXT_NA \<and>
     (\<forall>n. rr_na_end s = Some n \<longrightarrow> lo \<le> n \<and> n \<le> e) \<and>
     (rr_state s = RR_SEP_SWS \<longrightarrow> rr_na_end s \<noteq> None \<and> lo < c) \<and>
     (rr_state s = RR_SWS \<longrightarrow> rr_na_end s \<noteq> None)"

definition rr_post :: "nat \<Rightarrow> nat \<Rightarrow> nat \<Rightarrow> rr_fsm \<Rightarrow> int \<Rightarrow> bool" where
  "rr_post lo e c s r \<longleftrightarrow> lo \<le> c \<and> c \<le> e \<and> (r = -1 \<or> r = 0 \<or> r = 1 \<and> lo < c) \<and>
     (r \<noteq> -1 \<longrightarrow> (\<exists>n. rr_na_end s = Some n \<and> lo \<le> n \<and> n \<le> e))"

lemma rr_body_ok:
  "rr_inv lo e c s \<Longrightarrow> c < e \<Longrightarrow> act_ok (rr_inv lo e) (rr_post lo e) c (rr_body buf e c s)"
  by (cases "rr_state s") (auto simp: rr_body_def rr_inv_def rr_post_def Let_def)

lemma rr_fin_ok:
  "rr_inv lo e c s \<Longrightarrow> \<exists>c' s' r. rr_fin c s = Out c' s' r \<and> rr_post lo e c' s' r"
  by (cases "rr_state s") (auto simp: rr_fin_def rr_inv_def rr_post_def)

interpretation rr_loop: parser_loop
  "\<lambda>_. True" "rr_body buf e" rr_fin e "rr_inv lo e" "rr_post lo e"
  for buf e lo
  by unfold_locales (use rr_body_ok rr_fin_ok in auto)

lemma skip_2_next_total:
  assumes "c \<le> e"
  shows "\<exists>c' s r. skip_2_next_nameaddr buf c e = Out c' s r \<and> rr_post c e c' s r"
  unfolding skip_2_next_nameaddr_def
  using assms by (intro rr_loop.scan_total) (simp add: rr_inv_def)

lemma nameaddr_list_total:
  "c \<le> e \<Longrightarrow> lo \<le> c \<Longrightarrow> list_all (cs_ok lo e) nas \<Longrightarrow>
     \<exists>nas' r. parse_nameaddr_list buf nas c e = Some (nas', r) \<and> (r = 0 \<or> r = -1) \<and>
       list_all (cs_ok lo e) nas'"
proof (induction buf nas c e rule: parse_nameaddr_list.induct)
  case (1 buf nas c e)
  show ?case
  proof (cases "c < e")
    case True
    from skip_2_next_total [OF 1(2), of buf] obtain c' s r where
      sk: "skip_2_next_nameaddr buf c e = Out c' s r" and post: "rr_post c e c' s r" by blast
    show ?thesis
    proof (cases "r = -1")
      case False
      with post obtain n where n: "rr_na_end s = Some n" "c \<le> n" "n \<le> e"
        by (auto simp: rr_post_def)
      let ?nas = "nas @ [cs_set c (int n - int c)]"
      have ok: "list_all (cs_ok lo e) ?nas"
        using 1(3,4) n cs_ok_set [of lo c "int n - int c" e] by simp
      have "parse_nameaddr_list buf nas c e =
          (if r = 0 then Some (?nas, 0) else parse_nameaddr_list buf ?nas c' e)"
        using True False post n sk
        by (subst parse_nameaddr_list.simps) (auto simp: rr_post_def Let_def)
      moreover have "r \<noteq> 0 \<Longrightarrow> \<exists>nas' r'. parse_nameaddr_list buf ?nas c' e = Some (nas', r') \<and>
          (r' = 0 \<or> r' = -1) \<and> list_all (cs_ok lo e) nas'"
        using True False post n sk ok 1(3)
        by (intro "1.IH" [OF True sk]) (auto simp: rr_post_def)
      ultimately show ?thesis using ok by auto
    qed (use True sk 1(4) in \<open>simp add: parse_nameaddr_list.simps\<close>)
  qed (use 1(4) in \<open>simp add: parse_nameaddr_list.simps\<close>)
qed

section \<open>Printing and parsing\<close>

abbreviation na_run :: "string \<Rightarrow> nat \<Rightarrow> nat \<Rightarrow> na_fsm \<Rightarrow> na_fsm out" where
  "na_run buf e \<equiv> scan (\<lambda>_. True) (na_body buf e) (na_fin buf e) e"

text \<open>An optional quoted display name in front of the address in angle brackets.\<close>

fun print_disp :: "string option \<Rightarrow> string" where
  "print_disp None = []"
| "print_disp (Some d) = DQUOTE # d @ [DQUOTE, SP]"

fun disp_text :: "string option \<Rightarrow> string" where
  "disp_text None = []"
| "disp_text (Some d) = DQUOTE # d @ [DQUOTE]"

definition print_nameaddr :: "string option \<Rightarrow> string \<Rightarrow> (string \<times> string option) list \<Rightarrow> string" where
  "print_nameaddr d a ps = print_disp d @ CHR ''<'' # a @ CHR ''>'' # print_params ps"

definition nameaddr_ok :: "string option \<Rightarrow> string \<Rightarrow> (string \<times> string option) list \<Rightarrow> bool" where
  "nameaddr_ok d a ps \<longleftrightarrow> (\<forall>w. d = Some w \<longrightarrow> (\<forall>ch \<in> set w. ch \<notin> {DQUOTE, BACKSLASH})) \<and>
     CHR ''>'' \<notin> set a \<and> list_all (param_ok NUL) ps"

lemma na_run_disp:
  assumes buf: "buf = p @ print_disp d @ CHR ''<'' # q" and e: "length p + length (print_disp d) < e"
    and d: "\<forall>w. d = Some w \<longrightarrow> (\<forall>ch \<in> set w. ch \<notin> {DQUOTE, BACKSLASH})"
    and s: "st s = St NA_SWS" "na_name (na_na s) = cs_null" "na_beg s = length p"
  shows "\<exists>s'. na_run buf e (length p) s = na_run buf e (length p + length (print_disp d) + 1) s' \<and>
    st s' = St NA_URI \<and> na_beg s' = length p + length (print_disp d) + 1 \<and>
    c2stlstr buf (na_name (na_na s')) = disp_text d \<and> na_params (na_na s') = na_params (na_na s)"
proof (cases d)
  case None
  let ?s = "s\<lparr>st := St NA_URI, na_beg := length p + 1\<rparr>"
  have "na_run buf e (length p) s = na_run buf e (length p + 1) ?s"
    using None e s by (intro scan_next) (auto simp: buf na_body_def na_sws_def)
  with None s show ?thesis by (intro exI [of _ ?s]) (simp add: c2stlstr_def cs_null_def)
next
  case (Some w)
  let ?s1 = "s\<lparr>st := St NA_DISP_QUOTED, na_beg := length p\<rparr>"
  let ?c = "length p + 1 + length w"
  let ?s2 = "na_set_name (int ?c - int (length p) + 1) (?s1\<lparr>st := St NA_DISP_LAQUOT\<rparr>)"
  let ?s3 = "?s2\<lparr>st := St NA_URI, na_beg := ?c + 3\<rparr>"
  have buf': "buf = (p @ [DQUOTE]) @ w @ DQUOTE # SP # CHR ''<'' # q" using buf Some by simp
  have "na_run buf e (length p) s = na_run buf e (length p + 1) ?s1"
    using Some e s by (intro scan_next) (auto simp: buf na_body_def na_sws_def)
  also have "\<dots> = na_run buf e ?c ?s1"
  proof -
    have "na_run buf e (length (p @ [DQUOTE])) ?s1 = na_run buf e (length (p @ [DQUOTE]) + length w) ?s1"
      using d e Some by (intro scan_word [OF buf']) (auto simp: na_body_def na_disp_quoted_def)
    then show ?thesis by simp
  qed
  also have "\<dots> = na_run buf e (?c + 1) ?s2"
    using e Some by (intro scan_next) (auto simp: buf' na_body_def na_disp_quoted_def nth_append)
  also have "\<dots> = na_run buf e (?c + 1 + 1) ?s2"
    using e Some by (intro scan_next)
      (auto simp: buf' na_body_def na_disp_laquot_def na_set_name_def nth_append)
  also have "\<dots> = na_run buf e (?c + 1 + 1 + 1) ?s3"
    using e Some by (intro scan_next)
      (auto simp: buf' na_body_def na_disp_laquot_def na_set_name_def nth_append)
  finally have "na_run buf e (length p) s = na_run buf e (?c + 1 + 1 + 1) ?s3" .
  moreover have "?c + 1 + 1 + 1 = ?c + 3" by simp
  ultimately have run: "na_run buf e (length p) s = na_run buf e (?c + 3) ?s3" by (simp only:)
  have "c2stlstr buf (cs_set (length p) (int ?c - int (length p) + 1)) = disp_text d"
    using c2stlstr_middle [of _ p _ "DQUOTE # w @ [DQUOTE]" "SP # CHR ''<'' # q"] Some buf by simp
  with run Some show ?thesis
    by (intro exI [of _ ?s3]) (simp add: na_set_name_def eval_nat_numeral)
qed

lemma parse_nameaddr_print:
  assumes buf: "buf = p @ print_nameaddr d a ps @ q" and ok: "nameaddr_ok d a ps"
    and len: "len = length (print_nameaddr d a ps)"
  shows "\<exists>na. parse_nameaddr buf new_nameaddr (length p) len = Out (length p + len) na 0 \<and>
    c2stlstr buf (na_name na) = disp_text d \<and> c2stlstr buf (na_addr na) = a \<and>
    map (avp_text buf) (na_params na) = map param_text ps"
proof -
  let ?e = "length p + len"
  let ?p1 = "p @ print_disp d @ ''<''" and ?p2 = "p @ print_disp d @ ''<'' @ a @ ''>''"
  have b1: "buf = p @ print_disp d @ CHR ''<'' # (a @ CHR ''>'' # print_params ps @ q)"
    and b2: "buf = ?p1 @ a @ (CHR ''>'' # print_params ps @ q)"
    and b3: "buf = ?p2 @ print_params ps @ q"
    using buf by (simp_all add: print_nameaddr_def)
  have le: "?e = length ?p2 + length (print_params ps)" using len by (simp add: print_nameaddr_def)
  from na_run_disp [OF b1, of ?e "na_init new_nameaddr (length p)"] ok le obtain s1 where
    r1: "na_run buf ?e (length p) (na_init new_nameaddr (length p)) = na_run buf ?e (length ?p1) s1"
    and s1: "st s1 = St NA_URI" "na_beg s1 = length ?p1"
      "c2stlstr buf (na_name (na_na s1)) = disp_text d" "na_params (na_na s1) = []"
    by (auto simp: na_init_def new_nameaddr_def nameaddr_ok_def)
  let ?c = "length ?p1 + length a"
  have r2: "na_run buf ?e (length ?p1) s1 = na_run buf ?e ?c s1"
    using ok le s1 by (intro scan_word [OF b2])
      (auto simp: na_body_def na_uri_case_def nameaddr_ok_def)
  let ?s2 = "na_set_addr (int ?c - int (na_beg s1)) s1"
  have gt: "buf ! ?c = CHR ''>''" "?c < ?e" using le by (simp_all add: b2 nth_append)
  have c1: "?c + 1 = length ?p2" by simp
  from gp_run_print_params [OF b3, of NUL "[]"] ok obtain gp as where
    gp: "parse_gen_params_sc buf [] (length ?p2) (length (print_params ps)) NUL = Out ?e gp 0"
      "gp_params gp = as" "map (avp_text buf) as = map param_text ps"
    using le by (auto simp: nameaddr_ok_def)
  have len': "?e - length ?p2 = length (print_params ps)" using le by simp
  have act: "na_gen_params buf ?e (?c + 1) ?s2 = Ret ?e (?s2\<lparr>na_na := (na_na ?s2)\<lparr>na_params := as\<rparr>\<rparr>) 0"
    unfolding na_gen_params_def c1 len' using s1(4) gp by (simp add: na_set_addr_def)
  have r3: "na_run buf ?e ?c s1 = Out ?e (?s2\<lparr>na_na := (na_na ?s2)\<lparr>na_params := as\<rparr>\<rparr>) 0"
    using gt s1(1) act by (intro scan_ret) (simp_all add: na_body_def na_uri_case_def)
  have "c2stlstr buf (cs_set (length ?p1) (int ?c - int (na_beg s1))) = a"
    unfolding b2 using s1(2) by (intro c2stlstr_middle) auto
  with r1 r2 r3 s1 gp(3) show ?thesis
    by (simp add: parse_nameaddr_def na_set_addr_def)
qed

section \<open>Properties\<close>

text \<open>The parameter names that the tag search accepts: those that begin with \<^verbatim>\<open>tag\<close>, in any case.\<close>

fun tag_name :: "string \<Rightarrow> bool" where
  "tag_name (x # y # z # _) =
     (x \<in> {CHR ''t'', CHR ''T''} \<and> y \<in> {CHR ''a'', CHR ''A''} \<and> z \<in> {CHR ''g'', CHR ''G''})"
| "tag_name _ = False"

lemma ft_scan_TAG3: "ft_scan FTP_TAG3 xs = Some FTP_TAG3"
  by (induction xs) auto

lemma ft_scan_OTHER: "ft_scan FTP_OTHER xs \<noteq> Some FTP_TAG3"
  by (cases xs) auto

lemma ft_scan_tag: "ft_scan FTP_BEG n = Some FTP_TAG3 \<longleftrightarrow> tag_name n"
  by (cases n rule: tag_name.cases) (auto simp: ft_scan_TAG3 ft_scan_OTHER)

fun last_tag :: "string \<Rightarrow> (string \<times> string option) list \<Rightarrow> string" where
  "last_tag t [] = t"
| "last_tag t (p # ps) =
     last_tag (if tag_name (fst (param_text p)) then snd (param_text p) else t) ps"

lemma ft_find_tag_text:
  "map (avp_text buf) as = map param_text ps \<Longrightarrow>
     c2stlstr buf (ft_find_tag buf as tag) = last_tag (c2stlstr buf tag) ps"
proof (induction as arbitrary: ps tag)
  case (Cons a as)
  then obtain p ps' where ps: "ps = p # ps'" "avp_text buf a = param_text p"
    "map (avp_text buf) as = map param_text ps'" by (auto simp: map_eq_Cons_conv)
  then have "c2stlstr buf (avp_name a) = fst (param_text p)"
    "c2stlstr buf (avp_value a) = snd (param_text p)"
    by (simp_all add: avp_text_def) (metis fst_conv snd_conv)+
  with Cons.IH ps show ?case by (simp add: ft_scan_tag)
qed simp

lemma from_to_total:
  "(\<exists>c' ft r. parse_from_to buf new_from_to beg len = Out c' ft r \<and> beg \<le> c' \<and> c' \<le> beg + len \<and>
     (r = 0 \<or> r = MALFORMED_SIP_MSG) \<and> na_ok beg (beg + len) (ft_nameaddr ft) \<and>
     cs_ok beg (beg + len) (ft_tag ft)) \<and>
   (\<exists>nas r. parse_nameaddr_list buf [] beg (beg + len) = Some (nas, r) \<and> (r = 0 \<or> r = -1) \<and>
     list_all (cs_ok beg (beg + len)) nas)"
proof
  show "\<exists>nas r. parse_nameaddr_list buf [] beg (beg + len) = Some (nas, r) \<and> (r = 0 \<or> r = -1) \<and>
      list_all (cs_ok beg (beg + len)) nas"
    by (rule nameaddr_list_total) auto
  show "\<exists>c' ft r. parse_from_to buf new_from_to beg len = Out c' ft r \<and> beg \<le> c' \<and> c' \<le> beg + len \<and>
     (r = 0 \<or> r = MALFORMED_SIP_MSG) \<and> na_ok beg (beg + len) (ft_nameaddr ft) \<and>
     cs_ok beg (beg + len) (ft_tag ft)"
    using parse_nameaddr_safe [of buf beg len] ft_find_tag_ok [of beg "beg + len" _ cs_null buf]
    by (auto simp: parse_from_to_def new_from_to_def na_ok_def)
qed

text \<open>
  C24: the From/To parser and the parser of name-addr lists are total and memory-safe: on every
  input they return, the first with 0 or \<^verbatim>\<open>MALFORMED_SIP_MSG\<close> and with name, address, parameters
  and tag inside the header, the second with 0 or -1 and with every element inside the header.
\<close>

theorem parse_from_to_total:
  "(\<exists>c' ft r. parse_from_to buf new_from_to beg len = Out c' ft r \<and> beg \<le> c' \<and> c' \<le> beg + len \<and>
     (r = 0 \<or> r = MALFORMED_SIP_MSG) \<and> na_ok beg (beg + len) (ft_nameaddr ft) \<and>
     cs_ok beg (beg + len) (ft_tag ft)) \<and>
   (\<exists>nas r. parse_nameaddr_list buf [] beg (beg + len) = Some (nas, r) \<and> (r = 0 \<or> r = -1) \<and>
     list_all (cs_ok beg (beg + len)) nas)"
  by (rule from_to_total)

lemma from_to_print_parse:
  assumes "buf = p @ print_nameaddr d a ps @ q" and "nameaddr_ok d a ps"
  shows "\<exists>ft. parse_from_to buf new_from_to (length p) (length (print_nameaddr d a ps)) =
      Out (length p + length (print_nameaddr d a ps)) ft 0 \<and>
    c2stlstr buf (na_name (ft_nameaddr ft)) = disp_text d \<and>
    c2stlstr buf (na_addr (ft_nameaddr ft)) = a \<and>
    map (avp_text buf) (na_params (ft_nameaddr ft)) = map param_text ps \<and>
    c2stlstr buf (ft_tag ft) = last_tag [] ps"
  using parse_nameaddr_print [OF assms refl] ft_find_tag_text [of buf _ ps cs_null]
  by (auto simp: parse_from_to_def new_from_to_def c2stlstr_def cs_null_def)

text \<open>
  C16: reading back a From or To header. An optional quoted display name, an address in angle
  brackets and parameters are parsed with code 0 into exactly these parts, and the tag is the
  value of the last parameter whose name begins with \<^verbatim>\<open>tag\<close> in any case. A parameter named
  \<^verbatim>\<open>tag\<close> is therefore found, but so is one named \<^verbatim>\<open>tagline\<close>, because the state machine that
  compares the name has no transition out of its last state.
\<close>

theorem parse_print_from_to:
  assumes "buf = p @ print_nameaddr d a ps @ q" and "nameaddr_ok d a ps"
  shows "\<exists>ft. parse_from_to buf new_from_to (length p) (length (print_nameaddr d a ps)) =
      Out (length p + length (print_nameaddr d a ps)) ft 0 \<and>
    c2stlstr buf (na_name (ft_nameaddr ft)) = disp_text d \<and>
    c2stlstr buf (na_addr (ft_nameaddr ft)) = a \<and>
    map (avp_text buf) (na_params (ft_nameaddr ft)) = map param_text ps \<and>
    c2stlstr buf (ft_tag ft) = last_tag [] ps"
  using assms by (rule from_to_print_parse)

theorem parse_print_from_to_witness:
  "\<exists>ft. parse_from_to ''<sip:b>;tag=1;tagline=2'' new_from_to 0 (length ''<sip:b>;tag=1;tagline=2'') =
      Out (length ''<sip:b>;tag=1;tagline=2'') ft 0 \<and>
    c2stlstr ''<sip:b>;tag=1;tagline=2'' (na_addr (ft_nameaddr ft)) = ''sip:b'' \<and>
    c2stlstr ''<sip:b>;tag=1;tagline=2'' (ft_tag ft) = ''2''"
  using parse_print_from_to [of "''<sip:b>;tag=1;tagline=2''" "[]" None "''sip:b''"
      "[(''tag'', Some ''1''), (''tagline'', Some ''2'')]" "[]"]
  by (auto simp: print_nameaddr_def print_params_def nameaddr_ok_def param_name_def
      param_value_def)

end
