(* ===== verification/Parse_Cseq.thy ===== *)
theory Parse_Cseq
  imports Parse_Common
begin

text \<open>
  The request methods (\<^verbatim>\<open>parse_method\<close> of \<^verbatim>\<open>core/sip/sip_parser.cpp\<close>) and the CSeq header
  (\<^verbatim>\<open>core/sip/parse_cseq.cpp\<close>): what the method recogniser accepts, safety and termination of the
  CSeq parser, and reading back a printed CSeq.
\<close>

section \<open>Methods\<close>

datatype sip_method =
  OTHER_METHOD | INVITE | ACK | PRACK | OPTIONS | BYE | CANCEL | REGISTER

text \<open>
  The recogniser is given by the length of the text; \<^verbatim>\<open>memcmp\<close> on equally long texts is equality.
  The cases for seven and eight characters compare from the second character on.
\<close>

definition method_of :: "string \<Rightarrow> sip_method" where
  "method_of m =
     (if length m = 6 then
        if hd m = CHR ''I'' then if tl m = ''NVITE'' then INVITE else OTHER_METHOD
        else if hd m = CHR ''C'' then if tl m = ''ANCEL'' then CANCEL else OTHER_METHOD
        else OTHER_METHOD
      else if length m = 3 then
        if hd m = CHR ''A'' then if tl m = ''CK'' then ACK else OTHER_METHOD
        else if hd m = CHR ''B'' then if tl m = ''YE'' then BYE else OTHER_METHOD
        else OTHER_METHOD
      else if length m = 7 then if tl m = ''PTIONS'' then OPTIONS else OTHER_METHOD
      else if length m = 8 then if tl m = ''EGISTER'' then REGISTER else OTHER_METHOD
      else if length m = 5 then if m = ''PRACK'' then PRACK else OTHER_METHOD
      else OTHER_METHOD)"

definition parse_method :: "string \<Rightarrow> sip_method \<times> int" where
  "parse_method m = (method_of m, if list_all IS_TOKEN m then 0 else MALFORMED_SIP_MSG)"

fun method_name :: "sip_method \<Rightarrow> string" where
  "method_name OTHER_METHOD = []"
| "method_name INVITE = ''INVITE''"
| "method_name ACK = ''ACK''"
| "method_name PRACK = ''PRACK''"
| "method_name OPTIONS = ''OPTIONS''"
| "method_name BYE = ''BYE''"
| "method_name CANCEL = ''CANCEL''"
| "method_name REGISTER = ''REGISTER''"

lemma method_of_name: "method_of (method_name m) = m"
  by (cases m) (simp_all add: method_of_def)

lemma name_token: "list_all IS_TOKEN (method_name m)"
  by (cases m) (simp_all add: IS_TOKEN_def IS_ALPHANUM_def IS_ALPHA_def IS_IN_def schar_def)

text \<open>The methods that are recognised in full.\<close>

definition strict_method :: "sip_method \<Rightarrow> bool" where
  "strict_method m \<longleftrightarrow> m \<in> {INVITE, ACK, PRACK, BYE, CANCEL}"

lemma method_of_strict:
  assumes "strict_method (method_of m)"
  shows "m = method_name (method_of m)"
  using assms
  by (cases m) (auto simp: method_of_def strict_method_def split: if_splits)

section \<open>CSeq\<close>

text \<open>\<^verbatim>\<open>method\<close> is not initialised by the constructor; \<open>None\<close> is the undefined value.\<close>

record sip_cseq =
  num_str :: cstring
  num :: u32
  method_str :: cstring
  cs_method :: "sip_method option"

definition new_cseq :: sip_cseq where
  "new_cseq = \<lparr>num_str = cs_null, num = 0, method_str = cs_null, cs_method = None\<rparr>"

datatype cseq_st = C_NUM | C_NUM_SWS | C_METHOD

record cseq_fsm = "cseq_st fsm" +
  c_beg :: nat
  c_cseq :: sip_cseq

definition cseq_num :: "nat \<Rightarrow> char \<Rightarrow> cseq_fsm \<Rightarrow> cseq_fsm act" where
  "cseq_num c ch s =
     (if ch = CR then Next 1 (enter_CR s)
      else if ch = LF then Next 1 (enter_LF s)
      else if ch = SP \<or> ch = HTAB then
        Next 1 (s\<lparr>st := St C_NUM_SWS,
                  c_cseq := (c_cseq s)\<lparr>num_str := cs_set (c_beg s) (int c - int (c_beg s))\<rparr>\<rparr>)
      else if \<not> IS_DIGIT ch then Ret c s MALFORMED_SIP_MSG
      else Next 1 (s\<lparr>c_cseq :=
             (c_cseq s)\<lparr>num := num (c_cseq s) * 10 + word_of_int (schar ch) - 0x30\<rparr>\<rparr>))"

definition cseq_num_sws :: "nat \<Rightarrow> char \<Rightarrow> cseq_fsm \<Rightarrow> cseq_fsm act" where
  "cseq_num_sws c ch s =
     (if ch = CR then Next 1 (enter_CR s)
      else if ch = LF then Next 1 (enter_LF s)
      else if ch = SP \<or> ch = HTAB then Next 1 s
      else Next 1 (s\<lparr>st := St C_METHOD, c_beg := c\<rparr>))"

definition cseq_set_method :: "nat \<Rightarrow> cseq_fsm \<Rightarrow> cseq_fsm" where
  "cseq_set_method c s =
     s\<lparr>c_cseq := (c_cseq s)\<lparr>method_str := cs_set (c_beg s) (int c - int (c_beg s))\<rparr>\<rparr>"

definition cseq_method :: "nat \<Rightarrow> char \<Rightarrow> cseq_fsm \<Rightarrow> cseq_fsm act" where
  "cseq_method c ch s =
     (if ch = CR then Next 1 (enter_CR s)
      else if ch = LF then Next 1 (enter_LF s)
      else if ch = SP \<or> ch = HTAB then Ret c (cseq_set_method c s) 0
      else Next 1 s)"

definition cseq_eol :: "nat \<Rightarrow> cseq_fsm \<Rightarrow> cseq_fsm act" where
  "cseq_eol c s =
     (if saved_st s = St C_METHOD then Ret c (cseq_set_method c s) 0
      else
        let s' = (if saved_st s = St C_NUM
                  then s\<lparr>c_cseq := (c_cseq s)\<lparr>num_str :=
                         cs_set (c_beg s) (int c - eol_len s - int (c_beg s))\<rparr>\<rparr>
                  else s)
        in Next 1 (s'\<lparr>st := saved_st s'\<rparr>))"

definition cseq_body :: "string \<Rightarrow> nat \<Rightarrow> cseq_fsm \<Rightarrow> cseq_fsm act" where
  "cseq_body buf c s =
     (let ch = buf ! c in
      case st s of
        St C_NUM \<Rightarrow> cseq_num c ch s
      | St C_NUM_SWS \<Rightarrow> cseq_num_sws c ch s
      | St C_METHOD \<Rightarrow> cseq_method c ch s
      | ST_CR \<Rightarrow> case_ST_CR c ch s
      | ST_LF \<Rightarrow> cseq_eol c s
      | ST_CRLF \<Rightarrow> cseq_eol c s)"

definition cseq_fin :: "string \<Rightarrow> nat \<Rightarrow> nat \<Rightarrow> cseq_fsm \<Rightarrow> cseq_fsm out" where
  "cseq_fin buf e c s =
     (if c \<noteq> e then Overrun
      else if st s \<noteq> St C_METHOD then Out c s MALFORMED_SIP_MSG
      else
        let s' = cseq_set_method c s;
            (m, r) = parse_method (c2stlstr buf (method_str (c_cseq s')));
            s'' = s'\<lparr>c_cseq := (c_cseq s')\<lparr>cs_method := Some m\<rparr>\<rparr>
        in if r < 0 then Out c s'' MALFORMED_SIP_MSG else Out c s'' 0)"

definition cseq_init :: "sip_cseq \<Rightarrow> nat \<Rightarrow> cseq_fsm" where
  "cseq_init cs beg = \<lparr>st = St C_NUM, saved_st = St C_NUM, c_beg = beg, c_cseq = cs\<rparr>"

definition parse_cseq :: "string \<Rightarrow> sip_cseq \<Rightarrow> nat \<Rightarrow> nat \<Rightarrow> sip_cseq out" where
  "parse_cseq buf cs beg len =
     map_out c_cseq
       (scan (\<lambda>_. True) (cseq_body buf) (cseq_fin buf (beg + len)) (beg + len) beg
          (cseq_init cs beg))"

section \<open>Safety and termination\<close>

text \<open>
  The field \<^verbatim>\<open>method\<close> is written exactly when the method text reaches the end of the value; a return from
  inside the loop, at a blank or a folded line behind the method, leaves it as it was.
\<close>

definition method_read :: "string \<Rightarrow> nat \<Rightarrow> sip_cseq \<Rightarrow> bool" where
  "method_read buf e cs \<longleftrightarrow>
     (if int (cs_s (method_str cs)) + cs_len (method_str cs) = int e
      then cs_method cs = Some (method_of (c2stlstr buf (method_str cs))) \<and> list_all IS_TOKEN (c2stlstr buf (method_str cs))
      else cs_method cs = None \<and> int (cs_s (method_str cs)) + cs_len (method_str cs) < int e)"

definition cseq_inv :: "nat \<Rightarrow> nat \<Rightarrow> nat \<Rightarrow> cseq_fsm \<Rightarrow> bool" where
  "cseq_inv lo e c s \<longleftrightarrow>
     lo \<le> c_beg s \<and> c_beg s + eol_depth (st s) \<le> c \<and> c \<le> e \<and> cs_method (c_cseq s) = None \<and>
     cs_ok lo e (num_str (c_cseq s)) \<and> cs_ok lo e (method_str (c_cseq s))"

definition cseq_post :: "string \<Rightarrow> nat \<Rightarrow> nat \<Rightarrow> nat \<Rightarrow> cseq_fsm \<Rightarrow> int \<Rightarrow> bool" where
  "cseq_post buf lo e c s r \<longleftrightarrow> lo \<le> c \<and> c \<le> e \<and> (r = 0 \<and> method_read buf e (c_cseq s) \<or> r = MALFORMED_SIP_MSG) \<and>
     cs_ok lo e (num_str (c_cseq s)) \<and> cs_ok lo e (method_str (c_cseq s))"

lemmas cseq_unfold =
  cseq_inv_def cseq_post_def enter_CR_def enter_LF_def cseq_set_method_def cs_ok_def cs_set_def method_read_def

lemma cseq_num_ok:
  "cseq_inv lo e c s \<Longrightarrow> c < e \<Longrightarrow> st s = St x \<Longrightarrow>
     act_ok (cseq_inv lo e) (cseq_post buf lo e) c (cseq_num c ch s)"
  by (simp add: cseq_num_def cseq_unfold)

lemma cseq_num_sws_ok:
  "cseq_inv lo e c s \<Longrightarrow> c < e \<Longrightarrow> st s = St x \<Longrightarrow>
     act_ok (cseq_inv lo e) (cseq_post buf lo e) c (cseq_num_sws c ch s)"
  by (simp add: cseq_num_sws_def cseq_unfold)

lemma cseq_method_ok:
  "cseq_inv lo e c s \<Longrightarrow> c < e \<Longrightarrow> st s = St x \<Longrightarrow>
     act_ok (cseq_inv lo e) (cseq_post buf lo e) c (cseq_method c ch s)"
  by (simp add: cseq_method_def cseq_unfold)

lemma cseq_eol_ok:
  "cseq_inv lo e c s \<Longrightarrow> c < e \<Longrightarrow> st s = ST_LF \<or> st s = ST_CRLF \<Longrightarrow>
     act_ok (cseq_inv lo e) (cseq_post buf lo e) c (cseq_eol c s)"
  using eol_depth_le [of "saved_st s"]
  by (auto simp: cseq_eol_def cseq_unfold eol_len_def Let_def)

lemma cseq_st_cr_ok:
  "cseq_inv lo e c s \<Longrightarrow> c < e \<Longrightarrow> st s = ST_CR \<Longrightarrow>
     act_ok (cseq_inv lo e) (cseq_post buf lo e) c (case_ST_CR c ch s)"
  by (simp add: case_ST_CR_def cseq_unfold)

lemma cseq_body_ok:
  assumes "cseq_inv lo e c s" and "c < e"
  shows "act_ok (cseq_inv lo e) (cseq_post buf lo e) c (cseq_body buf c s)"
  using assms
  by (cases "st s" rule: fsm_st.exhaust)
    (simp_all add: cseq_body_def Let_def cseq_num_ok cseq_num_sws_ok cseq_method_ok cseq_eol_ok
      cseq_st_cr_ok split: cseq_st.split)

lemma cseq_fin_ok:
  assumes "cseq_inv lo e c s" and "\<not> c < e"
  shows "\<exists>c' s' r. cseq_fin buf e c s = Out c' s' r \<and> cseq_post buf lo e c' s' r"
proof (cases "st s = St C_METHOD")
  case True
  have "method_read buf e (c_cseq s') \<or> r = MALFORMED_SIP_MSG" if "cseq_fin buf e c s = Out c' s' r" for c' s' r
    using that assms True
    by (auto simp: cseq_fin_def Let_def parse_method_def cseq_set_method_def method_read_def cs_set_def cseq_inv_def
        split: if_splits)
  moreover have "\<exists>c' s' r. cseq_fin buf e c s = Out c' s' r \<and> lo \<le> c' \<and> c' \<le> e \<and> (r = 0 \<or> r = MALFORMED_SIP_MSG) \<and>
      cs_ok lo e (num_str (c_cseq s')) \<and> cs_ok lo e (method_str (c_cseq s'))"
    using assms True by (simp add: cseq_fin_def Let_def cseq_unfold split: prod.split)
  ultimately show ?thesis unfolding cseq_post_def by blast
qed (use assms in \<open>simp add: cseq_fin_def cseq_unfold\<close>)

interpretation cseq_loop: parser_loop
  "\<lambda>_. True" "cseq_body buf" "cseq_fin buf e" e "cseq_inv lo e" "cseq_post buf lo e"
  for buf e lo
  by unfold_locales (use cseq_body_ok cseq_fin_ok in auto)

section \<open>Printing and parsing\<close>

abbreviation cseq_run :: "string \<Rightarrow> nat \<Rightarrow> nat \<Rightarrow> cseq_fsm \<Rightarrow> cseq_fsm out" where
  "cseq_run buf e \<equiv> scan (\<lambda>_. True) (cseq_body buf) (cseq_fin buf e) e"

lemma digit_plain: "IS_DIGIT ch \<Longrightarrow> ch \<notin> {CR, LF, SP, HTAB}"
  by (auto simp: IS_DIGIT_def IS_IN_def schar_def)

lemma token_plain: "IS_TOKEN ch \<Longrightarrow> ch \<notin> {CR, LF, SP, HTAB}"
  by (auto simp: IS_TOKEN_def IS_ALPHANUM_def IS_ALPHA_def IS_DIGIT_def IS_IN_def schar_def)

lemma cseq_run_digits:
  assumes "buf = p @ ds @ q" and "length p + length ds \<le> e" and "list_all IS_DIGIT ds"
    and "st s = St C_NUM" and "num (c_cseq s) = of_nat n"
  shows "cseq_run buf e (length p) s = cseq_run buf e (length p + length ds)
    (s\<lparr>c_cseq := (c_cseq s)\<lparr>num := of_nat (dec_val n ds)\<rparr>\<rparr>)"
  using assms
proof (induction ds arbitrary: p s n)
  case Nil
  then have "(c_cseq s)\<lparr>num := of_nat n\<rparr> = c_cseq s" by (cases "c_cseq s") simp
  then show ?case by simp
next
  case (Cons d ds)
  let ?s = "s\<lparr>c_cseq := (c_cseq s)\<lparr>num := of_nat (10 * n + dig d)\<rparr>\<rparr>"
  have d: "IS_DIGIT d" using Cons.prems(3) by simp
  have "num (c_cseq s) * 10 + word_of_int (schar d) - 0x30 = of_nat (10 * n + dig d)"
    using Cons.prems(5) by (simp add: schar_dig [OF d])
  then have "cseq_run buf e (length p) s = cseq_run buf e (length p + 1) ?s"
    using Cons.prems d digit_plain [OF d]
    by (intro scan_next) (auto simp: cseq_body_def cseq_num_def nth_append)
  moreover have "cseq_run buf e (length (p @ [d])) ?s = cseq_run buf e (length (p @ [d]) + length ds)
      (?s\<lparr>c_cseq := (c_cseq ?s)\<lparr>num := of_nat (dec_val (10 * n + dig d) ds)\<rparr>\<rparr>)"
    using Cons.prems by (intro Cons.IH) auto
  ultimately show ?case by simp
qed

lemma cseq_run_method:
  assumes "buf = p @ m @ q" and "length p + length m \<le> e" and "list_all IS_TOKEN m" and "m \<noteq> []"
    and "st s = St C_NUM_SWS"
  shows "cseq_run buf e (length p) s =
    cseq_run buf e (length p + length m) (s\<lparr>st := St C_METHOD, c_beg := length p\<rparr>)"
proof -
  let ?s = "s\<lparr>st := St C_METHOD, c_beg := length p\<rparr>"
  from assms(4) obtain x m' where m: "m = x # m'" by (cases m) auto
  have "cseq_run buf e (length p) s = cseq_run buf e (length p + 1) ?s"
    using assms m token_plain [of x]
    by (intro scan_next) (auto simp: cseq_body_def cseq_num_sws_def nth_append)
  moreover have "cseq_run buf e (length (p @ [x])) ?s =
      cseq_run buf e (length (p @ [x]) + length m') ?s"
    using assms m token_plain
    by (intro scan_word [where q = q and buf = buf])
      (auto simp: cseq_body_def cseq_method_def list_all_iff)
  ultimately show ?thesis using m by simp
qed

text \<open>Both parts: the state behind the method.\<close>

lemma cseq_run_both:
  assumes buf: "buf = p @ ds @ SP # m @ q" and e: "length p + length ds + 1 + length m \<le> e"
    and "list_all IS_DIGIT ds" and "list_all IS_TOKEN m" and "m \<noteq> []"
  shows "cseq_run buf e (length p) (cseq_init new_cseq (length p)) =
    cseq_run buf e (length p + length ds + 1 + length m)
      \<lparr>st = St C_METHOD, saved_st = St C_NUM, c_beg = length p + length ds + 1,
       c_cseq = new_cseq\<lparr>num_str := cs_set (length p) (int (length ds)),
         num := of_nat (dec_val 0 ds)\<rparr>\<rparr>"
proof -
  let ?c = "length p + length ds" and ?s0 = "cseq_init new_cseq (length p)"
  let ?s1 = "?s0\<lparr>c_cseq := (c_cseq ?s0)\<lparr>num := of_nat (dec_val 0 ds)\<rparr>\<rparr>"
  let ?s2 = "?s1\<lparr>st := St C_NUM_SWS,
    c_cseq := (c_cseq ?s1)\<lparr>num_str := cs_set (length p) (int (length ds))\<rparr>\<rparr>"
  have "cseq_run buf e (length p) ?s0 = cseq_run buf e ?c ?s1"
    using assms by (intro cseq_run_digits [where q = "SP # m @ q"])
      (auto simp: cseq_init_def new_cseq_def)
  also have "\<dots> = cseq_run buf e (?c + 1) ?s2"
    using e by (intro scan_next) (auto simp: buf cseq_body_def cseq_num_def cseq_init_def nth_append)
  also have "\<dots> = cseq_run buf e (length (p @ ds @ [SP]) + length m)
      (?s2\<lparr>st := St C_METHOD, c_beg := length (p @ ds @ [SP])\<rparr>)"
    using cseq_run_method [of buf "p @ ds @ [SP]" m q e ?s2] assms by simp
  finally show ?thesis by (simp add: cseq_init_def new_cseq_def)
qed

section \<open>Properties\<close>

text \<open>
  C31: the method recogniser. Every known method name is recognised; the code is 0 exactly for
  texts of token characters; and a text recognised as INVITE, ACK, PRACK, BYE or CANCEL is that
  name, letter for letter.
\<close>

theorem parse_method_exact:
  "parse_method (method_name m) = (m, 0) \<and>
   (snd (parse_method t) = (if list_all IS_TOKEN t then 0 else MALFORMED_SIP_MSG)) \<and>
   (\<not> strict_method (fst (parse_method t)) \<or> t = method_name (fst (parse_method t)))"
  using method_of_strict [of t] name_token [of m] by (auto simp: parse_method_def method_of_name)

theorem parse_method_exact_witness:
  "parse_method ''INVITE'' = (INVITE, 0) \<and> strict_method (fst (parse_method ''BYE'')) \<and>
   ''BYE'' = method_name (fst (parse_method ''BYE''))"
  using parse_method_exact [of INVITE "''BYE''"]
  by (simp add: parse_method_def method_of_def strict_method_def)

text \<open>
  The first letter of OPTIONS and REGISTER is not compared. Any text of seven or eight
  characters that agrees with the name from the second character on is taken for the method.
\<close>

theorem parse_method_first_char:
  "fst (parse_method (x # ''PTIONS'')) = OPTIONS \<and> fst (parse_method (x # ''EGISTER'')) = REGISTER"
  by (simp add: parse_method_def method_of_def)

lemma cseq_total:
  "\<exists>c' cs r. parse_cseq buf new_cseq beg len = Out c' cs r \<and> beg \<le> c' \<and> c' \<le> beg + len \<and>
     (r = 0 \<and> method_read buf (beg + len) cs \<or> r = MALFORMED_SIP_MSG) \<and>
     cs_ok beg (beg + len) (num_str cs) \<and> cs_ok beg (beg + len) (method_str cs)"
proof -
  have "cseq_inv beg (beg + len) beg (cseq_init new_cseq beg)"
    by (simp add: cseq_inv_def cseq_init_def new_cseq_def)
  from cseq_loop.scan_total [OF this, of buf] show ?thesis
    by (auto simp: parse_cseq_def cseq_post_def)
qed

text \<open>
  C27: the CSeq parser is total and memory-safe on every input: it returns 0 or
  \<^verbatim>\<open>MALFORMED_SIP_MSG\<close>, and the number and method texts are slices of the input or null.
\<close>

theorem parse_cseq_total:
  "\<exists>c' cs r. parse_cseq buf new_cseq beg len = Out c' cs r \<and> beg \<le> c' \<and> c' \<le> beg + len \<and>
     (r = 0 \<or> r = MALFORMED_SIP_MSG) \<and>
     cs_ok beg (beg + len) (num_str cs) \<and> cs_ok beg (beg + len) (method_str cs)"
  using cseq_total [of buf beg len] by blast

lemma cseq_print_parse:
  assumes "buf = p @ ds @ SP # m @ q" and "list_all IS_DIGIT ds" and "list_all IS_TOKEN m"
    and "m \<noteq> []"
  shows "\<exists>cs. parse_cseq buf new_cseq (length p) (length ds + 1 + length m) =
      Out (length p + length ds + 1 + length m) cs 0 \<and>
    c2stlstr buf (num_str cs) = ds \<and> num cs = of_nat (dec_val 0 ds) \<and>
    c2stlstr buf (method_str cs) = m \<and> cs_method cs = Some (method_of m)"
proof -
  let ?e = "length p + (length ds + 1 + length m)"
  have m: "c2stlstr buf (cs_set (length p + length ds + 1) (int (length m))) = m"
    using c2stlstr_middle [of _ "p @ ds @ [SP]" _ m q] assms(1) by simp
  have ds: "c2stlstr buf (cs_set (length p) (int (length ds))) = ds"
    unfolding assms(1) by (intro c2stlstr_middle) auto
  show ?thesis
    using cseq_run_both [OF assms(1) _ assms(2-4), of ?e] m ds assms(3)
    by (simp add: parse_cseq_def scan_end cseq_fin_def cseq_set_method_def parse_method_def add.assoc)
qed

text \<open>
  C26: reading back a CSeq header. Digits, a blank and a token are parsed with code 0 into the
  texts they are and the method they name; the number is the decimal value modulo $2^{32}$, so it
  is exact for every sequence number that fits 32 bits and silently wraps beyond.
\<close>

theorem parse_print_cseq:
  assumes "buf = p @ ds @ SP # m @ q" and "list_all IS_DIGIT ds" and "list_all IS_TOKEN m"
    and "m \<noteq> []"
  shows "\<exists>cs. parse_cseq buf new_cseq (length p) (length ds + 1 + length m) =
      Out (length p + length ds + 1 + length m) cs 0 \<and>
    c2stlstr buf (num_str cs) = ds \<and> num cs = of_nat (dec_val 0 ds) \<and>
    c2stlstr buf (method_str cs) = m \<and> cs_method cs = Some (method_of m)"
  using assms by (rule cseq_print_parse)

theorem parse_print_cseq_witness:
  "\<exists>cs. parse_cseq ''17 BYE'' new_cseq 0 6 = Out 6 cs 0 \<and>
    c2stlstr ''17 BYE'' (num_str cs) = ''17'' \<and> num cs = 17 \<and>
    c2stlstr ''17 BYE'' (method_str cs) = ''BYE'' \<and> cs_method cs = Some BYE"
  using parse_print_cseq [of "''17 BYE''" "[]" "''17''" "''BYE''" "[]"]
  by (simp add: eval_nat_numeral IS_DIGIT_def IS_IN_def IS_TOKEN_def IS_ALPHANUM_def IS_ALPHA_def
      schar_def dig_def method_of_def)

text \<open>
  A blank behind the method. The parser then returns 0 from inside its loop, before the
  method text is looked up, so the field \<^verbatim>\<open>method\<close> of the result is never written although the
  parse succeeded.
\<close>

theorem parse_cseq_trailing_blank:
  assumes "buf = p @ ds @ SP # m @ SP # q" and "list_all IS_DIGIT ds" and "list_all IS_TOKEN m"
    and "m \<noteq> []"
  shows "\<exists>cs. parse_cseq buf new_cseq (length p) (length ds + 1 + length m + 1) =
      Out (length p + length ds + 1 + length m) cs 0 \<and> cs_method cs = None"
proof -
  let ?e = "length p + (length ds + 1 + length m + 1)"
  let ?c = "length p + length ds + 1 + length m"
  have "buf ! ?c = SP" using assms(1) by (simp add: nth_append)
  then have "cseq_run buf ?e ?c s = Out ?c (cseq_set_method ?c s) 0" if "st s = St C_METHOD" for s
    using that by (intro scan_ret) (auto simp: cseq_body_def cseq_method_def)
  then show ?thesis
    using cseq_run_both [OF assms(1) _ assms(2-4), of ?e]
    by (simp add: parse_cseq_def cseq_set_method_def add.assoc new_cseq_def)
qed

theorem parse_cseq_trailing_blank_witness:
  "\<exists>cs. parse_cseq ''1 ACK '' new_cseq 0 6 = Out 5 cs 0 \<and> cs_method cs = None"
  using parse_cseq_trailing_blank [of "''1 ACK ''" "[]" "''1''" "''ACK''" "[]"]
  by (simp add: eval_nat_numeral IS_DIGIT_def IS_IN_def IS_TOKEN_def IS_ALPHANUM_def IS_ALPHA_def
      schar_def)

end
