(* ===== verification/Parse_100rel.thy ===== *)
theory Parse_100rel
  imports Parse_Cseq
begin

text \<open>
  \<^verbatim>\<open>core/sip/parse_100rel.cpp\<close>: the RSeq and RAck headers of reliable provisional replies. The
  macros \<^verbatim>\<open>EAT_WS\<close>, \<^verbatim>\<open>READ_NUMBER\<close> and \<^verbatim>\<open>EAT_TOKEN\<close> are functions from a position to a position; the
  \<^verbatim>\<open>goto error\<close> of \<^verbatim>\<open>READ_NUMBER\<close> is \<open>None\<close>.
\<close>

section \<open>Operations\<close>

function eat_ws :: "string \<Rightarrow> nat \<Rightarrow> nat \<Rightarrow> nat" where
  "eat_ws buf c e = (if c < e \<and> (buf ! c = SP \<or> buf ! c = HTAB) then eat_ws buf (c + 1) e else c)"
  by pat_completeness auto
termination by (relation "measure (\<lambda>(buf, c, e). e - c)") auto

function read_number :: "string \<Rightarrow> u32 \<Rightarrow> nat \<Rightarrow> nat \<Rightarrow> (u32 \<times> nat) option" where
  "read_number buf no c e =
     (if c < e \<and> IS_DIGIT (buf ! c) then
        if 0xFFFFFFFF - no < word_of_int (schar (buf ! c)) then None
        else read_number buf (no * 10 + word_of_int (schar (buf ! c)) - 0x30) (c + 1) e
      else Some (no, c))"
  by pat_completeness auto
termination by (relation "measure (\<lambda>(buf, no, c, e). e - c)") auto

function eat_token :: "string \<Rightarrow> nat \<Rightarrow> nat \<Rightarrow> nat" where
  "eat_token buf c e = (if c < e \<and> IS_TOKEN (buf ! c) then eat_token buf (c + 1) e else c)"
  by pat_completeness auto
termination by (relation "measure (\<lambda>(buf, c, e). e - c)") auto

declare eat_ws.simps [simp del] read_number.simps [simp del] eat_token.simps [simp del]

definition parse_rseq :: "string \<Rightarrow> nat \<Rightarrow> nat \<Rightarrow> u32 option" where
  "parse_rseq buf start len =
     (let e = start + len; sav = eat_ws buf start e
      in case read_number buf 0 sav e of
           None \<Rightarrow> None
         | Some (rseq, pos) \<Rightarrow> if sav = pos then None else Some rseq)"

record sip_rack =
  rk_rseq :: u32
  rk_cseq :: u32
  rk_cseq_str :: cstring
  rk_method :: sip_method
  rk_method_str :: cstring

definition parse_rack :: "string \<Rightarrow> nat \<Rightarrow> nat \<Rightarrow> sip_rack option" where
  "parse_rack buf start len =
     (let e = start + len; sav1 = eat_ws buf start e
      in case read_number buf 0 sav1 e of
           None \<Rightarrow> None
         | Some (rseq, pos1) \<Rightarrow>
             if pos1 = sav1 then None
             else
               let sav2 = eat_ws buf pos1 e
               in case read_number buf 0 sav2 e of
                    None \<Rightarrow> None
                  | Some (cseq, pos2) \<Rightarrow>
                      if pos2 = sav2 then None
                      else
                        let sav3 = eat_ws buf pos2 e;
                            pos3 = eat_token buf sav3 e;
                            mstr = cs_set sav3 (int pos3 - int sav3);
                            (m, r) = parse_method (c2stlstr buf mstr)
                        in if r \<noteq> 0 then None
                           else Some \<lparr>rk_rseq = rseq, rk_cseq = cseq,
                             rk_cseq_str = cs_set sav2 (int pos2 - int sav2),
                             rk_method = m, rk_method_str = mstr\<rparr>)"

section \<open>Words in the buffer\<close>

lemma eat_ws_word:
  assumes "buf = p @ w @ q" and "length p + length w \<le> e" and "list_all IS_WSP w"
    and "length p + length w < e \<longrightarrow> \<not> IS_WSP (buf ! (length p + length w))"
  shows "eat_ws buf (length p) e = length p + length w"
  using assms
proof (induction w arbitrary: p)
  case Nil
  then show ?case by (subst eat_ws.simps) (auto simp: IS_WSP_def)
next
  case (Cons x w)
  have "eat_ws buf (length p) e = eat_ws buf (length (p @ [x])) e"
    using Cons.prems by (subst eat_ws.simps) (auto simp: IS_WSP_def)
  also have "\<dots> = length (p @ [x]) + length w"
    using Cons.prems by (intro Cons.IH) auto
  finally show ?case by simp
qed

lemma eat_token_word:
  assumes "buf = p @ w @ q" and "length p + length w \<le> e" and "list_all IS_TOKEN w"
    and "length p + length w < e \<longrightarrow> \<not> IS_TOKEN (buf ! (length p + length w))"
  shows "eat_token buf (length p) e = length p + length w"
  using assms
proof (induction w arbitrary: p)
  case Nil
  then show ?case by (subst eat_token.simps) auto
next
  case (Cons x w)
  have "eat_token buf (length p) e = eat_token buf (length (p @ [x])) e"
    using Cons.prems by (subst eat_token.simps) auto
  also have "\<dots> = length (p @ [x]) + length w"
    using Cons.prems by (intro Cons.IH) auto
  finally show ?case by simp
qed

text \<open>
  The overflow test of \<^verbatim>\<open>READ_NUMBER\<close> compares the room left with the character code instead of
  the product, so it never rejects a number that fits 32 bits.
\<close>

lemma read_number_fits:
  assumes "buf = p @ ds @ q" and "length p + length ds \<le> e" and "list_all IS_DIGIT ds"
    and "length p + length ds < e \<longrightarrow> \<not> IS_DIGIT (buf ! (length p + length ds))"
    and "dec_val n ds < 2 ^ 32"
  shows "read_number buf (of_nat n) (length p) e =
    Some (of_nat (dec_val n ds), length p + length ds)"
  using assms
proof (induction ds arbitrary: p n)
  case Nil
  then have "\<not> (length p < e \<and> IS_DIGIT (buf ! length p))" by auto
  then show ?case by (subst read_number.simps) auto
next
  case (Cons d ds)
  have d: "IS_DIGIT d" using Cons.prems(3) by simp
  have "10 * n + dig d < 2 ^ 32"
    using Cons.prems(5) dec_val_ge [of "10 * n + dig d" ds] by simp
  then have n: "10 * n + dig d < 2 ^ 32" and small: "n < 2 ^ 32 - 58"
    by auto
  have room: "\<not> 0xFFFFFFFF - of_nat n < (word_of_int (schar d) :: u32)"
  proof -
    have "unat (of_nat n :: u32) = n" using small by (simp add: unat_of_nat)
    moreover have "(word_of_int (schar d) :: u32) = of_nat (48 + dig d)"
      by (simp add: schar_dig [OF d])
    moreover have "unat (of_nat (48 + dig d) :: u32) = 48 + dig d"
      using dig_le [OF d] unfolding unat_of_nat by simp
    ultimately show ?thesis
      using small dig_le [OF d]
      by (simp only: not_less word_le_nat_alt) (simp add: unat_sub word_le_nat_alt)
  qed
  have step: "of_nat n * 10 + word_of_int (schar d) - 0x30 = (of_nat (10 * n + dig d) :: u32)"
    by (simp add: schar_dig [OF d])
  have "read_number buf (of_nat n) (length p) e =
      read_number buf (of_nat n * 10 + word_of_int (schar d) - 0x30) (length (p @ [d])) e"
    using Cons.prems(1,2) d room by (subst read_number.simps) simp
  also have "\<dots> = read_number buf (of_nat (10 * n + dig d)) (length (p @ [d])) e"
    by (simp only: step)
  also have "\<dots> = Some (of_nat (dec_val (10 * n + dig d) ds), length (p @ [d]) + length ds)"
    using Cons.prems by (intro Cons.IH) auto
  finally show ?case by simp
qed

section \<open>Properties\<close>

lemma wsp_not_token: "IS_WSP ch \<Longrightarrow> \<not> IS_TOKEN ch"
  using token_plain [of ch] by (auto simp: IS_WSP_def)

lemma wsp_not_digit: "IS_WSP ch \<Longrightarrow> \<not> IS_DIGIT ch"
  using digit_plain [of ch] by (auto simp: IS_WSP_def)

lemma token_not_wsp: "IS_TOKEN ch \<Longrightarrow> \<not> IS_WSP ch"
  using token_plain [of ch] by (auto simp: IS_WSP_def)

lemma digit_not_wsp: "IS_DIGIT ch \<Longrightarrow> \<not> IS_WSP ch"
  using digit_plain [of ch] by (auto simp: IS_WSP_def)

text \<open>
  C28: reading back an RAck header. Two numbers that fit 32 bits and a method, separated by a
  blank each, are parsed into exactly these numbers, this text and the method it names.
\<close>

theorem parse_print_rack:
  assumes "buf = p @ print_dec r @ SP # print_dec n @ SP # m @ q"
    and "r < 2 ^ 32" and "n < 2 ^ 32" and "list_all IS_TOKEN m" and "m \<noteq> []"
    and "len = length (print_dec r @ SP # print_dec n @ SP # m)"
  shows "\<exists>k. parse_rack buf (length p) len = Some k \<and> rk_rseq k = of_nat r \<and>
    rk_cseq k = of_nat n \<and> c2stlstr buf (rk_cseq_str k) = print_dec n \<and>
    rk_method k = method_of m \<and> c2stlstr buf (rk_method_str k) = m"
proof -
  let ?e = "length p + len"
  define p1 p2 p3 p4 where "p1 = p @ print_dec r" and "p2 = p1 @ [SP]"
    and "p3 = p2 @ print_dec n" and "p4 = p3 @ [SP]"
  note ps = p1_def p2_def p3_def p4_def
  have dr: "IS_DIGIT (hd (print_dec r))" and dn: "IS_DIGIT (hd (print_dec n))"
    and dm: "IS_TOKEN (hd m)"
    using print_dec_digits print_dec_not_Nil assms(4,5)
    by (metis hd_in_set list_all_iff)+
  have at: "buf ! length p = hd (print_dec r)" "buf ! length p1 = SP"
    "buf ! length p2 = hd (print_dec n)" "buf ! length p3 = SP" "buf ! length p4 = hd m"
    using assms(5) by (simp_all add: assms(1) ps nth_append hd_conv_nth)
  have b1: "buf = p @ print_dec r @ (SP # print_dec n @ SP # m @ q)"
    and b2: "buf = p1 @ [SP] @ (print_dec n @ SP # m @ q)"
    and b3: "buf = p2 @ print_dec n @ (SP # m @ q)"
    and b4: "buf = p3 @ [SP] @ (m @ q)" and b5: "buf = p4 @ m @ q"
    by (simp_all add: assms(1) ps)
  have len: "length p1 = length p + length (print_dec r)" "length p2 = length p1 + 1"
    "length p3 = length p2 + length (print_dec n)" "length p4 = length p3 + 1"
    "?e = length p4 + length m"
    using assms(6) by (simp_all add: ps)
  have sp: "IS_WSP SP" "\<not> IS_DIGIT SP" by (simp_all add: IS_WSP_def IS_DIGIT_def IS_IN_def schar_def)
  have ws1: "eat_ws buf (length p) ?e = length p"
    using at(1) digit_not_wsp [OF dr] by (subst eat_ws.simps) (simp add: IS_WSP_def)
  have n1: "read_number buf 0 (length p) ?e = Some (of_nat r, length p1)"
    using read_number_fits [OF b1, of ?e 0] assms(2) at(2) len sp by (simp add: add.assoc)
  have ws2: "eat_ws buf (length p1) ?e = length p2"
    using eat_ws_word [OF b2, of ?e] at(3) digit_not_wsp [OF dn] len sp by (simp add: add.assoc)
  have n2: "read_number buf 0 (length p2) ?e = Some (of_nat n, length p3)"
    using read_number_fits [OF b3, of ?e 0] assms(3) at(4) len sp by (simp add: add.assoc)
  have ws3: "eat_ws buf (length p3) ?e = length p4"
    using eat_ws_word [OF b4, of ?e] at(5) token_not_wsp [OF dm] len sp by (simp add: add.assoc)
  have tok: "eat_token buf (length p4) ?e = ?e"
    using eat_token_word [OF b5, of ?e] assms(4) len by (simp add: add.assoc)
  have "c2stlstr buf (cs_set (length p4) (int ?e - int (length p4))) = m"
    "c2stlstr buf (cs_set (length p2) (int (length p3) - int (length p2))) = print_dec n"
    using c2stlstr_middle [of _ p4 _ m q] c2stlstr_middle [of _ p2 _ "print_dec n" "SP # m @ q"] b3 b5 len
    by simp_all
  moreover have "length p1 \<noteq> length p" "length p3 \<noteq> length p2" using len by simp_all
  ultimately show ?thesis
    using assms(4) by (simp add: parse_rack_def Let_def ws1 n1 ws2 n2 ws3 tok parse_method_def)
qed

theorem parse_print_rack_witness:
  "\<exists>k. parse_rack ''7 9 BYE'' 0 (length ''7 9 BYE'') = Some k \<and> rk_rseq k = 7 \<and> rk_cseq k = 9 \<and>
    c2stlstr ''7 9 BYE'' (rk_cseq_str k) = ''9'' \<and> rk_method k = BYE \<and>
    c2stlstr ''7 9 BYE'' (rk_method_str k) = ''BYE''"
proof -
  have "print_dec 7 = ''7''" "print_dec 9 = ''9''"
    by (simp_all add: print_dec.simps digit_char_def char_of_def)
  then show ?thesis
    using parse_print_rack [of "''7 9 BYE''" "[]" 7 9 "''BYE''" "[]" "length ''7 9 BYE''"]
    by (simp add: IS_TOKEN_def IS_ALPHANUM_def IS_ALPHA_def IS_IN_def schar_def method_of_def)
qed

text \<open>
  The overflow test of \<^verbatim>\<open>READ_NUMBER\<close> is too weak: it leaves the multiplication by ten out, so
  the RSeq 4294967300, which does not fit 32 bits, is accepted and read as 4.
\<close>

theorem rseq_overflow_accepted: "parse_rseq ''4294967300'' 0 10 = Some 4"
  by code_simp

end
