(* ===== verification/Sip_Parser.thy ===== *)
theory Sip_Parser
  imports Parse_Uri Parse_Header Parse_Via Parse_Nameaddr Parse_100rel
begin

text \<open>
  \<^verbatim>\<open>core/sip/sip_parser.h\<close> and \<^verbatim>\<open>core/sip/sip_parser.cpp\<close>: the first line of a message, the headers
  the SIP core needs, and the message as a whole, composed of all header parsers. The lemmas show
  that the first line is parsed safely and which part of the message exists afterwards, and how
  the headers are sorted into the fields of the message.
\<close>

section \<open>Data\<close>

datatype msg_type = SIP_UNKNOWN | SIP_REQUEST | SIP_REPLY

record sip_request =
  rq_method_str :: cstring
  rq_method :: sip_method
  ruri_str :: cstring
  ruri :: sip_uri

record sip_reply =
  rp_code :: int
  rp_reason :: cstring

definition new_reply :: sip_reply where
  "new_reply = \<lparr>rp_code = 0, rp_reason = cs_null\<rparr>"

text \<open>
  A pointer to a header is the header itself, or \<open>None\<close> for a null pointer. The parsed forms of
  the headers (\<^verbatim>\<open>via1->p\<close>, \<^verbatim>\<open>cseq->p\<close>, \<^verbatim>\<open>from->p\<close>, \<^verbatim>\<open>to->p\<close>, \<^verbatim>\<open>rack->p\<close>) are fields of the message. The
  buffer and its length are arguments of the parser; the addresses and the socket belong to the
  transports.
\<close>

record sip_msg =
  m_type :: msg_type
  m_request :: "sip_request option"
  m_reply :: "sip_reply option"
  m_hdrs :: "sip_header list"
  m_to :: "sip_header option"
  m_from :: "sip_header option"
  m_cseq :: "sip_header option"
  m_rack :: "sip_header option"
  m_vias :: "sip_header list"
  m_via1 :: "sip_header option"
  m_via_p1 :: "via_parm option"
  m_callid :: "sip_header option"
  m_contacts :: "sip_header list"
  m_route :: "sip_header list"
  m_record_route :: "sip_header list"
  m_content_type :: "sip_header option"
  m_content_length :: "sip_header option"
  m_body :: cstring
  p_via :: "via_parm list option"
  p_cseq :: "sip_cseq option"
  p_from :: "sip_from_to option"
  p_to :: "sip_from_to option"
  p_rack :: "sip_rack option"

definition new_msg :: sip_msg where
  "new_msg = \<lparr>m_type = SIP_UNKNOWN, m_request = None, m_reply = None, m_hdrs = [], m_to = None,
     m_from = None, m_cseq = None, m_rack = None, m_vias = [], m_via1 = None, m_via_p1 = None,
     m_callid = None, m_contacts = [], m_route = [], m_record_route = [], m_content_type = None,
     m_content_length = None, m_body = cs_null, p_via = None, p_cseq = None, p_from = None,
     p_to = None, p_rack = None\<rparr>"

section \<open>The first line\<close>

datatype fl_st =
  FL_METH | FL_RURI | FL_SIPVER1 | FL_SIPVER2 | FL_SIPVER3 | FL_SIPVER4 | FL_SIPVER_DIG1
  | FL_SIPVER_SEP | FL_SIPVER_DIG2 | FL_SIPVER_SP | FL_STAT1 | FL_STAT2 | FL_STAT3 | FL_STAT_SP
  | FL_REASON | FL_EOL | FL_ERR | FL_BAD_VERSION

record fl_fsm = "fl_st fsm" +
  fl_beg :: nat
  fl_is_request :: bool
  fl_msg :: sip_msg

text \<open>\<open>Next 0\<close> is the \<^verbatim>\<open>(*c)--\<close> that has the character parsed as part of a method.\<close>

definition case_SIPVER :: "char \<Rightarrow> char \<Rightarrow> fl_st \<Rightarrow> char \<Rightarrow> fl_fsm \<Rightarrow> fl_fsm act" where
  "case_SIPVER ch1 ch2 st2 ch s =
     (if ch = ch1 \<or> ch = ch2 then Next 1 (s\<lparr>st := St st2\<rparr>)
      else if \<not> fl_is_request s then Next 0 (s\<lparr>st := St FL_METH\<rparr>)
      else Next 1 (s\<lparr>st := St FL_ERR\<rparr>))"

definition fl_sipver4 :: "char \<Rightarrow> fl_fsm \<Rightarrow> fl_fsm act" where
  "fl_sipver4 ch s =
     (if ch = CHR ''/'' then Next 1 (s\<lparr>st := St FL_SIPVER_DIG1\<rparr>)
      else if \<not> fl_is_request s then Next 0 (s\<lparr>st := St FL_METH\<rparr>)
      else Next 1 (s\<lparr>st := St FL_ERR\<rparr>))"

text \<open>The common part of the three cases that read the version number.\<close>

definition fl_version :: "char \<Rightarrow> fl_st \<Rightarrow> char \<Rightarrow> fl_fsm \<Rightarrow> fl_fsm act" where
  "fl_version x st2 ch s =
     (if ch = x then Next 1 (s\<lparr>st := St st2\<rparr>)
      else if fl_is_request s then Next 1 (s\<lparr>st := St FL_BAD_VERSION\<rparr>)
      else Next 1 (s\<lparr>st := St FL_ERR\<rparr>))"

definition fl_sipver_dig2 :: "char \<Rightarrow> fl_fsm \<Rightarrow> fl_fsm act" where
  "fl_sipver_dig2 ch s =
     (if ch = CHR ''0'' then
        if fl_is_request s then Next 1 (s\<lparr>st := St FL_EOL\<rparr>)
        else Next 1 (s\<lparr>fl_msg := (fl_msg s)\<lparr>m_type := SIP_REPLY, m_reply := Some new_reply\<rparr>,
                       st := St FL_SIPVER_SP\<rparr>)
      else if fl_is_request s then Next 1 (s\<lparr>st := St FL_BAD_VERSION\<rparr>)
      else Next 1 (s\<lparr>st := St FL_ERR\<rparr>))"

definition fl_meth :: "string \<Rightarrow> nat \<Rightarrow> char \<Rightarrow> fl_fsm \<Rightarrow> fl_fsm act" where
  "fl_meth buf c ch s =
     (if ch = SP then
        let mstr = cs_set (fl_beg s) (int c - int (fl_beg s));
            (m, err) = parse_method (c2stlstr buf mstr);
            rq = \<lparr>rq_method_str = mstr, rq_method = m, ruri_str = cs_null, ruri = new_uri\<rparr>;
            s1 = s\<lparr>fl_msg := (fl_msg s)\<lparr>m_type := SIP_REQUEST, m_request := Some rq\<rparr>\<rparr>
        in if err \<noteq> 0 then Ret c s1 err
           else Next 1 (s1\<lparr>st := St FL_RURI, fl_beg := c + 1\<rparr>)
      else Next 1 s)"

text \<open>
  \<^verbatim>\<open>msg->u.request\<close> is set in this state; \<open>upd_request\<close> writes through the pointer. As before,
  \<open>Next 0\<close> with the state unchanged stands for a call that would not return.
\<close>

definition upd_request :: "(sip_request \<Rightarrow> sip_request) \<Rightarrow> sip_msg \<Rightarrow> sip_msg" where
  "upd_request f m = m\<lparr>m_request := map_option f (m_request m)\<rparr>"

definition upd_reply :: "(sip_reply \<Rightarrow> sip_reply) \<Rightarrow> sip_msg \<Rightarrow> sip_msg" where
  "upd_reply f m = m\<lparr>m_reply := map_option f (m_reply m)\<rparr>"

definition fl_ruri :: "string \<Rightarrow> nat \<Rightarrow> char \<Rightarrow> fl_fsm \<Rightarrow> fl_fsm act" where
  "fl_ruri buf c ch s =
     (if ch = SP then
        (case parse_uri buf new_uri (fl_beg s) (c - fl_beg s) of
           Out c' u err \<Rightarrow>
             let s1 = s\<lparr>fl_msg := upd_request (\<lambda>rq. rq\<lparr>
                       ruri_str := cs_set (fl_beg s) (int c - int (fl_beg s)), ruri := u\<rparr>) (fl_msg s)\<rparr>
             in if err \<noteq> 0 then Ret c s1 err
                else Next 1 (s1\<lparr>st := St FL_SIPVER1, fl_is_request := True\<rparr>)
         | _ \<Rightarrow> Next 0 s)
      else if ch = CR \<or> ch = LF \<or> ch = HTAB then Ret c s MALFORMED_SIP_MSG
      else Next 1 s)"

definition fl_blank :: "fl_st \<Rightarrow> nat \<Rightarrow> char \<Rightarrow> fl_fsm \<Rightarrow> fl_fsm act" where
  "fl_blank st2 c ch s =
     (if ch \<noteq> SP then Next 1 (s\<lparr>st := St FL_ERR\<rparr>)
      else Next 1 (s\<lparr>st := St st2, fl_beg := c + 1\<rparr>))"

definition case_STCODE :: "fl_st \<Rightarrow> char \<Rightarrow> fl_fsm \<Rightarrow> fl_fsm act" where
  "case_STCODE st2 ch s =
     (if IS_DIGIT ch then
        Next 1 (s\<lparr>st := St st2, fl_msg := upd_reply (\<lambda>rp. rp\<lparr>
                  rp_code := rp_code rp * 10 + (schar ch - 0x30)\<rparr>) (fl_msg s)\<rparr>)
      else Next 1 (s\<lparr>st := St FL_ERR\<rparr>))"

text \<open>The cases \<^verbatim>\<open>FL_REASON\<close> and \<^verbatim>\<open>FL_BAD_VERSION\<close> only look for the line ending.\<close>

definition fl_to_eol :: "char \<Rightarrow> fl_fsm \<Rightarrow> fl_fsm act" where
  "fl_to_eol ch s =
     (if ch = CR then Next 1 (enter_CR s)
      else if ch = LF then Next 1 (enter_LF s)
      else Next 1 s)"

definition fl_eol :: "nat \<Rightarrow> char \<Rightarrow> fl_fsm \<Rightarrow> fl_fsm act" where
  "fl_eol c ch s =
     (if ch = CR then Next 1 (enter_CR s)
      else if ch = LF then Next 1 (enter_LF s)
      else Ret c s MALFORMED_SIP_MSG)"

definition fl_line_end :: "nat \<Rightarrow> fl_fsm \<Rightarrow> fl_fsm act" where
  "fl_line_end c s =
     (let reason_len = int c - eol_len s - int (fl_beg s);
          s1 = (if saved_st s = St FL_REASON \<and> reason_len > 0
                then s\<lparr>fl_msg := upd_reply (\<lambda>rp. rp\<lparr>rp_reason := cs_set (fl_beg s) reason_len\<rparr>) (fl_msg s)\<rparr>
                else s)
      in Ret c s1 (if saved_st s = St FL_BAD_VERSION then MALFORMED_SIP_VERSION else 0))"

text \<open>The default case, which returns -99, belongs to no value of the state.\<close>

definition fl_body :: "string \<Rightarrow> nat \<Rightarrow> fl_fsm \<Rightarrow> fl_fsm act" where
  "fl_body buf c s =
     (let ch = buf ! c in
      case st s of
        St FL_SIPVER1 \<Rightarrow> case_SIPVER CHR ''S'' CHR ''s'' FL_SIPVER2 ch s
      | St FL_SIPVER2 \<Rightarrow> case_SIPVER CHR ''I'' CHR ''i'' FL_SIPVER3 ch s
      | St FL_SIPVER3 \<Rightarrow> case_SIPVER CHR ''P'' CHR ''p'' FL_SIPVER4 ch s
      | St FL_SIPVER4 \<Rightarrow> fl_sipver4 ch s
      | St FL_SIPVER_DIG1 \<Rightarrow> fl_version CHR ''2'' FL_SIPVER_SEP ch s
      | St FL_SIPVER_SEP \<Rightarrow> fl_version CHR ''.'' FL_SIPVER_DIG2 ch s
      | St FL_SIPVER_DIG2 \<Rightarrow> fl_sipver_dig2 ch s
      | St FL_METH \<Rightarrow> fl_meth buf c ch s
      | St FL_RURI \<Rightarrow> fl_ruri buf c ch s
      | St FL_SIPVER_SP \<Rightarrow> fl_blank FL_STAT1 c ch s
      | St FL_STAT1 \<Rightarrow> case_STCODE FL_STAT2 ch s
      | St FL_STAT2 \<Rightarrow> case_STCODE FL_STAT3 ch s
      | St FL_STAT3 \<Rightarrow> case_STCODE FL_STAT_SP ch s
      | St FL_STAT_SP \<Rightarrow> fl_blank FL_REASON c ch s
      | St FL_REASON \<Rightarrow> fl_to_eol ch s
      | St FL_EOL \<Rightarrow> fl_eol c ch s
      | St FL_ERR \<Rightarrow> Ret c s MALFORMED_SIP_MSG
      | St FL_BAD_VERSION \<Rightarrow> fl_to_eol ch s
      | ST_CR \<Rightarrow> case_ST_CR c ch s
      | ST_LF \<Rightarrow> fl_line_end c s
      | ST_CRLF \<Rightarrow> fl_line_end c s)"

definition fl_init :: "sip_msg \<Rightarrow> nat \<Rightarrow> fl_fsm" where
  "fl_init m c = \<lparr>st = St FL_SIPVER1, saved_st = St FL_METH, fl_beg = c, fl_is_request = False, fl_msg = m\<rparr>"

definition parse_first_line :: "string \<Rightarrow> sip_msg \<Rightarrow> nat \<Rightarrow> nat \<Rightarrow> sip_msg out" where
  "parse_first_line buf m c e =
     map_out fl_msg
       (scan (\<lambda>c. buf ! c \<noteq> NUL) (fl_body buf) (\<lambda>c s. Out c s UNEXPECTED_EOT) e c (fl_init m c))"

section \<open>The headers of a message\<close>

text \<open>One pass of the loop over the headers: the message and \<^verbatim>\<open>err\<close>.\<close>

definition msg_add_hdr :: "sip_header \<Rightarrow> sip_msg \<times> int \<Rightarrow> sip_msg \<times> int" where
  "msg_add_hdr h me =
     (let (m, err) = me;
          dup = (\<lambda>old. if old \<noteq> None then MALFORMED_SIP_MSG else err);
          (m1, err1) =
            (case h_type h of
               H_CALL_ID \<Rightarrow> (m\<lparr>m_callid := Some h\<rparr>, dup (m_callid m))
             | H_CONTACT \<Rightarrow> (m\<lparr>m_contacts := m_contacts m @ [h]\<rparr>, err)
             | H_CONTENT_LENGTH \<Rightarrow> (m\<lparr>m_content_length := Some h\<rparr>, dup (m_content_length m))
             | H_CONTENT_TYPE \<Rightarrow> (m\<lparr>m_content_type := Some h\<rparr>, err)
             | H_FROM \<Rightarrow> (m\<lparr>m_from := Some h\<rparr>, dup (m_from m))
             | H_TO \<Rightarrow> (m\<lparr>m_to := Some h\<rparr>, dup (m_to m))
             | H_VIA \<Rightarrow> (m\<lparr>m_via1 := (if m_via1 m = None then Some h else m_via1 m),
                          m_vias := m_vias m @ [h]\<rparr>, err)
             | H_RACK \<Rightarrow> (if m_type m = SIP_REQUEST \<and> map_option rq_method (m_request m) = Some PRACK
                         then m\<lparr>m_rack := Some h\<rparr> else m, err)
             | H_CSEQ \<Rightarrow> (m\<lparr>m_cseq := Some h\<rparr>, dup (m_cseq m))
             | H_ROUTE \<Rightarrow> (m\<lparr>m_route := m_route m @ [h]\<rparr>, err)
             | H_RECORD_ROUTE \<Rightarrow> (m\<lparr>m_record_route := m_record_route m @ [h]\<rparr>, err)
             | _ \<Rightarrow> (m, err))
      in (m1\<lparr>m_hdrs := m_hdrs m1 @ [h]\<rparr>, err1))"

definition parse_msg_headers :: "string \<Rightarrow> sip_msg \<Rightarrow> nat \<Rightarrow> nat \<Rightarrow> sip_msg out" where
  "parse_msg_headers buf m c e =
     (case parse_headers buf [] c e of
        Out c' s err \<Rightarrow>
          if err \<noteq> 0 then Out c' m err
          else let (m', err') = fold msg_add_hdr (hd_hdrs s) (m, err) in Out c' m' err'
      | Overrun \<Rightarrow> Overrun
      | Diverge \<Rightarrow> Diverge)"

section \<open>The message\<close>

text \<open>
  The loop over the digits of Content-Length; \<open>Inl\<close> is an error message. The value is a
  non-negative \<^verbatim>\<open>int\<close>, and the test before the multiplication keeps it in range.
\<close>

fun cl_digits :: "int \<Rightarrow> string \<Rightarrow> string + int" where
  "cl_digits v [] = Inr v"
| "cl_digits v (ch # cs) =
     (if schar ch \<ge> 0x30 \<and> schar ch \<le> 0x39 then
        let digit = schar ch - 0x30 in
        if v > (2147483647 - digit) div 10 then Inl ''Content-Length value too large''
        else cl_digits (v * 10 + digit) cs
      else if ch = SP \<or> ch = HTAB then Inr v
      else Inl ''Invalid Content-Length value'')"

definition cl_value :: "string \<Rightarrow> string + int" where
  "cl_value val =
     (let cl = dropWhile (\<lambda>ch. ch = SP \<or> ch = HTAB) val in
      if cl = [] then Inl ''Invalid Content-Length value'' else cl_digits 0 cl)"

text \<open>
  The parts of \<^verbatim>\<open>parse_sip_msg\<close> that end with \<^verbatim>\<open>return MALFORMED_SIP_MSG\<close> on failure. A part returns
  the message and the error message, if any; \<open>None\<close> stands for a call that does not return.
\<close>

type_synonym msg_step = "sip_msg \<Rightarrow> (sip_msg \<times> string option) option"

definition set_body :: "string \<Rightarrow> nat \<Rightarrow> nat \<Rightarrow> msg_step" where
  "set_body buf len c m =
     (let available_body_len = int len - int c in
      case m_content_length m of
        None \<Rightarrow> Some (m\<lparr>m_body := cs_set c available_body_len\<rparr>, None)
      | Some h \<Rightarrow>
          (case cl_value (c2stlstr buf (h_value h)) of
             Inl err \<Rightarrow> Some (m, Some err)
           | Inr n \<Rightarrow>
               if n > available_body_len
               then Some (m, Some ''Content-Length exceeds available body data'')
               else Some (m\<lparr>m_body := cs_set c n\<rparr>, None)))"

definition missing_header :: "sip_msg \<Rightarrow> string option" where
  "missing_header m =
     (if m_via1 m = None then Some ''missing Via header field''
      else if m_cseq m = None then Some ''missing CSeq header field''
      else if m_from m = None then Some ''missing From header field''
      else if m_to m = None then Some ''missing To header field''
      else if m_callid m = None then Some ''missing Call-ID header field''
      else None)"

text \<open>The value of a header as offset and length, for the calls of the header parsers.\<close>

definition val_s :: "sip_header option \<Rightarrow> nat" where
  "val_s h = (case h of None \<Rightarrow> 0 | Some h' \<Rightarrow> cs_s (h_value h'))"

definition val_len :: "sip_header option \<Rightarrow> nat" where
  "val_len h = (case h of None \<Rightarrow> 0 | Some h' \<Rightarrow> nat (cs_len (h_value h')))"

definition step_via :: "string \<Rightarrow> msg_step" where
  "step_via buf m =
     (case parse_via buf [] (val_s (m_via1 m)) (val_len (m_via1 m)) of
        Out _ s r \<Rightarrow>
          if r = 0 \<and> v_parms s \<noteq> []
          then Some (m\<lparr>m_via_p1 := Some (hd (v_parms s)), p_via := Some (v_parms s)\<rparr>, None)
          else Some (m, Some ''could not parse Via hf'')
      | _ \<Rightarrow> None)"

definition step_cseq :: "string \<Rightarrow> msg_step" where
  "step_cseq buf m =
     (case parse_cseq buf new_cseq (val_s (m_cseq m)) (val_len (m_cseq m)) of
        Out _ cs r \<Rightarrow>
          if r = 0 \<and> cs_len (num_str cs) \<noteq> 0 \<and> cs_len (method_str cs) \<noteq> 0
          then Some (m\<lparr>p_cseq := Some cs\<rparr>, None)
          else Some (m, Some ''could not parse CSeq hf'')
      | _ \<Rightarrow> None)"

text \<open>
  The method of the CSeq may be uninitialised memory; \<open>junk\<close> is the value read then. The
  message has a request here whenever its type says so.
\<close>

definition step_cseq_method :: "string \<Rightarrow> sip_method \<Rightarrow> msg_step" where
  "step_cseq_method buf junk m =
     (case (m_type m, p_cseq m, m_request m) of
        (SIP_REQUEST, Some cs, Some rq) \<Rightarrow>
          let cm = (case cs_method cs of Some x \<Rightarrow> x | None \<Rightarrow> junk) in
          if cm \<noteq> rq_method rq \<or>
             (cm = OTHER_METHOD \<and>
              (cs_len (method_str cs) \<noteq> cs_len (rq_method_str rq) \<or>
               c2stlstr buf (method_str cs) \<noteq> c2stlstr buf (rq_method_str rq)))
          then Some (m, Some ''CSeq method does not match request method'')
          else Some (m, None)
      | _ \<Rightarrow> Some (m, None))"

definition step_from :: "string \<Rightarrow> msg_step" where
  "step_from buf m =
     (case parse_from_to buf new_from_to (val_s (m_from m)) (val_len (m_from m)) of
        Out _ ft r \<Rightarrow>
          if r \<noteq> 0 then Some (m, Some ''could not parse From hf'')
          else if cs_len (ft_tag ft) = 0 then Some (m, Some ''missing From-tag'')
          else Some (m\<lparr>p_from := Some ft\<rparr>, None)
      | _ \<Rightarrow> None)"

definition step_to :: "string \<Rightarrow> msg_step" where
  "step_to buf m =
     (case parse_from_to buf new_from_to (val_s (m_to m)) (val_len (m_to m)) of
        Out _ ft r \<Rightarrow>
          if r = 0 then Some (m\<lparr>p_to := Some ft\<rparr>, None)
          else Some (m, Some ''could not parse To hf'')
      | _ \<Rightarrow> None)"

definition step_rack :: "string \<Rightarrow> msg_step" where
  "step_rack buf m =
     (if m_rack m = None then Some (m, None)
      else case parse_rack buf (val_s (m_rack m)) (val_len (m_rack m)) of
             Some k \<Rightarrow> Some (m\<lparr>p_rack := Some k\<rparr>, None)
           | None \<Rightarrow> Some (m, Some ''could not parse RAck hf''))"

fun run_steps :: "msg_step list \<Rightarrow> sip_msg \<Rightarrow> (sip_msg \<times> string \<times> int) option" where
  "run_steps [] m = Some (m, [], 0)"
| "run_steps (f # fs) m =
     (case f m of
        None \<Rightarrow> None
      | Some (m', Some err) \<Rightarrow> Some (m', err, MALFORMED_SIP_MSG)
      | Some (m', None) \<Rightarrow> run_steps fs m')"

definition parse_msg_rest ::
  "string \<Rightarrow> sip_method \<Rightarrow> sip_msg \<Rightarrow> nat \<Rightarrow> nat \<Rightarrow> (sip_msg \<times> string \<times> int) option" where
  "parse_msg_rest buf junk m c len =
     (case parse_msg_headers buf m c len of
        Out c' m1 err \<Rightarrow>
          if err \<noteq> 0 then Some (m1, ''Malformed headers'', err)
          else
            (case set_body buf len c' m1 of
               Some (m2, None) \<Rightarrow>
                 (case missing_header m2 of
                    Some e \<Rightarrow> Some (m2, e, INCOMPLETE_SIP_MSG)
                  | None \<Rightarrow> run_steps [step_via buf, step_cseq buf, step_cseq_method buf junk,
                             step_from buf, step_to buf, step_rack buf] m2)
             | Some (m2, Some e) \<Rightarrow> Some (m2, e, MALFORMED_SIP_MSG)
             | None \<Rightarrow> None)
      | _ \<Rightarrow> None)"

definition parse_sip_msg :: "string \<Rightarrow> nat \<Rightarrow> sip_method \<Rightarrow> (sip_msg \<times> string \<times> int) option" where
  "parse_sip_msg buf len junk =
     (case parse_first_line buf new_msg 0 len of
        Out c m err \<Rightarrow>
          if err = 0 then parse_msg_rest buf junk m c len
          else if err = MALFORMED_SIP_VERSION then
            (case parse_msg_headers buf m c len of
               Out _ m1 _ \<Rightarrow> Some (m1, ''Version Not Supported'', MALFORMED_SIP_VERSION)
             | _ \<Rightarrow> None)
          else Some (m, ''Could not parse first line'', MALFORMED_FLINE)
      | _ \<Rightarrow> None)"

section \<open>Safety of the first line\<close>

text \<open>The parser's own state, also while a line ending is being read.\<close>

definition fl_cur :: "fl_fsm \<Rightarrow> fl_st" where
  "fl_cur s = (case st s of St x \<Rightarrow> x | _ \<Rightarrow> (case saved_st s of St x \<Rightarrow> x | _ \<Rightarrow> FL_ERR))"

definition request_ok :: "nat \<Rightarrow> sip_request \<Rightarrow> bool" where
  "request_ok e rq \<longleftrightarrow> cs_ok 0 e (rq_method_str rq) \<and> cs_ok 0 e (ruri_str rq) \<and> uri_ok 0 e (ruri rq)"

definition reply_ok :: "nat \<Rightarrow> sip_reply \<Rightarrow> bool" where
  "reply_ok e rp \<longleftrightarrow> cs_ok 0 e (rp_reason rp)"

definition fl_slices :: "nat \<Rightarrow> sip_msg \<Rightarrow> bool" where
  "fl_slices e m \<longleftrightarrow> pred_option (request_ok e) (m_request m) \<and> pred_option (reply_ok e) (m_reply m)"

text \<open>Which part of the message exists in which state, and the range of the status code.\<close>

definition has_request :: "sip_msg \<Rightarrow> bool" where
  "has_request m \<longleftrightarrow> m_type m = SIP_REQUEST \<and> m_request m \<noteq> None"

definition has_reply :: "int \<Rightarrow> sip_msg \<Rightarrow> bool" where
  "has_reply n m \<longleftrightarrow> m_type m = SIP_REPLY \<and> (\<exists>rp. m_reply m = Some rp \<and> 0 \<le> rp_code rp \<and> rp_code rp \<le> n)"

definition fl_typed :: "fl_fsm \<Rightarrow> bool" where
  "fl_typed s \<longleftrightarrow>
     (fl_is_request s \<longrightarrow> has_request (fl_msg s)) \<and>
     (case fl_cur s of
        FL_RURI \<Rightarrow> has_request (fl_msg s)
      | FL_EOL \<Rightarrow> fl_is_request s
      | FL_BAD_VERSION \<Rightarrow> fl_is_request s
      | FL_SIPVER_SP \<Rightarrow> has_reply 0 (fl_msg s) \<and> \<not> fl_is_request s
      | FL_STAT1 \<Rightarrow> has_reply 0 (fl_msg s) \<and> \<not> fl_is_request s
      | FL_STAT2 \<Rightarrow> has_reply 9 (fl_msg s) \<and> \<not> fl_is_request s
      | FL_STAT3 \<Rightarrow> has_reply 99 (fl_msg s) \<and> \<not> fl_is_request s
      | FL_STAT_SP \<Rightarrow> has_reply 999 (fl_msg s) \<and> \<not> fl_is_request s
      | FL_REASON \<Rightarrow> has_reply 999 (fl_msg s) \<and> \<not> fl_is_request s
      | FL_METH \<Rightarrow> \<not> fl_is_request s
      | _ \<Rightarrow> True) \<and>
     ((\<forall>x. st s \<noteq> St x) \<longrightarrow> fl_cur s \<in> {FL_REASON, FL_EOL, FL_BAD_VERSION})"

text \<open>The first line fills nothing but the type, the request and the reply.\<close>

definition fl_frame :: "sip_msg \<Rightarrow> bool" where
  "fl_frame m \<longleftrightarrow> m\<lparr>m_type := SIP_UNKNOWN, m_request := None, m_reply := None\<rparr> = new_msg"

lemma fl_frame_simps [simp]:
  "fl_frame (m\<lparr>m_type := a\<rparr>) = fl_frame m" "fl_frame (m\<lparr>m_request := b\<rparr>) = fl_frame m"
  "fl_frame (m\<lparr>m_reply := d\<rparr>) = fl_frame m" "fl_frame (upd_request f m) = fl_frame m"
  "fl_frame (upd_reply g m) = fl_frame m"
  by (simp_all add: fl_frame_def upd_request_def upd_reply_def)

definition fl_inv :: "nat \<Rightarrow> nat \<Rightarrow> fl_fsm \<Rightarrow> bool" where
  "fl_inv e c s \<longleftrightarrow> fl_beg s + eol_depth (st s) \<le> c \<and> c \<le> e \<and> fl_slices e (fl_msg s) \<and> fl_typed s \<and>
     fl_frame (fl_msg s)"

definition fl_post :: "nat \<Rightarrow> nat \<Rightarrow> fl_fsm \<Rightarrow> int \<Rightarrow> bool" where
  "fl_post e c s r \<longleftrightarrow> c \<le> e \<and> fl_slices e (fl_msg s) \<and> fl_frame (fl_msg s) \<and>
     (r = 0 \<longrightarrow> has_request (fl_msg s) \<or> has_reply 999 (fl_msg s)) \<and>
     (r = MALFORMED_SIP_VERSION \<longrightarrow> has_request (fl_msg s))"

abbreviation fl_act :: "nat \<Rightarrow> nat \<Rightarrow> fl_fsm act \<Rightarrow> bool" where
  "fl_act e \<equiv> act_ok (fl_inv e) (fl_post e)"

lemma has_reply_mono: "has_reply n m \<Longrightarrow> n \<le> k \<Longrightarrow> has_reply k m"
  by (auto simp: has_reply_def)

lemma upd_request_simps [simp]:
  "m_type (upd_request f m) = m_type m" "m_request (upd_request f m) = map_option f (m_request m)"
  "m_reply (upd_request f m) = m_reply m"
  "m_type (upd_reply g m) = m_type m" "m_reply (upd_reply g m) = map_option g (m_reply m)"
  "m_request (upd_reply g m) = m_request m"
  by (simp_all add: upd_request_def upd_reply_def)

lemma fl_slices_upd:
  "fl_slices e m \<Longrightarrow> (\<And>rq. request_ok e rq \<Longrightarrow> request_ok e (f rq)) \<Longrightarrow> fl_slices e (upd_request f m)"
  "fl_slices e m \<Longrightarrow> (\<And>rp. reply_ok e rp \<Longrightarrow> reply_ok e (g rp)) \<Longrightarrow> fl_slices e (upd_reply g m)"
  by (auto simp: fl_slices_def upd_request_def upd_reply_def pred_option_def split: option.splits)

lemma has_upd [simp]:
  "has_request (upd_request f m) = has_request m" "has_request (upd_reply g m) = has_request m"
  by (simp_all add: has_request_def)

text \<open>A step that only changes the state variable.\<close>

lemma fl_goto:
  assumes "fl_inv e c s" and "c < e" and "st s = St x"
    and "fl_typed (s\<lparr>st := St y\<rparr>)"
  shows "fl_inv e (c + 1) (s\<lparr>st := St y\<rparr>)" "fl_inv e c (s\<lparr>st := St y\<rparr>)"
  using assms by (simp_all add: fl_inv_def)

lemma case_SIPVER_ok:
  assumes "fl_inv e c s" and "c < e" and "st s = St x" and "y \<in> {FL_SIPVER2, FL_SIPVER3, FL_SIPVER4}"
  shows "fl_act e c (case_SIPVER ch1 ch2 y ch s) \<or>
    (\<exists>s'. case_SIPVER ch1 ch2 y ch s = Next 0 s' \<and> st s' = St FL_METH \<and> fl_inv e c s')"
proof -
  have "fl_typed (s\<lparr>st := St z\<rparr>)" if "z \<in> {FL_SIPVER2, FL_SIPVER3, FL_SIPVER4, FL_ERR}" for z
    using assms(1) that by (auto simp: fl_inv_def fl_typed_def fl_cur_def)
  moreover have "fl_typed (s\<lparr>st := St FL_METH\<rparr>)" if "\<not> fl_is_request s"
    using that by (simp add: fl_typed_def fl_cur_def)
  ultimately show ?thesis
    using fl_goto [OF assms(1-3)] assms(4) by (auto simp: case_SIPVER_def)
qed

lemma fl_sipver4_ok:
  assumes "fl_inv e c s" and "c < e" and "st s = St x"
  shows "fl_act e c (fl_sipver4 ch s) \<or>
    (\<exists>s'. fl_sipver4 ch s = Next 0 s' \<and> st s' = St FL_METH \<and> fl_inv e c s')"
proof -
  have "fl_typed (s\<lparr>st := St z\<rparr>)" if "z \<in> {FL_SIPVER_DIG1, FL_ERR}" for z
    using assms(1) that by (auto simp: fl_inv_def fl_typed_def fl_cur_def)
  moreover have "fl_typed (s\<lparr>st := St FL_METH\<rparr>)" if "\<not> fl_is_request s"
    using that by (simp add: fl_typed_def fl_cur_def)
  ultimately show ?thesis
    using fl_goto [OF assms] by (auto simp: fl_sipver4_def)
qed

lemma fl_version_ok:
  assumes "fl_inv e c s" and "c < e" and "st s = St x" and "y \<in> {FL_SIPVER_SEP, FL_SIPVER_DIG2}"
  shows "fl_act e c (fl_version ch1 y ch s)"
proof -
  have "fl_typed (s\<lparr>st := St z\<rparr>)" if "z \<in> {FL_SIPVER_SEP, FL_SIPVER_DIG2, FL_ERR}" for z
    using assms(1) that by (auto simp: fl_inv_def fl_typed_def fl_cur_def)
  moreover have "fl_typed (s\<lparr>st := St FL_BAD_VERSION\<rparr>)" if "fl_is_request s"
    using that assms(1) by (simp add: fl_inv_def fl_typed_def fl_cur_def)
  ultimately show ?thesis
    using fl_goto [OF assms(1-3)] assms(4) by (auto simp: fl_version_def)
qed

lemma fl_sipver_dig2_ok:
  "fl_inv e c s \<Longrightarrow> c < e \<Longrightarrow> st s = St x \<Longrightarrow> fl_act e c (fl_sipver_dig2 ch s)"
  by (simp add: fl_sipver_dig2_def fl_inv_def fl_typed_def fl_cur_def fl_slices_def has_reply_def
      has_request_def new_reply_def reply_ok_def)

lemma fl_meth_ok:
  assumes "fl_inv e c s" and "c < e" and "st s = St FL_METH"
  shows "fl_act e c (fl_meth buf c ch s)"
proof -
  let ?mstr = "cs_set (fl_beg s) (int c - int (fl_beg s))"
  obtain m r where r: "parse_method (c2stlstr buf ?mstr) = (m, r)" "r = 0 \<or> r = MALFORMED_SIP_MSG"
    by (auto simp: parse_method_def)
  have "cs_ok 0 e ?mstr" using assms by (intro cs_ok_set) (auto simp: fl_inv_def)
  with assms r show ?thesis
    by (auto simp: fl_meth_def fl_inv_def fl_post_def fl_typed_def fl_cur_def fl_slices_def
        has_request_def request_ok_def)
qed

lemma fl_ruri_ok:
  assumes "fl_inv e c s" and "c < e" and "st s = St FL_RURI"
  shows "fl_act e c (fl_ruri buf c ch s)"
proof -
  have le: "fl_beg s \<le> c" "c \<le> e" using assms by (auto simp: fl_inv_def)
  obtain c' u r where u: "parse_uri buf new_uri (fl_beg s) (c - fl_beg s) = Out c' u r"
    "r = 0 \<or> r = MALFORMED_URI" and "uri_ok (fl_beg s) (fl_beg s + (c - fl_beg s)) u"
    using parse_scheme_total [of buf URI_BEG "fl_beg s" "c - fl_beg s"] by (auto simp: parse_uri_def)
  then have "uri_ok 0 e u" using le by (auto intro: uri_ok_mono)
  moreover have "cs_ok 0 e (cs_set (fl_beg s) (int c - int (fl_beg s)))"
    using le by (intro cs_ok_set) auto
  ultimately have "fl_slices e (upd_request (\<lambda>rq. rq\<lparr>
      ruri_str := cs_set (fl_beg s) (int c - int (fl_beg s)), ruri := u\<rparr>) (fl_msg s))"
    using assms(1) by (intro fl_slices_upd) (auto simp: fl_inv_def request_ok_def)
  with assms u show ?thesis
    by (auto simp: fl_ruri_def fl_inv_def fl_post_def fl_typed_def fl_cur_def)
qed

lemma fl_blank_ok:
  assumes "fl_inv e c s" and "c < e" and "st s = St x"
    and "(x, y) \<in> {(FL_SIPVER_SP, FL_STAT1), (FL_STAT_SP, FL_REASON)}"
  shows "fl_act e c (fl_blank y c ch s)"
  using assms by (auto simp: fl_blank_def fl_inv_def fl_typed_def fl_cur_def)

lemma case_STCODE_ok:
  assumes "fl_inv e c s" and "c < e" and "st s = St x"
    and "(x, y) \<in> {(FL_STAT1, FL_STAT2), (FL_STAT2, FL_STAT3), (FL_STAT3, FL_STAT_SP)}"
  shows "fl_act e c (case_STCODE y ch s)"
proof -
  let ?m = "upd_reply (\<lambda>rp. rp\<lparr>rp_code := rp_code rp * 10 + (schar ch - 0x30)\<rparr>) (fl_msg s)"
  have sl: "fl_slices e ?m"
    using assms(1) by (intro fl_slices_upd) (auto simp: fl_inv_def reply_ok_def)
  have "has_reply (10 * n + 9) ?m" if "has_reply n (fl_msg s)" "IS_DIGIT ch" for n
    using that by (auto simp: has_reply_def IS_DIGIT_def IS_IN_def)
  from this [of 0] this [of 9] this [of 99] sl assms show ?thesis
    by (auto simp: case_STCODE_def fl_inv_def fl_typed_def fl_cur_def)
qed

lemma fl_enter_ok:
  assumes "fl_inv e c s" and "c < e" and "st s = St x" and "x \<in> {FL_REASON, FL_EOL, FL_BAD_VERSION}"
  shows "fl_inv e (c + 1) (enter_CR s)" "fl_inv e (c + 1) (enter_LF s)" "fl_inv e (c + 1) s"
    "fl_post e c s MALFORMED_SIP_MSG"
  using assms by (auto simp: enter_CR_def enter_LF_def fl_inv_def fl_typed_def fl_cur_def fl_post_def)

lemma fl_line_end_ok:
  assumes "fl_inv e c s" and "c < e" and "st s = ST_LF \<or> st s = ST_CRLF"
  shows "fl_act e c (fl_line_end c s)"
proof -
  have "fl_slices e (upd_reply (\<lambda>rp. rp\<lparr>rp_reason := cs_set (fl_beg s) n\<rparr>) (fl_msg s))"
    if "0 < n" "int (fl_beg s) + n \<le> int c" for n
    using assms(1,2) that by (intro fl_slices_upd) (auto simp: fl_inv_def reply_ok_def cs_ok_set)
  then have sl: "fl_slices e (fl_msg s') \<and> fl_frame (fl_msg s')" if "fl_line_end c s = Ret c s' r" for s' r
    using that assms by (auto simp: fl_line_end_def fl_inv_def eol_len_def Let_def split: if_splits)
  have typed: "(fl_cur s = FL_REASON \<longrightarrow> has_reply 999 (fl_msg s)) \<and>
      (fl_cur s \<in> {FL_EOL, FL_BAD_VERSION} \<longrightarrow> has_request (fl_msg s))"
    "fl_cur s \<in> {FL_REASON, FL_EOL, FL_BAD_VERSION}"
    using assms by (auto simp: fl_inv_def fl_typed_def)
  obtain y where y: "saved_st s = St y" "fl_cur s = y"
    using assms(3) typed(2) by (cases "saved_st s") (auto simp: fl_cur_def)
  have "has_reply 999 (upd_reply (\<lambda>rp. rp\<lparr>rp_reason := x\<rparr>) (fl_msg s))" if "has_reply 999 (fl_msg s)" for x
    using that by (auto simp: has_reply_def)
  with typed y show ?thesis
    using sl assms(2) by (auto simp: fl_line_end_def fl_post_def Let_def)
qed

lemma fl_body_ok:
  assumes "fl_inv e c s" and "c < e"
  shows "fl_act e c (fl_body buf c s) \<or>
    (\<exists>s'. fl_body buf c s = Next 0 s' \<and> fl_act e c (fl_body buf c s'))"
proof -
  have meth: "fl_act e c (fl_body buf c s')" if "st s' = St FL_METH" "fl_inv e c s'" for s'
    using that assms(2) by (simp add: fl_body_def fl_meth_ok)
  have err: "fl_post e c s MALFORMED_SIP_MSG" using assms by (auto simp: fl_inv_def fl_post_def)
  show ?thesis
  proof (cases "st s" rule: fsm_st.exhaust)
    case (St x)
    note ok = assms St
    note enter = fl_enter_ok [OF ok]
    show ?thesis
    proof (cases "x \<in> {FL_SIPVER1, FL_SIPVER2, FL_SIPVER3, FL_SIPVER4}")
      case True
      then have "fl_act e c (fl_body buf c s) \<or>
          (\<exists>s'. fl_body buf c s = Next 0 s' \<and> st s' = St FL_METH \<and> fl_inv e c s')"
        using case_SIPVER_ok [OF ok, of FL_SIPVER2 "CHR ''S''" "CHR ''s''" "buf ! c"]
          case_SIPVER_ok [OF ok, of FL_SIPVER3 "CHR ''I''" "CHR ''i''" "buf ! c"]
          case_SIPVER_ok [OF ok, of FL_SIPVER4 "CHR ''P''" "CHR ''p''" "buf ! c"]
          fl_sipver4_ok [OF ok, of "buf ! c"] St
        by (cases x) (simp_all add: fl_body_def)
      with meth show ?thesis by blast
    next
      case False
      with St err have "fl_act e c (fl_body buf c s)"
        using fl_version_ok [OF ok] fl_sipver_dig2_ok [OF ok] fl_meth_ok [OF assms]
          fl_ruri_ok [OF assms] fl_blank_ok [OF ok] case_STCODE_ok [OF ok] enter
        by (cases x) (simp_all add: fl_body_def fl_to_eol_def fl_eol_def Let_def)
      then show ?thesis ..
    qed
  next
    case ST_CR
    with assms have "fl_act e c (fl_body buf c s)"
      by (auto simp: fl_body_def case_ST_CR_def fl_inv_def fl_typed_def fl_cur_def fl_post_def)
    then show ?thesis ..
  qed (use fl_line_end_ok [OF assms] in \<open>simp_all add: fl_body_def\<close>)
qed

interpretation fl_loop: parser_loop "\<lambda>c. buf ! c \<noteq> NUL" "fl_body buf" "\<lambda>c s. Out c s UNEXPECTED_EOT"
    e "fl_inv e" "fl_post e" for buf e
  by unfold_locales (auto simp: fl_body_ok, auto simp: fl_inv_def fl_post_def)

lemma first_line_total:
  "\<exists>c' m r. parse_first_line buf new_msg 0 e = Out c' m r \<and> c' \<le> e \<and> fl_slices e m \<and> fl_frame m \<and>
     (r = 0 \<longrightarrow> has_request m \<or> has_reply 999 m) \<and> (r = MALFORMED_SIP_VERSION \<longrightarrow> has_request m)"
proof -
  have "fl_inv e 0 (fl_init new_msg 0)"
    by (simp add: fl_inv_def fl_init_def fl_slices_def new_msg_def fl_typed_def fl_cur_def
        fl_frame_def)
  from fl_loop.scan_total [OF this, of buf] show ?thesis
    by (auto simp: parse_first_line_def fl_post_def)
qed


section \<open>Sorting the headers\<close>

text \<open>
  What the loop over the headers keeps true: the lists are the headers of their type in order,
  the pointers of the headers that may occur once are these headers, and a second one is an
  error.
\<close>

definition of_type :: "hdr_type \<Rightarrow> sip_msg \<Rightarrow> sip_header list" where
  "of_type ty m = filter (\<lambda>h. h_type h = ty) (m_hdrs m)"

definition opt_list :: "'a option \<Rightarrow> 'a list" where
  "opt_list x = (case x of None \<Rightarrow> [] | Some y \<Rightarrow> [y])"

lemma opt_list_simps [simp]: "opt_list None = []" "opt_list (Some y) = [y]"
  by (simp_all add: opt_list_def)

definition hdr_lists :: "sip_msg \<Rightarrow> bool" where
  "hdr_lists m \<longleftrightarrow> m_contacts m = of_type H_CONTACT m \<and> m_route m = of_type H_ROUTE m \<and>
     m_record_route m = of_type H_RECORD_ROUTE m \<and> m_vias m = of_type H_VIA m \<and>
     m_via1 m = (case m_vias m of [] \<Rightarrow> None | h # _ \<Rightarrow> Some h) \<and>
     (\<forall>h. m_rack m = Some h \<longrightarrow> h \<in> set (m_hdrs m)) \<and>
     (\<forall>h \<in> set (opt_list (m_callid m) @ opt_list (m_content_length m) @ opt_list (m_from m) @
        opt_list (m_to m) @ opt_list (m_cseq m)). h \<in> set (m_hdrs m))"

definition hdr_unique :: "sip_msg \<Rightarrow> bool" where
  "hdr_unique m \<longleftrightarrow> of_type H_CALL_ID m = opt_list (m_callid m) \<and>
     of_type H_CONTENT_LENGTH m = opt_list (m_content_length m) \<and>
     of_type H_FROM m = opt_list (m_from m) \<and> of_type H_TO m = opt_list (m_to m) \<and>
     of_type H_CSEQ m = opt_list (m_cseq m)"

definition hdr_view :: "sip_msg \<times> int \<Rightarrow> bool" where
  "hdr_view me \<longleftrightarrow> hdr_lists (fst me) \<and> (snd me = 0 \<longrightarrow> hdr_unique (fst me)) \<and>
     (snd me = 0 \<or> snd me = MALFORMED_SIP_MSG)"

text \<open>The message after one header, by the type of the header.\<close>

lemma msg_add_hdr_cases:
  "msg_add_hdr h (m, err) =
     (case h_type h of
        H_CALL_ID \<Rightarrow> (m\<lparr>m_hdrs := m_hdrs m @ [h], m_callid := Some h\<rparr>,
          if m_callid m \<noteq> None then MALFORMED_SIP_MSG else err)
      | H_CONTACT \<Rightarrow> (m\<lparr>m_hdrs := m_hdrs m @ [h], m_contacts := m_contacts m @ [h]\<rparr>, err)
      | H_CONTENT_LENGTH \<Rightarrow> (m\<lparr>m_hdrs := m_hdrs m @ [h], m_content_length := Some h\<rparr>,
          if m_content_length m \<noteq> None then MALFORMED_SIP_MSG else err)
      | H_CONTENT_TYPE \<Rightarrow> (m\<lparr>m_hdrs := m_hdrs m @ [h], m_content_type := Some h\<rparr>, err)
      | H_FROM \<Rightarrow> (m\<lparr>m_hdrs := m_hdrs m @ [h], m_from := Some h\<rparr>,
          if m_from m \<noteq> None then MALFORMED_SIP_MSG else err)
      | H_TO \<Rightarrow> (m\<lparr>m_hdrs := m_hdrs m @ [h], m_to := Some h\<rparr>,
          if m_to m \<noteq> None then MALFORMED_SIP_MSG else err)
      | H_VIA \<Rightarrow> (m\<lparr>m_hdrs := m_hdrs m @ [h], m_vias := m_vias m @ [h],
            m_via1 := (if m_via1 m = None then Some h else m_via1 m)\<rparr>, err)
      | H_RACK \<Rightarrow> (m\<lparr>m_hdrs := m_hdrs m @ [h], m_rack := (if m_type m = SIP_REQUEST \<and>
            map_option rq_method (m_request m) = Some PRACK then Some h else m_rack m)\<rparr>, err)
      | H_CSEQ \<Rightarrow> (m\<lparr>m_hdrs := m_hdrs m @ [h], m_cseq := Some h\<rparr>,
          if m_cseq m \<noteq> None then MALFORMED_SIP_MSG else err)
      | H_ROUTE \<Rightarrow> (m\<lparr>m_hdrs := m_hdrs m @ [h], m_route := m_route m @ [h]\<rparr>, err)
      | H_RECORD_ROUTE \<Rightarrow> (m\<lparr>m_hdrs := m_hdrs m @ [h], m_record_route := m_record_route m @ [h]\<rparr>, err)
      | _ \<Rightarrow> (m\<lparr>m_hdrs := m_hdrs m @ [h]\<rparr>, err))"
  by (cases "h_type h") (simp_all add: msg_add_hdr_def del: map_option_eq_Some)

lemma msg_add_hdr_frame:
  "m_type (fst (msg_add_hdr h me)) = m_type (fst me) \<and>
   m_request (fst (msg_add_hdr h me)) = m_request (fst me) \<and>
   m_reply (fst (msg_add_hdr h me)) = m_reply (fst me) \<and>
   m_hdrs (fst (msg_add_hdr h me)) = m_hdrs (fst me) @ [h]"
  by (cases me; cases "h_type h") (simp_all add: msg_add_hdr_cases)

lemma of_type_cong: "m_hdrs m' = m_hdrs m @ [h] \<Longrightarrow>
    of_type ty m' = of_type ty m @ (if h_type h = ty then [h] else [])"
  by (simp add: of_type_def)

lemma msg_add_hdr_err:
  "snd me = 0 \<or> snd me = MALFORMED_SIP_MSG \<Longrightarrow>
     snd (msg_add_hdr h me) = 0 \<or> snd (msg_add_hdr h me) = MALFORMED_SIP_MSG"
  by (cases me; cases "h_type h") (simp_all add: msg_add_hdr_cases)

lemma msg_add_hdr_unique:
  assumes "hdr_view (m, err)" and "snd (msg_add_hdr h (m, err)) = 0"
  shows "hdr_unique (fst (msg_add_hdr h (m, err)))"
proof -
  have "err = 0"
    using assms by (cases "h_type h") (simp_all add: msg_add_hdr_cases hdr_view_def split: if_splits)
  with assms have u: "hdr_unique m" by (simp add: hdr_view_def)
  note ot = of_type_cong [OF conjunct2 [OF conjunct2 [OF conjunct2
      [OF msg_add_hdr_frame [of h "(m, err)"]]]], unfolded fst_conv]
  show ?thesis
    unfolding hdr_unique_def ot using u assms(2)
    by (cases "h_type h") (simp_all add: msg_add_hdr_cases hdr_unique_def split: if_splits)
qed

lemma msg_add_hdr_lists:
  assumes "hdr_lists m"
  shows "hdr_lists (fst (msg_add_hdr h (m, err)))"
proof -
  note fr = msg_add_hdr_frame [of h "(m, err)", unfolded fst_conv]
  note ot = of_type_cong [OF conjunct2 [OF conjunct2 [OF conjunct2 [OF fr]]]]
  show ?thesis
    using assms unfolding hdr_lists_def ot conjunct2 [OF conjunct2 [OF conjunct2 [OF fr]]]
    by (cases "h_type h") (auto simp: msg_add_hdr_cases split: list.splits)
qed

lemma hdr_view_fold:
  assumes "hdr_view me"
  shows "hdr_view (fold msg_add_hdr hs me) \<and>
    m_type (fst (fold msg_add_hdr hs me)) = m_type (fst me) \<and>
    m_request (fst (fold msg_add_hdr hs me)) = m_request (fst me) \<and>
    m_reply (fst (fold msg_add_hdr hs me)) = m_reply (fst me) \<and>
    m_hdrs (fst (fold msg_add_hdr hs me)) = m_hdrs (fst me) @ hs"
  using assms
proof (induction hs arbitrary: me)
  case (Cons h hs)
  have "hdr_view (msg_add_hdr h me)"
    using Cons.prems msg_add_hdr_lists [of "fst me" h "snd me"]
      msg_add_hdr_unique [of "fst me" "snd me" h] msg_add_hdr_err [of me h]
    by (simp add: hdr_view_def)
  from Cons.IH [OF this] show ?case by (simp add: msg_add_hdr_frame)
qed simp


text \<open>A message with only its first line parsed has no headers yet.\<close>

lemma fl_frame_view:
  assumes "fl_frame m"
  shows "hdr_view (m, 0) \<and> m_hdrs m = [] \<and> m_body m = cs_null \<and> p_via m = None \<and> p_cseq m = None \<and>
    p_from m = None \<and> p_to m = None \<and> p_rack m = None"
  using assms by (cases m) (simp add: fl_frame_def new_msg_def hdr_view_def hdr_lists_def hdr_unique_def
      of_type_def)

text \<open>Adding headers leaves the body and the parsed headers alone.\<close>

definition parsed_part ::
  "sip_msg \<Rightarrow> cstring \<times> via_parm option \<times> via_parm list option \<times> sip_cseq option \<times> sip_from_to option \<times>
     sip_from_to option \<times> sip_rack option" where
  "parsed_part m = (m_body m, m_via_p1 m, p_via m, p_cseq m, p_from m, p_to m, p_rack m)"

lemma fold_add_parsed: "parsed_part (fst (fold msg_add_hdr hs me)) = parsed_part (fst me)"
proof (induction hs arbitrary: me)
  case (Cons h hs)
  have "parsed_part (fst (msg_add_hdr h me)) = parsed_part (fst me)"
    by (cases me; cases "h_type h") (simp_all add: msg_add_hdr_cases parsed_part_def)
  with Cons.IH show ?case by simp
qed simp

lemma msg_headers_total:
  assumes "c \<le> e" and "fl_frame m"
  shows "\<exists>c' m' r. parse_msg_headers buf m c e = Out c' m' r \<and> c' \<le> e \<and>
    m_type m' = m_type m \<and> m_request m' = m_request m \<and> m_reply m' = m_reply m \<and>
    list_all (header_ok 0 e) (m_hdrs m') \<and> hdr_lists m' \<and> (r = 0 \<longrightarrow> hdr_unique m') \<and>
    parsed_part m' = parsed_part m"
proof -
  note fr = fl_frame_view [OF assms(2)]
  obtain c' s r where h: "parse_headers buf [] c e = Out c' s r" "c' \<le> e"
    "list_all (header_ok c e) (hd_hdrs s)"
    using headers_total [of buf c "e - c"] assms(1) by auto
  have hs: "list_all (header_ok 0 e) (hd_hdrs s)"
    using h(3) by (auto simp: list_all_iff header_ok_def intro: cs_ok_mono)
  show ?thesis
  proof (cases "r = 0")
    case True
    obtain m' r' where f: "fold msg_add_hdr (hd_hdrs s) (m, 0) = (m', r')" by fastforce
    have "parse_msg_headers buf m c e = Out c' m' r'"
      using h f True by (simp add: parse_msg_headers_def)
    with h hs f fr show ?thesis
      using hdr_view_fold [of "(m, 0)" "hd_hdrs s"] fold_add_parsed [of "hd_hdrs s" "(m, 0)"]
      by (simp add: hdr_view_def)
  next
    case False
    with h fr show ?thesis by (simp add: parse_msg_headers_def hdr_view_def)
  qed
qed

end
