(* ===== verification/Sip_Message.thy ===== *)
theory Sip_Message
  imports Sip_Parser
begin

text \<open>
  What \<^verbatim>\<open>parse_sip_msg\<close> guarantees: it returns on every buffer with all slices inside the message,
  an accepted message is complete and consistent, and a printed request is read back.
\<close>

section \<open>Slices of a message\<close>

definition cseq_ok :: "nat \<Rightarrow> sip_cseq \<Rightarrow> bool" where
  "cseq_ok e cs \<longleftrightarrow> cs_ok 0 e (num_str cs) \<and> cs_ok 0 e (method_str cs)"

definition ft_ok :: "nat \<Rightarrow> sip_from_to \<Rightarrow> bool" where
  "ft_ok e ft \<longleftrightarrow> na_ok 0 e (ft_nameaddr ft) \<and> cs_ok 0 e (ft_tag ft)"

definition rack_ok :: "nat \<Rightarrow> sip_rack \<Rightarrow> bool" where
  "rack_ok e k \<longleftrightarrow> cs_ok 0 e (rk_cseq_str k) \<and> cs_ok 0 e (rk_method_str k)"

definition msg_slices :: "nat \<Rightarrow> sip_msg \<Rightarrow> bool" where
  "msg_slices e m \<longleftrightarrow> fl_slices e m \<and> list_all (header_ok 0 e) (m_hdrs m) \<and> cs_ok 0 e (m_body m) \<and>
     pred_option (list_all (via_parm_ok 0 e)) (p_via m) \<and> pred_option (cseq_ok e) (p_cseq m) \<and>
     pred_option (ft_ok e) (p_from m) \<and> pred_option (ft_ok e) (p_to m) \<and>
     pred_option (rack_ok e) (p_rack m)"

lemma via_parm_ok_mono: "via_parm_ok lo hi v \<Longrightarrow> lo' \<le> lo \<Longrightarrow> hi \<le> hi' \<Longrightarrow> via_parm_ok lo' hi' v"
  by (auto simp: via_parm_ok_def tr_ok_def list_all_iff intro: cs_ok_mono avp_ok_mono)

lemma na_ok_mono: "na_ok lo hi v \<Longrightarrow> lo' \<le> lo \<Longrightarrow> hi \<le> hi' \<Longrightarrow> na_ok lo' hi' v"
  by (auto simp: na_ok_def list_all_iff intro: cs_ok_mono avp_ok_mono)

lemma eat_bounds:
  "c \<le> e \<Longrightarrow> c \<le> eat_ws buf c e \<and> eat_ws buf c e \<le> e"
  "c \<le> e \<Longrightarrow> c \<le> eat_token buf c e \<and> eat_token buf c e \<le> e"
  subgoal
  proof (induction buf c e rule: eat_ws.induct)
    case (1 buf c e)
    then show ?case by (subst (1 2) eat_ws.simps) auto
  qed
  subgoal
  proof (induction buf c e rule: eat_token.induct)
    case (1 buf c e)
    then show ?case by (subst (1 2) eat_token.simps) auto
  qed
  done

lemma read_number_bounds: "read_number buf no c e = Some (n, c') \<Longrightarrow> c \<le> e \<Longrightarrow> c \<le> c' \<and> c' \<le> e"
proof (induction buf no c e rule: read_number.induct)
  case (1 buf no c e)
  then show ?case by (subst (asm) (2) read_number.simps) (auto split: if_splits)
qed

lemma parse_rack_ok:
  assumes "parse_rack buf c len = Some k" and "c + len \<le> e"
  shows "rack_ok e k"
proof -
  from assms(1) obtain r1 p1 r2 p2 where
    p1: "read_number buf 0 (eat_ws buf c (c + len)) (c + len) = Some (r1, p1)" and
    p2: "read_number buf 0 (eat_ws buf p1 (c + len)) (c + len) = Some (r2, p2)" and
    k: "rk_cseq_str k = cs_set (eat_ws buf p1 (c + len)) (int p2 - int (eat_ws buf p1 (c + len)))"
      "rk_method_str k = cs_set (eat_ws buf p2 (c + len))
         (int (eat_token buf (eat_ws buf p2 (c + len)) (c + len)) - int (eat_ws buf p2 (c + len)))"
    by (auto simp: parse_rack_def Let_def split: option.splits if_splits prod.splits)
  have "p1 \<le> c + len" using read_number_bounds [OF p1] eat_bounds(1) [of c "c + len" buf] by simp
  then have "eat_ws buf p1 (c + len) \<le> p2" "p2 \<le> c + len"
    using read_number_bounds [OF p2] eat_bounds(1) [of p1 "c + len" buf] by auto
  moreover from this have "eat_ws buf p2 (c + len) \<le> c + len" using eat_bounds(1) by blast
  ultimately show ?thesis
    using assms(2) eat_bounds(2) [of "eat_ws buf p2 (c + len)" "c + len" buf]
    by (auto simp: rack_ok_def k intro!: cs_ok_set)
qed

text \<open>The slice handed to a header parser lies inside the message.\<close>

lemma val_bounds:
  assumes "list_all (header_ok 0 e) hs" and "\<forall>h'. h = Some h' \<longrightarrow> h' \<in> set hs"
  shows "val_s h + val_len h \<le> e"
  using assms by (cases h) (auto simp: val_s_def val_len_def list_all_iff header_ok_def cs_ok_def)

section \<open>Totality and memory safety\<close>

text \<open>
  The contract of the parts of \<^verbatim>\<open>parse_sip_msg\<close>: on a message with sorted headers and slices in
  bounds a part returns, and leaves such a message with the same headers.
\<close>

definition sound :: "nat \<Rightarrow> sip_msg \<Rightarrow> bool" where
  "sound e m \<longleftrightarrow> msg_slices e m \<and> hdr_lists m \<and> hdr_unique m"

definition hdr_part :: "sip_msg \<Rightarrow> sip_msg" where
  "hdr_part m = m\<lparr>m_via_p1 := None, m_body := cs_null, p_via := None, p_cseq := None, p_from := None,
     p_to := None, p_rack := None\<rparr>"

locale message_step =
  fixes e :: nat and f :: msg_step
  assumes returns: "sound e m \<Longrightarrow> \<exists>m' err. f m = Some (m', err) \<and> sound e m' \<and> hdr_part m' = hdr_part m"
begin

lemma run_first:
  assumes "sound e m"
  shows "\<exists>m' err. run_steps (f # fs) m =
      (case err of None \<Rightarrow> run_steps fs m' | Some x \<Rightarrow> Some (m', x, MALFORMED_SIP_MSG)) \<and>
    sound e m' \<and> hdr_part m' = hdr_part m"
  using returns [OF assms] by (fastforce split: option.split)

end

lemma run_steps_total:
  assumes "list_all (message_step e) fs" and "sound e m"
  shows "\<exists>m' err r. run_steps fs m = Some (m', err, r) \<and> sound e m' \<and> hdr_part m' = hdr_part m \<and>
    (r = 0 \<or> r = MALFORMED_SIP_MSG)"
  using assms
proof (induction fs arbitrary: m)
  case (Cons f fs)
  then have f: "message_step e f" and fs: "list_all (message_step e) fs" by auto
  from message_step.run_first [OF f Cons.prems(2), of fs] obtain m' err where
    run: "run_steps (f # fs) m =
      (case err of None \<Rightarrow> run_steps fs m' | Some x \<Rightarrow> Some (m', x, MALFORMED_SIP_MSG))"
    and m': "sound e m'" "hdr_part m' = hdr_part m" by blast
  show ?case
  proof (cases err)
    case None
    with Cons.IH [OF fs m'(1)] run m'(2) show ?thesis by auto
  qed (use run m' in auto)
qed simp

lemma sound_hdr_bounds:
  assumes "sound e m"
  shows "val_s (m_via1 m) + val_len (m_via1 m) \<le> e" "val_s (m_cseq m) + val_len (m_cseq m) \<le> e"
    "val_s (m_from m) + val_len (m_from m) \<le> e" "val_s (m_to m) + val_len (m_to m) \<le> e"
    "val_s (m_rack m) + val_len (m_rack m) \<le> e"
proof -
  have hs: "list_all (header_ok 0 e) (m_hdrs m)" and l: "hdr_lists m"
    using assms by (simp_all add: sound_def msg_slices_def)
  note v = val_bounds [OF hs]
  show "val_s (m_via1 m) + val_len (m_via1 m) \<le> e"
  proof (rule v, intro allI impI)
    fix h assume "m_via1 m = Some h"
    then have "h \<in> set (m_vias m)" using l by (auto simp: hdr_lists_def split: list.splits)
    then show "h \<in> set (m_hdrs m)" using l by (auto simp: hdr_lists_def of_type_def)
  qed
  show "val_s (m_cseq m) + val_len (m_cseq m) \<le> e" "val_s (m_from m) + val_len (m_from m) \<le> e"
    "val_s (m_to m) + val_len (m_to m) \<le> e" "val_s (m_rack m) + val_len (m_rack m) \<le> e"
    using l by (intro v; simp add: hdr_lists_def)+
qed

lemmas sound_unfold = sound_def msg_slices_def fl_slices_def hdr_lists_def hdr_unique_def of_type_def

interpretation via_step: message_step e "step_via buf" for e buf
proof
  fix m assume m: "sound e m"
  obtain c s r where v: "parse_via buf [] (val_s (m_via1 m)) (val_len (m_via1 m)) = Out c s r"
    "list_all (via_parm_ok (val_s (m_via1 m)) (val_s (m_via1 m) + val_len (m_via1 m))) (v_parms s)"
    using via_total [of buf "val_s (m_via1 m)" "val_len (m_via1 m)"] by blast
  then have "list_all (via_parm_ok 0 e) (v_parms s)"
    using sound_hdr_bounds(1) [OF m] by (auto simp: list_all_iff intro: via_parm_ok_mono)
  with m v(1) show "\<exists>m' err. step_via buf m = Some (m', err) \<and> sound e m' \<and> hdr_part m' = hdr_part m"
    by (simp add: step_via_def sound_unfold hdr_part_def)
qed

interpretation cseq_step: message_step e "step_cseq buf" for e buf
proof
  fix m assume m: "sound e m"
  obtain c cs r where v: "parse_cseq buf new_cseq (val_s (m_cseq m)) (val_len (m_cseq m)) = Out c cs r"
    "cs_ok (val_s (m_cseq m)) (val_s (m_cseq m) + val_len (m_cseq m)) (num_str cs)"
    "cs_ok (val_s (m_cseq m)) (val_s (m_cseq m) + val_len (m_cseq m)) (method_str cs)"
    using cseq_total [of buf "val_s (m_cseq m)" "val_len (m_cseq m)"] by blast
  then have "cseq_ok e cs"
    using sound_hdr_bounds(2) [OF m] by (auto simp: cseq_ok_def intro: cs_ok_mono)
  with m v(1) show "\<exists>m' err. step_cseq buf m = Some (m', err) \<and> sound e m' \<and> hdr_part m' = hdr_part m"
    by (simp add: step_cseq_def sound_unfold hdr_part_def)
qed

interpretation cseq_method_step: message_step e "step_cseq_method buf junk" for e buf junk
  by unfold_locales (auto simp: step_cseq_method_def Let_def split: msg_type.split option.split)

lemma from_to_slices:
  assumes "c + len \<le> e"
  shows "\<exists>c' ft r. parse_from_to buf new_from_to c len = Out c' ft r \<and> ft_ok e ft"
proof -
  obtain c' ft r where "parse_from_to buf new_from_to c len = Out c' ft r"
    "na_ok c (c + len) (ft_nameaddr ft)" "cs_ok c (c + len) (ft_tag ft)"
    using from_to_total [of buf c len] by blast
  then show ?thesis using assms by (auto simp: ft_ok_def intro: cs_ok_mono na_ok_mono)
qed

interpretation from_step: message_step e "step_from buf" for e buf
proof
  fix m assume m: "sound e m"
  from from_to_slices [OF sound_hdr_bounds(3) [OF m], of buf] m
  show "\<exists>m' err. step_from buf m = Some (m', err) \<and> sound e m' \<and> hdr_part m' = hdr_part m"
    by (auto simp: step_from_def sound_unfold hdr_part_def)
qed

interpretation to_step: message_step e "step_to buf" for e buf
proof
  fix m assume m: "sound e m"
  from from_to_slices [OF sound_hdr_bounds(4) [OF m], of buf] m
  show "\<exists>m' err. step_to buf m = Some (m', err) \<and> sound e m' \<and> hdr_part m' = hdr_part m"
    by (auto simp: step_to_def sound_unfold hdr_part_def)
qed

interpretation rack_step: message_step e "step_rack buf" for e buf
proof
  fix m assume m: "sound e m"
  from parse_rack_ok [OF _ sound_hdr_bounds(5) [OF m], of buf] m
  show "\<exists>m' err. step_rack buf m = Some (m', err) \<and> sound e m' \<and> hdr_part m' = hdr_part m"
    by (auto simp: step_rack_def sound_unfold hdr_part_def split: option.split)
qed


lemma cl_digits_range: "0 \<le> v \<Longrightarrow> v \<le> 2147483647 \<Longrightarrow> cl_digits v cs = Inr n \<Longrightarrow> 0 \<le> n \<and> n \<le> 2147483647"
  by (induction v cs rule: cl_digits.induct) (auto simp: Let_def split: if_splits)

lemma cl_value_range: "cl_value t = Inr n \<Longrightarrow> 0 \<le> n \<and> n \<le> 2147483647"
  using cl_digits_range [of 0 "dropWhile (\<lambda>ch. ch = SP \<or> ch = HTAB) t" n]
  by (simp add: cl_value_def Let_def split: if_splits)

lemma set_body_ok:
  assumes "sound e m" and "c \<le> e"
  shows "\<exists>m' err. set_body buf e c m = Some (m', err) \<and> sound e m' \<and> hdr_part m' = hdr_part m"
proof -
  have body: "sound e (m\<lparr>m_body := cs_set c n\<rparr>) \<and> hdr_part (m\<lparr>m_body := cs_set c n\<rparr>) = hdr_part m"
    if "0 \<le> n" "n \<le> int e - int c" for n
  proof -
    have "cs_ok 0 e (cs_set c n)" using that by (intro cs_ok_set) auto
    with assms(1) show ?thesis by (simp add: sound_unfold hdr_part_def)
  qed
  show ?thesis
  proof (cases "m_content_length m")
    case None
    with body assms(2) show ?thesis by (simp add: set_body_def)
  next
    case (Some h)
    with body assms(1) cl_value_range [of "c2stlstr buf (h_value h)"] show ?thesis
      by (cases "cl_value (c2stlstr buf (h_value h))") (auto simp: set_body_def)
  qed
qed

text \<open>The message behind the headers, before the mandatory headers are parsed.\<close>

lemma headers_sound:
  assumes "c \<le> e" and "fl_slices e m" and "fl_frame m"
  shows "\<exists>c' m' r. parse_msg_headers buf m c e = Out c' m' r \<and> c' \<le> e \<and> msg_slices e m' \<and>
    (r = 0 \<longrightarrow> sound e m') \<and> m_type m' = m_type m \<and> m_request m' = m_request m \<and>
    m_reply m' = m_reply m \<and> hdr_lists m' \<and> p_to m' = None"
proof -
  obtain c' m' r where h: "parse_msg_headers buf m c e = Out c' m' r" "c' \<le> e"
    "m_type m' = m_type m" "m_request m' = m_request m" "m_reply m' = m_reply m"
    "list_all (header_ok 0 e) (m_hdrs m')" "hdr_lists m'" "r = 0 \<longrightarrow> hdr_unique m'"
    "parsed_part m' = parsed_part m"
    using msg_headers_total [OF assms(1,3), of buf] by blast
  then have "msg_slices e m'"
    using assms(2) fl_frame_view [OF assms(3)]
    by (simp add: msg_slices_def fl_slices_def parsed_part_def)
  moreover have "p_to m' = None"
    using h(9) fl_frame_view [OF assms(3)] by (simp add: parsed_part_def)
  ultimately show ?thesis using h by (auto simp: sound_def)
qed

abbreviation msg_parts :: "string \<Rightarrow> sip_method \<Rightarrow> msg_step list" where
  "msg_parts buf junk \<equiv> [step_via buf, step_cseq buf, step_cseq_method buf junk, step_from buf,
     step_to buf, step_rack buf]"

lemma msg_parts_ok: "list_all (message_step e) (msg_parts buf junk)"
  by (simp add: via_step.message_step_axioms cseq_step.message_step_axioms
      cseq_method_step.message_step_axioms from_step.message_step_axioms
      to_step.message_step_axioms rack_step.message_step_axioms)

text \<open>
  What holds of every message the parser returns, accepted or not: slices in bounds, the lists
  of headers, and that the To header is parsed only if it is the only one.
\<close>

definition msg_shape :: "nat \<Rightarrow> sip_msg \<Rightarrow> bool" where
  "msg_shape e m \<longleftrightarrow> msg_slices e m \<and> hdr_lists m \<and> (p_to m = None \<or> hdr_unique m)"

lemma sound_shape: "sound e m \<Longrightarrow> msg_shape e m"
  by (simp add: sound_def msg_shape_def)

lemma parse_msg_rest_total:
  assumes "c \<le> e" and "fl_slices e m" and "fl_frame m"
  shows "\<exists>m' err r. parse_msg_rest buf junk m c e = Some (m', err, r) \<and> msg_shape e m'"
proof -
  obtain c1 m1 r1 where h: "parse_msg_headers buf m c e = Out c1 m1 r1" "c1 \<le> e" "msg_shape e m1"
    "r1 = 0 \<longrightarrow> sound e m1"
    using headers_sound [OF assms, of buf] by (auto simp: msg_shape_def)
  show ?thesis
  proof (cases "r1 = 0")
    case True
    with h obtain m2 err where b: "set_body buf e c1 m1 = Some (m2, err)" "sound e m2"
      using set_body_ok by blast
    from b run_steps_total [OF msg_parts_ok b(2), of buf junk] h True show ?thesis
      by (cases err; cases "missing_header m2") (auto simp: parse_msg_rest_def intro: sound_shape)
  next
    case False
    with h show ?thesis by (simp add: parse_msg_rest_def)
  qed
qed

lemma sip_msg_shape: "\<exists>m err r. parse_sip_msg buf len junk = Some (m, err, r) \<and> msg_shape len m"
proof -
  obtain c m r where f: "parse_first_line buf new_msg 0 len = Out c m r" "c \<le> len" "fl_slices len m"
    "fl_frame m"
    using first_line_total [of buf len] by blast
  have "msg_shape len m"
    using f fl_frame_view [OF f(4)]
    by (simp add: msg_shape_def msg_slices_def hdr_view_def)
  with f parse_msg_rest_total [OF f(2-4), of buf junk] headers_sound [OF f(2-4), of buf]
  show ?thesis by (auto simp: parse_sip_msg_def msg_shape_def)
qed

text \<open>
  C8: the message parser is total and memory-safe. On every buffer of a given length it returns
  a message and a code, whatever an uninitialised method field holds, and every slice of the
  message (request URI with its parts, reason phrase, header names and values, body, the Via
  values with hosts and branches, CSeq, From and To with tags, RAck) lies inside the buffer.
\<close>

theorem parse_sip_msg_total:
  "\<exists>m err r. parse_sip_msg buf len junk = Some (m, err, r) \<and> msg_slices len m"
  using sip_msg_shape [of buf len junk] by (auto simp: msg_shape_def)


section \<open>Accepted messages\<close>

text \<open>What a part changes when it succeeds.\<close>

lemma run_steps_success:
  "run_steps (f # fs) m = Some (m', err, 0) \<longleftrightarrow>
     (\<exists>m1. f m = Some (m1, None) \<and> run_steps fs m1 = Some (m', err, 0))"
  by (auto split: option.split prod.split)

lemma step_via_done:
  "step_via buf m = Some (m', None) \<Longrightarrow>
     \<exists>v vs. m' = m\<lparr>m_via_p1 := Some v, p_via := Some (v # vs)\<rparr>"
  by (auto simp: step_via_def neq_Nil_conv split: out.splits if_splits)

definition hdr_end :: "sip_header option \<Rightarrow> nat" where
  "hdr_end h = val_s h + val_len h"

lemma step_cseq_done:
  "step_cseq buf m = Some (m', None) \<Longrightarrow>
     \<exists>cs. m' = m\<lparr>p_cseq := Some cs\<rparr> \<and> cs_len (num_str cs) \<noteq> 0 \<and> cs_len (method_str cs) \<noteq> 0 \<and>
       method_read buf (hdr_end (m_cseq m)) cs"
  using cseq_total [of buf "val_s (m_cseq m)" "val_len (m_cseq m)"]
  by (auto simp: step_cseq_def hdr_end_def split: out.splits if_splits)

text \<open>
  The method of a request and that of its CSeq, whose value ends at \<open>e\<close>. A method text that reaches
  the end of the value names the method of the request. If something follows the text, the parser
  has not written the method of the CSeq, and what was compared is the undefined value \<open>junk\<close>.
\<close>

definition cseq_matches :: "string \<Rightarrow> nat \<Rightarrow> sip_method \<Rightarrow> sip_request \<Rightarrow> sip_cseq \<Rightarrow> bool" where
  "cseq_matches buf e junk rq cs \<longleftrightarrow>
     (if int (cs_s (method_str cs)) + cs_len (method_str cs) = int e
      then method_of (c2stlstr buf (method_str cs)) = rq_method rq
      else cs_method cs = None \<and> junk = rq_method rq) \<and>
     (rq_method rq = OTHER_METHOD \<longrightarrow> c2stlstr buf (method_str cs) = c2stlstr buf (rq_method_str rq))"

lemma step_cseq_method_done:
  "step_cseq_method buf junk m = Some (m', None) \<Longrightarrow>
     m' = m \<and> (m_type m = SIP_REQUEST \<and> m_request m = Some rq \<and> p_cseq m = Some cs \<and> method_read buf e cs \<longrightarrow>
       cseq_matches buf e junk rq cs)"
  by (auto simp: step_cseq_method_def cseq_matches_def method_read_def Let_def
      split: msg_type.splits option.splits if_splits)

lemma step_from_done:
  "step_from buf m = Some (m', None) \<Longrightarrow> \<exists>ft. m' = m\<lparr>p_from := Some ft\<rparr> \<and> cs_len (ft_tag ft) \<noteq> 0"
  by (auto simp: step_from_def split: out.splits if_splits)

lemma step_to_done: "step_to buf m = Some (m', None) \<Longrightarrow> \<exists>ft. m' = m\<lparr>p_to := Some ft\<rparr>"
  by (auto simp: step_to_def split: out.splits if_splits)

lemma step_rack_done:
  "step_rack buf m = Some (m', None) \<Longrightarrow>
     m' = m \<and> m_rack m = None \<or> (\<exists>k. m' = m\<lparr>p_rack := Some k\<rparr>)"
  by (auto simp: step_rack_def split: option.splits if_splits)

definition body_says :: "string \<Rightarrow> nat \<Rightarrow> sip_msg \<Rightarrow> bool" where
  "body_says buf len m \<longleftrightarrow>
     (case m_content_length m of
        None \<Rightarrow> int (cs_s (m_body m)) + cs_len (m_body m) = int len
      | Some h \<Rightarrow> cl_value (c2stlstr buf (h_value h)) = Inr (cs_len (m_body m)) \<and>
          int (cs_s (m_body m)) + cs_len (m_body m) \<le> int len)"

lemma set_body_done:
  "set_body buf len c m = Some (m', None) \<Longrightarrow> hdr_part m' = hdr_part m \<and> body_says buf len m'"
  by (auto simp: set_body_def hdr_part_def body_says_def Let_def
      split: option.splits sum.splits if_splits)

lemma no_missing_header:
  "missing_header m = None \<longleftrightarrow>
     m_via1 m \<noteq> None \<and> m_cseq m \<noteq> None \<and> m_from m \<noteq> None \<and> m_to m \<noteq> None \<and> m_callid m \<noteq> None"
  by (simp add: missing_header_def)

text \<open>A complete and consistent message.\<close>

definition msg_complete :: "string \<Rightarrow> nat \<Rightarrow> sip_method \<Rightarrow> sip_msg \<Rightarrow> bool" where
  "msg_complete buf len junk m \<longleftrightarrow>
     (has_request m \<or> has_reply 999 m) \<and> hdr_lists m \<and> hdr_unique m \<and>
     m_via1 m \<noteq> None \<and> m_cseq m \<noteq> None \<and> m_from m \<noteq> None \<and> m_to m \<noteq> None \<and> m_callid m \<noteq> None \<and>
     body_says buf len m \<and>
     (\<exists>v vs. p_via m = Some (v # vs) \<and> m_via_p1 m = Some v) \<and>
     (\<exists>cs. p_cseq m = Some cs \<and> cs_len (num_str cs) \<noteq> 0 \<and> cs_len (method_str cs) \<noteq> 0 \<and>
        (has_request m \<longrightarrow> (\<exists>rq. m_request m = Some rq \<and> cseq_matches buf (hdr_end (m_cseq m)) junk rq cs))) \<and>
     (\<exists>ft. p_from m = Some ft \<and> cs_len (ft_tag ft) \<noteq> 0) \<and> p_to m \<noteq> None \<and>
     (m_rack m \<noteq> None \<longrightarrow> p_rack m \<noteq> None)"

lemma hdr_part_cong:
  assumes "hdr_part m' = hdr_part m"
  shows "m_type m' = m_type m" "m_request m' = m_request m" "m_reply m' = m_reply m"
    "m_content_length m' = m_content_length m" "hdr_lists m' = hdr_lists m"
    "hdr_unique m' = hdr_unique m" "missing_header m' = missing_header m" "m_cseq m' = m_cseq m"
proof -
  have "m_type (hdr_part m) = m_type m \<and> m_request (hdr_part m) = m_request m \<and>
      m_reply (hdr_part m) = m_reply m \<and> m_content_length (hdr_part m) = m_content_length m \<and>
      hdr_lists (hdr_part m) = hdr_lists m \<and> hdr_unique (hdr_part m) = hdr_unique m \<and>
      missing_header (hdr_part m) = missing_header m \<and> m_cseq (hdr_part m) = m_cseq m" for m
    by (simp add: hdr_part_def hdr_lists_def hdr_unique_def of_type_def missing_header_def)
  from this [of m] this [of m'] assms show "m_type m' = m_type m" "m_request m' = m_request m"
    "m_reply m' = m_reply m" "m_content_length m' = m_content_length m"
    "hdr_lists m' = hdr_lists m" "hdr_unique m' = hdr_unique m" "missing_header m' = missing_header m" "m_cseq m' = m_cseq m"
    by metis+
qed

lemma run_parts_done:
  assumes "run_steps (msg_parts buf junk) m = Some (m', err, 0)"
    and "has_request m \<or> has_reply 999 m" and "hdr_lists m" and "hdr_unique m"
    and "missing_header m = None" and "body_says buf len m"
  shows "msg_complete buf len junk m'"
proof -
  from assms(1) obtain m1 m2 m3 m4 m5 where
    s: "step_via buf m = Some (m1, None)" "step_cseq buf m1 = Some (m2, None)"
      "step_cseq_method buf junk m2 = Some (m3, None)" "step_from buf m3 = Some (m4, None)"
      "step_to buf m4 = Some (m5, None)" "step_rack buf m5 = Some (m', None)"
    unfolding run_steps_success by auto
  obtain v vs where m1: "m1 = m\<lparr>m_via_p1 := Some v, p_via := Some (v # vs)\<rparr>"
    using step_via_done [OF s(1)] by blast
  obtain cs where m2: "m2 = m1\<lparr>p_cseq := Some cs\<rparr>" "cs_len (num_str cs) \<noteq> 0" "cs_len (method_str cs) \<noteq> 0"
    "method_read buf (hdr_end (m_cseq m)) cs"
    using step_cseq_done [OF s(2)] m1 by auto
  have m3: "m3 = m2"
    "has_request m \<longrightarrow> (\<exists>rq. m_request m = Some rq \<and> cseq_matches buf (hdr_end (m_cseq m)) junk rq cs)"
    using step_cseq_method_done [OF s(3)] m1 m2(1,4) by (auto simp: has_request_def)
  obtain ft where m4: "m4 = m3\<lparr>p_from := Some ft\<rparr>" "cs_len (ft_tag ft) \<noteq> 0"
    using step_from_done [OF s(4)] by blast
  obtain ft' where m5: "m5 = m4\<lparr>p_to := Some ft'\<rparr>" using step_to_done [OF s(5)] by blast
  have fin: "hdr_part m' = hdr_part m" "m_body m' = m_body m" "p_via m' = Some (v # vs)"
    "m_via_p1 m' = Some v" "p_cseq m' = Some cs" "p_from m' = Some ft" "p_to m' \<noteq> None"
    "m_rack m' \<noteq> None \<longrightarrow> p_rack m' \<noteq> None"
    using step_rack_done [OF s(6)] by (auto simp: m5 m4(1) m3(1) m2(1) m1 hdr_part_def)
  note same = hdr_part_cong [OF fin(1)]
  have "body_says buf len m'" using assms(6) unfolding body_says_def same(4) fin(2) .
  moreover note same(7) [unfolded assms(5), unfolded no_missing_header]
  ultimately show ?thesis
    using fin same(1-6) assms(2-4) m2(2,3) m3(2) [folded same(8)] m4(2)
    by (simp add: msg_complete_def has_request_def has_reply_def)
qed

section \<open>Reading back a printed request\<close>

subsection \<open>The first line\<close>

abbreviation fl_run :: "string \<Rightarrow> nat \<Rightarrow> nat \<Rightarrow> fl_fsm \<Rightarrow> fl_fsm out" where
  "fl_run buf e \<equiv> scan (\<lambda>c. buf ! c \<noteq> NUL) (fl_body buf) (\<lambda>c s. Out c s UNEXPECTED_EOT) e"

definition in_method :: "fl_fsm \<Rightarrow> bool" where
  "in_method s \<longleftrightarrow> \<not> fl_is_request s \<and>
     st s \<in> St ` {FL_SIPVER1, FL_SIPVER2, FL_SIPVER3, FL_SIPVER4, FL_METH}"

text \<open>
  A character that cannot belong to \<^verbatim>\<open>SIP/\<close> takes the parser to the method state and is parsed
  there again.
\<close>

lemma st_same: "st s = x \<Longrightarrow> (s :: ('a, 'b) fsm_scheme)\<lparr>st := x\<rparr> = s"
  by auto

lemma in_method_run:
  assumes "in_method s" and "buf ! c \<noteq> CHR ''/''" and "buf ! c \<noteq> SP" and "buf ! c \<noteq> NUL" and "c < e"
  shows "\<exists>z. fl_run buf e c s = fl_run buf e (c + 1) (s\<lparr>st := St z\<rparr>) \<and> in_method (s\<lparr>st := St z\<rparr>)"
proof -
  let ?m = "s\<lparr>st := St FL_METH\<rparr>"
  have meth: "fl_body buf c ?m = Next 1 ?m" "in_method ?m"
    using assms(1,3) by (auto simp: in_method_def fl_body_def fl_meth_def)
  have "fl_body buf c s = Next 0 ?m \<or> (\<exists>z. fl_body buf c s = Next 1 (s\<lparr>st := St z\<rparr>) \<and> in_method (s\<lparr>st := St z\<rparr>))"
  proof (cases "st s = St FL_METH")
    case True
    then show ?thesis using meth st_same [OF True] by (intro disjI2 exI [of _ FL_METH]) (simp only:)
  next
    case False
    then show ?thesis
      using assms(1,2)
      by (auto simp: in_method_def fl_body_def case_SIPVER_def fl_sipver4_def Let_def) blast+
  qed
  then show ?thesis
  proof (elim disjE exE conjE)
    assume "fl_body buf c s = Next 0 ?m"
    then have "fl_run buf e c s = fl_run buf e (c + 1) ?m"
      by (rule scan_again [rotated 2]) (use meth assms(4,5) in simp_all)
    with meth(2) show ?thesis by blast
  next
    fix z assume "fl_body buf c s = Next 1 (s\<lparr>st := St z\<rparr>)" "in_method (s\<lparr>st := St z\<rparr>)"
    with assms(4,5) show ?thesis by (intro exI [of _ z]) (simp add: scan_next)
  qed
qed

lemma fl_run_token:
  assumes "buf = p @ m @ q" and "length p + length m \<le> e" and "list_all IS_TOKEN m" and "in_method s"
  shows "\<exists>z. fl_run buf e (length p) s = fl_run buf e (length p + length m) (s\<lparr>st := z\<rparr>) \<and>
    in_method (s\<lparr>st := z\<rparr>)"
  using assms
proof (induction m arbitrary: p s)
  case Nil
  then show ?case by (intro exI [of _ "st s"]) simp
next
  case (Cons x m)
  have at: "buf ! length p = x" using Cons.prems(1) by simp
  have x: "x \<noteq> CHR ''/''" "x \<noteq> SP" "x \<noteq> NUL"
    using Cons.prems(3)
    by (auto simp: IS_TOKEN_def IS_ALPHANUM_def IS_ALPHA_def IS_DIGIT_def IS_IN_def schar_def)
  obtain y where y: "fl_run buf e (length p) s = fl_run buf e (length (p @ [x])) (s\<lparr>st := St y\<rparr>)"
    "in_method (s\<lparr>st := St y\<rparr>)"
    using in_method_run [OF Cons.prems(4), of buf "length p" e] x Cons.prems(2) unfolding at by auto
  have "\<exists>z. fl_run buf e (length (p @ [x])) (s\<lparr>st := St y\<rparr>) =
      fl_run buf e (length (p @ [x]) + length m) (s\<lparr>st := St y\<rparr>\<lparr>st := z\<rparr>) \<and>
      in_method (s\<lparr>st := St y\<rparr>\<lparr>st := z\<rparr>)"
    using Cons.prems y(2) by (intro Cons.IH) auto
  with y(1) show ?case by simp
qed

text \<open>The blank behind the method.\<close>

lemma fl_run_method_end:
  assumes "in_method s" and "buf ! c = SP" and "c < e" and "fl_beg s \<le> c"
    and "parse_method (c2stlstr buf (cs_set (fl_beg s) (int c - int (fl_beg s)))) = (m, 0)"
  shows "fl_run buf e c s = fl_run buf e (c + 1)
    (s\<lparr>st := St FL_RURI, fl_beg := c + 1,
       fl_msg := (fl_msg s)\<lparr>m_type := SIP_REQUEST, m_request := Some
         \<lparr>rq_method_str = cs_set (fl_beg s) (int c - int (fl_beg s)), rq_method = m,
          ruri_str = cs_null, ruri = new_uri\<rparr>\<rparr>\<rparr>)"
    (is "_ = fl_run buf e (c + 1) ?s'")
proof -
  let ?m = "s\<lparr>st := St FL_METH\<rparr>"
  have meth: "fl_body buf c ?m = Next 1 ?s'"
    using assms(2,5) by (simp add: fl_body_def fl_meth_def)
  have "fl_body buf c s = Next 0 ?m \<or> s = ?m"
    using assms(1,2)
    by (auto simp: in_method_def fl_body_def case_SIPVER_def fl_sipver4_def st_same)
  then show ?thesis
  proof
    assume "fl_body buf c s = Next 0 ?m"
    with meth assms(2,3) show ?thesis by (intro scan_again) auto
  next
    assume "s = ?m"
    then have "fl_body buf c s = Next 1 ?s'" using meth by metis
    with assms(2,3) show ?thesis by (intro scan_next) auto
  qed
qed


definition uri_chars :: "string \<Rightarrow> bool" where
  "uri_chars w \<longleftrightarrow> (\<forall>ch \<in> set w. ch \<notin> {SP, CR, LF, HTAB, NUL})"

text \<open>The version and the line ending behind the request URI, up to the first header.\<close>

lemma fl_run_version:
  assumes "buf = p @ ''SIP/2.0'' @ CR # LF # x # q" and "length p + 9 < e" and "x \<noteq> NUL"
    and "st s = St FL_SIPVER1" and "fl_is_request s"
  shows "\<exists>s'. fl_run buf e (length p) s = Out (length p + 9) s' 0 \<and> fl_msg s' = fl_msg s"
proof -
  let ?c = "length p"
  have ch: "buf ! ?c = CHR ''S''" "buf ! (?c + 1) = CHR ''I''" "buf ! (?c + 2) = CHR ''P''"
    "buf ! (?c + 3) = CHR ''/''" "buf ! (?c + 4) = CHR ''2''" "buf ! (?c + 5) = CHR ''.''"
    "buf ! (?c + 6) = CHR ''0''" "buf ! (?c + 7) = CR" "buf ! (?c + 8) = LF" "buf ! (?c + 9) = x"
    unfolding assms(1) by (simp_all add: nth_append)
  have step: "fl_run buf e c s1 = fl_run buf e c' s2"
    if "c' = c + 1" "buf ! c \<noteq> NUL" "c < e" "fl_body buf c s1 = Next 1 s2" for c c' s1 s2
    using that by (simp add: scan_next)
  note body = fl_body_def case_SIPVER_def fl_sipver4_def fl_version_def fl_sipver_dig2_def fl_eol_def
    case_ST_CR_def enter_CR_def fl_line_end_def
  have "fl_run buf e ?c s = fl_run buf e (?c + 1) (s\<lparr>st := St FL_SIPVER2\<rparr>)"
    by (rule step) (use ch(1) assms(2-5) in \<open>simp_all add: body\<close>)
  also have "\<dots> = fl_run buf e (?c + 2) (s\<lparr>st := St FL_SIPVER3\<rparr>)"
    by (rule step) (use ch(2) assms(2-5) in \<open>simp_all add: body\<close>)
  also have "\<dots> = fl_run buf e (?c + 3) (s\<lparr>st := St FL_SIPVER4\<rparr>)"
    by (rule step) (use ch(3) assms(2-5) in \<open>simp_all add: body\<close>)
  also have "\<dots> = fl_run buf e (?c + 4) (s\<lparr>st := St FL_SIPVER_DIG1\<rparr>)"
    by (rule step) (use ch(4) assms(2-5) in \<open>simp_all add: body\<close>)
  also have "\<dots> = fl_run buf e (?c + 5) (s\<lparr>st := St FL_SIPVER_SEP\<rparr>)"
    by (rule step) (use ch(5) assms(2-5) in \<open>simp_all add: body\<close>)
  also have "\<dots> = fl_run buf e (?c + 6) (s\<lparr>st := St FL_SIPVER_DIG2\<rparr>)"
    by (rule step) (use ch(6) assms(2-5) in \<open>simp_all add: body\<close>)
  also have "\<dots> = fl_run buf e (?c + 7) (s\<lparr>st := St FL_EOL\<rparr>)"
    by (rule step) (use ch(7) assms(2-5) in \<open>simp_all add: body\<close>)
  also have "\<dots> = fl_run buf e (?c + 8) (s\<lparr>saved_st := St FL_EOL, st := ST_CR\<rparr>)"
    by (rule step) (use ch(8) assms(2-5) in \<open>simp_all add: body\<close>)
  also have "\<dots> = fl_run buf e (?c + 9) (s\<lparr>saved_st := St FL_EOL, st := ST_CRLF\<rparr>)"
    by (rule step) (use ch(9) assms(2-5) in \<open>simp_all add: body\<close>)
  also have "\<dots> = Out (?c + 9) (s\<lparr>saved_st := St FL_EOL, st := ST_CRLF\<rparr>) 0"
    by (rule scan_ret) (use ch(10) assms(2-5) in \<open>simp_all add: body\<close>)
  finally show ?thesis by auto
qed


lemma first_line_print:
  assumes buf: "buf = m @ SP # uri @ '' SIP/2.0'' @ CR # LF # x # q"
    and m: "list_all IS_TOKEN m" and u: "uri_chars uri" and x: "x \<noteq> NUL"
    and e: "length m + length uri + 11 < e"
    and pu: "parse_uri buf new_uri (length m + 1) (length uri) = Out c u 0"
  shows "\<exists>m'. parse_first_line buf new_msg 0 e = Out (length m + length uri + 11) m' 0 \<and>
    m' = new_msg\<lparr>m_type := SIP_REQUEST, m_request := Some \<lparr>rq_method_str = cs_set 0 (int (length m)),
      rq_method = method_of m, ruri_str = cs_set (length m + 1) (int (length uri)), ruri = u\<rparr>\<rparr>"
proof -
  let ?s0 = "fl_init new_msg 0" and ?p1 = "m @ [SP]" and ?p2 = "m @ SP # uri @ [SP]"
  have b1: "buf = [] @ m @ (SP # uri @ '' SIP/2.0'' @ CR # LF # x # q)"
    and b2: "buf = ?p1 @ uri @ ('' SIP/2.0'' @ CR # LF # x # q)"
    and b3: "buf = ?p2 @ ''SIP/2.0'' @ CR # LF # x # q" using buf by simp_all
  have i0: "in_method ?s0" by (simp add: in_method_def fl_init_def)
  obtain z where z: "fl_run buf e 0 ?s0 = fl_run buf e (length m) (?s0\<lparr>st := z\<rparr>)" "in_method (?s0\<lparr>st := z\<rparr>)"
    using fl_run_token [OF b1 _ m i0, of e] e by auto
  have mt: "c2stlstr buf (cs_set 0 (int (length m))) = m"
    using c2stlstr_middle [of 0 "[]" _ m] by (simp add: buf)
  have sp: "buf ! length m = SP" "buf ! (length ?p1 + length uri) = SP"
    unfolding buf by (simp_all add: nth_append)
  let ?rq = "\<lparr>rq_method_str = cs_set 0 (int (length m)), rq_method = method_of m,
      ruri_str = cs_null, ruri = new_uri\<rparr>"
  define s1 where "s1 = ?s0\<lparr>st := St FL_RURI, fl_beg := length ?p1,
      fl_msg := new_msg\<lparr>m_type := SIP_REQUEST, m_request := Some ?rq\<rparr>\<rparr>"
  define s2 where "s2 = s1\<lparr>st := St FL_SIPVER1, fl_is_request := True, fl_msg := new_msg\<lparr>
      m_type := SIP_REQUEST, m_request := Some (?rq\<lparr>
        ruri_str := cs_set (length m + 1) (int (length uri)), ruri := u\<rparr>)\<rparr>\<rparr>"
  have "fl_run buf e (length m) (?s0\<lparr>st := z\<rparr>) = fl_run buf e (length ?p1) s1"
    using fl_run_method_end [OF z(2) sp(1), of e "method_of m"] e m
    by (simp add: s1_def fl_init_def parse_method_def mt)
  also have "\<dots> = fl_run buf e (length ?p1 + length uri) s1"
    using u e by (intro scan_word [OF b2]) (auto simp: uri_chars_def fl_body_def s1_def fl_ruri_def)
  also have "\<dots> = fl_run buf e (length ?p1 + length uri + 1) s2"
    by (rule scan_next)
      (use sp(2) e pu in \<open>simp_all add: fl_body_def fl_ruri_def s1_def s2_def upd_request_def\<close>)
  also have "length ?p1 + length uri + 1 = length ?p2" by simp
  finally have "fl_run buf e 0 ?s0 = fl_run buf e (length ?p2) s2" using z(1) by simp
  moreover obtain s3 where "fl_run buf e (length ?p2) s2 = Out (length ?p2 + 9) s3 0" "fl_msg s3 = fl_msg s2"
    using fl_run_version [OF b3 _ x, of e s2] e by (auto simp: s2_def)
  ultimately show ?thesis
    by (simp add: parse_first_line_def s2_def)
qed


subsection \<open>The message\<close>

text \<open>The parts a request is printed from: request line, the six headers, and the body.\<close>

type_synonym addr_text = "string option \<times> string \<times> (string \<times> string option) list"

record req_spec =
  q_method :: string
  q_secure :: bool
  q_user :: "(string \<times> string option) option"
  q_host :: string
  q_port :: "nat option"
  q_params :: "(string \<times> string option) list"
  q_trans :: trans_type
  q_vhost :: string
  q_vport :: "nat option"
  q_vparams :: "(string \<times> string option) list"
  q_from :: addr_text
  q_to :: addr_text
  q_callid :: string
  q_cseq :: nat
  q_body :: string

definition q_uri :: "req_spec \<Rightarrow> string" where
  "q_uri q = print_uri (q_secure q) (q_user q) (q_host q) (q_port q) (q_params q)"

definition q_via :: "req_spec \<Rightarrow> string" where
  "q_via q = print_via (q_trans q) (q_vhost q) (q_vport q) (q_vparams q)"

definition print_addr :: "addr_text \<Rightarrow> string" where
  "print_addr a = (case a of (d, u, ps) \<Rightarrow> print_nameaddr d u ps)"

definition q_headers :: "req_spec \<Rightarrow> (string \<times> string) list" where
  "q_headers q = [(''Via'', q_via q), (''From'', print_addr (q_from q)), (''To'', print_addr (q_to q)),
     (''Call-ID'', q_callid q), (''CSeq'', print_dec (q_cseq q) @ SP # q_method q),
     (''Content-Length'', print_dec (length (q_body q)))]"

definition print_request :: "req_spec \<Rightarrow> string" where
  "print_request q = q_method q @ SP # q_uri q @ '' SIP/2.0'' @ CR # LF # print_headers (q_headers q) @ q_body q"

fun addr_ok :: "addr_text \<Rightarrow> bool" where
  "addr_ok (d, u, ps) = nameaddr_ok d u ps"

definition req_ok :: "req_spec \<Rightarrow> bool" where
  "req_ok q \<longleftrightarrow> list_all IS_TOKEN (q_method q) \<and> q_method q \<noteq> [] \<and> user_ok (q_user q) \<and>
     hostport_ok (q_host q) (q_port q) (q_params q) \<and> uri_chars (q_uri q) \<and>
     q_trans q \<notin> {TT_UNPARSED, TT_OTHER} \<and> via_host (q_vhost q) \<and>
     (q_vport q = None \<or> (\<exists>n \<le> 65535. q_vport q = Some n)) \<and>
     list_all (param_ok CHR '','') (q_vparams q) \<and> addr_ok (q_from q) \<and> addr_ok (q_to q) \<and>
     last_tag [] (snd (snd (q_from q))) \<noteq> [] \<and> list_all hdr_pair_ok (q_headers q) \<and>
     length (q_body q) \<le> 2147483647"

text \<open>What the parsed message must say.\<close>

fun addr_says :: "string \<Rightarrow> addr_text \<Rightarrow> sip_from_to \<Rightarrow> bool" where
  "addr_says buf (d, u, ps) ft \<longleftrightarrow> c2stlstr buf (na_name (ft_nameaddr ft)) = disp_text d \<and>
     c2stlstr buf (na_addr (ft_nameaddr ft)) = u \<and>
     map (avp_text buf) (na_params (ft_nameaddr ft)) = map param_text ps \<and>
     c2stlstr buf (ft_tag ft) = last_tag [] ps"

definition request_says :: "string \<Rightarrow> req_spec \<Rightarrow> sip_msg \<Rightarrow> bool" where
  "request_says buf q m \<longleftrightarrow>
     (\<exists>rq. m_type m = SIP_REQUEST \<and> m_request m = Some rq \<and> rq_method rq = method_of (q_method q) \<and>
        c2stlstr buf (rq_method_str rq) = q_method q \<and> c2stlstr buf (ruri_str rq) = q_uri q \<and>
        uri_says buf (ruri rq) (q_host q) (q_port q) (q_params q) \<and>
        (c2stlstr buf (user (ruri rq)), c2stlstr buf (passwd (ruri rq))) = user_text (q_user q)) \<and>
     (\<exists>v. m_via_p1 m = Some v \<and>
        via_says buf (q_trans q) (q_vhost q) (q_vport q) (q_vparams q) v) \<and>
     (\<exists>ft. p_from m = Some ft \<and> addr_says buf (q_from q) ft) \<and>
     (\<exists>ft. p_to m = Some ft \<and> addr_says buf (q_to q) ft) \<and>
     (\<exists>h. m_callid m = Some h \<and> c2stlstr buf (h_value h) = q_callid q) \<and>
     (\<exists>cs. p_cseq m = Some cs \<and> num cs = of_nat (q_cseq q) \<and>
        c2stlstr buf (method_str cs) = q_method q) \<and>
     c2stlstr buf (m_body m) = q_body q"

lemma cl_digits_dec:
  "list_all IS_DIGIT ds \<Longrightarrow> dec_val v ds \<le> 2147483647 \<Longrightarrow> cl_digits (int v) ds = Inr (int (dec_val v ds))"
proof (induction ds arbitrary: v)
  case (Cons d ds)
  have d: "IS_DIGIT d" using Cons.prems(1) by simp
  have "10 * v + dig d \<le> 2147483647"
    using Cons.prems(2) dec_val_ge [of "10 * v + dig d" ds] by simp
  then have "\<not> int v > (2147483647 - int (dig d)) div 10" by linarith
  then have "cl_digits (int v) (d # ds) = cl_digits (int v * 10 + int (dig d)) ds"
    using d schar_dig [OF d] dig_le [OF d] by (simp add: Let_def)
  also have "int v * 10 + int (dig d) = int (10 * v + dig d)" by simp
  also have "cl_digits (int (10 * v + dig d)) ds = Inr (int (dec_val v (d # ds)))"
    using Cons.IH [of "10 * v + dig d"] Cons.prems by simp
  finally show ?case .
qed simp

lemma cl_value_dec: "n \<le> 2147483647 \<Longrightarrow> cl_value (print_dec n) = Inr (int n)"
proof -
  assume n: "n \<le> 2147483647"
  obtain d ds where d: "print_dec n = d # ds" by (cases "print_dec n") simp_all
  moreover have "d \<noteq> SP" "d \<noteq> HTAB"
    using print_dec_digits [of n] d by (auto simp: IS_DIGIT_def IS_IN_def schar_def)
  ultimately have "cl_value (print_dec n) = cl_digits (int 0) (print_dec n)"
    by (simp add: cl_value_def del: cl_digits.simps)
  then show ?thesis using cl_digits_dec [of "print_dec n" 0] n by simp
qed

text \<open>A slice with a known text splits the buffer around it.\<close>

lemma slice_split:
  assumes "cs_ok lo hi cs" and "hi \<le> length buf" and "c2stlstr buf cs = w" and "w \<noteq> []"
  shows "\<exists>p q. buf = p @ w @ q \<and> length p = cs_s cs \<and> length w = nat (cs_len cs)"
proof (intro exI conjI)
  let ?n = "nat (cs_len cs)"
  have b: "cs_s cs + ?n \<le> length buf" using assms by (auto simp: cs_ok_def c2stlstr_def cs_null_def)
  then show "length (take (cs_s cs) buf) = cs_s cs" by simp
  show "length w = ?n" using b assms(3) by (auto simp: c2stlstr_def)
  show "buf = take (cs_s cs) buf @ w @ drop (cs_s cs + ?n) buf"
    using assms(3) by (metis append_take_drop_id c2stlstr_def drop_drop add.commute)
qed


lemma text_len: "c2stlstr buf cs \<noteq> [] \<Longrightarrow> cs_len cs \<noteq> 0"
  by (auto simp: c2stlstr_def)

text \<open>The parts of \<^verbatim>\<open>parse_sip_msg\<close> on a header with a printed value.\<close>

definition hdr_holds :: "string \<Rightarrow> sip_header option \<Rightarrow> string \<Rightarrow> bool" where
  "hdr_holds buf h w \<longleftrightarrow> (\<exists>h'. h = Some h' \<and> cs_ok 0 (length buf) (h_value h') \<and> c2stlstr buf (h_value h') = w)"

lemma hdr_holds_split:
  assumes "hdr_holds buf h w" and "w \<noteq> []"
  shows "\<exists>p q. buf = p @ w @ q \<and> val_s h = length p \<and> val_len h = length w"
proof -
  obtain h' where h: "h = Some h'" "cs_ok 0 (length buf) (h_value h')" "c2stlstr buf (h_value h') = w"
    using assms(1) by (auto simp: hdr_holds_def)
  from slice_split [OF h(2) order_refl h(3) assms(2)] h(1) show ?thesis
    by (auto simp: val_s_def val_len_def)
qed

lemma step_via_print:
  assumes "hdr_holds buf (m_via1 m) (q_via q)" and "req_ok q"
  shows "\<exists>v. step_via buf m = Some (m\<lparr>m_via_p1 := Some v, p_via := Some [v]\<rparr>, None) \<and>
    via_says buf (q_trans q) (q_vhost q) (q_vport q) (q_vparams q) v"
proof -
  obtain p r where b: "buf = p @ q_via q @ r" "val_s (m_via1 m) = length p" "val_len (m_via1 m) = length (q_via q)"
    using hdr_holds_split [OF assms(1)] by (auto simp: q_via_def print_via_def)
  obtain c s v where "parse_via buf [] (length p) (length (q_via q)) = Out c s 0" "v_parms s = [v]"
    "via_says buf (q_trans q) (q_vhost q) (q_vport q) (q_vparams q) v"
    using via_print_parse [OF b(1) [unfolded q_via_def]] assms(2) by (auto simp: req_ok_def q_via_def)
  with b(2,3) show ?thesis by (intro exI [of _ v]) (simp add: step_via_def)
qed

lemma step_cseq_print:
  assumes "hdr_holds buf (m_cseq m) (print_dec (q_cseq q) @ SP # q_method q)" and "req_ok q"
  shows "\<exists>cs. step_cseq buf m = Some (m\<lparr>p_cseq := Some cs\<rparr>, None) \<and> num cs = of_nat (q_cseq q) \<and>
    c2stlstr buf (method_str cs) = q_method q \<and> cs_method cs = Some (method_of (q_method q)) \<and>
    cs_len (method_str cs) = int (length (q_method q))"
proof -
  obtain p r where b: "buf = p @ (print_dec (q_cseq q) @ SP # q_method q) @ r"
    "val_s (m_cseq m) = length p" "val_len (m_cseq m) = length (print_dec (q_cseq q) @ SP # q_method q)"
    using hdr_holds_split [OF assms(1)] by auto
  then have "buf = p @ print_dec (q_cseq q) @ SP # q_method q @ r" by simp
  from cseq_print_parse [OF this] assms(2) obtain cs where cs:
    "parse_cseq buf new_cseq (length p) (length (print_dec (q_cseq q)) + 1 + length (q_method q)) =
      Out (length p + length (print_dec (q_cseq q)) + 1 + length (q_method q)) cs 0"
    "c2stlstr buf (num_str cs) = print_dec (q_cseq q)" "num cs = of_nat (q_cseq q)"
    "c2stlstr buf (method_str cs) = q_method q" "cs_method cs = Some (method_of (q_method q))"
    by (auto simp: req_ok_def)
  have "cs_ok (length p) (length p + (length (print_dec (q_cseq q)) + 1 + length (q_method q))) (method_str cs)"
    using cseq_total [of buf "length p" "length (print_dec (q_cseq q)) + 1 + length (q_method q)"] cs(1)
    by auto
  then have "cs_len (method_str cs) = int (length (q_method q))"
    using length_c2stlstr [of "length p" _ "method_str cs" buf] b(1) cs(4) by simp
  moreover have "q_method q \<noteq> []" using assms(2) by (simp add: req_ok_def)
  ultimately show ?thesis
    using cs b(2,3) text_len [of buf "num_str cs"] text_len [of buf "method_str cs"]
    by (intro exI [of _ cs]) (simp add: step_cseq_def)
qed

lemma from_to_hdr_print:
  assumes "hdr_holds buf h (print_addr a)" and "addr_ok a"
  shows "\<exists>c ft. parse_from_to buf new_from_to (val_s h) (val_len h) = Out c ft 0 \<and> addr_says buf a ft"
proof -
  obtain d u ps where a: "a = (d, u, ps)" by (cases a)
  obtain p r where b: "buf = p @ print_nameaddr d u ps @ r" "val_s h = length p"
    "val_len h = length (print_nameaddr d u ps)"
    using hdr_holds_split [OF assms(1)] a by (auto simp: print_addr_def print_nameaddr_def)
  from from_to_print_parse [OF b(1)] assms(2) b(2,3) a show ?thesis by auto
qed

lemma step_from_print:
  assumes "hdr_holds buf (m_from m) (print_addr (q_from q))" and "req_ok q"
  shows "\<exists>ft. step_from buf m = Some (m\<lparr>p_from := Some ft\<rparr>, None) \<and> addr_says buf (q_from q) ft"
proof -
  obtain c ft where "parse_from_to buf new_from_to (val_s (m_from m)) (val_len (m_from m)) = Out c ft 0"
    "addr_says buf (q_from q) ft"
    using from_to_hdr_print [OF assms(1)] assms(2) by (auto simp: req_ok_def)
  moreover from this have "cs_len (ft_tag ft) \<noteq> 0"
    using assms(2) text_len [of buf "ft_tag ft"] by (cases "q_from q") (simp add: req_ok_def)
  ultimately show ?thesis by (intro exI [of _ ft]) (simp add: step_from_def)
qed

lemma step_to_print:
  assumes "hdr_holds buf (m_to m) (print_addr (q_to q))" and "req_ok q"
  shows "\<exists>ft. step_to buf m = Some (m\<lparr>p_to := Some ft\<rparr>, None) \<and> addr_says buf (q_to q) ft"
  using from_to_hdr_print [OF assms(1)] assms(2) by (auto simp: req_ok_def step_to_def)

text \<open>The headers of the printed request.\<close>

definition hdrs_hold :: "string \<Rightarrow> req_spec \<Rightarrow> sip_msg \<Rightarrow> bool" where
  "hdrs_hold buf q m \<longleftrightarrow> hdr_holds buf (m_via1 m) (q_via q) \<and>
     hdr_holds buf (m_from m) (print_addr (q_from q)) \<and> hdr_holds buf (m_to m) (print_addr (q_to q)) \<and>
     hdr_holds buf (m_callid m) (q_callid q) \<and>
     hdr_holds buf (m_cseq m) (print_dec (q_cseq q) @ SP # q_method q) \<and>
     hdr_holds buf (m_content_length m) (print_dec (length (q_body q))) \<and> m_rack m = None"

lemma hdr_types:
  "parse_header_type ''Via'' = H_VIA" "parse_header_type ''From'' = H_FROM"
  "parse_header_type ''To'' = H_TO" "parse_header_type ''Call-ID'' = H_CALL_ID"
  "parse_header_type ''CSeq'' = H_CSEQ" "parse_header_type ''Content-Length'' = H_CONTENT_LENGTH"
  by code_simp+

lemma q_headers_parsed:
  assumes "buf = p @ print_headers (q_headers q) @ body" and "req_ok q" and "fl_frame m"
  shows "\<exists>m'. parse_msg_headers buf m (length p) (length buf) =
      Out (length p + length (print_headers (q_headers q))) m' 0 \<and> hdrs_hold buf q m' \<and>
    m_type m' = m_type m \<and> m_request m' = m_request m"
proof -
  have "length p \<le> length buf" "length p + length (print_headers (q_headers q)) \<le> length buf"
    using assms(1) by auto
  then obtain s where s: "parse_headers buf [] (length p) (length buf) =
      Out (length p + length (print_headers (q_headers q))) s 0"
    "list_all2 (header_says buf) (hd_hdrs s) (q_headers q)"
    "list_all (header_ok (length p) (length buf)) (hd_hdrs s)"
    using headers_print_parse [OF assms(1), of "length buf"] assms(2)
      headers_total [of buf "length p" "length buf - length p"] by (auto simp: req_ok_def)
  then have "list_all (header_ok 0 (length buf)) (hd_hdrs s)"
    by (auto simp: list_all_iff header_ok_def intro: cs_ok_mono)
  then obtain hv hf ht hi hc hl where hs: "hd_hdrs s = [hv, hf, ht, hi, hc, hl]"
    using s(2) by (auto simp: q_headers_def list_all2_Cons2)
  have fr: "m_callid m = None" "m_from m = None" "m_to m = None" "m_cseq m = None" "m_via1 m = None"
    "m_content_length m = None" "m_rack m = None"
    using assms(3) by (cases m; simp add: fl_frame_def new_msg_def)+
  show ?thesis
    using s(1,2) \<open>list_all (header_ok 0 (length buf)) (hd_hdrs s)\<close> fr
    by (simp add: parse_msg_headers_def hs q_headers_def header_says_def hdr_types msg_add_hdr_cases
        hdrs_hold_def hdr_holds_def header_ok_def)
qed


lemma run_parts_print:
  assumes "hdrs_hold buf q m" and "req_ok q" and "m_type m = SIP_REQUEST" and "m_request m = Some rq"
    and "rq_method rq = method_of (q_method q)" and "c2stlstr buf (rq_method_str rq) = q_method q"
    and "cs_len (rq_method_str rq) = int (length (q_method q))"
  shows "\<exists>v cs ft ft'. run_steps (msg_parts buf junk) m =
      Some (m\<lparr>m_via_p1 := Some v, p_via := Some [v], p_cseq := Some cs, p_from := Some ft,
        p_to := Some ft'\<rparr>, [], 0) \<and>
    via_says buf (q_trans q) (q_vhost q) (q_vport q) (q_vparams q) v \<and>
    num cs = of_nat (q_cseq q) \<and> c2stlstr buf (method_str cs) = q_method q \<and>
    addr_says buf (q_from q) ft \<and> addr_says buf (q_to q) ft'"
proof -
  have hh: "hdr_holds buf (m_via1 m) (q_via q)" "hdr_holds buf (m_from m) (print_addr (q_from q))"
    "hdr_holds buf (m_to m) (print_addr (q_to q))"
    "hdr_holds buf (m_cseq m) (print_dec (q_cseq q) @ SP # q_method q)" "m_rack m = None"
    using assms(1) by (simp_all add: hdrs_hold_def)
  obtain v where v: "step_via buf m = Some (m\<lparr>m_via_p1 := Some v, p_via := Some [v]\<rparr>, None)"
    "via_says buf (q_trans q) (q_vhost q) (q_vport q) (q_vparams q) v"
    using step_via_print [OF hh(1) assms(2)] by blast
  define m1 where "m1 = m\<lparr>m_via_p1 := Some v, p_via := Some [v]\<rparr>"
  obtain cs where cs: "step_cseq buf m1 = Some (m1\<lparr>p_cseq := Some cs\<rparr>, None)"
    "num cs = of_nat (q_cseq q)" "c2stlstr buf (method_str cs) = q_method q"
    "cs_method cs = Some (method_of (q_method q))" "cs_len (method_str cs) = int (length (q_method q))"
    using step_cseq_print [of buf m1 q] hh(4) assms(2) by (auto simp: m1_def)
  define m2 where "m2 = m1\<lparr>p_cseq := Some cs\<rparr>"
  have mt: "step_cseq_method buf junk m2 = Some (m2, None)"
    using assms(3-7) cs by (simp add: step_cseq_method_def m2_def m1_def)
  obtain ft where ft: "step_from buf m2 = Some (m2\<lparr>p_from := Some ft\<rparr>, None)" "addr_says buf (q_from q) ft"
    using step_from_print [of buf m2 q] hh(2) assms(2) by (auto simp: m1_def m2_def)
  define m3 where "m3 = m2\<lparr>p_from := Some ft\<rparr>"
  obtain ft' where ft': "step_to buf m3 = Some (m3\<lparr>p_to := Some ft'\<rparr>, None)" "addr_says buf (q_to q) ft'"
    using step_to_print [of buf m3 q] hh(3) assms(2) by (auto simp: m1_def m2_def m3_def)
  have "step_rack buf (m3\<lparr>p_to := Some ft'\<rparr>) = Some (m3\<lparr>p_to := Some ft'\<rparr>, None)"
    using hh(5) by (simp add: step_rack_def m1_def m2_def m3_def)
  with v cs mt ft ft' show ?thesis
    unfolding m1_def [symmetric] m2_def [symmetric] m3_def [symmetric]
    by (intro exI [of _ v] exI [of _ cs] exI [of _ ft] exI [of _ ft'])
      (simp add: m1_def m2_def m3_def)
qed


lemma set_body_print:
  assumes "buf = p @ q_body q" and "hdrs_hold buf q m" and "req_ok q"
  shows "set_body buf (length buf) (length p) m =
      Some (m\<lparr>m_body := cs_set (length p) (int (length (q_body q)))\<rparr>, None)"
    "c2stlstr buf (cs_set (length p) (int (length (q_body q)))) = q_body q"
proof -
  obtain h where "m_content_length m = Some h" "c2stlstr buf (h_value h) = print_dec (length (q_body q))"
    using assms(2) by (auto simp: hdrs_hold_def hdr_holds_def)
  then show "set_body buf (length buf) (length p) m =
      Some (m\<lparr>m_body := cs_set (length p) (int (length (q_body q)))\<rparr>, None)"
    using cl_value_dec [of "length (q_body q)"] assms(1,3) by (simp add: set_body_def req_ok_def)
  show "c2stlstr buf (cs_set (length p) (int (length (q_body q)))) = q_body q"
    using c2stlstr_middle [of _ p _ "q_body q" "[]"] by (simp add: assms(1))
qed

text \<open>The request line of the printed request.\<close>

lemma request_line_parsed:
  assumes "req_ok q" and buf: "buf = print_request q"
  shows "\<exists>rq. parse_first_line buf new_msg 0 (length buf) =
      Out (length (q_method q @ SP # q_uri q @ '' SIP/2.0'' @ [CR, LF]))
        (new_msg\<lparr>m_type := SIP_REQUEST, m_request := Some rq\<rparr>) 0 \<and>
    rq_method rq = method_of (q_method q) \<and> c2stlstr buf (rq_method_str rq) = q_method q \<and>
    cs_len (rq_method_str rq) = int (length (q_method q)) \<and> c2stlstr buf (ruri_str rq) = q_uri q \<and>
    uri_says buf (ruri rq) (q_host q) (q_port q) (q_params q) \<and>
    (c2stlstr buf (user (ruri rq)), c2stlstr buf (passwd (ruri rq))) = user_text (q_user q)"
proof -
  let ?m = "q_method q" and ?u = "q_uri q"
  have ok: "list_all IS_TOKEN ?m" "uri_chars ?u" using assms by (simp_all add: req_ok_def)
  obtain tl where tl: "print_headers (q_headers q) @ q_body q = CHR ''V'' # tl"
    by (simp add: q_headers_def print_headers_def print_header_def)
  have b1: "buf = ?m @ SP # ?u @ '' SIP/2.0'' @ CR # LF # CHR ''V'' # tl"
    using tl by (simp add: buf print_request_def)
  then have b2: "buf = (?m @ [SP]) @ ?u @ '' SIP/2.0'' @ CR # LF # CHR ''V'' # tl" by simp
  obtain u where u: "parse_uri buf new_uri (length ?m + 1) (length ?u) = Out (length ?m + 1 + length ?u) u 0"
    "(c2stlstr buf (user u), c2stlstr buf (passwd u)) = user_text (q_user q)"
    "uri_says buf u (q_host q) (q_port q) (q_params q)"
    using uri_print_parse [OF b2 [unfolded q_uri_def]] assms(1) by (auto simp: req_ok_def q_uri_def)
  let ?rq = "\<lparr>rq_method_str = cs_set 0 (int (length ?m)), rq_method = method_of ?m,
      ruri_str = cs_set (length ?m + 1) (int (length ?u)), ruri = u\<rparr>"
  have "c2stlstr buf (rq_method_str ?rq) = ?m" "c2stlstr buf (ruri_str ?rq) = ?u"
    using c2stlstr_middle [of 0 "[]" _ ?m] c2stlstr_middle [of _ "?m @ [SP]" _ ?u]
    by (simp_all add: b1)
  with first_line_print [OF b1 ok, of "length buf"] u b1 show ?thesis
    by (intro exI [of _ ?rq]) simp
qed

lemma request_print_parse:
  assumes "req_ok q"
  shows "\<exists>m. parse_sip_msg (print_request q) (length (print_request q)) junk = Some (m, [], 0) \<and>
    request_says (print_request q) q m"
proof -
  define buf where "buf = print_request q"
  let ?p = "q_method q @ SP # q_uri q @ '' SIP/2.0'' @ [CR, LF]"
  let ?ph = "?p @ print_headers (q_headers q)"
  obtain rq where fl: "parse_first_line buf new_msg 0 (length buf) =
      Out (length ?p) (new_msg\<lparr>m_type := SIP_REQUEST, m_request := Some rq\<rparr>) 0"
    and rq: "rq_method rq = method_of (q_method q)" "c2stlstr buf (rq_method_str rq) = q_method q"
      "cs_len (rq_method_str rq) = int (length (q_method q))" "c2stlstr buf (ruri_str rq) = q_uri q"
      "uri_says buf (ruri rq) (q_host q) (q_port q) (q_params q)"
      "(c2stlstr buf (user (ruri rq)), c2stlstr buf (passwd (ruri rq))) = user_text (q_user q)"
    using request_line_parsed [OF assms buf_def] by blast
  have b3: "buf = ?p @ print_headers (q_headers q) @ q_body q" and b4: "buf = ?ph @ q_body q"
    by (simp_all add: buf_def print_request_def)
  have fr: "fl_frame (new_msg\<lparr>m_type := SIP_REQUEST, m_request := Some rq\<rparr>)"
    by (simp add: fl_frame_def new_msg_def)
  obtain m1 where m1: "parse_msg_headers buf (new_msg\<lparr>m_type := SIP_REQUEST, m_request := Some rq\<rparr>)
      (length ?p) (length buf) = Out (length ?ph) m1 0"
    "hdrs_hold buf q m1" "m_type m1 = SIP_REQUEST" "m_request m1 = Some rq"
    using q_headers_parsed [OF b3 assms fr] by auto
  define m2 where "m2 = m1\<lparr>m_body := cs_set (length ?ph) (int (length (q_body q)))\<rparr>"
  have h2: "hdrs_hold buf q m2" "missing_header m2 = None" "m_type m2 = SIP_REQUEST" "m_request m2 = Some rq"
    using m1 by (auto simp: m2_def hdrs_hold_def hdr_holds_def missing_header_def)
  note body = set_body_print [OF b4 m1(2) assms]
  obtain v cs ft ft' where steps: "run_steps (msg_parts buf junk) m2 =
      Some (m2\<lparr>m_via_p1 := Some v, p_via := Some [v], p_cseq := Some cs, p_from := Some ft,
        p_to := Some ft'\<rparr>, [], 0)"
    "via_says buf (q_trans q) (q_vhost q) (q_vport q) (q_vparams q) v"
    "num cs = of_nat (q_cseq q)" "c2stlstr buf (method_str cs) = q_method q"
    "addr_says buf (q_from q) ft" "addr_says buf (q_to q) ft'"
    using run_parts_print [OF h2(1) assms h2(3,4) rq(1-3)] by blast
  have "parse_sip_msg buf (length buf) junk = run_steps (msg_parts buf junk) m2"
    unfolding parse_sip_msg_def parse_msg_rest_def fl m1(1) out.case
    using body(1) h2(2) by (simp add: m2_def del: run_steps.simps)
  moreover have "\<exists>h. m_callid m2 = Some h \<and> c2stlstr buf (h_value h) = q_callid q"
    using h2(1) by (auto simp: hdrs_hold_def hdr_holds_def)
  ultimately show ?thesis
    unfolding buf_def [symmetric] request_says_def
    using steps rq h2 body(2) by (simp add: m2_def del: run_steps.simps)
qed


text \<open>A concrete request.\<close>

definition sample_req :: req_spec where
  "sample_req = \<lparr>q_method = ''INVITE'', q_secure = False, q_user = Some (''bob'', None),
     q_host = ''b.org'', q_port = Some 5070, q_params = [], q_trans = TT_TCP, q_vhost = ''a.org'',
     q_vport = None, q_vparams = [(''branch'', Some ''z9hG4bK1'')],
     q_from = (None, ''sip:al@a.org'', [(''tag'', Some ''7'')]),
     q_to = (Some ''Bob'', ''sip:bob@b.org'', []), q_callid = ''x@a'', q_cseq = 1, q_body = ''v=0''\<rparr>"

lemma sample_req_ok: "req_ok sample_req"
proof -
  have dec: "print_dec 5070 = ''5070''" "print_dec (Suc 0) = ''1''"
    "print_dec (Suc (Suc (Suc 0))) = ''3''"
    by (simp_all add: print_dec.simps digit_char_def char_of_def)
  have tok: "IS_TOKEN CHR ''I''" "IS_TOKEN CHR ''N''" "IS_TOKEN CHR ''V''" "IS_TOKEN CHR ''T''"
    "IS_TOKEN CHR ''E''" by code_simp+
  show ?thesis
    by (simp add: req_ok_def sample_req_def tok hostport_ok_def host_ok_def quiet_def q_uri_def print_uri_def
        print_hostport_def print_port_def print_params_def dec uri_chars_def via_host_def
        param_name_def param_value_def nameaddr_ok_def q_headers_def hdr_pair_ok_def name_ok_def
        value_ok_def q_via_def print_via_def print_addr_def print_nameaddr_def)
qed

text \<open>
  C6: reading back a whole request. A printed request (method, request URI, Via, From, To,
  Call-ID, CSeq, Content-Length and any body) is accepted by \<^verbatim>\<open>parse_sip_msg\<close>, and the message
  holds exactly the printed parts: method and URI with user, host, port and parameters; the
  Via with transport, host, port, branch and received; names, addresses, parameters and tags of
  From and To; the Call-ID; the CSeq number (modulo $2^{32}$) and method; and the body.
\<close>

theorem parse_print_request:
  assumes "req_ok q"
  shows "\<exists>m. parse_sip_msg (print_request q) (length (print_request q)) junk = Some (m, [], 0) \<and>
    request_says (print_request q) q m"
  using assms by (rule request_print_parse)

theorem parse_print_request_witness:
  "\<exists>m. parse_sip_msg (print_request sample_req) (length (print_request sample_req)) OTHER_METHOD =
      Some (m, [], 0) \<and> request_says (print_request sample_req) sample_req m"
  by (rule parse_print_request [OF sample_req_ok])

text \<open>
  C7: an accepted message is complete and consistent. If \<^verbatim>\<open>parse_sip_msg\<close> returns 0, the message
  is a request or a reply with a status code of at most 999; Call-ID, From, To, CSeq and
  Content-Length occur at most once each and the first four are present together with a Via; the
  lists of Via, Contact, Route and Record-Route headers are the headers of that type in order;
  the body has exactly the length that Content-Length says, or reaches to the end of the message
  if there is none; the first Via value, CSeq, From and To are parsed, and the From tag is not
  empty. If the method text of the CSeq reaches the end of the header value, it names the method of
  the request, letter for letter if that method is not a known one. If a blank or a folded line
  follows the method text, the CSeq parser never writes its field \<^verbatim>\<open>method\<close>, and nothing is known of
  the text of a known method: the request is accepted if the undefined value of the field, \<open>junk\<close>,
  happens to be its method.
\<close>

theorem parse_sip_msg_complete:
  assumes "parse_sip_msg buf len junk = Some (m, err, 0)"
  shows "msg_complete buf len junk m"
proof -
  obtain c m0 r where f: "parse_first_line buf new_msg 0 len = Out c m0 r" "c \<le> len" "fl_slices len m0"
    "fl_frame m0" "r = 0 \<longrightarrow> has_request m0 \<or> has_reply 999 m0"
    using first_line_total [of buf len] by blast
  obtain c1 m1 r1 where h: "parse_msg_headers buf m0 c len = Out c1 m1 r1" "c1 \<le> len"
    "r1 = 0 \<longrightarrow> sound len m1" "m_type m1 = m_type m0" "m_request m1 = m_request m0" "m_reply m1 = m_reply m0"
    using headers_sound [OF f(2-4), of buf] by blast
  have "r = 0" "parse_msg_rest buf junk m0 c len = Some (m, err, 0)"
    using assms f(1) by (auto simp: parse_sip_msg_def split: out.splits if_splits)
  moreover from this have r1: "r1 = 0" using h by (auto simp: parse_msg_rest_def split: if_splits)
  ultimately obtain m2 where m2: "set_body buf len c1 m1 = Some (m2, None)" "missing_header m2 = None"
    "run_steps (msg_parts buf junk) m2 = Some (m, err, 0)"
    using h(1) by (auto simp: parse_msg_rest_def split: option.splits)
  have "hdr_part m2 = hdr_part m1" "body_says buf len m2" using set_body_done [OF m2(1)] by simp_all
  moreover note hdr_part_cong [OF this(1)]
  ultimately show ?thesis
    using h r1 f(5) \<open>r = 0\<close> m2(2)
    by (intro run_parts_done [OF m2(3)]) (simp_all add: has_request_def has_reply_def sound_def)
qed

theorem parse_sip_msg_complete_witness:
  "\<exists>m. parse_sip_msg (print_request sample_req) (length (print_request sample_req)) OTHER_METHOD =
      Some (m, [], 0) \<and>
    msg_complete (print_request sample_req) (length (print_request sample_req)) OTHER_METHOD m"
  using request_print_parse [OF sample_req_ok, of OTHER_METHOD] parse_sip_msg_complete by blast

end
