(* ===== verification/Msg_Write.thy ===== *)
theory Msg_Write
  imports Sip_Message Am_Utils
begin

text \<open>
  \<^verbatim>\<open>core/sip/msg_fline.cpp\<close>, \<^verbatim>\<open>core/sip/msg_hdrs.h\<close> and \<^verbatim>\<open>core/sip/msg_hdrs.cpp\<close>: the writers of first
  lines and headers. Each comes as a pair: one function computes a length, with which the caller
  allocates a buffer, the other writes. The lemmas show that the lengths are exact, so that the
  messages built from these writers fit their buffers.
\<close>

text \<open>
  A writer \<^verbatim>\<open>f(char** c, ...)\<close> is the text it writes at \<^verbatim>\<open>*c\<close>; it leaves \<^verbatim>\<open>*c\<close> behind that text. An
  argument that is a \<^verbatim>\<open>cstring\<close> is its text, and its length the length of the text. A header is
  read from the buffer its slices point into.
\<close>

section \<open>First lines\<close>

abbreviation SIPVER_len :: int where "SIPVER_len \<equiv> 7"

abbreviation CRLF :: string where "CRLF \<equiv> [CR, LF]"

definition request_line_len :: "string \<Rightarrow> string \<Rightarrow> int" where
  "request_line_len method uri = int (length method) + int (length uri) + SIPVER_len + 4"

definition request_line_wr :: "string \<Rightarrow> string \<Rightarrow> string" where
  "request_line_wr method uri = method @ [SP] @ uri @ '' SIP/2.0'' @ CRLF"

definition status_line_len :: "string \<Rightarrow> int" where
  "status_line_len reason = SIPVER_len + 3 + int (length reason) + 4"

text \<open>\<^verbatim>\<open>div\<close> truncates towards zero; the characters are stored modulo 256.\<close>

definition status_code_wr :: "int \<Rightarrow> string" where
  "status_code_wr code =
     (let quot = sgn code * (abs code div 100); rem = code - 100 * quot;
          quot' = sgn rem * (abs rem div 10); rem' = rem - 10 * quot'
      in [char_of (quot + 0x30), char_of (quot' + 0x30), char_of (rem' + 0x30)])"

definition status_line_wr :: "int \<Rightarrow> string \<Rightarrow> string" where
  "status_line_wr status_code reason = ''SIP/2.0 '' @ status_code_wr status_code @ [SP] @ reason @ CRLF"

section \<open>Headers\<close>

definition copy_hdr_len :: "sip_header \<Rightarrow> int" where
  "copy_hdr_len hdr = cs_len (h_name hdr) + cs_len (h_value hdr) + 4"

definition copy_hdr_wr :: "string \<Rightarrow> sip_header \<Rightarrow> string" where
  "copy_hdr_wr buf hdr = c2stlstr buf (h_name hdr) @ '': '' @ c2stlstr buf (h_value hdr) @ CRLF"

definition contact_len :: "string \<Rightarrow> int" where
  "contact_len contact = 11 + int (length contact)"

definition contact_wr :: "string \<Rightarrow> string" where
  "contact_wr contact = ''Contact: '' @ contact @ CRLF"

abbreviation MAGIC_BRANCH_COOKIE :: string where "MAGIC_BRANCH_COOKIE \<equiv> ''z9hG4bK''"

abbreviation MAGIC_BRANCH_LEN :: nat where "MAGIC_BRANCH_LEN \<equiv> 7"

definition via_len :: "string \<Rightarrow> string \<Rightarrow> string \<Rightarrow> bool \<Rightarrow> int" where
  "via_len tp sent_by branch rport =
     16 + int (length tp) + int (length sent_by) + 8 + int MAGIC_BRANCH_LEN + int (length branch) +
     (if rport then 6 else 0)"

text \<open>The loop copies the lower-case letters, as upper-case ones, and skips everything else.\<close>

definition via_trsp :: "string \<Rightarrow> string" where
  "via_trsp tp =
     map (\<lambda>ch. char_of (schar ch - 0x61 + 0x41))
       (filter (\<lambda>ch. schar ch \<ge> 0x61 \<and> schar ch \<le> 0x7A) tp)"

definition via_wr :: "string \<Rightarrow> string \<Rightarrow> string \<Rightarrow> bool \<Rightarrow> string" where
  "via_wr tp sent_by branch rport =
     ''Via: SIP/2.0/'' @ via_trsp tp @ [SP] @ sent_by @ '';branch='' @ MAGIC_BRANCH_COOKIE @ branch @
     (if rport then '';rport'' else []) @ CRLF"

definition cseq_len :: "string \<Rightarrow> string \<Rightarrow> int" where
  "cseq_len n method = 9 + int (length n) + int (length method)"

definition cseq_wr :: "string \<Rightarrow> string \<Rightarrow> string" where
  "cseq_wr n method = ''CSeq: '' @ n @ [SP] @ method @ CRLF"

definition content_length_len :: "string \<Rightarrow> int" where
  "content_length_len len = 18 + int (length len)"

definition content_length_wr :: "string \<Rightarrow> string" where
  "content_length_wr len = ''Content-Length: '' @ len @ CRLF"

definition content_type_len :: "string \<Rightarrow> int" where
  "content_type_len len = 16 + int (length len)"

definition content_type_wr :: "string \<Rightarrow> string" where
  "content_type_wr len = ''Content-Type: '' @ len @ CRLF"

definition copy_hdrs_len :: "sip_header list \<Rightarrow> int" where
  "copy_hdrs_len hdrs = fold (\<lambda>h ret. ret + copy_hdr_len h) hdrs 0"

definition copy_hdrs_len_no_via :: "sip_header list \<Rightarrow> int" where
  "copy_hdrs_len_no_via hdrs =
     fold (\<lambda>h ret. if h_type h = H_VIA then ret else ret + copy_hdr_len h) hdrs 0"

definition copy_hdrs_len_no_via_contact :: "sip_header list \<Rightarrow> int" where
  "copy_hdrs_len_no_via_contact hdrs =
     fold (\<lambda>h ret. case h_type h of H_VIA \<Rightarrow> ret | H_CONTACT \<Rightarrow> ret | H_CONTENT_LENGTH \<Rightarrow> ret
                   | _ \<Rightarrow> ret + copy_hdr_len h) hdrs 0"

definition copy_hdrs_wr :: "string \<Rightarrow> sip_header list \<Rightarrow> string" where
  "copy_hdrs_wr buf hdrs = concat (map (copy_hdr_wr buf) hdrs)"

definition copy_hdrs_wr_no_via :: "string \<Rightarrow> sip_header list \<Rightarrow> string" where
  "copy_hdrs_wr_no_via buf hdrs =
     concat (map (\<lambda>h. if h_type h = H_VIA then [] else copy_hdr_wr buf h) hdrs)"

definition copy_hdrs_wr_no_via_contact :: "string \<Rightarrow> sip_header list \<Rightarrow> string" where
  "copy_hdrs_wr_no_via_contact buf hdrs =
     concat (map (\<lambda>h. case h_type h of H_VIA \<Rightarrow> [] | H_CONTACT \<Rightarrow> [] | H_CONTENT_LENGTH \<Rightarrow> []
                      | _ \<Rightarrow> copy_hdr_wr buf h) hdrs)"

section \<open>The lengths are exact\<close>

named_theorems wr_len \<open>lengths of written texts\<close>

lemma request_line_length [wr_len]:
  "int (length (request_line_wr method uri)) = request_line_len method uri"
  by (simp add: request_line_wr_def request_line_len_def)

lemma status_line_length [wr_len]: "int (length (status_line_wr code reason)) = status_line_len reason"
  by (simp add: status_line_wr_def status_line_len_def status_code_wr_def Let_def)

lemma contact_length [wr_len]: "int (length (contact_wr contact)) = contact_len contact"
  by (simp add: contact_wr_def contact_len_def)

lemma cseq_length [wr_len]: "int (length (cseq_wr n method)) = cseq_len n method"
  by (simp add: cseq_wr_def cseq_len_def)

lemma content_length_length [wr_len]: "int (length (content_length_wr len)) = content_length_len len"
  by (simp add: content_length_wr_def content_length_len_def)

lemma content_type_length [wr_len]: "int (length (content_type_wr len)) = content_type_len len"
  by (simp add: content_type_wr_def content_type_len_def)

text \<open>The Via writer is exact only for a transport name in lower case.\<close>

lemma via_length:
  "int (length (via_wr tp sent_by branch rport)) =
     via_len tp sent_by branch rport - int (length (filter (\<lambda>ch. \<not> (schar ch \<ge> 0x61 \<and> schar ch \<le> 0x7A)) tp))"
proof -
  let ?lower = "\<lambda>ch. schar ch \<ge> 0x61 \<and> schar ch \<le> 0x7A"
  have "int (length tp) = int (length (filter ?lower tp)) + int (length (filter (\<lambda>ch. \<not> ?lower ch) tp))"
    using sum_length_filter_compl [of ?lower tp] by simp
  then show ?thesis by (simp add: via_wr_def via_len_def via_trsp_def)
qed

definition all_lower :: "string \<Rightarrow> bool" where
  "all_lower s \<longleftrightarrow> list_all (\<lambda>ch. schar ch \<ge> 0x61 \<and> schar ch \<le> 0x7A) s"

lemma via_length_lower [wr_len]:
  "all_lower tp \<Longrightarrow> int (length (via_wr tp sent_by branch rport)) = via_len tp sent_by branch rport"
  by (simp add: via_length all_lower_def list_all_iff)

text \<open>Headers that lie in their buffer.\<close>

abbreviation hdrs_in :: "string \<Rightarrow> sip_header list \<Rightarrow> bool" where
  "hdrs_in buf \<equiv> list_all (header_ok 0 (length buf))"

lemma copy_hdr_length [wr_len]:
  "header_ok 0 (length buf) h \<Longrightarrow> int (length (copy_hdr_wr buf h)) = copy_hdr_len h"
  by (simp add: copy_hdr_wr_def copy_hdr_len_def header_ok_def length_c2stlstr [where lo = 0, OF _ order_refl])

lemma fold_len:
  assumes "list_all P hs" and "\<And>h. P h \<Longrightarrow> int (length (wr h)) = len h"
  shows "fold (\<lambda>h ret. ret + len h) hs n = n + int (length (concat (map wr hs)))"
  using assms(1) by (induction hs arbitrary: n) (auto simp: assms(2))

lemma copy_hdrs_length [wr_len]:
  assumes "hdrs_in buf hs"
  shows "int (length (copy_hdrs_wr buf hs)) = copy_hdrs_len hs"
  using fold_len [OF assms copy_hdr_length] by (simp add: copy_hdrs_len_def copy_hdrs_wr_def)

text \<open>A loop that skips some headers adds zero for them.\<close>

lemma copy_hdrs_no_via_length [wr_len]:
  assumes "hdrs_in buf hs"
  shows "int (length (copy_hdrs_wr_no_via buf hs)) = copy_hdrs_len_no_via hs"
proof -
  let ?len = "\<lambda>h. if h_type h = H_VIA then 0 else copy_hdr_len h"
  have "(\<lambda>h ret. if h_type h = H_VIA then ret else ret + copy_hdr_len h) = (\<lambda>h ret. ret + ?len h)"
    by (auto simp: fun_eq_iff)
  with fold_len [OF assms, of "\<lambda>h. if h_type h = H_VIA then [] else copy_hdr_wr buf h" ?len 0]
  show ?thesis by (simp add: copy_hdrs_len_no_via_def copy_hdrs_wr_no_via_def copy_hdr_length)
qed

lemma copy_hdrs_no_via_contact_length [wr_len]:
  assumes "hdrs_in buf hs"
  shows "int (length (copy_hdrs_wr_no_via_contact buf hs)) = copy_hdrs_len_no_via_contact hs"
proof -
  let ?len = "\<lambda>h. case h_type h of H_VIA \<Rightarrow> 0 | H_CONTACT \<Rightarrow> 0 | H_CONTENT_LENGTH \<Rightarrow> 0
                  | _ \<Rightarrow> copy_hdr_len h"
  have "(\<lambda>h ret. case h_type h of H_VIA \<Rightarrow> ret | H_CONTACT \<Rightarrow> ret | H_CONTENT_LENGTH \<Rightarrow> ret
          | _ \<Rightarrow> ret + copy_hdr_len h) = (\<lambda>h ret. ret + ?len h)"
    by (auto simp: fun_eq_iff split: hdr_type.split)
  with fold_len [OF assms, of "\<lambda>h. case h_type h of H_VIA \<Rightarrow> [] | H_CONTACT \<Rightarrow> [] | H_CONTENT_LENGTH \<Rightarrow> []
                      | _ \<Rightarrow> copy_hdr_wr buf h" ?len 0]
  show ?thesis
    by (simp add: copy_hdrs_len_no_via_contact_def copy_hdrs_wr_no_via_contact_def copy_hdr_length
        split: hdr_type.split)
qed

end
