(* ===== verification/Wheeltimer.thy ===== *)
theory Wheeltimer
  imports Prelude "HOL-Library.Multiset"
begin

text \<open>
  \<^verbatim>\<open>core/sip/wheeltimer.cpp\<close>: the hierarchical timer wheel that drives every SIP transaction
  timer. Four wheels of 256 slots hold the timers; a tick moves the timers of the slot that
  the clock reached one wheel down and fires the ones of the current slot of wheel 0. The
  theory models the wheel, its request queue and a tick, proves the placement invariant, and
  shows that a tick fires exactly the timers that are due.
\<close>

section \<open>Data\<close>

abbreviation BITS_PER_WHEEL :: nat where "BITS_PER_WHEEL \<equiv> 8"

abbreviation WHEELS :: nat where "WHEELS \<equiv> 4"

text \<open>
  A timer object is known by its address; \<^verbatim>\<open>expires\<close> is set before the timer is inserted and
  not written afterwards. The chain of \<^verbatim>\<open>next\<close> pointers of a slot is the list of its timers, the
  head of the chain first. \<^verbatim>\<open>prev\<close> only serves to unlink a timer in constant time.
\<close>

record timer =
  t_id :: nat
  expires :: u32

record timer_req =
  rq_t :: timer
  rq_insert :: bool

record wheeltimer =
  wheels :: "nat \<Rightarrow> nat \<Rightarrow> timer list"
  reqs_backlog :: "timer_req list"
  reqs_process :: "timer_req list"
  wall_clock :: u32

definition new_wheeltimer :: wheeltimer where
  "new_wheeltimer = \<lparr>wheels = (\<lambda>_ _. []), reqs_backlog = [], reqs_process = [], wall_clock = 0\<rparr>"

section \<open>Operations\<close>

definition insert_timer :: "timer \<Rightarrow> wheeltimer \<Rightarrow> wheeltimer" where
  "insert_timer t s = s\<lparr>reqs_backlog := reqs_backlog s @ [\<lparr>rq_t = t, rq_insert = True\<rparr>]\<rparr>"

text \<open>A null pointer is \<open>None\<close>.\<close>

fun remove_timer :: "timer option \<Rightarrow> wheeltimer \<Rightarrow> wheeltimer" where
  "remove_timer None s = s"
| "remove_timer (Some t) s =
     s\<lparr>reqs_backlog := reqs_backlog s @ [\<lparr>rq_t = t, rq_insert = False\<rparr>]\<rparr>"

definition interval_elapsed :: "wheeltimer \<Rightarrow> u32 \<Rightarrow> u32 \<Rightarrow> bool" where
  "interval_elapsed s old_wall_clock interval_ms =
     (let diff = wall_clock s - old_wall_clock in diff * (20000 div 1000) \<ge> interval_ms)"

text \<open>The digit of a clock value that addresses a slot of a wheel.\<close>

definition wheel_pos :: "u32 \<Rightarrow> nat \<Rightarrow> nat" where
  "wheel_pos x wheel = unat (drop_bit (wheel * BITS_PER_WHEEL) x AND 0xFF)"

definition add_timer_to_wheel :: "timer \<Rightarrow> nat \<Rightarrow> nat \<Rightarrow> wheeltimer \<Rightarrow> wheeltimer" where
  "add_timer_to_wheel t wheel pos s =
     s\<lparr>wheels := (wheels s)(wheel := (wheels s wheel)(pos := t # wheels s wheel pos))\<rparr>"

text \<open>The loop \<^verbatim>\<open>for(; wheel; wheel--)\<close> of \<^verbatim>\<open>place_timer(t, wheel)\<close>.\<close>

fun diff_wheel :: "u32 \<Rightarrow> nat \<Rightarrow> nat" where
  "diff_wheel clock_mask 0 = 0"
| "diff_wheel clock_mask (Suc w) =
     (if drop_bit (Suc w * BITS_PER_WHEEL) clock_mask AND 0xFF \<noteq> 0 then Suc w
      else diff_wheel clock_mask w)"

definition place_timer_from :: "timer \<Rightarrow> nat \<Rightarrow> wheeltimer \<Rightarrow> wheeltimer" where
  "place_timer_from t wheel s =
     (let wheel' = diff_wheel (expires t XOR wall_clock s) wheel
      in add_timer_to_wheel t wheel' (wheel_pos (expires t) wheel') s)"

definition less_ts :: "u32 \<Rightarrow> u32 \<Rightarrow> bool" where
  "less_ts t1 t2 \<longleftrightarrow> t1 - t2 > push_bit 31 1"

definition place_timer :: "timer \<Rightarrow> wheeltimer \<Rightarrow> wheeltimer" where
  "place_timer t s =
     (if less_ts (expires t) (wall_clock s)
      then add_timer_to_wheel t 0 (unat (0xFF AND wall_clock s)) s
      else place_timer_from t (WHEELS - 1) s)"

text \<open>Unlinking takes the timer out of the slot it is in, if it is in one.\<close>

definition delete_timer :: "timer \<Rightarrow> wheeltimer \<Rightarrow> wheeltimer" where
  "delete_timer t s =
     s\<lparr>wheels := (\<lambda>w p. filter (\<lambda>t'. t_id t' \<noteq> t_id t) (wheels s w p))\<rparr>"

text \<open>
  \<^verbatim>\<open>update_wheel\<close>: the slot is walked from its head, every timer is placed on a lower wheel,
  and the slot is emptied. \<open>None\<close> stands for the access to \<^verbatim>\<open>wheels[4]\<close>, which does not exist.
\<close>

fun update_wheel :: "nat \<Rightarrow> wheeltimer \<Rightarrow> wheeltimer option" where
  "update_wheel 0 s = Some s"
| "update_wheel (Suc w) s =
     (if Suc w \<ge> WHEELS then None
      else
        let pos = wheel_pos (wall_clock s) (Suc w);
            s1 = fold (\<lambda>t. place_timer_from t w) (wheels s (Suc w) pos) s;
            s2 = s1\<lparr>wheels := (wheels s1)(Suc w := (wheels s1 (Suc w))(pos := []))\<rparr>
        in update_wheel w s2)"

text \<open>The first loop of \<^verbatim>\<open>turn_wheel\<close>: the lowest wheel whose digit does not overflow.\<close>

function find_wheel :: "u32 \<Rightarrow> u32 \<Rightarrow> nat \<Rightarrow> nat" where
  "find_wheel clock msk i =
     (if i < WHEELS then
        if (clock AND msk) XOR msk \<noteq> 0 then i
        else find_wheel clock (push_bit BITS_PER_WHEEL msk) (i + 1)
      else i)"
  by pat_completeness auto
termination by (relation "measure (\<lambda>(clock, msk, i). WHEELS - i)") auto

declare find_wheel.simps [simp del]

definition process_req :: "timer_req \<Rightarrow> wheeltimer \<Rightarrow> wheeltimer" where
  "process_req rq s = (if rq_insert rq then place_timer (rq_t rq) s else delete_timer (rq_t rq) s)"

text \<open>
  \<^verbatim>\<open>fire()\<close> is virtual. Its effect is a parameter: it changes a state of the client and may
  post requests to the timer, which go to the backlog.
\<close>

type_synonym 'w fire = "timer \<Rightarrow> 'w \<Rightarrow> 'w \<times> timer_req list"

fun fire_all :: "'w fire \<Rightarrow> timer list \<Rightarrow> 'w \<times> wheeltimer \<Rightarrow> 'w \<times> wheeltimer" where
  "fire_all fire [] (w, s) = (w, s)"
| "fire_all fire (t # ts) (w, s) =
     (let (w', rqs) = fire t w
      in fire_all fire ts (w', s\<lparr>reqs_backlog := reqs_backlog s @ rqs\<rparr>))"

definition process_current_timers :: "'w fire \<Rightarrow> 'w \<times> wheeltimer \<Rightarrow> 'w \<times> wheeltimer" where
  "process_current_timers fire ws =
     (let (w, s) = ws;
          pos = unat (wall_clock s AND 0xFF);
          (w', s') = fire_all fire (wheels s 0 pos) (w, s)
      in (w', s'\<lparr>wheels := (wheels s')(0 := (wheels s' 0)(pos := []))\<rparr>))"

definition turn_wheel :: "'w fire \<Rightarrow> 'w \<times> wheeltimer \<Rightarrow> ('w \<times> wheeltimer) option" where
  "turn_wheel fire ws =
     (let (w, s) = ws;
          i = find_wheel (wall_clock s) 0xFF 0;
          s1 = s\<lparr>wall_clock := wall_clock s + 1\<rparr>
      in case update_wheel i s1 of
           None \<Rightarrow> None
         | Some s2 \<Rightarrow>
             let s3 = s2\<lparr>reqs_process := reqs_backlog s2, reqs_backlog := reqs_process s2\<rparr>;
                 s4 = (fold process_req (reqs_process s3) s3)\<lparr>reqs_process := []\<rparr>
             in Some (process_current_timers fire (w, s4)))"

section \<open>Digits of the clock\<close>

lemma FF_mask: "(0xFF :: u32) = mask 8"
  by (simp add: mask_eq_exp_minus_1)

lemma wheel_pos_unat: "wheel_pos x w = unat x div 256 ^ w mod 256"
proof -
  have "(2 :: nat) ^ (w * 8) = 256 ^ w" unfolding mult.commute [of w] power_mult by simp
  moreover have "wheel_pos x w = take_bit 8 (drop_bit (w * 8) (unat x))"
    using unsigned_less [of x, where ?'a = nat]
    by (simp add: wheel_pos_def FF_mask take_bit_eq_mask [symmetric] unsigned_take_bit_eq
        unsigned_drop_bit_eq take_bit_nat_eq_self)
  ultimately show ?thesis by (simp add: take_bit_eq_mod drop_bit_eq_div)
qed

lemma wheel_pos_less: "wheel_pos x w < 256"
  by (simp add: wheel_pos_unat)

lemma wheel_pos_zero: "unat (x AND 0xFF) = wheel_pos x 0" "unat (0xFF AND x) = wheel_pos x 0"
  by (simp_all add: wheel_pos_def and.commute)

lemma xor_zero: "(a :: u32) XOR b = 0 \<longleftrightarrow> a = b"
  by (auto simp: bit_eq_iff bit_xor_iff)

lemma diff_digit:
  "drop_bit (w * 8) (x XOR y) AND (0xFF :: u32) = 0 \<longleftrightarrow> wheel_pos x w = wheel_pos y w"
proof -
  have "drop_bit (w * 8) (x XOR y) AND (0xFF :: u32) =
      (drop_bit (w * 8) x AND 0xFF) XOR (drop_bit (w * 8) y AND 0xFF)"
    by (simp add: FF_mask take_bit_eq_mask [symmetric])
  then show ?thesis unfolding wheel_pos_def word_unat_eq_iff [symmetric] by (simp only: xor_zero)
qed

lemma div_digit: "(x :: nat) div 256 ^ w = 256 * (x div 256 ^ Suc w) + x div 256 ^ w mod 256"
  using mult_div_mod_eq [of 256 "x div 256 ^ w"] by (simp add: div_mult2_eq mult.commute [of 256])

lemma unat_eq_255: "unat (x :: u32) = 255 \<longleftrightarrow> x = 0xFF"
  by (simp add: word_unat_eq_iff)

lemma mask_digit:
  assumes "w < 4"
  shows "(x AND push_bit (w * 8) 0xFF) XOR push_bit (w * 8) (0xFF :: u32) = 0 \<longleftrightarrow>
    wheel_pos x w = 255"
proof -
  have full: "bit (0xFF :: u32) n \<longleftrightarrow> n < 8" for n
    by (auto simp: FF_mask bit_mask_iff)
  have "(x AND push_bit (w * 8) 0xFF) XOR push_bit (w * 8) (0xFF :: u32) = 0 \<longleftrightarrow>
      (\<forall>n < 8. bit x (w * 8 + n))"
  proof
    assume eq: "(x AND push_bit (w * 8) 0xFF) XOR push_bit (w * 8) (0xFF :: u32) = 0"
    have "bit x (w * 8 + n)" if "n < 8" for n
      using arg_cong [OF eq, of "\<lambda>y. bit y (w * 8 + n)"] that assms full [of n]
      by (simp add: bit_and_iff bit_xor_iff bit_push_bit_iff full)
    then show "\<forall>n < 8. bit x (w * 8 + n)" by simp
  next
    assume all: "\<forall>n < 8. bit x (w * 8 + n)"
    show "(x AND push_bit (w * 8) 0xFF) XOR push_bit (w * 8) (0xFF :: u32) = 0"
    proof (rule bit_eqI)
      fix n
      show "bit ((x AND push_bit (w * 8) 0xFF) XOR push_bit (w * 8) (0xFF :: u32)) n = bit 0 n"
        using all [rule_format, of "n - w * 8"] full [of "n - w * 8"]
        by (auto simp add: bit_and_iff bit_xor_iff bit_push_bit_iff full)
    qed
  qed
  also have "\<dots> \<longleftrightarrow> drop_bit (w * 8) x AND 0xFF = (0xFF :: u32)"
  proof
    assume "\<forall>n < 8. bit x (w * 8 + n)"
    then show "drop_bit (w * 8) x AND 0xFF = (0xFF :: u32)"
      by (intro bit_eqI) (auto simp: FF_mask bit_and_iff bit_drop_bit_eq bit_mask_iff)
  next
    assume eq: "drop_bit (w * 8) x AND 0xFF = (0xFF :: u32)"
    show "\<forall>n < 8. bit x (w * 8 + n)"
    proof (intro allI impI)
      fix n :: nat assume "n < 8"
      then show "bit x (w * 8 + n)"
        using arg_cong [OF eq, of "\<lambda>y. bit y n"]
        by (simp add: FF_mask bit_and_iff bit_drop_bit_eq bit_mask_iff)
    qed
  qed
  also have "\<dots> \<longleftrightarrow> wheel_pos x w = 255"
    using unat_eq_255 by (simp add: wheel_pos_def)
  finally show ?thesis .
qed

text \<open>The loop of \<^verbatim>\<open>turn_wheel\<close> finds the number of trailing digits of the clock that are full.\<close>

definition full_below :: "u32 \<Rightarrow> nat \<Rightarrow> nat \<Rightarrow> bool" where
  "full_below x i j \<longleftrightarrow> i \<le> j \<and> j \<le> WHEELS \<and> (\<forall>w. i \<le> w \<and> w < j \<longrightarrow> wheel_pos x w = 255) \<and>
     (j < WHEELS \<longrightarrow> wheel_pos x j \<noteq> 255)"

lemma full_below_step: "full_below x (Suc i) j \<Longrightarrow> wheel_pos x i = 255 \<Longrightarrow> full_below x i j"
  by (auto simp: full_below_def le_Suc_eq Suc_le_eq dest: le_neq_implies_less)

lemma find_wheel_least:
  "i \<le> WHEELS \<Longrightarrow> full_below x i (find_wheel x (push_bit (i * 8) 0xFF) i)"
proof (induction "WHEELS - i" arbitrary: i)
  case 0
  then show ?case by (simp add: find_wheel.simps full_below_def)
next
  case (Suc n)
  then have i: "i < WHEELS" by simp
  have shift: "push_bit 8 (push_bit (i * 8) (0xFF :: u32)) = push_bit (Suc i * 8) 0xFF"
    unfolding push_bit_push_bit by simp
  show ?case
  proof (cases "wheel_pos x i = 255")
    case True
    then have "find_wheel x (push_bit (i * 8) 0xFF) i = find_wheel x (push_bit (Suc i * 8) 0xFF) (Suc i)"
      using i mask_digit [OF i, of x] shift by (subst find_wheel.simps) simp
    moreover have "full_below x (Suc i) (find_wheel x (push_bit (Suc i * 8) 0xFF) (Suc i))"
      using i Suc by (intro Suc.hyps(1)) auto
    ultimately show ?thesis using True by (simp only: full_below_step)
  next
    case False
    then have "find_wheel x (push_bit (i * 8) 0xFF) i = i"
      using i mask_digit [OF i, of x] by (subst find_wheel.simps) simp
    with False i show ?thesis by (simp add: full_below_def)
  qed
qed

section \<open>One step of the clock\<close>

lemma digits_full: "(\<forall>w < j. wheel_pos x w = 255) \<Longrightarrow> unat x mod 256 ^ j = 256 ^ j - 1"
proof (induction j)
  case (Suc j)
  have "unat x mod (256 ^ j * 256) = 256 ^ j * (unat x div 256 ^ j mod 256) + unat x mod 256 ^ j"
    by (rule mod_mult2_eq)
  with Suc show ?case by (simp add: wheel_pos_unat [symmetric] mult.commute)
qed simp

lemma digit_max: "w < WHEELS \<Longrightarrow> wheel_pos 0xFFFFFFFF w = 255"
proof -
  assume "w < WHEELS"
  then have "w = 0 \<or> w = 1 \<or> w = 2 \<or> w = 3" by arith
  then show ?thesis by (elim disjE) (simp_all add: wheel_pos_unat)
qed

text \<open>
  The clock steps from \<open>c\<close> to \<open>c + 1\<close> and \<open>j\<close> is the wheel that the first loop of \<^verbatim>\<open>turn_wheel\<close>
  found: digits above \<open>j\<close> do not change.
\<close>

lemma clock_step:
  assumes "full_below c 0 j" and "j < WHEELS"
  shows "unat (c + 1) = unat c + 1"
    and "j \<le> v \<Longrightarrow> unat (c + 1) div 256 ^ Suc v = unat c div 256 ^ Suc v"
    and "j < v \<Longrightarrow> wheel_pos (c + 1) v = wheel_pos c v"
proof -
  let ?C = "unat c" and ?B = "256 ^ j :: nat"
  have full: "?C mod ?B = ?B - 1" and digit: "?C div ?B mod 256 \<noteq> 255"
    using assms digits_full [of j c] by (auto simp: full_below_def wheel_pos_unat)
  show inc: "unat (c + 1) = ?C + 1"
  proof (rule ccontr)
    assume "unat (c + 1) \<noteq> ?C + 1"
    then have "c + 1 = 0" using unatSuc [of c] by (auto simp: add.commute)
    then have "c = 0xFFFFFFFF" by (simp add: eq_neg_iff_add_eq_0 [symmetric])
    with digit digit_max [OF assms(2)] show False by (simp add: wheel_pos_unat)
  qed
  have "(?C + 1) div ?B = ?C div ?B + 1"
    using full by (simp add: div_Suc mod_Suc)
  then have base: "(?C + 1) div 256 ^ Suc j = ?C div 256 ^ Suc j"
    using digit by (simp add: div_mult2_eq mult.commute [of 256] div_Suc mod_Suc)
  show up: "unat (c + 1) div 256 ^ Suc v = ?C div 256 ^ Suc v" if "j \<le> v" for v
  proof -
    from that have "256 ^ Suc v = 256 ^ Suc j * (256 :: nat) ^ (v - j)"
      by (simp add: power_add [symmetric])
    then show ?thesis using base inc by (simp add: div_mult2_eq)
  qed
  show "wheel_pos (c + 1) v = wheel_pos c v" if "j < v"
    using that up [of "v - 1"] by (simp add: wheel_pos_unat)
qed

lemma full_below_4: "full_below c 0 j \<Longrightarrow> j < WHEELS \<longleftrightarrow> c \<noteq> 0xFFFFFFFF"
proof -
  assume j: "full_below c 0 j"
  show ?thesis
  proof
    assume "j < WHEELS"
    then show "c \<noteq> 0xFFFFFFFF" using j digit_max [of j] by (auto simp: full_below_def)
  next
    assume c: "c \<noteq> 0xFFFFFFFF"
    show "j < WHEELS"
    proof (rule ccontr)
      assume "\<not> j < WHEELS"
      then have "\<forall>w < 4. wheel_pos c w = 255" using j by (auto simp: full_below_def)
      from digits_full [OF this] have "unat c = 0xFFFFFFFF"
        using unsigned_less [of c, where ?'a = nat] by simp
      with c show False by (simp add: word_unat_eq_iff)
    qed
  qed
qed

lemma same_block:
  assumes "0 < B" and "E div B = C div B" and "C mod B = B - (1 :: nat)"
  shows "E \<le> C" and "C - E < B"
proof -
  have "B * (C div B) + E mod B = E" using assms(2) by (metis mult_div_mod_eq)
  moreover have "B * (C div B) + (B - 1) = C" using assms(3) by (metis mult_div_mod_eq)
  moreover have "E mod B < B" using assms(1) by simp
  ultimately show "E \<le> C" and "C - E < B" by linarith+
qed

section \<open>Placement\<close>

definition due :: "u32 \<Rightarrow> timer \<Rightarrow> bool" where
  "due c t \<longleftrightarrow> expires t = c \<or> less_ts (expires t) c"

definition in_slot :: "u32 \<Rightarrow> nat \<Rightarrow> nat \<Rightarrow> timer \<Rightarrow> bool" where
  "in_slot c w p t \<longleftrightarrow> w < WHEELS \<and> p = wheel_pos (expires t) w \<and>
     unat (expires t) div 256 ^ Suc w = unat c div 256 ^ Suc w \<and>
     (0 < w \<longrightarrow> wheel_pos (expires t) w \<noteq> wheel_pos c w)"

lemma not_late_step: "\<not> due c t \<Longrightarrow> \<not> less_ts (expires t) (c + 1)"
proof -
  assume "\<not> due c t"
  then have ne: "expires t - c \<noteq> 0" and "unat (expires t - c) \<le> 2 ^ 31"
    by (auto simp: due_def less_ts_def not_less word_le_nat_alt)
  moreover have "unat (expires t - (c + 1)) = unat (expires t - c) - 1"
    using unat_minus_one [OF ne] by (simp add: algebra_simps)
  ultimately show ?thesis by (simp add: less_ts_def word_less_nat_alt)
qed

text \<open>A timer below a wheel whose lower digits are all full is late.\<close>

lemma late_below:
  assumes "in_slot c w p t" and "\<forall>v \<le> w. wheel_pos c v = 255" and "w < 3"
  shows "due c t"
proof -
  let ?E = "unat (expires t)" and ?C = "unat c" and ?B = "256 ^ Suc w :: nat"
  have full: "?C mod ?B = ?B - 1"
    using assms(2) by (intro digits_full) auto
  have quot: "?E div ?B = ?C div ?B" using assms(1) by (simp add: in_slot_def)
  have le: "?E \<le> ?C" and diff: "?C - ?E < ?B"
    using same_block [OF _ quot full] by auto
  have "?B \<le> 2 ^ 24"
    using assms(3) power_increasing [of "Suc w" 3 "256 :: nat"] by simp
  with le diff show ?thesis
    by (auto simp: due_def less_ts_def word_less_nat_alt unat_sub_if_size word_size
        word_unat_eq_iff)
qed

lemma diff_wheel_slot:
  "w < WHEELS \<Longrightarrow> unat (expires t) div 256 ^ Suc w = unat c div 256 ^ Suc w \<Longrightarrow>
     let w' = diff_wheel (expires t XOR c) w
     in w' \<le> w \<and> in_slot c w' (wheel_pos (expires t) w') t"
proof (induction w)
  case 0
  then show ?case by (simp add: in_slot_def)
next
  case (Suc w)
  show ?case
  proof (cases "wheel_pos (expires t) (Suc w) = wheel_pos c (Suc w)")
    case True
    then have "unat (expires t) div 256 ^ Suc w = unat c div 256 ^ Suc w"
      using Suc.prems div_digit [of "unat (expires t)" "Suc w"] div_digit [of "unat c" "Suc w"]
      by (simp only: wheel_pos_unat)
    with Suc True diff_digit [of "Suc w" "expires t" c] show ?thesis
      by (simp add: Let_def le_SucI)
  next
    case False
    then have "diff_wheel (expires t XOR c) (Suc w) = Suc w"
      using diff_digit [of "Suc w" "expires t" c] by simp
    with False Suc.prems show ?thesis by (simp add: in_slot_def)
  qed
qed

section \<open>The pending timers\<close>

definition slots :: "(nat \<times> nat) set" where
  "slots = {..<WHEELS} \<times> {..<256}"

definition pend :: "(nat \<Rightarrow> nat \<Rightarrow> timer list) \<Rightarrow> timer multiset" where
  "pend W = (\<Sum>(w, p) \<in> slots. mset (W w p))"

lemma slots_simps [simp]: "finite slots" "(w, p) \<in> slots \<longleftrightarrow> w < WHEELS \<and> p < 256"
  by (auto simp: slots_def)

lemma pend_split:
  assumes "w < WHEELS" and "p < 256"
  shows "pend W = mset (W w p) + (\<Sum>(v, q) \<in> slots - {(w, p)}. mset (W v q))"
  using assms by (simp add: pend_def sum.remove [of slots "(w, p)"])

lemma pend_upd:
  assumes "w < WHEELS" and "p < 256"
  shows "pend (W(w := (W w)(p := xs))) + mset (W w p) = pend W + mset xs"
proof -
  have "(\<Sum>(v, q) \<in> slots - {(w, p)}. mset ((W(w := (W w)(p := xs))) v q)) =
      (\<Sum>(v, q) \<in> slots - {(w, p)}. mset (W v q))"
    by (intro sum.cong) (auto split: if_splits)
  then show ?thesis
    using assms by (simp add: pend_split [of w p])
qed

lemma pend_add:
  assumes "w < WHEELS" and "p < 256"
  shows "pend (W(w := (W w)(p := t # W w p))) = add_mset t (pend W)"
  using pend_upd [OF assms, of W "t # W w p"] by simp

lemma pend_filter: "pend (\<lambda>w p. filter P (W w p)) = filter_mset P (pend W)"
proof -
  have "filter_mset P (\<Sum>i \<in> A. f i) = (\<Sum>i \<in> A. filter_mset P (f i))" if "finite A"
    for A and f :: "nat \<times> nat \<Rightarrow> timer multiset"
    using that by (induction A) auto
  then show ?thesis by (simp add: pend_def case_prod_unfold)
qed

lemma pend_mem: "t \<in># pend W \<longleftrightarrow> (\<exists>w p. w < WHEELS \<and> p < 256 \<and> t \<in> set (W w p))"
proof -
  have "t \<in># (\<Sum>i \<in> A. f i) \<longleftrightarrow> (\<exists>i \<in> A. t \<in># f i)" if "finite A"
    for A and f :: "nat \<times> nat \<Rightarrow> timer multiset"
    using that by (induction A) auto
  then show ?thesis by (auto simp: pend_def slots_def)
qed

section \<open>Invariants\<close>

text \<open>
  During a tick a late timer sits in the current slot of wheel 0; every other timer sits in
  the slot that the highest digit in which it differs from the clock determines.
\<close>

definition slot_ok :: "u32 \<Rightarrow> nat \<Rightarrow> nat \<Rightarrow> timer \<Rightarrow> bool" where
  "slot_ok c w p t \<longleftrightarrow>
     (if less_ts (expires t) c then w = 0 \<and> p = wheel_pos c 0 else in_slot c w p t)"

definition wheels_ok :: "u32 \<Rightarrow> (nat \<Rightarrow> nat \<Rightarrow> timer list) \<Rightarrow> bool" where
  "wheels_ok c W \<longleftrightarrow> (\<forall>w p. \<forall>t \<in> set (W w p). slot_ok c w p t)"

text \<open>Between two ticks nothing in the wheels is due and no request is half processed.\<close>

definition wheel_inv :: "wheeltimer \<Rightarrow> bool" where
  "wheel_inv s \<longleftrightarrow> wheels_ok (wall_clock s) (wheels s) \<and>
     (\<forall>t \<in># pend (wheels s). \<not> due (wall_clock s) t) \<and> reqs_process s = []"

lemma in_slot_bounds: "in_slot c w p t \<Longrightarrow> w < WHEELS \<and> p < 256"
  by (auto simp: in_slot_def wheel_pos_less)

lemma slot_ok_bounds: "slot_ok c w p t \<Longrightarrow> w < WHEELS \<and> p < 256"
  by (auto simp: slot_ok_def wheel_pos_less split: if_splits dest: in_slot_bounds)

lemma slot_ok_due: "slot_ok c w p t \<Longrightarrow> due c t \<longleftrightarrow> w = 0 \<and> p = wheel_pos c 0"
proof (cases "less_ts (expires t) c")
  case False
  assume "slot_ok c w p t"
  with False have slot: "in_slot c w p t" by (simp add: slot_ok_def)
  have "expires t = c" if "w = 0" "p = wheel_pos c 0"
    using that slot div_digit [of "unat (expires t)" 0] div_digit [of "unat c" 0]
    by (simp add: in_slot_def wheel_pos_unat word_unat_eq_iff)
  with False slot show ?thesis by (auto simp: due_def in_slot_def)
qed (simp add: slot_ok_def due_def)

lemma wheels_ok_due:
  "wheels_ok c W \<Longrightarrow> t \<in> set (W w p) \<Longrightarrow> due c t \<longleftrightarrow> w = 0 \<and> p = wheel_pos c 0"
  by (simp add: wheels_ok_def slot_ok_due)

text \<open>The current slot of wheel 0 holds exactly the due timers.\<close>

lemma current_slot:
  assumes "wheels_ok c W"
  shows "mset (W 0 (wheel_pos c 0)) = filter_mset (due c) (pend W)"
    and "pend (W(0 := (W 0)(wheel_pos c 0 := []))) = filter_mset (\<lambda>t. \<not> due c t) (pend W)"
proof -
  let ?p = "wheel_pos c 0"
  let ?W = "W(0 := (W 0)(?p := []))"
  have eq: "pend W = pend ?W + mset (W 0 ?p)"
    using pend_upd [of 0 ?p W "[]"] wheel_pos_less by simp
  have now: "due c t" if "t \<in># mset (W 0 ?p)" for t
    using that wheels_ok_due [OF assms] by auto
  have later: "\<not> due c t" if "t \<in># pend ?W" for t
    using that wheels_ok_due [OF assms] by (auto simp: pend_mem split: if_splits)
  have "filter_mset (due c) (mset (W 0 ?p)) = mset (W 0 ?p)"
    and "filter_mset (due c) (pend ?W) = {#}"
    and "filter_mset (\<lambda>t. \<not> due c t) (mset (W 0 ?p)) = {#}"
    and "filter_mset (\<lambda>t. \<not> due c t) (pend ?W) = pend ?W"
    using now later by (auto simp: filter_mset_eq_conv filter_mset_eq_mempty_iff)
  then show "mset (W 0 ?p) = filter_mset (due c) (pend W)"
    and "pend ?W = filter_mset (\<lambda>t. \<not> due c t) (pend W)"
    unfolding eq by simp_all
qed

section \<open>Placing, removing and moving timers\<close>

lemma add_timer_sel [simp]:
  "wall_clock (add_timer_to_wheel t w p s) = wall_clock s"
  "reqs_backlog (add_timer_to_wheel t w p s) = reqs_backlog s"
  "reqs_process (add_timer_to_wheel t w p s) = reqs_process s"
  "wheels (add_timer_to_wheel t w p s) v q =
     (if v = w \<and> q = p then t # wheels s w p else wheels s v q)"
  by (simp_all add: add_timer_to_wheel_def)

lemma add_timer_pend:
  "w < WHEELS \<Longrightarrow> p < 256 \<Longrightarrow>
     pend (wheels (add_timer_to_wheel t w p s)) = add_mset t (pend (wheels s))"
  by (simp add: add_timer_to_wheel_def pend_add)

lemma place_timer_sel [simp]:
  "wall_clock (place_timer_from t w s) = wall_clock s"
  "reqs_backlog (place_timer_from t w s) = reqs_backlog s"
  "reqs_process (place_timer_from t w s) = reqs_process s"
  "wall_clock (place_timer t s) = wall_clock s"
  "reqs_backlog (place_timer t s) = reqs_backlog s"
  "reqs_process (place_timer t s) = reqs_process s"
  by (simp_all add: place_timer_from_def place_timer_def Let_def)

text \<open>What \<^verbatim>\<open>place_timer(t, wheel)\<close> does to the wheels.\<close>

lemma place_timer_from_wheels:
  assumes "w < WHEELS"
    and "unat (expires t) div 256 ^ Suc w = unat (wall_clock s) div 256 ^ Suc w"
  shows "\<exists>v q. v \<le> w \<and> in_slot (wall_clock s) v q t \<and>
    place_timer_from t w s = add_timer_to_wheel t v q s"
  using diff_wheel_slot [OF assms] by (auto simp: place_timer_from_def Let_def)

lemma div_top: "unat (x :: u32) div 256 ^ Suc 3 = 0"
  using unsigned_less [of x, where ?'a = nat] by simp

lemma place_timer_ok:
  assumes "wheels_ok (wall_clock s) (wheels s)"
  shows "wheels_ok (wall_clock s) (wheels (place_timer t s))"
    and "pend (wheels (place_timer t s)) = add_mset t (pend (wheels s))"
proof -
  let ?c = "wall_clock s"
  have "\<exists>v q. slot_ok ?c v q t \<and> place_timer t s = add_timer_to_wheel t v q s"
  proof (cases "less_ts (expires t) ?c")
    case True
    then show ?thesis by (auto simp: place_timer_def wheel_pos_zero slot_ok_def)
  next
    case False
    have "\<exists>v q. v \<le> 3 \<and> in_slot ?c v q t \<and> place_timer_from t 3 s = add_timer_to_wheel t v q s"
    proof (rule place_timer_from_wheels)
      show "unat (expires t) div 256 ^ Suc 3 = unat ?c div 256 ^ Suc 3" by (simp only: div_top)
    qed simp
    with False show ?thesis by (auto simp: place_timer_def slot_ok_def)
  qed
  then obtain v q where vq: "slot_ok ?c v q t"
    and eq: "place_timer t s = add_timer_to_wheel t v q s" by blast
  show "pend (wheels (place_timer t s)) = add_mset t (pend (wheels s))"
    using slot_ok_bounds [OF vq] by (simp add: eq add_timer_pend)
  show "wheels_ok ?c (wheels (place_timer t s))"
    using assms vq by (auto simp: wheels_ok_def eq)
qed

lemma delete_timer_ok:
  "wheels_ok c (wheels s) \<Longrightarrow> wheels_ok c (wheels (delete_timer t s))"
  "pend (wheels (delete_timer t s)) = filter_mset (\<lambda>t'. t_id t' \<noteq> t_id t) (pend (wheels s))"
  by (simp_all add: wheels_ok_def delete_timer_def pend_filter)

text \<open>What a request means for the set of pending timers.\<close>

definition apply_req :: "timer_req \<Rightarrow> timer multiset \<Rightarrow> timer multiset" where
  "apply_req rq M = (if rq_insert rq then add_mset (rq_t rq) M
     else filter_mset (\<lambda>t'. t_id t' \<noteq> t_id (rq_t rq)) M)"

lemma process_req_ok:
  assumes "wheels_ok (wall_clock s) (wheels s)"
  shows "wheels_ok (wall_clock s) (wheels (process_req rq s))"
    and "pend (wheels (process_req rq s)) = apply_req rq (pend (wheels s))"
    and "wall_clock (process_req rq s) = wall_clock s"
    and "reqs_backlog (process_req rq s) = reqs_backlog s"
proof -
  have "wall_clock (delete_timer t s) = wall_clock s" "reqs_backlog (delete_timer t s) = reqs_backlog s" for t
    by (simp_all add: delete_timer_def)
  then show "wheels_ok (wall_clock s) (wheels (process_req rq s))"
    and "pend (wheels (process_req rq s)) = apply_req rq (pend (wheels s))"
    and "wall_clock (process_req rq s) = wall_clock s"
    and "reqs_backlog (process_req rq s) = reqs_backlog s"
    using place_timer_ok [OF assms] delete_timer_ok assms
    by (simp_all add: process_req_def apply_req_def)
qed

lemma process_reqs_ok:
  "wheels_ok (wall_clock s) (wheels s) \<Longrightarrow>
     wheels_ok (wall_clock s) (wheels (fold process_req rqs s)) \<and>
     pend (wheels (fold process_req rqs s)) = fold apply_req rqs (pend (wheels s)) \<and>
     wall_clock (fold process_req rqs s) = wall_clock s \<and>
     reqs_backlog (fold process_req rqs s) = reqs_backlog s"
proof (induction rqs arbitrary: s)
  case (Cons rq rqs)
  from process_req_ok [OF Cons.prems, of rq] Cons.IH [of "process_req rq s"] show ?case by simp
qed simp

text \<open>
  The wheels while \<^verbatim>\<open>update_wheel\<close> works its way down: on the wheels up to \<open>w\<close> a timer may still
  sit in the slot that the new clock addresses.
\<close>

definition moving :: "u32 \<Rightarrow> nat \<Rightarrow> nat \<Rightarrow> nat \<Rightarrow> timer \<Rightarrow> bool" where
  "moving c w v q t \<longleftrightarrow> \<not> less_ts (expires t) c \<and> v < WHEELS \<and> q = wheel_pos (expires t) v \<and>
     unat (expires t) div 256 ^ Suc v = unat c div 256 ^ Suc v \<and>
     (w < v \<longrightarrow> wheel_pos (expires t) v \<noteq> wheel_pos c v)"

lemma in_slot_moving: "in_slot c v q t \<Longrightarrow> \<not> less_ts (expires t) c \<Longrightarrow> v \<le> w \<Longrightarrow> moving c w v q t"
  by (auto simp: in_slot_def moving_def)

lemma moving_slot_ok: "moving c 0 v q t \<Longrightarrow> slot_ok c v q t"
  by (auto simp: slot_ok_def in_slot_def moving_def)

lemma move_timers:
  assumes "w < WHEELS"
    and "\<forall>t \<in> set ts. unat (expires t) div 256 ^ Suc w = unat (wall_clock s) div 256 ^ Suc w"
  defines "s' \<equiv> fold (\<lambda>t. place_timer_from t w) ts s"
  shows "wall_clock s' = wall_clock s \<and> reqs_backlog s' = reqs_backlog s \<and>
    reqs_process s' = reqs_process s \<and>
    pend (wheels s') = pend (wheels s) + mset ts \<and>
    (\<forall>v q. w < v \<longrightarrow> wheels s' v q = wheels s v q) \<and>
    (\<forall>v q. \<forall>t \<in> set (wheels s' v q).
       t \<in> set (wheels s v q) \<or> t \<in> set ts \<and> v \<le> w \<and> in_slot (wall_clock s) v q t)"
  using assms(2) unfolding s'_def
proof (induction ts arbitrary: s)
  case (Cons t ts)
  from place_timer_from_wheels [OF assms(1), of t s] Cons.prems obtain v q
    where vq: "v \<le> w" "in_slot (wall_clock s) v q t"
      "place_timer_from t w s = add_timer_to_wheel t v q s" by auto
  let ?s = "add_timer_to_wheel t v q s"
  have "pend (wheels ?s) = add_mset t (pend (wheels s))"
    using in_slot_bounds [OF vq(2)] by (simp add: add_timer_pend)
  with Cons.IH [of ?s] Cons.prems vq show ?case by (fastforce split: if_splits)
qed simp

lemma moving_descend:
  assumes "moving c (Suc w) (Suc w) q t" and "q = wheel_pos c (Suc w)"
  shows "unat (expires t) div 256 ^ Suc w = unat c div 256 ^ Suc w"
  using assms div_digit [of "unat (expires t)" "Suc w"] div_digit [of "unat c" "Suc w"]
  by (simp only: moving_def wheel_pos_unat)

lemma update_wheel_ok:
  "w < WHEELS \<Longrightarrow> \<forall>v q. \<forall>t \<in> set (wheels s v q). moving (wall_clock s) w v q t \<Longrightarrow>
     \<exists>s'. update_wheel w s = Some s' \<and> wheels_ok (wall_clock s) (wheels s') \<and>
       pend (wheels s') = pend (wheels s) \<and> wall_clock s' = wall_clock s \<and>
       reqs_backlog s' = reqs_backlog s \<and> reqs_process s' = reqs_process s"
proof (induction w arbitrary: s)
  case 0
  then show ?case by (auto simp: wheels_ok_def moving_slot_ok)
next
  case (Suc w)
  let ?c = "wall_clock s"
  let ?pos = "wheel_pos ?c (Suc w)"
  let ?ts = "wheels s (Suc w) ?pos"
  let ?s1 = "fold (\<lambda>t. place_timer_from t w) ?ts s"
  define s2 where "s2 = ?s1\<lparr>wheels := (wheels ?s1)(Suc w := (wheels ?s1 (Suc w))(?pos := []))\<rparr>"
  have below: "\<forall>t \<in> set ?ts. unat (expires t) div 256 ^ Suc w = unat ?c div 256 ^ Suc w"
    using Suc.prems(2) moving_descend by blast
  note mv = move_timers [OF _ below]
  have s1: "wall_clock ?s1 = ?c" "reqs_backlog ?s1 = reqs_backlog s"
    "reqs_process ?s1 = reqs_process s" "pend (wheels ?s1) = pend (wheels s) + mset ?ts"
    "wheels ?s1 (Suc w) ?pos = ?ts"
    using mv Suc.prems(1) by auto
  have mov: "moving ?c w v q t" if t: "t \<in> set (wheels s2 v q)" for v q t
  proof -
    have "\<not> (v = Suc w \<and> q = ?pos)" and "t \<in> set (wheels ?s1 v q)"
      using t by (auto simp: s2_def split: if_splits)
    then consider "t \<in> set (wheels s v q)" | "t \<in> set ?ts" "v \<le> w" "in_slot ?c v q t"
      using mv Suc.prems(1) by (meson Suc_lessD)
    then show ?thesis
    proof cases
      case 1
      then have "moving ?c (Suc w) v q t" using Suc.prems(2) by blast
      with \<open>\<not> (v = Suc w \<and> q = ?pos)\<close> show ?thesis
        by (cases "v = Suc w") (auto simp: moving_def)
    next
      case 2
      then show ?thesis using Suc.prems(2) by (intro in_slot_moving) (auto simp: moving_def)
    qed
  qed
  have "pend (wheels s2) = pend (wheels s)"
    using pend_upd [of "Suc w" ?pos "wheels ?s1" "[]"] Suc.prems(1) s1 wheel_pos_less
    by (simp add: s2_def)
  moreover have "wall_clock s2 = ?c" "reqs_backlog s2 = reqs_backlog s"
    "reqs_process s2 = reqs_process s"
    using s1 by (simp_all add: s2_def)
  moreover have "update_wheel (Suc w) s = update_wheel w s2"
    using Suc.prems(1) by (simp add: s2_def Let_def)
  ultimately show ?case
    using Suc.IH [of s2] Suc.prems(1) mov by simp
qed

text \<open>Before the update, nothing sits on the wheels that the tick passes over.\<close>

lemma tick_moving:
  assumes "wheel_inv s" and "full_below (wall_clock s) 0 j" and "j < WHEELS"
    and t: "t \<in> set (wheels s v q)"
  shows "moving (wall_clock s + 1) j v q t"
proof -
  let ?c = "wall_clock s"
  have ok: "slot_ok ?c v q t" using assms by (auto simp: wheel_inv_def wheels_ok_def)
  have nd: "\<not> due ?c t"
    using assms(1) t slot_ok_bounds [OF ok] by (auto simp: wheel_inv_def pend_mem)
  then have slot: "in_slot ?c v q t" using ok by (auto simp: slot_ok_def due_def)
  have "j \<le> v"
  proof (rule ccontr)
    assume "\<not> j \<le> v"
    then have "due ?c t"
      using assms(2,3) slot by (intro late_below) (auto simp: full_below_def)
    with nd show False by simp
  qed
  with slot not_late_step [OF nd] clock_step [OF assms(2,3)] show ?thesis
    by (simp add: moving_def in_slot_def del: power_Suc)
qed

section \<open>A tick\<close>

text \<open>What firing a sequence of timers does to the client, and the requests it posts.\<close>

fun fire_seq :: "'w fire \<Rightarrow> timer list \<Rightarrow> 'w \<Rightarrow> 'w \<times> timer_req list" where
  "fire_seq fire [] w = (w, [])"
| "fire_seq fire (t # ts) w =
     (let (w', rqs) = fire t w; (w'', rqs') = fire_seq fire ts w' in (w'', rqs @ rqs'))"

lemma fire_all_seq:
  "fire_all fire ts (w, s) =
     (fst (fire_seq fire ts w), s\<lparr>reqs_backlog := reqs_backlog s @ snd (fire_seq fire ts w)\<rparr>)"
  by (induction ts arbitrary: w s) (auto simp: Let_def split: prod.split)

definition tick_spec ::
  "'w fire \<Rightarrow> 'w \<Rightarrow> u32 \<Rightarrow> timer multiset \<Rightarrow> timer_req list \<Rightarrow>
    timer list \<Rightarrow> 'w \<Rightarrow> u32 \<Rightarrow> timer multiset \<Rightarrow> timer_req list \<Rightarrow> bool" where
  "tick_spec fire w c M rqs ts w' c' M' rqs' \<longleftrightarrow>
     (let N = fold apply_req rqs M
      in c' = c + 1 \<and> mset ts = filter_mset (due c') N \<and> M' = filter_mset (\<lambda>t. \<not> due c' t) N \<and>
         (w', rqs') = fire_seq fire ts w)"

lemma turn_wheel_refines:
  assumes "wheel_inv s" and "wall_clock s \<noteq> 0xFFFFFFFF"
  shows "\<exists>ts w' s'. turn_wheel fire (w, s) = Some (w', s') \<and> wheel_inv s' \<and>
    tick_spec fire w (wall_clock s) (pend (wheels s)) (reqs_backlog s)
      ts w' (wall_clock s') (pend (wheels s')) (reqs_backlog s')"
proof -
  let ?c = "wall_clock s + 1" and ?j = "find_wheel (wall_clock s) 0xFF 0"
  have j: "full_below (wall_clock s) 0 ?j" using find_wheel_least [of 0 "wall_clock s"] by simp
  with assms(2) have "?j < WHEELS" by (simp add: full_below_4)
  with update_wheel_ok [of ?j "s\<lparr>wall_clock := ?c\<rparr>"] tick_moving [OF assms(1) j] obtain s2
    where s2: "update_wheel ?j (s\<lparr>wall_clock := ?c\<rparr>) = Some s2" "wheels_ok ?c (wheels s2)"
      "pend (wheels s2) = pend (wheels s)" "wall_clock s2 = ?c"
      "reqs_backlog s2 = reqs_backlog s" "reqs_process s2 = []"
    using assms(1) by (auto simp: wheel_inv_def)
  let ?s3 = "s2\<lparr>reqs_process := reqs_backlog s2, reqs_backlog := reqs_process s2\<rparr>"
  let ?s4 = "(fold process_req (reqs_backlog s) ?s3)\<lparr>reqs_process := []\<rparr>"
  have s4: "wheels_ok ?c (wheels ?s4)" "wall_clock ?s4 = ?c" "reqs_backlog ?s4 = []"
    "pend (wheels ?s4) = fold apply_req (reqs_backlog s) (pend (wheels s))"
    using process_reqs_ok [of ?s3 "reqs_backlog s"] s2 by simp_all
  let ?ts = "wheels ?s4 0 (wheel_pos ?c 0)"
  let ?s5 = "?s4\<lparr>reqs_backlog := snd (fire_seq fire ?ts w),
      wheels := (wheels ?s4)(0 := (wheels ?s4 0)(wheel_pos ?c 0 := []))\<rparr>"
  have eq: "turn_wheel fire (w, s) = Some (fst (fire_seq fire ?ts w), ?s5)"
    using s2 s4 by (simp add: turn_wheel_def process_current_timers_def Let_def fire_all_seq
        wheel_pos_zero)
  have "wheels_ok ?c (wheels ?s5)"
    using s4(1) by (auto simp: wheels_ok_def split: if_splits)
  with s4 current_slot [OF s4(1)] have "wheel_inv ?s5"
    by (simp add: wheel_inv_def)
  with eq s4 current_slot [OF s4(1)] show ?thesis
    by (auto simp: tick_spec_def)
qed

section \<open>The service a client relies on\<close>

text \<open>A client that keeps a log of the timers that fired beside its own state.\<close>

definition logged :: "'v fire \<Rightarrow> (timer list \<times> 'v) fire" where
  "logged f t lv = (let (v', rqs) = f t (snd lv) in ((fst lv @ [t], v'), rqs))"

lemma fst_fire_seq_logged: "fst (fst (fire_seq (logged f) ts lv)) = fst lv @ ts"
  by (induction ts arbitrary: lv) (simp_all add: logged_def Let_def split_beta)

text \<open>The requests do not remove the timer.\<close>

definition spares :: "timer \<Rightarrow> timer_req list \<Rightarrow> bool" where
  "spares t rqs \<longleftrightarrow> (\<forall>rq \<in> set rqs. rq_insert rq \<or> t_id (rq_t rq) \<noteq> t_id t)"

lemma spares_simps [simp]:
  "spares t []" "spares t (xs @ ys) \<longleftrightarrow> spares t xs \<and> spares t ys"
  by (auto simp: spares_def)

lemma spares_fire_seq:
  assumes "\<forall>t' v. spares t (snd (f t' v))"
  shows "spares t (snd (fire_seq (logged f) ts lv))"
proof (induction ts arbitrary: lv)
  case (Cons t' ts)
  have "spares t (snd (logged f t' lv))" using assms by (simp add: logged_def Let_def split_beta)
  with Cons show ?case by (simp add: Let_def split_beta)
qed simp

lemma spares_apply: "spares t rqs \<Longrightarrow> t \<in># M \<Longrightarrow> t \<in># fold apply_req rqs M"
  by (induction rqs arbitrary: M) (auto simp: spares_def apply_req_def)

primrec ticks :: "('a \<Rightarrow> 'a option) \<Rightarrow> nat \<Rightarrow> 'a \<Rightarrow> 'a option" where
  "ticks step 0 x = Some x"
| "ticks step (Suc n) x = (case step x of None \<Rightarrow> None | Some y \<Rightarrow> ticks step n y)"

lemma unat_inc: "unat (c :: u32) < unat (e :: u32) \<Longrightarrow> unat (c + 1) = unat c + 1"
  using unsigned_less [of e, where ?'a = nat] by (simp add: unat_word_ariths)

lemma not_due_yet:
  assumes "unat (expires t) = unat c + Suc n" and "n < 2 ^ 31" and "0 < n"
  shows "\<not> due (c + 1) t"
proof -
  have inc: "unat (c + 1) = unat c + 1" using assms(1) by (intro unat_inc [of _ "expires t"]) simp
  then have "unat (expires t - (c + 1)) = n"
    using assms(1) by (simp add: unat_sub word_le_nat_alt)
  with assms inc show ?thesis
    by (auto simp: due_def less_ts_def word_less_nat_alt)
qed

locale timer_service =
  fixes clock :: "'s \<Rightarrow> u32"
    and pending :: "'s \<Rightarrow> timer multiset"
    and queued :: "'s \<Rightarrow> timer_req list"
    and inv :: "'s \<Rightarrow> bool"
    and tick :: "(timer list \<times> 'v) fire \<Rightarrow> (timer list \<times> 'v) \<times> 's \<Rightarrow> ((timer list \<times> 'v) \<times> 's) option"
  assumes tick_ok: "inv s \<Longrightarrow> clock s \<noteq> 0xFFFFFFFF \<Longrightarrow>
    \<exists>ts w' s'. tick fire (w, s) = Some (w', s') \<and> inv s' \<and>
      tick_spec fire w (clock s) (pending s) (queued s) ts w' (clock s') (pending s') (queued s')"
begin

lemma tick_logged:
  assumes "inv s" and "clock s \<noteq> 0xFFFFFFFF" and "\<forall>t' v. spares t (snd (f t' v))"
  shows "\<exists>ts v' s'. tick (logged f) ((log, v), s) = Some ((log @ ts, v'), s') \<and> inv s' \<and>
    clock s' = clock s + 1 \<and> spares t (queued s') \<and>
    mset ts = filter_mset (due (clock s + 1)) (fold apply_req (queued s) (pending s)) \<and>
    pending s' = filter_mset (\<lambda>t. \<not> due (clock s + 1) t) (fold apply_req (queued s) (pending s))"
proof -
  from tick_ok [OF assms(1,2), of "logged f" "(log, v)"] obtain ts w' s' where
    1: "tick (logged f) ((log, v), s) = Some (w', s')" "inv s'"
    and 2: "tick_spec (logged f) (log, v) (clock s) (pending s) (queued s)
      ts w' (clock s') (pending s') (queued s')" by blast
  from 2 have "fst w' = log @ ts" "spares t (queued s')"
    using fst_fire_seq_logged [of f ts "(log, v)"] spares_fire_seq [OF assms(3), of ts "(log, v)"]
    by (auto simp: tick_spec_def Let_def dest: sym)
  with 1 2 show ?thesis by (cases w') (auto simp: tick_spec_def Let_def)
qed

lemma fires_on_time:
  assumes "inv s" and "t \<in># fold apply_req (queued s) (pending s)"
    and "unat (expires t) = unat (clock s) + Suc n" and "n < 2 ^ 31"
    and "\<forall>t' v. spares t (snd (f t' v))"
  shows "\<exists>log' v' s' ts v'' s''.
    ticks (tick (logged f)) n ((log, v), s) = Some ((log @ log', v'), s') \<and> t \<notin> set log' \<and>
    tick (logged f) ((log @ log', v'), s') = Some ((log @ log' @ ts, v''), s'') \<and>
    t \<in> set ts \<and> clock s'' = expires t"
  using assms(1-4)
proof (induction n arbitrary: s log v)
  case 0
  then have "clock s \<noteq> 0xFFFFFFFF" using unsigned_less [of "expires t", where ?'a = nat] by auto
  from tick_logged [OF \<open>inv s\<close> this assms(5), of log v] obtain ts v' s' where
    tk: "tick (logged f) ((log, v), s) = Some ((log @ ts, v'), s')" "clock s' = clock s + 1"
      "mset ts = filter_mset (due (clock s + 1)) (fold apply_req (queued s) (pending s))" by blast
  have e: "clock s + 1 = expires t"
    using 0 unat_inc [of "clock s" "expires t"] by (simp add: word_unat_eq_iff)
  have "t \<in># mset ts" using 0 unfolding tk(3) by (simp add: due_def e)
  then have "t \<in> set ts" by simp
  with tk(1,2) e show ?case
    by (intro exI [of _ "[]"] exI [of _ v] exI [of _ s] exI [of _ ts] exI [of _ v'] exI [of _ s'])
      simp
next
  case (Suc n)
  then have "clock s \<noteq> 0xFFFFFFFF" using unsigned_less [of "expires t", where ?'a = nat] by auto
  from tick_logged [OF \<open>inv s\<close> this assms(5), of log v] obtain ts v' s' where
    tk: "tick (logged f) ((log, v), s) = Some ((log @ ts, v'), s')" "inv s'"
      "clock s' = clock s + 1" "spares t (queued s')"
      "mset ts = filter_mset (due (clock s + 1)) (fold apply_req (queued s) (pending s))"
      "pending s' = filter_mset (\<lambda>t. \<not> due (clock s + 1) t) (fold apply_req (queued s) (pending s))"
    by blast
  have nd: "\<not> due (clock s + 1) t"
    using Suc.prems by (intro not_due_yet [of _ _ "Suc n"]) auto
  then have "t \<in># fold apply_req (queued s') (pending s')"
    using tk Suc.prems(2) by (intro spares_apply) auto
  moreover have "unat (expires t) = unat (clock s') + Suc n"
    using Suc.prems(3) tk(3) unat_inc [of "clock s" "expires t"] by simp
  ultimately obtain log' v1 s1 ts1 v2 s2 where
    "ticks (tick (logged f)) n ((log @ ts, v'), s') = Some (((log @ ts) @ log', v1), s1)"
    "t \<notin> set log'"
    "tick (logged f) (((log @ ts) @ log', v1), s1) = Some (((log @ ts) @ log' @ ts1, v2), s2)"
    "t \<in> set ts1" "clock s2 = expires t"
    using Suc.IH [of s' "log @ ts" v'] tk(2) Suc.prems(4) by fastforce
  moreover have "t \<notin> set ts" using tk(5) nd
    by (metis (mono_tags, lifting) filter_mset_eq_conv mem_Collect_eq set_mset_filter set_mset_mset)
  ultimately show ?case
    using tk(1)
    by (intro exI [of _ "ts @ log'"] exI [of _ v1] exI [of _ s1] exI [of _ ts1] exI [of _ v2]
        exI [of _ s2]) simp
qed

end

interpretation wt_service: timer_service
  wall_clock "\<lambda>s. pend (wheels s)" reqs_backlog wheel_inv turn_wheel
  by unfold_locales (rule turn_wheel_refines)

section \<open>Properties\<close>

text \<open>
  C1: a tick of the hierarchical wheel refines a tick of a plain set of pending timers.
  Apart from the last value of the 32-bit clock, \<^verbatim>\<open>turn_wheel\<close> succeeds from every state that
  satisfies the placement invariant and re-establishes it; it steps the clock, applies the
  queued insertions and removals in order, fires exactly the pending timers that expire now or
  are late, each as often as it is pending, keeps all others, and leaves the requests that the
  fired timers posted in the backlog.
\<close>

theorem turn_wheel_fires_due:
  assumes "wheel_inv s" and "wall_clock s \<noteq> 0xFFFFFFFF"
  shows "\<exists>ts w' s'. turn_wheel fire (w, s) = Some (w', s') \<and> wheel_inv s' \<and>
    wall_clock s' = wall_clock s + 1 \<and>
    mset ts = filter_mset (due (wall_clock s'))
      (fold apply_req (reqs_backlog s) (pend (wheels s))) \<and>
    pend (wheels s') = filter_mset (\<lambda>t. \<not> due (wall_clock s') t)
      (fold apply_req (reqs_backlog s) (pend (wheels s))) \<and>
    (w', reqs_backlog s') = fire_seq fire ts w"
  using turn_wheel_refines [OF assms, of fire w] by (auto simp: tick_spec_def Let_def)

lemma update_wheel_4: "update_wheel 4 s = None"
  using update_wheel.simps(2) [of 3 s] by simp

lemma new_wheeltimer_inv: "wheel_inv new_wheeltimer"
  by (simp add: wheel_inv_def new_wheeltimer_def wheels_ok_def pend_def)

theorem turn_wheel_fires_due_witness:
  "\<exists>ts w' s'. turn_wheel (\<lambda>t n. (n + 1, [])) (0 :: nat, insert_timer \<lparr>t_id = 7, expires = 1\<rparr> new_wheeltimer) =
      Some (w', s') \<and> wheel_inv s' \<and> wall_clock s' = 1 \<and> mset ts = {#\<lparr>t_id = 7, expires = 1\<rparr>#} \<and>
    pend (wheels s') = {#} \<and> (w', reqs_backlog s') = fire_seq (\<lambda>t n. (n + 1, [])) ts 0"
proof -
  let ?t = "\<lparr>t_id = 7, expires = 1\<rparr>" and ?fire = "\<lambda>t n :: nat. (n + 1, [])"
  let ?s = "insert_timer ?t new_wheeltimer"
  have inv: "wheel_inv ?s" and c: "wall_clock ?s = 0"
    using new_wheeltimer_inv by (simp_all add: insert_timer_def wheel_inv_def new_wheeltimer_def)
  have m: "fold apply_req (reqs_backlog ?s) (pend (wheels ?s)) = {#?t#}"
    by (simp add: insert_timer_def new_wheeltimer_def apply_req_def pend_def)
  have d: "filter_mset (due 1) {#?t#} = {#?t#}" "filter_mset (\<lambda>t. \<not> due 1 t) {#?t#} = {#}"
    by (simp_all add: due_def)
  have "wall_clock ?s \<noteq> 0xFFFFFFFF" by (simp add: c)
  from turn_wheel_fires_due [OF inv this, of ?fire 0] obtain ts w' s' where
    "turn_wheel ?fire (0, ?s) = Some (w', s') \<and> wheel_inv s' \<and> wall_clock s' = 0 + 1 \<and>
      mset ts = filter_mset (due (wall_clock s')) {#?t#} \<and>
      pend (wheels s') = filter_mset (\<lambda>t. \<not> due (wall_clock s') t) {#?t#} \<and>
      (w', reqs_backlog s') = fire_seq ?fire ts 0"
    unfolding m c by blast
  then show ?thesis
    by (intro exI [of _ ts] exI [of _ w'] exI [of _ s']) (simp add: d del: filter_mset_add_mset)
qed

text \<open>
  C2: a timer fires on time. A timer that is inserted while the clock is \<open>n + 1\<close> ticks before
  its expiry, at most half the clock range ahead, is not fired by any of the first \<open>n\<close> ticks and
  is fired by the next one, at the moment when \<^verbatim>\<open>wall_clock\<close> equals its \<^verbatim>\<open>expires\<close>, whatever other
  timers are pending and whatever the fired timers insert or remove, provided that nobody
  removes this one.
\<close>

theorem timer_fires_on_time:
  assumes "wheel_inv s" and "unat (expires t) = unat (wall_clock s) + Suc n" and "n < 2 ^ 31"
    and "\<forall>t' v. spares t (snd (f t' v))"
  shows "\<exists>log v' s' ts v'' s''.
    ticks (turn_wheel (logged f)) n (([], v), insert_timer t s) = Some ((log, v'), s') \<and>
    t \<notin> set log \<and>
    turn_wheel (logged f) ((log, v'), s') = Some ((log @ ts, v''), s'') \<and>
    t \<in> set ts \<and> wall_clock s'' = expires t"
proof -
  let ?s = "insert_timer t s"
  have "wheel_inv ?s" "wall_clock ?s = wall_clock s"
    using assms(1) by (simp_all add: insert_timer_def wheel_inv_def)
  moreover have "t \<in># fold apply_req (reqs_backlog ?s) (pend (wheels ?s))"
    unfolding insert_timer_def by (simp add: apply_req_def)
  ultimately show ?thesis
    using wt_service.fires_on_time [of ?s t n f "[]" v] assms by fastforce
qed

theorem timer_fires_on_time_witness:
  "\<exists>log v' s' ts v'' s''.
    ticks (turn_wheel (logged (\<lambda>t v. (v, [])))) 600
      (([], ()), insert_timer \<lparr>t_id = 1, expires = 601\<rparr> new_wheeltimer) = Some ((log, v'), s') \<and>
    \<lparr>t_id = 1, expires = 601\<rparr> \<notin> set log \<and>
    turn_wheel (logged (\<lambda>t v. (v, []))) ((log, v'), s') = Some ((log @ ts, v''), s'') \<and>
    \<lparr>t_id = 1, expires = 601\<rparr> \<in> set ts \<and> wall_clock s'' = 601"
  using timer_fires_on_time [OF new_wheeltimer_inv, of "\<lparr>t_id = 1, expires = 601\<rparr>" 600
      "\<lambda>t v. (v, [])" "()"]
  by (simp add: new_wheeltimer_def)

text \<open>
  C17: a removed timer does not fire. After \<^verbatim>\<open>remove_timer\<close> the next tick fires no timer with that
  identity and leaves none pending, even if the timer would be due on that very tick.
\<close>

theorem removed_timer_never_fires:
  assumes "wheel_inv s" and "wall_clock s \<noteq> 0xFFFFFFFF"
  shows "\<exists>log v' s'. turn_wheel (logged f) (([], v), remove_timer (Some t) s) = Some ((log, v'), s') \<and>
    (\<forall>t' \<in> set log. t_id t' \<noteq> t_id t) \<and> (\<forall>t' \<in># pend (wheels s'). t_id t' \<noteq> t_id t)"
proof -
  let ?s = "remove_timer (Some t) s"
  have "wheel_inv ?s" "wall_clock ?s = wall_clock s"
    using assms(1) by (simp_all add: wheel_inv_def)
  then obtain ts w' s' where 1: "turn_wheel (logged f) (([], v), ?s) = Some (w', s')"
    and 2: "tick_spec (logged f) ([], v) (wall_clock s) (pend (wheels ?s)) (reqs_backlog ?s)
      ts w' (wall_clock s') (pend (wheels s')) (reqs_backlog s')"
    using turn_wheel_refines [of ?s "logged f" "([], v)"] assms(2) by auto
  have "fst w' = ts"
    using 2 fst_fire_seq_logged [of f ts "([], v)"] by (auto simp: tick_spec_def Let_def dest: sym)
  moreover
  let ?N = "fold apply_req (reqs_backlog ?s) (pend (wheels s))"
  have "set_mset (mset ts) \<subseteq> set_mset ?N" "set_mset (pend (wheels s')) \<subseteq> set_mset ?N"
    using 2 by (auto simp: tick_spec_def Let_def simp del: set_mset_mset)
  moreover have "\<forall>t' \<in># ?N. t_id t' \<noteq> t_id t" by (simp add: apply_req_def)
  ultimately show ?thesis using 1 by (cases w') auto
qed

theorem removed_timer_never_fires_witness:
  "\<exists>log v' s'. turn_wheel (logged (\<lambda>t v. (v, [])))
      (([], ()), remove_timer (Some \<lparr>t_id = 1, expires = 1\<rparr>)
        (insert_timer \<lparr>t_id = 1, expires = 1\<rparr> new_wheeltimer)) = Some ((log, v'), s') \<and>
    (\<forall>t' \<in> set log. t_id t' \<noteq> 1) \<and> (\<forall>t' \<in># pend (wheels s'). t_id t' \<noteq> 1)"
  using removed_timer_never_fires [of "insert_timer \<lparr>t_id = 1, expires = 1\<rparr> new_wheeltimer"
      "\<lambda>t v. (v, [])" "()" "\<lparr>t_id = 1, expires = 1\<rparr>"] new_wheeltimer_inv
  by (simp add: insert_timer_def wheel_inv_def) (simp add: new_wheeltimer_def)

text \<open>
  C30: the last tick of the clock. In the tick in which the 32-bit \<^verbatim>\<open>wall_clock\<close> overflows, the
  first loop of \<^verbatim>\<open>turn_wheel\<close> leaves \<open>i = WHEELS\<close> and \<^verbatim>\<open>update_wheel(4)\<close> reads \<^verbatim>\<open>wheels[4]\<close>, which does not
  exist; at every other clock value a tick is well defined.
\<close>

theorem turn_wheel_clock_overflow:
  assumes "wheel_inv s"
  shows "turn_wheel fire (w, s) = None \<longleftrightarrow> wall_clock s = 0xFFFFFFFF"
proof
  assume "turn_wheel fire (w, s) = None"
  then show "wall_clock s = 0xFFFFFFFF"
    using turn_wheel_refines [OF assms, of fire w] by auto
next
  assume c: "wall_clock s = 0xFFFFFFFF"
  have "full_below (wall_clock s) 0 (find_wheel (wall_clock s) 0xFF 0)"
    using find_wheel_least [of 0 "wall_clock s"] by simp
  with c full_below_4 have "find_wheel (wall_clock s) 0xFF 0 = 4"
    by (fastforce simp: full_below_def)
  then show "turn_wheel fire (w, s) = None" by (simp add: turn_wheel_def update_wheel_4)
qed

theorem turn_wheel_clock_overflow_witness:
  "turn_wheel (\<lambda>t v. (v, [])) ((), new_wheeltimer\<lparr>wall_clock := 0xFFFFFFFF\<rparr>) = None"
proof -
  have "wheel_inv (new_wheeltimer\<lparr>wall_clock := 0xFFFFFFFF\<rparr>)"
    by (simp add: wheel_inv_def new_wheeltimer_def wheels_ok_def pend_def)
  from turn_wheel_clock_overflow [OF this, of "\<lambda>t v. (v, [])" "()"] show ?thesis by simp
qed

text \<open>
  \<^verbatim>\<open>interval_elapsed\<close> compares the interval with the elapsed ticks times 20, computed modulo
  $2^{32}$; the answer is therefore about the elapsed milliseconds only within 49.7 days.
\<close>

theorem interval_elapsed_wraps:
  "interval_elapsed s old ms \<longleftrightarrow>
     unat ms \<le> (20 * unat (wall_clock s - old)) mod 2 ^ 32"
  by (simp add: interval_elapsed_def word_le_nat_alt unat_word_ariths mult.commute)

end
