(* ===== verification/Sip_Trans.thy ===== *)
theory Sip_Trans
  imports Msg_Write Wheeltimer
begin

text \<open>
  \<^verbatim>\<open>core/sip/sip_trans.h\<close>, \<^verbatim>\<open>core/sip/sip_trans.cpp\<close> and \<^verbatim>\<open>core/sip/sip_timers.cpp\<close>: a SIP transaction and
  its timers, and the state of the transaction layer they live in. A transaction has three timer
  slots; setting a timer posts requests to the timer wheel. The lemmas show how the slots, the
  objects behind them and the posted requests stay in step.
\<close>

section \<open>Timers\<close>

abbreviation STIMER_A :: u32 where "STIMER_A \<equiv> 0"
abbreviation STIMER_B :: u32 where "STIMER_B \<equiv> 1"
abbreviation STIMER_D :: u32 where "STIMER_D \<equiv> 2"
abbreviation STIMER_E :: u32 where "STIMER_E \<equiv> 3"
abbreviation STIMER_F :: u32 where "STIMER_F \<equiv> 4"
abbreviation STIMER_K :: u32 where "STIMER_K \<equiv> 5"
abbreviation STIMER_G :: u32 where "STIMER_G \<equiv> 6"
abbreviation STIMER_H :: u32 where "STIMER_H \<equiv> 7"
abbreviation STIMER_I :: u32 where "STIMER_I \<equiv> 8"
abbreviation STIMER_J :: u32 where "STIMER_J \<equiv> 9"
abbreviation STIMER_L :: u32 where "STIMER_L \<equiv> 10"
abbreviation STIMER_M :: u32 where "STIMER_M \<equiv> 11"
abbreviation STIMER_C :: u32 where "STIMER_C \<equiv> 12"
abbreviation STIMER_BL :: u32 where "STIMER_BL \<equiv> 13"

text \<open>The values in milliseconds. The configuration may change them, so the code that reads the table gets it as an argument.\<close>

definition default_sip_timers :: "u32 \<Rightarrow> u32" where
  "default_sip_timers ty =
     [500, 64 * 500, 64 * 500, 500, 64 * 500, 5000, 500, 64 * 500, 5000, 64 * 500, 64 * 500,
      64 * 500 div 4, 3 * 60 * 1000, 64 * 500] ! unat ty"

definition default_t2 :: u32 where "default_t2 = 4000"

definition timer_name :: "u32 \<Rightarrow> string" where
  "timer_name ty =
     [''A'', ''B'', ''D'', ''E'', ''F'', ''K'', ''G'', ''H'', ''I'', ''J'', ''L'', ''M'', ''C'', ''BL'']
       ! unat (ty AND 0xFFFF)"

text \<open>
  A timer object: its address, the expiry it was constructed with, its type (the retransmission
  counter in the upper half), the bucket and the address of the transaction.
\<close>

record trans_timer =
  tt_id :: nat
  tt_expires :: u32
  tt_type :: u32
  tt_bucket :: nat
  tt_trans :: nat

text \<open>The part of the object that the timer wheel knows.\<close>

definition wheel_timer :: "trans_timer \<Rightarrow> timer" where
  "wheel_timer tm = \<lparr>t_id = tt_id tm, expires = tt_expires tm\<rparr>"

section \<open>Messages and transactions\<close>

text \<open>
  A socket is known by its address; what the transaction layer asks of it are fields. An IP
  address is the texts that \<^verbatim>\<open>get_addr_str\<close> and \<^verbatim>\<open>get_addr_str_sip\<close> print for it.
\<close>

record trsp_socket =
  sk_id :: nat
  sk_if :: int
  sk_transport :: string
  sk_reliable :: bool
  sk_advertised_ip :: string
  sk_port :: u16
  sk_no_transport_in_contact :: bool
  sk_force_via_address :: bool

record sockaddr =
  sa_addr :: string
  sa_addr_sip :: string
  sa_port :: u16

text \<open>
  A message with its buffer, socket and remote address. Every slice of the message points into
  the buffer; a message built by the application, whose fields point to strings of their own, is
  represented with these strings behind each other in the buffer.
\<close>

record tmsg =
  tm_buf :: string
  tm_msg :: sip_msg
  local_socket :: "trsp_socket option"
  remote_ip :: sockaddr

datatype trans_kind = TT_NONE | TT_UAS | TT_UAC

datatype trans_state =
  TS_NONE | TS_TRYING | TS_CALLING | TS_PROCEEDING | TS_PROCEEDING_REL | TS_COMPLETED | TS_CONFIRMED
  | TS_TERMINATED_200 | TS_TERMINATED | TS_ABANDONED | TS_REMOVED

record sip_target =
  tg_ss :: sockaddr
  tg_trsp :: string

text \<open>
  The destinations from the iterator of the target set on; what lies before it is never visited
  again. \<^verbatim>\<open>retr_buf\<close> and \<^verbatim>\<open>retr_len\<close> are one text. The logger is left out.
\<close>

record sip_trans =
  tx_id :: nat
  timers :: "nat \<Rightarrow> trans_timer option"
  tx_type :: trans_kind
  tx_msg :: tmsg
  tx_to_tag :: string
  reply_status :: int
  tx_state :: trans_state
  last_rseq :: u32
  dialog_id :: string
  targets :: "sip_target list option"
  retr_buf :: "string option"
  retr_addr :: sockaddr
  retr_socket :: "trsp_socket option"
  tx_flags :: u32
  canceled :: bool

text \<open>The constructor does not initialise \<^verbatim>\<open>flags\<close>; \<open>junk\<close> is the value found there.\<close>

definition new_trans :: "nat \<Rightarrow> tmsg \<Rightarrow> u32 \<Rightarrow> sip_trans" where
  "new_trans i msg junk =
     \<lparr>tx_id = i, timers = (\<lambda>_. None), tx_type = TT_NONE, tx_msg = msg, tx_to_tag = [],
      reply_status = 0, tx_state = TS_NONE, last_rseq = 0, dialog_id = [], targets = None,
      retr_buf = None, retr_addr = \<lparr>sa_addr = [], sa_addr_sip = [], sa_port = 0\<rparr>, retr_socket = None,
      tx_flags = junk, canceled = False\<rparr>"

section \<open>The state of the transaction layer\<close>

text \<open>
  What the layer does to its surroundings: bytes handed to a socket, calls of the application,
  insertions into the blacklist.
\<close>

datatype ua_timeout = NoACK | NoPRACK

datatype effect =
    Send trsp_socket sockaddr string u32
  | UA_Request "(nat \<times> nat) option" tmsg
  | UA_Reply string tmsg
  | UA_Reply_Timeout ua_timeout nat
  | Blacklist sockaddr u32 string

text \<open>
  The buckets of the table, the clock of the wheel and the requests posted to it, the next free
  address, the timer objects by address, the effects so far, and the counter behind branches and
  tags.
\<close>

record tl =
  tl_buckets :: "nat \<Rightarrow> sip_trans list"
  tl_clock :: u32
  tl_reqs :: "timer_req list"
  tl_fresh :: nat
  tl_timers :: "nat \<Rightarrow> trans_timer option"
  tl_out :: "effect list"
  branch_cnt :: u32

text \<open>
  What the layer finds in its surroundings: configuration values; what uninitialised fields hold
  and what a shift by 32 or more gives, which the language leaves open; the result of the last
  send and the contents of the blacklist, as functions of all effects so far; the sockets of the
  interfaces, by transport name in the order of the map; the interface the system would use, and
  the address of a host name.
\<close>

record env =
  max_forwards :: u32
  sip_timers :: "u32 \<Rightarrow> u32"
  sip_timer_t2 :: u32
  default_bl_ttl :: u32
  junk_flags :: u32
  junk_method :: sip_method
  wide_shift :: "u32 \<Rightarrow> nat \<Rightarrow> u32"
  send_res :: "effect list \<Rightarrow> int"
  bl_exist :: "effect list \<Rightarrow> sockaddr \<Rightarrow> bool"
  transports :: "(string \<times> trsp_socket) list list"
  find_outbound_if :: "sockaddr \<Rightarrow> int"
  str2ip :: "string \<Rightarrow> sockaddr option"

definition post :: "timer_req list \<Rightarrow> tl \<Rightarrow> tl" where
  "post rqs s = s\<lparr>tl_reqs := tl_reqs s @ rqs\<rparr>"

definition emit :: "effect \<Rightarrow> tl \<Rightarrow> tl" where
  "emit x s = s\<lparr>tl_out := tl_out s @ [x]\<rparr>"

section \<open>Timer slots\<close>

definition timer_type_lookup :: "nat list" where
  "timer_type_lookup = [0, 1, 2, 0, 1, 2, 0, 1, 2, 0, 2, 2, 2, 2]"

definition fetch_timer :: "u32 \<Rightarrow> nat option" where
  "fetch_timer timer_type =
     (let ty = unat (timer_type AND 0xFFFF) in
      if ty \<ge> length timer_type_lookup then None else Some (timer_type_lookup ! ty))"

text \<open>
  A handler of the transaction layer works on a transaction while its bucket is locked. In the
  model it works on a copy \<open>t\<close>, next to the state \<open>s\<close>; the copy is written back at the end. The
  null pointer of \<^verbatim>\<open>fetch_timer\<close>, which the callers dereference without a test, is not reached:
  they all pass types of the table.
\<close>

definition get_timer :: "u32 \<Rightarrow> sip_trans \<Rightarrow> trans_timer option" where
  "get_timer ty t = (case fetch_timer ty of Some k \<Rightarrow> timers t k | None \<Rightarrow> None)"

definition is_timer_set :: "u32 \<Rightarrow> sip_trans \<Rightarrow> bool" where
  "is_timer_set ty t \<longleftrightarrow> get_timer ty t \<noteq> None"

definition rq_remove :: "trans_timer option \<Rightarrow> timer_req list" where
  "rq_remove tm = (case tm of None \<Rightarrow> [] | Some x \<Rightarrow> [\<lparr>rq_t = wheel_timer x, rq_insert = False\<rparr>])"

definition rq_add :: "trans_timer option \<Rightarrow> timer_req list" where
  "rq_add tm = (case tm of None \<Rightarrow> [] | Some x \<Rightarrow> [\<lparr>rq_t = wheel_timer x, rq_insert = True\<rparr>])"

definition reset_timer_obj :: "trans_timer option \<Rightarrow> u32 \<Rightarrow> sip_trans \<times> tl \<Rightarrow> sip_trans \<times> tl" where
  "reset_timer_obj tm ty ts =
     (let (t, s) = ts in
      case fetch_timer ty of
        None \<Rightarrow> (t, s)
      | Some k \<Rightarrow>
          (t\<lparr>timers := (timers t)(k := tm)\<rparr>, post (rq_remove (timers t k) @ rq_add tm) s))"

text \<open>\<^verbatim>\<open>new trans_timer(...)\<close>: a fresh object.\<close>

definition new_trans_timer :: "u32 \<Rightarrow> u32 \<Rightarrow> nat \<Rightarrow> nat \<Rightarrow> tl \<Rightarrow> trans_timer \<times> tl" where
  "new_trans_timer ty exp h i s =
     (let tm = \<lparr>tt_id = tl_fresh s, tt_expires = exp, tt_type = ty, tt_bucket = h, tt_trans = i\<rparr>
      in (tm, s\<lparr>tl_fresh := tl_fresh s + 1, tl_timers := (tl_timers s)(tl_fresh s := Some tm)\<rparr>))"

abbreviation TIMER_RESOLUTION :: u32 where "TIMER_RESOLUTION \<equiv> 20000"

definition reset_timer :: "u32 \<Rightarrow> u32 \<Rightarrow> nat \<Rightarrow> sip_trans \<times> tl \<Rightarrow> sip_trans \<times> tl" where
  "reset_timer ty expire_delay bucket_id ts =
     (let (t, s) = ts;
          exp = expire_delay div (TIMER_RESOLUTION div 1000) + tl_clock s;
          (tm, s1) = new_trans_timer ty exp bucket_id (tx_id t) s
      in reset_timer_obj (Some tm) ty (t, s1))"

definition clear_timer :: "u32 \<Rightarrow> sip_trans \<times> tl \<Rightarrow> sip_trans \<times> tl" where
  "clear_timer ty ts = reset_timer_obj None ty ts"

definition reset_all_timers :: "sip_trans \<times> tl \<Rightarrow> sip_trans \<times> tl" where
  "reset_all_timers ts =
     fold (\<lambda>i (t, s). if timers t i \<noteq> None
                      then (t\<lparr>timers := (timers t)(i := None)\<rparr>, post (rq_remove (timers t i)) s)
                      else (t, s)) [0, 1, 2] ts"

section \<open>What the operations do to the slots\<close>

lemma fetch_timer_simps [simp]:
  "fetch_timer STIMER_A = Some 0" "fetch_timer STIMER_B = Some 1" "fetch_timer STIMER_D = Some 2"
  "fetch_timer STIMER_E = Some 0" "fetch_timer STIMER_F = Some 1" "fetch_timer STIMER_K = Some 2"
  "fetch_timer STIMER_G = Some 0" "fetch_timer STIMER_H = Some 1" "fetch_timer STIMER_I = Some 2"
  "fetch_timer STIMER_J = Some 0" "fetch_timer STIMER_L = Some 2" "fetch_timer STIMER_M = Some 2"
  "fetch_timer STIMER_C = Some 2" "fetch_timer STIMER_BL = Some 2"
  by (simp_all add: fetch_timer_def timer_type_lookup_def)

lemma and_0xFFFF: "x AND 0xFFFF = take_bit 16 (x :: u32)"
  by (simp add: take_bit_eq_mask mask_eq_exp_minus_1)

lemma fetch_timer_and [simp]: "fetch_timer (ty AND 0xFFFF) = fetch_timer ty"
  by (simp add: fetch_timer_def and.assoc)

definition new_timer :: "u32 \<Rightarrow> u32 \<Rightarrow> nat \<Rightarrow> sip_trans \<times> tl \<Rightarrow> trans_timer" where
  "new_timer ty d h ts =
     \<lparr>tt_id = tl_fresh (snd ts), tt_expires = d div (TIMER_RESOLUTION div 1000) + tl_clock (snd ts),
      tt_type = ty, tt_bucket = h, tt_trans = tx_id (fst ts)\<rparr>"

lemma new_timer_simps [simp]:
  "tt_type (new_timer ty d h ts) = ty" "tt_bucket (new_timer ty d h ts) = h"
  "tt_trans (new_timer ty d h ts) = tx_id (fst ts)"
  by (simp_all add: new_timer_def)

lemma fst_reset_timer [simp]:
  "fetch_timer ty = Some k \<Longrightarrow>
     fst (reset_timer ty d h ts) = (fst ts)\<lparr>timers := (timers (fst ts))(k \<mapsto> new_timer ty d h ts)\<rparr>"
  by (simp add: reset_timer_def reset_timer_obj_def new_trans_timer_def new_timer_def Let_def split_beta)

lemma fst_clear_timer [simp]:
  "fetch_timer ty = Some k \<Longrightarrow> fst (clear_timer ty ts) = (fst ts)\<lparr>timers := (timers (fst ts))(k := None)\<rparr>"
  by (simp add: clear_timer_def reset_timer_obj_def split_beta)

lemma reset_timer_table [simp]:
  "tl_buckets (snd (reset_timer ty d h ts)) = tl_buckets (snd ts)"
  "tl_fresh (snd (reset_timer ty d h ts)) = Suc (tl_fresh (snd ts))"
  "tl_buckets (snd (clear_timer ty ts)) = tl_buckets (snd ts)"
  "tl_fresh (snd (clear_timer ty ts)) = tl_fresh (snd ts)"
  by (simp_all add: reset_timer_def clear_timer_def reset_timer_obj_def new_trans_timer_def post_def
      Let_def split_beta split: option.split)

lemma reset_all_fst:
  "fst (reset_all_timers ts) = (fst ts)\<lparr>timers := (timers (fst ts))(0 := None, 1 := None, 2 := None)\<rparr>"
  by (cases ts) (simp add: reset_all_timers_def fun_upd_twist fun_upd_idem)

lemma reset_all_table [simp]:
  "tl_buckets (snd (reset_all_timers ts)) = tl_buckets (snd ts)"
  "tl_fresh (snd (reset_all_timers ts)) = tl_fresh (snd ts)"
  by (cases ts; simp add: reset_all_timers_def post_def)+

end
