(* ===== verification/Hash.thy ===== *)
theory Hash
  imports Prelude
begin

text \<open>
  \<^verbatim>\<open>core/sip/hash.cpp\<close>: the hash function behind the transaction table, the branch parameters and
  the tags. \<^verbatim>\<open>hashlittle\<close> reads its key by 32-bit words, by 16-bit words or by bytes, depending on
  the address of the key. The same Call-ID sits at different addresses in a request and in its
  retransmission, so the table works only if all three ways agree. The theory proves that they
  do: the result is a function of the bytes of the key, whatever its address, whatever lies
  behind its end, and whether or not the machine is little-endian.
\<close>

type_synonym u8 = "8 word"
type_synonym memory = "nat \<Rightarrow> u8"
type_synonym abc = "u32 \<times> u32 \<times> u32"

section \<open>Mixing\<close>

definition rot :: "u32 \<Rightarrow> nat \<Rightarrow> u32" where
  "rot x k = push_bit k x OR drop_bit (32 - k) x"

definition mix :: "abc \<Rightarrow> abc" where
  "mix abc =
     (let (a, b, c) = abc;
          a = (a - c) XOR rot c 4; c = c + b;
          b = (b - a) XOR rot a 6; a = a + c;
          c = (c - b) XOR rot b 8; b = b + a;
          a = (a - c) XOR rot c 16; c = c + b;
          b = (b - a) XOR rot a 19; a = a + c;
          c = (c - b) XOR rot b 4; b = b + a
      in (a, b, c))"

text \<open>Only \<^verbatim>\<open>c\<close> is used behind \<^verbatim>\<open>final\<close>.\<close>

definition final_mix :: "abc \<Rightarrow> u32" where
  "final_mix abc =
     (let (a, b, c) = abc;
          c = (c XOR b) - rot b 14;
          a = (a XOR c) - rot c 11;
          b = (b XOR a) - rot a 25;
          c = (c XOR b) - rot b 16;
          a = (a XOR c) - rot c 4;
          b = (b XOR a) - rot a 14
      in (c XOR b) - rot b 24)"

section \<open>Reading the key\<close>

text \<open>The number whose little-endian bytes are given, and the reads of a little-endian machine.\<close>

fun le :: "u8 list \<Rightarrow> u32" where
  "le [] = 0"
| "le (x # xs) = ucast x + 256 * le xs"

definition read16 :: "memory \<Rightarrow> nat \<Rightarrow> u32" where
  "read16 m p = le [m p, m (p + 1)]"

definition read32 :: "memory \<Rightarrow> nat \<Rightarrow> u32" where
  "read32 m p = le [m p, m (p + 1), m (p + 2), m (p + 3)]"

definition read8 :: "memory \<Rightarrow> nat \<Rightarrow> u32" where
  "read8 m p = ucast (m p)"

text \<open>The loops return the rest of the key and the internal state.\<close>

function blocks32 :: "memory \<Rightarrow> nat \<Rightarrow> nat \<Rightarrow> abc \<Rightarrow> nat \<times> nat \<times> abc" where
  "blocks32 m k len abc =
     (if len > 12 then
        let (a, b, c) = abc in
        blocks32 m (k + 12) (len - 12)
          (mix (a + read32 m k, b + read32 m (k + 4), c + read32 m (k + 8)))
      else (k, len, abc))"
  by pat_completeness auto
termination by (relation "measure (\<lambda>(m, k, len, abc). len)") auto

function blocks16 :: "memory \<Rightarrow> nat \<Rightarrow> nat \<Rightarrow> abc \<Rightarrow> nat \<times> nat \<times> abc" where
  "blocks16 m k len abc =
     (if len > 12 then
        let (a, b, c) = abc in
        blocks16 m (k + 12) (len - 12)
          (mix (a + (read16 m k + push_bit 16 (read16 m (k + 2))),
                b + (read16 m (k + 4) + push_bit 16 (read16 m (k + 6))),
                c + (read16 m (k + 8) + push_bit 16 (read16 m (k + 10)))))
      else (k, len, abc))"
  by pat_completeness auto
termination by (relation "measure (\<lambda>(m, k, len, abc). len)") auto

function blocks8 :: "memory \<Rightarrow> nat \<Rightarrow> nat \<Rightarrow> abc \<Rightarrow> nat \<times> nat \<times> abc" where
  "blocks8 m k len abc =
     (if len > 12 then
        let (a, b, c) = abc;
            a = a + read8 m k; a = a + push_bit 8 (read8 m (k + 1));
            a = a + push_bit 16 (read8 m (k + 2)); a = a + push_bit 24 (read8 m (k + 3));
            b = b + read8 m (k + 4); b = b + push_bit 8 (read8 m (k + 5));
            b = b + push_bit 16 (read8 m (k + 6)); b = b + push_bit 24 (read8 m (k + 7));
            c = c + read8 m (k + 8); c = c + push_bit 8 (read8 m (k + 9));
            c = c + push_bit 16 (read8 m (k + 10)); c = c + push_bit 24 (read8 m (k + 11))
        in blocks8 m (k + 12) (len - 12) (mix (a, b, c))
      else (k, len, abc))"
  by pat_completeness auto
termination by (relation "measure (\<lambda>(m, k, len, abc). len)") auto

declare blocks32.simps [simp del] blocks16.simps [simp del] blocks8.simps [simp del]

text \<open>The switches over the rest of the key, 1 to 12 bytes.\<close>

definition tail32 :: "memory \<Rightarrow> nat \<Rightarrow> nat \<Rightarrow> abc \<Rightarrow> abc" where
  "tail32 m k len abc =
     (let (a, b, c) = abc in
      if len = 12 then (a + read32 m k, b + read32 m (k + 4), c + read32 m (k + 8))
      else if len = 11 then (a + read32 m k, b + read32 m (k + 4), c + (read32 m (k + 8) AND 0xFFFFFF))
      else if len = 10 then (a + read32 m k, b + read32 m (k + 4), c + (read32 m (k + 8) AND 0xFFFF))
      else if len = 9 then (a + read32 m k, b + read32 m (k + 4), c + (read32 m (k + 8) AND 0xFF))
      else if len = 8 then (a + read32 m k, b + read32 m (k + 4), c)
      else if len = 7 then (a + read32 m k, b + (read32 m (k + 4) AND 0xFFFFFF), c)
      else if len = 6 then (a + read32 m k, b + (read32 m (k + 4) AND 0xFFFF), c)
      else if len = 5 then (a + read32 m k, b + (read32 m (k + 4) AND 0xFF), c)
      else if len = 4 then (a + read32 m k, b, c)
      else if len = 3 then (a + (read32 m k AND 0xFFFFFF), b, c)
      else if len = 2 then (a + (read32 m k AND 0xFFFF), b, c)
      else if len = 1 then (a + (read32 m k AND 0xFF), b, c)
      else (a, b, c))"

text \<open>A chain of falling cases is a sequence of additions, each for the lengths that reach it.\<close>

definition tail16 :: "memory \<Rightarrow> nat \<Rightarrow> nat \<Rightarrow> abc \<Rightarrow> abc" where
  "tail16 m k len abc =
     (let (a, b, c) = abc;
          w = (\<lambda>p. read16 m p + push_bit 16 (read16 m (p + 2)))
      in
      if len = 12 then (a + w k, b + w (k + 4), c + w (k + 8))
      else if len = 11 then (a + w k, b + w (k + 4), c + push_bit 16 (read8 m (k + 10)) + read16 m (k + 8))
      else if len = 10 then (a + w k, b + w (k + 4), c + read16 m (k + 8))
      else if len = 9 then (a + w k, b + w (k + 4), c + read8 m (k + 8))
      else if len = 8 then (a + w k, b + w (k + 4), c)
      else if len = 7 then (a + w k, b + push_bit 16 (read8 m (k + 6)) + read16 m (k + 4), c)
      else if len = 6 then (a + w k, b + read16 m (k + 4), c)
      else if len = 5 then (a + w k, b + read8 m (k + 4), c)
      else if len = 4 then (a + w k, b, c)
      else if len = 3 then (a + push_bit 16 (read8 m (k + 2)) + read16 m k, b, c)
      else if len = 2 then (a + read16 m k, b, c)
      else if len = 1 then (a + read8 m k, b, c)
      else (a, b, c))"

definition tail8 :: "memory \<Rightarrow> nat \<Rightarrow> nat \<Rightarrow> abc \<Rightarrow> abc" where
  "tail8 m k len abc =
     (let (a, b, c) = abc;
          c = (if len \<ge> 12 then c + push_bit 24 (read8 m (k + 11)) else c);
          c = (if len \<ge> 11 then c + push_bit 16 (read8 m (k + 10)) else c);
          c = (if len \<ge> 10 then c + push_bit 8 (read8 m (k + 9)) else c);
          c = (if len \<ge> 9 then c + read8 m (k + 8) else c);
          b = (if len \<ge> 8 then b + push_bit 24 (read8 m (k + 7)) else b);
          b = (if len \<ge> 7 then b + push_bit 16 (read8 m (k + 6)) else b);
          b = (if len \<ge> 6 then b + push_bit 8 (read8 m (k + 5)) else b);
          b = (if len \<ge> 5 then b + read8 m (k + 4) else b);
          a = (if len \<ge> 4 then a + push_bit 24 (read8 m (k + 3)) else a);
          a = (if len \<ge> 3 then a + push_bit 16 (read8 m (k + 2)) else a);
          a = (if len \<ge> 2 then a + push_bit 8 (read8 m (k + 1)) else a);
          a = (if len \<ge> 1 then a + read8 m k else a)
      in (a, b, c))"

text \<open>
  \<open>little\<close> is the macro \<^verbatim>\<open>HASH_LITTLE_ENDIAN\<close>. The lengths are lengths of strings in memory and
  fit \<^verbatim>\<open>size_t\<close>.
\<close>

definition hashlittle :: "bool \<Rightarrow> memory \<Rightarrow> nat \<Rightarrow> nat \<Rightarrow> u32 \<Rightarrow> u32" where
  "hashlittle little m key len initval =
     (let i = 0xDEADBEEF + of_nat len + initval in
      if little \<and> key mod 4 = 0 then
        let (k, n, abc) = blocks32 m key len (i, i, i)
        in if n = 0 then snd (snd abc) else final_mix (tail32 m k n abc)
      else if little \<and> key mod 2 = 0 then
        let (k, n, abc) = blocks16 m key len (i, i, i)
        in if n = 0 then snd (snd abc) else final_mix (tail16 m k n abc)
      else
        let (k, n, abc) = blocks8 m key len (i, i, i)
        in if n = 0 then snd (snd abc) else final_mix (tail8 m k n abc))"

section \<open>The hash of a byte string\<close>

text \<open>The function that \<^verbatim>\<open>hashlittle\<close> computes, on the bytes of the key.\<close>

definition add_block :: "u8 list \<Rightarrow> abc \<Rightarrow> abc" where
  "add_block bs abc =
     (let (a, b, c) = abc
      in (a + le (take 4 bs), b + le (take 4 (drop 4 bs)), c + le (take 4 (drop 8 bs))))"

function hash_rest :: "u8 list \<Rightarrow> abc \<Rightarrow> u32" where
  "hash_rest bs abc =
     (if length bs > 12 then hash_rest (drop 12 bs) (mix (add_block (take 12 bs) abc))
      else if bs = [] then snd (snd abc)
      else final_mix (add_block bs abc))"
  by pat_completeness auto
termination by (relation "measure (\<lambda>(bs, abc). length bs)") auto

declare hash_rest.simps [simp del]

definition hash_bytes :: "u8 list \<Rightarrow> u32 \<Rightarrow> u32" where
  "hash_bytes bs initval =
     (let i = 0xDEADBEEF + of_nat (length bs) + initval in hash_rest bs (i, i, i))"

definition bytes :: "memory \<Rightarrow> nat \<Rightarrow> nat \<Rightarrow> u8 list" where
  "bytes m k len = map (\<lambda>i. m (k + i)) [0..<len]"

lemma bytes_simps [simp]:
  "bytes m k 0 = []" "length (bytes m k len) = len" "drop j (bytes m k len) = bytes m (k + j) (len - j)"
  "take j (bytes m k len) = bytes m k (min j len)"
proof -
  show "drop j (bytes m k len) = bytes m (k + j) (len - j)"
    by (rule nth_equalityI) (auto simp: bytes_def add.assoc)
  show "take j (bytes m k len) = bytes m k (min j len)"
    by (rule nth_equalityI) (simp_all add: bytes_def)
qed (simp_all add: bytes_def)

lemma bytes_Cons: "bytes m k (Suc n) = m k # bytes m (Suc k) n"
  by (simp add: bytes_def upt_conv_Cons map_Suc_upt [symmetric] comp_def del: upt_Suc)

text \<open>The first few bytes, as the reads of the code see them.\<close>

lemma le_bytes:
  "le (bytes m k 1) = read8 m k"
  "le (bytes m k 2) = read8 m k + push_bit 8 (read8 m (k + 1))"
  "le (bytes m k 3) = read8 m k + push_bit 8 (read8 m (k + 1)) + push_bit 16 (read8 m (k + 2))"
  "le (bytes m k 4) = read8 m k + push_bit 8 (read8 m (k + 1)) + push_bit 16 (read8 m (k + 2)) +
     push_bit 24 (read8 m (k + 3))"
  by (simp_all add: bytes_Cons eval_nat_numeral read8_def push_bit_eq_mult algebra_simps)

lemma read_bytes:
  "read16 m k = le (bytes m k 2)" "read32 m k = le (bytes m k 4)"
  "read16 m k + push_bit 16 (read16 m (k + 2)) = le (bytes m k 4)"
  by (simp_all add: read16_def read32_def bytes_Cons eval_nat_numeral push_bit_eq_mult algebra_simps)

text \<open>A masked word is the word of its first bytes.\<close>

fun le_nat :: "u8 list \<Rightarrow> nat" where
  "le_nat [] = 0"
| "le_nat (x # xs) = unat x + 256 * le_nat xs"

lemma le_nat_append: "le_nat (xs @ ys) = le_nat xs + 256 ^ length xs * le_nat ys"
  by (induction xs) (simp_all add: algebra_simps)

lemma le_nat_bound: "le_nat xs < 256 ^ length xs"
proof (induction xs)
  case (Cons x xs)
  then have "256 * le_nat xs + 256 \<le> 256 * 256 ^ length xs" by simp
  moreover have "unat x < 256" using unsigned_less [of x, where ?'a = nat] by simp
  ultimately show ?case by simp
qed simp

lemma unat_le:
  assumes "length xs \<le> 4"
  shows "unat (le xs) = le_nat xs"
proof -
  have "of_nat (le_nat xs) = le xs" by (induction xs) simp_all
  moreover have "256 ^ length xs \<le> (256 :: nat) ^ 4" using assms by (intro power_increasing) auto
  then have "le_nat xs < 2 ^ 32" using le_nat_bound [of xs] by simp
  then have "unat (of_nat (le_nat xs) :: u32) = le_nat xs" by (simp add: unat_of_nat take_bit_nat_eq_self)
  ultimately show ?thesis by simp
qed

lemma le_take:
  assumes "length (xs @ ys) \<le> 4"
  shows "take_bit (8 * length xs) (le (xs @ ys)) = le xs"
proof -
  have "(2 :: nat) ^ (8 * length xs) = 256 ^ length xs" by (simp add: power_mult)
  then have "take_bit (8 * length xs) (unat (le (xs @ ys))) = le_nat (xs @ ys) mod 256 ^ length xs"
    by (simp only: unat_le [OF assms] take_bit_eq_mod)
  then have "unat (take_bit (8 * length xs) (le (xs @ ys))) = le_nat (xs @ ys) mod 256 ^ length xs"
    by (simp only: unsigned_take_bit_eq)
  also have "\<dots> = unat (le xs)" using assms le_nat_bound [of xs] by (simp add: le_nat_append unat_le)
  finally show ?thesis by (simp add: word_unat_eq_iff)
qed

lemma read_masked:
  "read32 m k AND 0xFF = le (bytes m k 1)" "read32 m k AND 0xFFFF = le (bytes m k 2)"
  "read32 m k AND 0xFFFFFF = le (bytes m k 3)"
proof -
  have masks: "(0xFF :: u32) = mask 8" "(0xFFFF :: u32) = mask 16" "(0xFFFFFF :: u32) = mask 24"
    by (simp_all add: mask_eq_exp_minus_1)
  have split: "read32 m k = le (bytes m k j @ bytes m (k + j) (4 - j))" if "j \<le> 4" for j
    using that append_take_drop_id [of j "bytes m k 4"] by (simp add: read_bytes min_def)
  have "read32 m k AND mask (8 * j) = le (bytes m k j)" if "j \<le> 4" for j
    using le_take [of "bytes m k j" "bytes m (k + j) (4 - j)"] that
    by (simp add: split [OF that] take_bit_eq_mask [symmetric])
  from this [of 1] this [of 2] this [of 3]
  show "read32 m k AND 0xFF = le (bytes m k 1)" "read32 m k AND 0xFFFF = le (bytes m k 2)"
    "read32 m k AND 0xFFFFFF = le (bytes m k 3)"
    unfolding masks by simp_all
qed

text \<open>Each tail adds the last block.\<close>

lemma lengths:
  "(n :: nat) \<le> 12 \<Longrightarrow> n \<noteq> 0 \<Longrightarrow>
     n = 1 \<or> n = 2 \<or> n = 3 \<or> n = 4 \<or> n = 5 \<or> n = 6 \<or> n = 7 \<or> n = 8 \<or> n = 9 \<or> n = 10 \<or> n = 11 \<or> n = 12"
  by arith

lemma tail32_block: "n \<le> 12 \<Longrightarrow> n \<noteq> 0 \<Longrightarrow> tail32 m k n abc = add_block (bytes m k n) abc"
  by (drule (1) lengths, cases abc, elim disjE)
    (simp_all add: tail32_def add_block_def read_bytes read_masked [unfolded read_bytes(2)]
      read_masked(1) [unfolded read_bytes(2) One_nat_def])

lemma tail16_block: "n \<le> 12 \<Longrightarrow> n \<noteq> 0 \<Longrightarrow> tail16 m k n abc = add_block (bytes m k n) abc"
  by (drule (1) lengths, cases abc, elim disjE)
    (simp_all add: tail16_def add_block_def read16_def read8_def bytes_Cons eval_nat_numeral
      push_bit_eq_mult algebra_simps)

lemma tail8_block: "n \<le> 12 \<Longrightarrow> n \<noteq> 0 \<Longrightarrow> tail8 m k n abc = add_block (bytes m k n) abc"
  by (drule (1) lengths, cases abc, elim disjE) 
    (simp_all add: tail8_def add_block_def read8_def bytes_Cons eval_nat_numeral push_bit_eq_mult
      algebra_simps)

text \<open>Each loop adds the full blocks.\<close>

lemma hash_rest_step:
  "n > 12 \<Longrightarrow> hash_rest (bytes m k n) abc =
     hash_rest (bytes m (k + 12) (n - 12)) (mix (add_block (bytes m k 12) abc))"
  by (subst hash_rest.simps) (simp add: min_def)

lemma hash_rest_last:
  "n \<le> 12 \<Longrightarrow> hash_rest (bytes m k n) abc =
     (if n = 0 then snd (snd abc) else final_mix (add_block (bytes m k n) abc))"
  by (subst hash_rest.simps) (auto simp: bytes_def)

definition finish :: "(memory \<Rightarrow> nat \<Rightarrow> nat \<Rightarrow> abc \<Rightarrow> abc) \<Rightarrow> memory \<Rightarrow> nat \<times> nat \<times> abc \<Rightarrow> u32" where
  "finish tail m r = (let (k, n, abc) = r in if n = 0 then snd (snd abc) else final_mix (tail m k n abc))"

lemma blocks32_rest: "finish tail32 m (blocks32 m k n abc) = hash_rest (bytes m k n) abc"
proof (induction m k n abc rule: blocks32.induct)
  case (1 m k n abc)
  show ?case
  proof (cases "n > 12")
    case True
    obtain a b c where abc: "abc = (a, b, c)" by (cases abc)
    have "add_block (bytes m k 12) (a, b, c) = (a + read32 m k, b + read32 m (k + 4), c + read32 m (k + 8))"
      by (simp add: add_block_def read_bytes)
    with True 1 abc show ?thesis by (subst blocks32.simps) (simp add: hash_rest_step)
  next
    case False
    then show ?thesis
      by (subst blocks32.simps) (simp add: hash_rest_last finish_def tail32_block)
  qed
qed

lemma blocks16_rest: "finish tail16 m (blocks16 m k n abc) = hash_rest (bytes m k n) abc"
proof (induction m k n abc rule: blocks16.induct)
  case (1 m k n abc)
  show ?case
  proof (cases "n > 12")
    case True
    obtain a b c where abc: "abc = (a, b, c)" by (cases abc)
    have "add_block (bytes m k 12) (a, b, c) =
        (a + (read16 m k + push_bit 16 (read16 m (k + 2))),
         b + (read16 m (k + 4) + push_bit 16 (read16 m (k + 6))),
         c + (read16 m (k + 8) + push_bit 16 (read16 m (k + 10))))"
      using read_bytes(3) [of m k] read_bytes(3) [of m "k + 4"] read_bytes(3) [of m "k + 8"]
      by (simp add: add_block_def add.commute [of k])
    with True 1 abc show ?thesis by (subst blocks16.simps) (simp add: hash_rest_step)
  next
    case False
    then show ?thesis
      by (subst blocks16.simps) (simp add: hash_rest_last finish_def tail16_block)
  qed
qed

lemma blocks8_rest: "finish tail8 m (blocks8 m k n abc) = hash_rest (bytes m k n) abc"
proof (induction m k n abc rule: blocks8.induct)
  case (1 m k n abc)
  show ?case
  proof (cases "n > 12")
    case True
    obtain a b c where abc: "abc = (a, b, c)" by (cases abc)
    have "add_block (bytes m k 12) (a, b, c) =
        (a + read8 m k + push_bit 8 (read8 m (k + 1)) + push_bit 16 (read8 m (k + 2)) +
           push_bit 24 (read8 m (k + 3)),
         b + read8 m (k + 4) + push_bit 8 (read8 m (k + 5)) + push_bit 16 (read8 m (k + 6)) +
           push_bit 24 (read8 m (k + 7)),
         c + read8 m (k + 8) + push_bit 8 (read8 m (k + 9)) + push_bit 16 (read8 m (k + 10)) +
           push_bit 24 (read8 m (k + 11)))"
      by (simp add: add_block_def le_bytes(4) add.assoc add.commute [of k])
    with True 1 abc show ?thesis
      by (subst blocks8.simps) (simp add: hash_rest_step Let_def del: One_nat_def)
  next
    case False
    then show ?thesis
      by (subst blocks8.simps) (simp add: hash_rest_last finish_def tail8_block)
  qed
qed

lemma hashlittle_finish:
  "hashlittle little m key len initval =
     (let i = 0xDEADBEEF + of_nat len + initval in
      if little \<and> key mod 4 = 0 then finish tail32 m (blocks32 m key len (i, i, i))
      else if little \<and> key mod 2 = 0 then finish tail16 m (blocks16 m key len (i, i, i))
      else finish tail8 m (blocks8 m key len (i, i, i)))"
  by (simp add: hashlittle_def finish_def Let_def)

lemma hashlittle_bytes: "hashlittle little m key len initval = hash_bytes (bytes m key len) initval"
  by (simp add: hashlittle_finish blocks32_rest blocks16_rest blocks8_rest hash_bytes_def Let_def)

text \<open>The text of a string in memory.\<close>

definition holds_text :: "memory \<Rightarrow> nat \<Rightarrow> string \<Rightarrow> bool" where
  "holds_text m key s \<longleftrightarrow> bytes m key (length s) = map of_char s"

text \<open>
  C34: the hash of a text does not depend on where the text is stored. Two copies of a string,
  at any two addresses (aligned to four bytes, to two bytes, or not at all), with anything
  behind them, on a little-endian machine or not, have the same hash, and it is the hash of the
  bytes of the string.
\<close>

theorem hash_alignment:
  assumes "holds_text m key s" and "holds_text m' key' s"
  shows "hashlittle little m key (length s) initval = hash_bytes (map of_char s) initval \<and>
    hashlittle little' m' key' (length s) initval = hashlittle little m key (length s) initval"
  using assms by (simp add: hashlittle_bytes holds_text_def)

definition text_at :: "nat \<Rightarrow> string \<Rightarrow> u8 \<Rightarrow> memory" where
  "text_at key s junk = (\<lambda>p. if key \<le> p \<and> p < key + length s then of_char (s ! (p - key)) else junk)"

lemma holds_text_at: "holds_text (text_at key s junk) key s"
  by (rule nth_equalityI [THEN holds_text_def [THEN iffD2]]) (simp_all add: text_at_def bytes_def)

theorem hash_alignment_witness:
  "hashlittle True (text_at 8 ''f81d4fae@host'' 255) 8 13 0 =
     hash_bytes (map of_char ''f81d4fae@host'') 0 \<and>
   hashlittle True (text_at 5 ''f81d4fae@host'' 0) 5 13 0 =
     hashlittle True (text_at 8 ''f81d4fae@host'' 255) 8 13 0"
  using hash_alignment [OF holds_text_at [of 8 "''f81d4fae@host''" 255] holds_text_at [of 5 "''f81d4fae@host''" 0],
      of True 0 True]
  by (simp add: eval_nat_numeral)

end
