(* ===== verification/Trans_Table.thy ===== *)
theory Trans_Table
  imports Sip_Trans Hash
begin

text \<open>
  \<^verbatim>\<open>core/sip/trans_table.cpp\<close> and the buckets of \<^verbatim>\<open>core/hash_table.h\<close>: where transactions are kept, how a
  message finds the transaction it belongs to, and how branches and tags are made. The lemmas
  show that a reply is matched by branch, CSeq number and CSeq method alone, that a message
  built by the layer is found again, and which bits of the counters reach a tag.
\<close>

section \<open>Buckets\<close>

abbreviation H_TABLE_ENTRIES :: nat where "H_TABLE_ENTRIES \<equiv> 1024"

text \<open>A transaction in a bucket is known by its address.\<close>

definition bucket_find :: "nat \<Rightarrow> sip_trans list \<Rightarrow> sip_trans option" where
  "bucket_find i elmts = find (\<lambda>t. tx_id t = i) elmts"

definition bucket_exist :: "nat \<Rightarrow> sip_trans list \<Rightarrow> bool" where
  "bucket_exist i elmts \<longleftrightarrow> bucket_find i elmts \<noteq> None"

text \<open>
  \<^verbatim>\<open>remove\<close> deletes the transaction, and its destructor gives up the timers. The handlers below
  pass their copy of the transaction, whose slots are the current ones.
\<close>

definition bucket_remove :: "nat \<Rightarrow> sip_trans \<Rightarrow> tl \<Rightarrow> tl" where
  "bucket_remove h t s =
     (if bucket_exist (tx_id t) (tl_buckets s h) then
        let (t', s') = reset_all_timers (t, s)
        in s'\<lparr>tl_buckets := (tl_buckets s')(h := filter (\<lambda>x. tx_id x \<noteq> tx_id t) (tl_buckets s' h))\<rparr>
      else s)"

definition bucket_append :: "nat \<Rightarrow> sip_trans \<Rightarrow> tl \<Rightarrow> tl" where
  "bucket_append h t s = s\<lparr>tl_buckets := (tl_buckets s)(h := tl_buckets s h @ [t])\<rparr>"

text \<open>The write-back of a handler's copy.\<close>

definition bucket_store :: "nat \<Rightarrow> sip_trans \<Rightarrow> tl \<Rightarrow> tl" where
  "bucket_store h t s =
     s\<lparr>tl_buckets := (tl_buckets s)(h := map (\<lambda>x. if tx_id x = tx_id t then t else x) (tl_buckets s h))\<rparr>"

definition hash :: "memory \<Rightarrow> nat \<Rightarrow> nat \<Rightarrow> nat \<Rightarrow> nat \<Rightarrow> u32" where
  "hash m p pn q qn =
     (let h = hashlittle True m p pn 0 in hashlittle True m q qn h)"

text \<open>The same on texts; where they are stored does not matter.\<close>

definition hash_text :: "string \<Rightarrow> string \<Rightarrow> u32" where
  "hash_text x y = hash_bytes (map of_char y) (hash_bytes (map of_char x) 0)"

lemma hash_is_hash_text:
  "holds_text m p x \<Longrightarrow> holds_text m q y \<Longrightarrow> hash m p (length x) q (length y) = hash_text x y"
  by (simp add: hash_def hash_text_def hashlittle_bytes holds_text_def Let_def)

definition get_trans_bucket :: "u32 \<Rightarrow> nat" where
  "get_trans_bucket h = unat h mod H_TABLE_ENTRIES"

section \<open>Fields of a message\<close>

text \<open>
  The texts of a message that the comparisons read. A comparison of lengths followed by \<^verbatim>\<open>memcmp\<close>
  is the comparison of texts.
\<close>

definition mtxt :: "tmsg \<Rightarrow> cstring \<Rightarrow> string" where
  "mtxt m cs = c2stlstr (tm_buf m) cs"

definition msg_method :: "tmsg \<Rightarrow> sip_method option" where
  "msg_method m = map_option rq_method (m_request (tm_msg m))"

definition msg_ruri :: "tmsg \<Rightarrow> string" where
  "msg_ruri m = (case m_request (tm_msg m) of None \<Rightarrow> [] | Some rq \<Rightarrow> mtxt m (ruri_str rq))"

definition msg_callid :: "tmsg \<Rightarrow> string" where
  "msg_callid m = (case m_callid (tm_msg m) of None \<Rightarrow> [] | Some h \<Rightarrow> mtxt m (h_value h))"

definition from_tag :: "tmsg \<Rightarrow> string option" where
  "from_tag m = map_option (\<lambda>ft. mtxt m (ft_tag ft)) (p_from (tm_msg m))"

definition to_tag :: "tmsg \<Rightarrow> string option" where
  "to_tag m = map_option (\<lambda>ft. mtxt m (ft_tag ft)) (p_to (tm_msg m))"

definition cseq_num :: "tmsg \<Rightarrow> u32 option" where
  "cseq_num m = map_option num (p_cseq (tm_msg m))"

definition cseq_num_str :: "tmsg \<Rightarrow> string option" where
  "cseq_num_str m = map_option (\<lambda>cs. mtxt m (num_str cs)) (p_cseq (tm_msg m))"

definition cseq_method_str :: "tmsg \<Rightarrow> string option" where
  "cseq_method_str m = map_option (\<lambda>cs. mtxt m (method_str cs)) (p_cseq (tm_msg m))"

definition via_branch :: "tmsg \<Rightarrow> string option" where
  "via_branch m = map_option (\<lambda>v. mtxt m (vp_branch v)) (m_via_p1 (tm_msg m))"

definition via_host_port :: "tmsg \<Rightarrow> (string \<times> string) option" where
  "via_host_port m = map_option (\<lambda>v. (mtxt m (vp_host v), mtxt m (vp_port v))) (m_via_p1 (tm_msg m))"

section \<open>Matching\<close>

definition compare_branch :: "sip_trans \<Rightarrow> tmsg \<Rightarrow> string \<Rightarrow> bool" where
  "compare_branch t msg branch \<longleftrightarrow>
     (case via_branch (tx_msg t) of
        None \<Rightarrow> False
      | Some b \<Rightarrow>
          length b = length branch + MAGIC_BRANCH_LEN \<and> branch = drop MAGIC_BRANCH_LEN b \<and>
          via_host_port (tx_msg t) = via_host_port msg)"

text \<open>
  The assertions that From, To and CSeq of the message are parsed hold for messages of the
  parser; a missing part does not match.
\<close>

definition match_200_ack :: "sip_trans \<Rightarrow> tmsg \<Rightarrow> bool" where
  "match_200_ack t msg \<longleftrightarrow>
     from_tag (tx_msg t) \<noteq> None \<and> from_tag msg = from_tag (tx_msg t) \<and>
     cseq_num (tx_msg t) \<noteq> None \<and> cseq_num msg = cseq_num (tx_msg t) \<and>
     msg_callid msg = msg_callid (tx_msg t) \<and> to_tag msg = Some (tx_to_tag t)"

definition match_3261 :: "tmsg \<Rightarrow> trans_kind \<Rightarrow> string \<Rightarrow> sip_trans \<Rightarrow> bool" where
  "match_3261 msg ttype branch t \<longleftrightarrow>
     m_type (tm_msg (tx_msg t)) = SIP_REQUEST \<and> tx_type t = ttype \<and>
     (if msg_method msg \<noteq> msg_method (tx_msg t) then
        msg_method (tx_msg t) = Some INVITE \<and> msg_method msg = Some ACK \<and>
        (compare_branch t msg branch \<or> match_200_ack t msg)
      else compare_branch t msg branch)"

definition match_pre_3261 :: "tmsg \<Rightarrow> trans_kind \<Rightarrow> sip_trans \<Rightarrow> bool" where
  "match_pre_3261 msg ttype t \<longleftrightarrow>
     m_type (tm_msg (tx_msg t)) = SIP_REQUEST \<and> tx_type t = ttype \<and>
     (msg_method msg = msg_method (tx_msg t) \<or>
      msg_method msg = Some ACK \<and> msg_method (tx_msg t) = Some INVITE) \<and>
     from_tag (tx_msg t) \<noteq> None \<and> from_tag msg = from_tag (tx_msg t) \<and>
     cseq_num_str (tx_msg t) \<noteq> None \<and> cseq_num_str msg = cseq_num_str (tx_msg t) \<and>
     (if msg_method msg = Some ACK then
        to_tag msg = Some (tx_to_tag t) \<and>
        (reply_status t < 300 \<or> msg_ruri (tx_msg t) = msg_ruri msg)
      else
        to_tag (tx_msg t) \<noteq> None \<and> to_tag msg = to_tag (tx_msg t) \<and>
        msg_ruri (tx_msg t) = msg_ruri msg)"

text \<open>The message has a parsed Via, as the source asserts.\<close>

definition match_request :: "tmsg \<Rightarrow> trans_kind \<Rightarrow> sip_trans list \<Rightarrow> sip_trans option" where
  "match_request msg ttype elmts =
     (if elmts = [] then None
      else
        let b = (case via_branch msg of None \<Rightarrow> [] | Some b \<Rightarrow> b) in
        if length b > MAGIC_BRANCH_LEN \<and> take MAGIC_BRANCH_LEN b = MAGIC_BRANCH_COOKIE
        then find (match_3261 msg ttype (drop MAGIC_BRANCH_LEN b)) elmts
        else find (match_pre_3261 msg ttype) elmts)"

definition reply_matches :: "tmsg \<Rightarrow> string \<Rightarrow> sip_trans \<Rightarrow> bool" where
  "reply_matches msg b t \<longleftrightarrow>
     tx_type t = TT_UAC \<and>
     (case via_branch (tx_msg t) of
        None \<Rightarrow> False
      | Some tb \<Rightarrow> length tb = length b \<and> drop MAGIC_BRANCH_LEN tb = drop MAGIC_BRANCH_LEN b) \<and>
     cseq_num_str (tx_msg t) = cseq_num_str msg \<and> cseq_method_str (tx_msg t) = cseq_method_str msg"

definition match_reply :: "tmsg \<Rightarrow> sip_trans list \<Rightarrow> sip_trans option" where
  "match_reply msg elmts =
     (if elmts = [] then None
      else
        let b = (case via_branch msg of None \<Rightarrow> [] | Some b \<Rightarrow> b) in
        if length b \<le> MAGIC_BRANCH_LEN then None
        else find (reply_matches msg b) elmts)"

text \<open>The message has a parsed RAck; \<^verbatim>\<open>process_rcvd_msg\<close> tests for the header.\<close>

definition prack_matches :: "tmsg \<Rightarrow> sip_trans \<Rightarrow> bool" where
  "prack_matches msg t \<longleftrightarrow>
     m_type (tm_msg (tx_msg t)) = SIP_REQUEST \<and>
     from_tag (tx_msg t) \<noteq> None \<and> from_tag msg = from_tag (tx_msg t) \<and>
     to_tag msg = Some (tx_to_tag t) \<and> msg_callid msg = msg_callid (tx_msg t) \<and>
     (case p_rack (tm_msg msg) of
        None \<Rightarrow> False
      | Some r \<Rightarrow> cseq_num (tx_msg t) = Some (rk_cseq r) \<and> rk_rseq r = last_rseq t \<and>
                 msg_method (tx_msg t) = Some (rk_method r))"

definition match_1xx_prack :: "tmsg \<Rightarrow> sip_trans list \<Rightarrow> sip_trans option" where
  "match_1xx_prack msg elmts = find (prack_matches msg) elmts"

text \<open>\<^verbatim>\<open>operator ==\<close> of \<^verbatim>\<open>cstring\<close> compares as many characters as the shorter text has.\<close>

definition cs_eq :: "string \<Rightarrow> string \<Rightarrow> bool" where
  "cs_eq x y \<longleftrightarrow> (let n = min (length x) (length y) in take n x = take n y)"

definition find_uac_trans :: "string \<Rightarrow> u32 \<Rightarrow> sip_trans list \<Rightarrow> sip_trans option" where
  "find_uac_trans dlg inv_cseq elmts =
     find (\<lambda>t. tx_type t = TT_UAC \<and> m_type (tm_msg (tx_msg t)) = SIP_REQUEST \<and>
               cs_eq (dialog_id t) dlg \<and> cseq_num (tx_msg t) = Some inv_cseq \<and>
               tx_state t \<noteq> TS_ABANDONED) (rev elmts)"

section \<open>New transactions\<close>

definition add_trans :: "u32 \<Rightarrow> nat \<Rightarrow> tmsg \<Rightarrow> trans_kind \<Rightarrow> tl \<Rightarrow> sip_trans \<times> tl" where
  "add_trans junk h msg ttype s =
     (let t = new_trans (tl_fresh s) msg junk;
          t = t\<lparr>tx_type := ttype, reply_status := 0,
                tx_state := (if msg_method msg = Some INVITE
                             then if ttype = TT_UAS then TS_PROCEEDING else TS_CALLING
                             else TS_TRYING)\<rparr>
      in (t, bucket_append h t (s\<lparr>tl_fresh := tl_fresh s + 1\<rparr>)))"

section \<open>Branches and tags\<close>

definition tag_lookup :: string where
  "tag_lookup = ''abcdefghijklmnopqrstuvwxyzABCDEFGHIJKLMNOPQRSTUVWXYZ0123456789.~''"

definition compute_tag :: "u32 \<Rightarrow> u32 \<Rightarrow> string" where
  "compute_tag hl hh =
     (let hl = hl + drop_bit 16 hh; hh = hh AND 0xFFFF; look = (\<lambda>x :: u32. tag_lookup ! unat x)
      in [look (hl AND 0x3F), look (drop_bit 6 hl AND 0x3F), look (drop_bit 12 hl AND 0x3F),
          look (drop_bit 18 hl AND 0x3F), look (drop_bit 24 hl AND 0x3F),
          look (drop_bit 30 hl AND (push_bit 2 hh AND 0x3F)),
          look (drop_bit 4 hh AND 0x3F), look (drop_bit 10 hh AND 0x3F)])"

text \<open>\<^verbatim>\<open>__branch_cnt.inc()\<close> returns the value after the increment.\<close>

definition branch_inc :: "tl \<Rightarrow> u32 \<times> tl" where
  "branch_inc s = (branch_cnt s + 1, s\<lparr>branch_cnt := branch_cnt s + 1\<rparr>)"

definition compute_branch :: "string \<Rightarrow> string \<Rightarrow> tl \<Rightarrow> string \<times> tl" where
  "compute_branch callid cseq s =
     (let (hh, s1) = branch_inc s; (hl, s2) = branch_inc s1;
          hl = hash_bytes (map of_char callid) hl; hh = hash_bytes (map of_char cseq) hh
      in (compute_tag hl hh, s2))"

definition hdr_hash :: "tmsg \<Rightarrow> sip_header option \<Rightarrow> u32 \<Rightarrow> u32" where
  "hdr_hash m h v = (case h of None \<Rightarrow> v | Some x \<Rightarrow> hash_bytes (map of_char (mtxt m (h_value x))) v)"

definition compute_sl_to_tag :: "tmsg \<Rightarrow> tl \<Rightarrow> string \<times> tl" where
  "compute_sl_to_tag m s =
     (let (hl, s1) = branch_inc s; (hh, s2) = branch_inc s1;
          mstr = (case m_request (tm_msg m) of None \<Rightarrow> [] | Some rq \<Rightarrow> mtxt m (rq_method_str rq));
          hl = hash_bytes (map of_char mstr) hl;
          hl = hash_bytes (map of_char (msg_ruri m)) hl;
          hh = hdr_hash m (m_callid (tm_msg m)) hh;
          hh = hdr_hash m (m_from (tm_msg m)) hh;
          hh = hdr_hash m (m_cseq (tm_msg m)) hh
      in (compute_tag hl hh, s2))"

end
