(* ===== verification/Parse_Extensions.thy ===== *)
theory Parse_Extensions
  imports Parse_Cseq "HOL-Library.Char_ord" "HOL-Library.List_Lexorder"
begin

text \<open>
  \<^verbatim>\<open>core/sip/parse_extensions.cpp\<close>: option tags in Supported and Require headers, and the registry
  of supported extensions. Both scanners are shown to compute what a plain split of the header
  value at its separators gives.
\<close>

section \<open>Recognised extensions\<close>

definition SIP_EXTENSION_100REL :: u32 where "SIP_EXTENSION_100REL = push_bit 0 1"
definition SIP_EXTENSION_TIMER :: u32 where "SIP_EXTENSION_TIMER = push_bit 1 1"
definition SIP_EXTENSION_REPLACES :: u32 where "SIP_EXTENSION_REPLACES = push_bit 2 1"

definition parse_extension :: "string \<Rightarrow> u32" where
  "parse_extension tag =
     (if tag = ''100rel'' then SIP_EXTENSION_100REL
      else if tag = ''timer'' then SIP_EXTENSION_TIMER
      else if tag = ''replaces'' then SIP_EXTENSION_REPLACES
      else 0)"

definition is_sep :: "char \<Rightarrow> bool" where
  "is_sep ch \<longleftrightarrow> ch = SP \<or> ch = HTAB \<or> ch = CHR '','' \<or> ch = CR \<or> ch = LF"

datatype ext_st = EAT_WS | OVER_TAG

text \<open>The characters between two positions.\<close>

abbreviation slice :: "string \<Rightarrow> nat \<Rightarrow> nat \<Rightarrow> string" where
  "slice buf b c \<equiv> take (c - b) (drop b buf)"

text \<open>\<^verbatim>\<open>begin\<close> is \<open>None\<close> for the null pointer.\<close>

function ext_loop :: "string \<Rightarrow> nat \<Rightarrow> ext_st \<Rightarrow> nat option \<Rightarrow> u32 \<Rightarrow> nat \<Rightarrow> u32 option" where
  "ext_loop buf e state beg msk pos =
     (if pos < e then
        let ch = buf ! pos in
        if is_sep ch then
          (if state = OVER_TAG then
             let msk' = msk OR parse_extension (slice buf (the beg) pos)
             in ext_loop buf e EAT_WS None msk' (pos + 1)
           else ext_loop buf e state beg msk (pos + 1))
        else if \<not> IS_TOKEN ch then None
        else if state = EAT_WS then ext_loop buf e OVER_TAG (Some pos) msk (pos + 1)
        else ext_loop buf e state beg msk (pos + 1)
      else
        (case beg of
           None \<Rightarrow> Some msk
         | Some b \<Rightarrow> Some (msk OR parse_extension (slice buf b pos))))"
  by pat_completeness auto
termination by (relation "measure (\<lambda>(buf, e, state, beg, msk, pos). e - pos)") auto

declare ext_loop.simps [simp del]

definition parse_extensions :: "string \<Rightarrow> nat \<Rightarrow> nat \<Rightarrow> u32 option" where
  "parse_extensions buf start len = ext_loop buf (start + len) EAT_WS None 0 start"

section \<open>The registry\<close>

type_synonym ext_registry = "string set"

definition register_supported_extension :: "string \<Rightarrow> ext_registry \<Rightarrow> ext_registry" where
  "register_supported_extension tag reg = insert tag reg"

definition is_extension_supported :: "string \<Rightarrow> ext_registry \<Rightarrow> bool" where
  "is_extension_supported tag reg \<longleftrightarrow> tag \<in> reg"

text \<open>\<^verbatim>\<open>if(!res.empty()) res += ", "; res += tag\<close>\<close>

definition comma_append :: "string \<Rightarrow> string \<Rightarrow> string" where
  "comma_append res tag = (if res \<noteq> [] then res @ '', '' @ tag else tag)"

text \<open>\<^verbatim>\<open>std::set<string>\<close> iterates in lexicographic order.\<close>

definition get_supported_extensions :: "ext_registry \<Rightarrow> string" where
  "get_supported_extensions reg = foldl comma_append [] (sorted_list_of_set reg)"

function trim_end :: "string \<Rightarrow> nat \<Rightarrow> nat \<Rightarrow> nat" where
  "trim_end buf b tag_end =
     (if tag_end > b \<and> (buf ! (tag_end - 1) = SP \<or> buf ! (tag_end - 1) = HTAB)
      then trim_end buf b (tag_end - 1) else tag_end)"
  by pat_completeness auto
termination by (relation "measure (\<lambda>(buf, b, tag_end). tag_end)") auto

declare trim_end.simps [simp del]

function unsup_loop ::
  "ext_registry \<Rightarrow> string \<Rightarrow> nat \<Rightarrow> ext_st \<Rightarrow> nat option \<Rightarrow> string \<Rightarrow> nat \<Rightarrow> string" where
  "unsup_loop reg buf e state tag_start unsupported pos =
     (if pos \<le> e then
        let ch = (if pos < e then buf ! pos else CHR '','') in
        if is_sep ch then
          (case tag_start of
             Some b \<Rightarrow>
               if state = OVER_TAG then
                 let tag_end = trim_end buf b pos;
                     tag = slice buf b tag_end;
                     unsupported' =
                       (if tag_end > b \<and> \<not> is_extension_supported tag reg
                        then comma_append unsupported tag else unsupported)
                 in unsup_loop reg buf e EAT_WS None unsupported' (pos + 1)
               else unsup_loop reg buf e state tag_start unsupported (pos + 1)
           | None \<Rightarrow> unsup_loop reg buf e state tag_start unsupported (pos + 1))
        else if \<not> IS_TOKEN ch then []
        else if state = EAT_WS then unsup_loop reg buf e OVER_TAG (Some pos) unsupported (pos + 1)
        else unsup_loop reg buf e state tag_start unsupported (pos + 1)
      else unsupported)"
  by pat_completeness auto
termination
  by (relation "measure (\<lambda>(reg, buf, e, state, tag_start, unsupported, pos). Suc e - pos)") auto

declare unsup_loop.simps [simp del]

definition get_unsupported_extensions :: "ext_registry \<Rightarrow> string \<Rightarrow> nat \<Rightarrow> nat \<Rightarrow> string" where
  "get_unsupported_extensions reg buf start len =
     unsup_loop reg buf (start + len) EAT_WS None [] start"

section \<open>Reference: splitting at separators\<close>

text \<open>The non-empty pieces of a text between separators; \<open>acc\<close> is the piece already begun.\<close>

fun split_tags :: "string \<Rightarrow> string \<Rightarrow> string list" where
  "split_tags acc [] = (if acc = [] then [] else [acc])"
| "split_tags acc (x # xs) =
     (if is_sep x then (if acc = [] then [] else [acc]) @ split_tags [] xs
      else split_tags (acc @ [x]) xs)"

definition valid_tags :: "string \<Rightarrow> bool" where
  "valid_tags xs \<longleftrightarrow> list_all (\<lambda>ch. is_sep ch \<or> IS_TOKEN ch) xs"

fun tag_st :: "string \<Rightarrow> ext_st" where
  "tag_st [] = EAT_WS" | "tag_st (_ # _) = OVER_TAG"

fun tag_begin :: "nat \<Rightarrow> string \<Rightarrow> nat option" where
  "tag_begin pos [] = None" | "tag_begin pos (x # acc) = Some (pos - length (x # acc))"

lemma slice_mid: "buf = p @ acc @ q \<Longrightarrow> slice buf (length p) (length p + length acc) = acc"
  by simp

lemma ext_loop_end:
  "ext_loop buf e state b msk e =
     (case b of None \<Rightarrow> Some msk | Some b \<Rightarrow> Some (msk OR parse_extension (slice buf b e)))"
  by (subst ext_loop.simps) simp

lemma ext_loop_split:
  "buf = p @ acc @ xs @ q \<Longrightarrow> e = length p + length acc + length xs \<Longrightarrow>
     ext_loop buf e (tag_st acc) (tag_begin (length p + length acc) acc) msk (length p + length acc) =
       (if valid_tags xs then Some (foldl (OR) msk (map parse_extension (split_tags acc xs)))
        else None)"
proof (induction xs arbitrary: p acc msk)
  case Nil
  then show ?case
    by (cases acc) (auto simp: ext_loop_end valid_tags_def)
next
  case (Cons x xs)
  let ?pos = "length p + length acc"
  have x: "buf ! ?pos = x" "?pos < e" using Cons.prems by (simp_all add: nth_append)
  show ?case
  proof (cases "is_sep x")
    case True
    let ?m = "if acc = [] then msk else msk OR parse_extension acc"
    have "ext_loop buf e (tag_st acc) (tag_begin ?pos acc) msk ?pos =
        ext_loop buf e (tag_st []) (tag_begin (length (p @ acc @ [x])) []) ?m (length (p @ acc @ [x]))"
      using x True slice_mid [OF Cons.prems(1)]
      by (cases acc; subst ext_loop.simps) (simp_all add: Let_def)
    also have "\<dots> = (if valid_tags xs
        then Some (foldl (OR) ?m (map parse_extension (split_tags [] xs))) else None)"
      using Cons.IH [of "p @ acc @ [x]" "[]" ?m] Cons.prems by simp
    finally show ?thesis using True by (simp add: valid_tags_def)
  next
    case False
    show ?thesis
    proof (cases "IS_TOKEN x")
      case True
      have "ext_loop buf e (tag_st acc) (tag_begin ?pos acc) msk ?pos =
          ext_loop buf e (tag_st (acc @ [x])) (tag_begin (Suc ?pos) (acc @ [x])) msk (Suc ?pos)"
        using x True False
        by (cases acc; subst ext_loop.simps) (simp_all add: Let_def)
      with Cons.IH [of p "acc @ [x]" msk] Cons.prems True False show ?thesis
        by (simp add: valid_tags_def)
    next
      case tok: False
      then show ?thesis
        using x False by (subst ext_loop.simps) (simp add: Let_def valid_tags_def)
    qed
  qed
qed

lemma token_not_sep: "IS_TOKEN ch \<Longrightarrow> \<not> is_sep ch"
  using token_plain [of ch]
  by (auto simp: is_sep_def IS_TOKEN_def IS_ALPHANUM_def IS_ALPHA_def IS_DIGIT_def IS_IN_def schar_def)

text \<open>A tag of token characters has no blank at its end to trim.\<close>

lemma trim_end_id:
  assumes "buf = p @ acc @ q" and "list_all IS_TOKEN acc"
  shows "trim_end buf (length p) (length p + length acc) = length p + length acc"
proof (cases acc rule: rev_cases)
  case (snoc acc' x)
  then have "buf ! (length p + length acc - 1) = x" "IS_TOKEN x" using assms by (simp_all add: nth_append)
  with token_plain [of x] show ?thesis by (subst trim_end.simps) auto
qed (simp add: trim_end.simps)

definition add_unsupported :: "ext_registry \<Rightarrow> string \<Rightarrow> string \<Rightarrow> string" where
  "add_unsupported reg u tag = (if is_extension_supported tag reg then u else comma_append u tag)"

lemma unsup_loop_done: "unsup_loop reg buf e state b u (Suc e) = u"
  by (subst unsup_loop.simps) simp

lemma unsup_loop_split:
  "buf = p @ acc @ xs @ q \<Longrightarrow> e = length p + length acc + length xs \<Longrightarrow> list_all IS_TOKEN acc \<Longrightarrow>
     unsup_loop reg buf e (tag_st acc) (tag_begin (length p + length acc) acc) u (length p + length acc) =
       (if valid_tags xs then foldl (add_unsupported reg) u (split_tags acc xs) else [])"
proof (induction xs arbitrary: p acc u)
  case Nil
  have sep: "is_sep (CHR '','')" by (simp add: is_sep_def)
  show ?case
    using Nil trim_end_id [of buf p acc q] sep slice_mid [of buf p acc q]
    by (cases acc; subst unsup_loop.simps)
      (simp_all add: Let_def unsup_loop_done valid_tags_def add_unsupported_def)
next
  case (Cons x xs)
  let ?pos = "length p + length acc"
  have x: "buf ! ?pos = x" "?pos < e" using Cons.prems by (simp_all add: nth_append)
  show ?case
  proof (cases "is_sep x")
    case True
    let ?u = "if acc = [] then u else add_unsupported reg u acc"
    have "unsup_loop reg buf e (tag_st acc) (tag_begin ?pos acc) u ?pos =
        unsup_loop reg buf e (tag_st []) (tag_begin (length (p @ acc @ [x])) []) ?u
          (length (p @ acc @ [x]))"
      using x True slice_mid [OF Cons.prems(1)] trim_end_id [OF Cons.prems(1,3)]
      by (cases acc; subst unsup_loop.simps) (simp_all add: Let_def add_unsupported_def)
    also have "\<dots> = (if valid_tags xs then foldl (add_unsupported reg) ?u (split_tags [] xs) else [])"
      using Cons.IH [of "p @ acc @ [x]" "[]" ?u] Cons.prems by simp
    finally show ?thesis using True by (simp add: valid_tags_def)
  next
    case False
    show ?thesis
    proof (cases "IS_TOKEN x")
      case True
      have "unsup_loop reg buf e (tag_st acc) (tag_begin ?pos acc) u ?pos =
          unsup_loop reg buf e (tag_st (acc @ [x])) (tag_begin (Suc ?pos) (acc @ [x])) u (Suc ?pos)"
        using x True False 
        by (cases acc; subst unsup_loop.simps) (simp_all add: Let_def)
      with Cons.IH [of p "acc @ [x]" u] Cons.prems True False show ?thesis
        by (simp add: valid_tags_def)
    next
      case tok: False
      then show ?thesis using x False
        by (subst unsup_loop.simps) (simp add: Let_def valid_tags_def)
    qed
  qed
qed

section \<open>Properties\<close>

text \<open>
  C29: the two scanners of option tags compute what splitting the header value gives. On a value of
  token characters and separators \<^verbatim>\<open>parse_extensions\<close> returns the union of the flags of its tags,
  and \<^verbatim>\<open>get_unsupported_extensions\<close> the list of its tags that are not registered, separated by
  commas. On any other value the first reports an error, but the second returns the empty
  string, which its callers read as all tags being supported.
\<close>

theorem extensions_equiv:
  "parse_extensions (p @ xs @ q) (length p) (length xs) =
     (if valid_tags xs then Some (foldl (OR) 0 (map parse_extension (split_tags [] xs))) else None) \<and>
   get_unsupported_extensions reg (p @ xs @ q) (length p) (length xs) =
     (if valid_tags xs
      then foldl comma_append [] (filter (\<lambda>tag. \<not> is_extension_supported tag reg) (split_tags [] xs))
      else [])"
proof -
  have "foldl (add_unsupported reg) u ts =
      foldl comma_append u (filter (\<lambda>tag. \<not> is_extension_supported tag reg) ts)" for u ts
    by (induction ts arbitrary: u) (simp_all add: add_unsupported_def)
  then show ?thesis
    using ext_loop_split [of "p @ xs @ q" p "[]" xs q "length p + length xs" 0]
      unsup_loop_split [of "p @ xs @ q" p "[]" xs q "length p + length xs" reg "[]"]
    by (simp add: parse_extensions_def get_unsupported_extensions_def)
qed

end
