(* ===== verification/Trans_Msg.thy ===== *)
theory Trans_Msg
  imports Trans_Table Parse_Extensions
begin

text \<open>
  The messages that \<^verbatim>\<open>core/sip/trans_layer.cpp\<close> builds: the ACK for a final error reply, the CANCEL,
  stateless and stateful replies, and the request as it goes out. Each is built in two passes,
  one that adds up lengths and one that writes into a buffer of that length. The lemmas show that
  the passes agree, so that no message overruns its buffer or leaves part of it unwritten.
\<close>

section \<open>Headers\<close>

text \<open>
  A header that the message has, by its pointer. A null pointer, which the source dereferences,
  does not occur in messages of the parser and writes nothing here.
\<close>

definition hdr_len :: "sip_header option \<Rightarrow> int" where
  "hdr_len h = (case h of None \<Rightarrow> 0 | Some x \<Rightarrow> copy_hdr_len x)"

definition hdr_wr :: "tmsg \<Rightarrow> sip_header option \<Rightarrow> string" where
  "hdr_wr m h = (case h of None \<Rightarrow> [] | Some x \<Rightarrow> copy_hdr_wr (tm_buf m) x)"

definition find_max_forwards_hdr :: "tmsg \<Rightarrow> sip_header option" where
  "find_max_forwards_hdr m = find (\<lambda>h. h_type h = H_MAX_FORWARDS) (m_hdrs (tm_msg m))"

text \<open>The header to copy, or one made from the configuration.\<close>

definition max_forwards_len :: "env \<Rightarrow> tmsg \<Rightarrow> int" where
  "max_forwards_len ev m =
     (case find_max_forwards_hdr m of
        Some h \<Rightarrow> copy_hdr_len h
      | None \<Rightarrow> int (length ''Max-Forwards'') + int (length (int2str (max_forwards ev))) + 4)"

definition max_forwards_wr :: "env \<Rightarrow> tmsg \<Rightarrow> string" where
  "max_forwards_wr ev m =
     (case find_max_forwards_hdr m of
        Some h \<Rightarrow> copy_hdr_wr (tm_buf m) h
      | None \<Rightarrow> ''Max-Forwards'' @ '': '' @ int2str (max_forwards ev) @ CRLF)"

definition num_str_of :: "tmsg \<Rightarrow> string" where
  "num_str_of m = (case cseq_num_str m of None \<Rightarrow> [] | Some n \<Rightarrow> n)"

section \<open>ACK and CANCEL\<close>

definition ack_len :: "env \<Rightarrow> tmsg \<Rightarrow> tmsg \<Rightarrow> int" where
  "ack_len ev reply ivt =
     request_line_len ''ACK'' (msg_ruri ivt) +
     hdr_len (m_via1 (tm_msg ivt)) + hdr_len (m_from (tm_msg ivt)) + hdr_len (m_to (tm_msg reply)) +
     hdr_len (m_callid (tm_msg ivt)) + cseq_len (num_str_of ivt) ''ACK'' + max_forwards_len ev ivt +
     (if m_route (tm_msg ivt) \<noteq> [] then copy_hdrs_len (m_route (tm_msg ivt)) else 0) +
     content_length_len ''0'' + 2"

definition ack_wr :: "env \<Rightarrow> tmsg \<Rightarrow> tmsg \<Rightarrow> string" where
  "ack_wr ev reply ivt =
     request_line_wr ''ACK'' (msg_ruri ivt) @
     hdr_wr ivt (m_via1 (tm_msg ivt)) @ hdr_wr ivt (m_from (tm_msg ivt)) @
     hdr_wr reply (m_to (tm_msg reply)) @ hdr_wr ivt (m_callid (tm_msg ivt)) @
     cseq_wr (num_str_of ivt) ''ACK'' @ max_forwards_wr ev ivt @
     (if m_route (tm_msg ivt) \<noteq> [] then copy_hdrs_wr (tm_buf ivt) (m_route (tm_msg ivt)) else []) @
     content_length_wr ''0'' @ CRLF"

definition cancel_len :: "env \<Rightarrow> tmsg \<Rightarrow> string \<Rightarrow> int" where
  "cancel_len ev req hdrs =
     request_line_len ''CANCEL'' (msg_ruri req) + hdr_len (m_via1 (tm_msg req)) +
     hdr_len (m_to (tm_msg req)) + hdr_len (m_from (tm_msg req)) + hdr_len (m_callid (tm_msg req)) +
     cseq_len (num_str_of req) ''CANCEL'' + copy_hdrs_len (m_route (tm_msg req)) +
     copy_hdrs_len (m_contacts (tm_msg req)) + max_forwards_len ev req + int (length hdrs) +
     content_length_len ''0'' + 2"

definition cancel_wr :: "env \<Rightarrow> tmsg \<Rightarrow> string \<Rightarrow> string" where
  "cancel_wr ev req hdrs =
     request_line_wr ''CANCEL'' (msg_ruri req) @ hdr_wr req (m_via1 (tm_msg req)) @
     hdr_wr req (m_to (tm_msg req)) @ hdr_wr req (m_from (tm_msg req)) @
     hdr_wr req (m_callid (tm_msg req)) @ cseq_wr (num_str_of req) ''CANCEL'' @
     max_forwards_wr ev req @ copy_hdrs_wr (tm_buf req) (m_route (tm_msg req)) @
     copy_hdrs_wr (tm_buf req) (m_contacts (tm_msg req)) @ hdrs @ content_length_wr ''0'' @ CRLF"

section \<open>Stateless replies\<close>

text \<open>
  \<^verbatim>\<open>(*it)->p\<close> of a To header: the message parser sets it on the header the message has as its To
  header.
\<close>

definition to_parsed :: "tmsg \<Rightarrow> sip_header \<Rightarrow> sip_from_to option" where
  "to_parsed m h = (if m_to (tm_msg m) = Some h then p_to (tm_msg m) else None)"

definition has_to_tag :: "tmsg \<Rightarrow> sip_header \<Rightarrow> bool" where
  "has_to_tag m h \<longleftrightarrow> (case to_parsed m h of None \<Rightarrow> False | Some ft \<Rightarrow> mtxt m (ft_tag ft) \<noteq> [])"

abbreviation SL_TOTAG_LEN :: nat where "SL_TOTAG_LEN \<equiv> 8"

definition copied_in_reply :: "hdr_type \<Rightarrow> bool" where
  "copied_in_reply ty \<longleftrightarrow> ty = H_FROM \<or> ty = H_CALL_ID \<or> ty = H_CSEQ \<or> ty = H_VIA \<or> ty = H_RECORD_ROUTE"

definition sl_hdr_len :: "tmsg \<Rightarrow> sip_header \<Rightarrow> int \<times> bool \<Rightarrow> int \<times> bool" where
  "sl_hdr_len req h acc =
     (let (len, have) = acc in
      if h_type h = H_TO then
        if \<not> has_to_tag req h then (len + 5 + int SL_TOTAG_LEN + copy_hdr_len h, have)
        else (len + copy_hdr_len h, True)
      else if copied_in_reply (h_type h) then (len + copy_hdr_len h, have)
      else (len, have))"

definition sl_hdr_wr :: "tmsg \<Rightarrow> bool \<Rightarrow> sip_header \<Rightarrow> string \<times> tl \<Rightarrow> string \<times> tl" where
  "sl_hdr_wr req have h acc =
     (let (c, s) = acc; buf = tm_buf req in
      if h_type h = H_TO then
        if have then (c @ copy_hdr_wr buf h, s)
        else
          let (tag, s') = compute_sl_to_tag req s
          in (c @ c2stlstr buf (h_name h) @ '': '' @ c2stlstr buf (h_value h) @ '';tag='' @ tag @ CRLF, s')
      else if copied_in_reply (h_type h) then (c @ copy_hdr_wr buf h, s)
      else (c, s))"

definition sl_have_tag :: "tmsg \<Rightarrow> bool" where
  "sl_have_tag req = snd (fold (sl_hdr_len req) (m_hdrs (tm_msg req)) (0, False))"

definition sl_reply_len :: "tmsg \<Rightarrow> string \<Rightarrow> string \<Rightarrow> string \<Rightarrow> int" where
  "sl_reply_len req reason hdrs body =
     (let (len, have) = fold (sl_hdr_len req) (m_hdrs (tm_msg req)) (status_line_len reason, False);
          c_len = int2str (of_nat (length body))
      in len + int (length hdrs) + content_length_len c_len + int (length body) + 2)"

definition sl_reply_wr :: "tmsg \<Rightarrow> int \<Rightarrow> string \<Rightarrow> string \<Rightarrow> string \<Rightarrow> tl \<Rightarrow> string \<times> tl" where
  "sl_reply_wr req code reason hdrs body s =
     (let c_len = int2str (of_nat (length body));
          (c, s') = fold (sl_hdr_wr req (sl_have_tag req)) (m_hdrs (tm_msg req))
                      (status_line_wr code reason, s)
      in (c @ hdrs @ content_length_wr c_len @ CRLF @ body, s'))"

section \<open>Stateful replies\<close>

text \<open>The part of the buffer between two offsets.\<close>

definition sub :: "string \<Rightarrow> nat \<Rightarrow> nat \<Rightarrow> string" where
  "sub buf a b = take (b - a) (drop a buf)"

definition append_received :: "tmsg \<Rightarrow> via_parm \<Rightarrow> bool" where
  "append_received req v \<longleftrightarrow> \<not> cs_eq (mtxt req (vp_host v)) (sa_addr (remote_ip req))"

definition empty_rport :: "via_parm \<Rightarrow> bool" where
  "empty_rport v \<longleftrightarrow> vp_has_rport v \<and> cs_len (vp_rport v) = 0"

definition remote_port_str :: "tmsg \<Rightarrow> string" where
  "remote_port_str req = int2str (ucast (sa_port (remote_ip req)))"

definition new_via1_len :: "tmsg \<Rightarrow> via_parm \<Rightarrow> sip_header \<Rightarrow> int" where
  "new_via1_len req v h =
     copy_hdr_len h +
     (if append_received req v then 10 + int (length (sa_addr (remote_ip req))) else 0) +
     (if empty_rport v then int (length (remote_port_str req)) + 1 else 0)"

definition via1_wr :: "tmsg \<Rightarrow> via_parm \<Rightarrow> sip_header \<Rightarrow> string" where
  "via1_wr req v h =
     (let buf = tm_buf req; vs = cs_s (h_value h); ve = vs + nat (cs_len (h_value h));
          rp = cs_s (vp_rport v) + nat (cs_len (vp_rport v))
      in c2stlstr buf (h_name h) @ '': '' @
         (if empty_rport v
          then sub buf vs rp @ ''='' @ remote_port_str req @ sub buf rp (vp_eop v)
          else sub buf vs (vp_eop v)) @
         (if append_received req v then '';received='' @ sa_addr (remote_ip req) else []) @
         sub buf (vp_eop v) ve @ CRLF)"

text \<open>The first loop over the headers of the request, with what it remembers.\<close>

record reply_acc =
  ra_len :: int
  ra_have_to_tag :: bool
  ra_rel100 :: u32
  ra_rseq :: u32
  ra_to_tag :: string
  ra_last_rseq :: u32


definition reply_to :: "tmsg \<Rightarrow> string \<Rightarrow> int \<Rightarrow> sip_header \<Rightarrow> reply_acc \<Rightarrow> reply_acc" where
  "reply_to req tag reply_code h a =
     (case to_parsed req h of
        None \<Rightarrow> a
      | Some ft \<Rightarrow>
          let a1 = (if tag \<noteq> [] then
                      if mtxt req (ft_tag ft) = [] then a\<lparr>ra_len := ra_len a + 5 + int (length tag)\<rparr>
                      else a\<lparr>ra_have_to_tag := True, ra_to_tag := mtxt req (ft_tag ft)\<rparr>
                    else if reply_code \<ge> 300 then a\<lparr>ra_to_tag := []\<rparr>
                    else a)
          in a1\<lparr>ra_len := ra_len a1 + copy_hdr_len h\<rparr>)"

definition reply_require :: "tmsg \<Rightarrow> sip_header \<Rightarrow> reply_acc \<Rightarrow> reply_acc" where
  "reply_require req h a =
     (if ra_rel100 a \<noteq> 0 then a
      else
        case parse_extensions (tm_buf req) (cs_s (h_value h)) (nat (cs_len (h_value h))) of
          None \<Rightarrow> a
        | Some ext \<Rightarrow>
            let a1 = a\<lparr>ra_rel100 := ext AND SIP_EXTENSION_100REL\<rparr>
            in if ra_rel100 a1 \<noteq> 0 \<and> ra_rseq a1 \<noteq> 0 then a1\<lparr>ra_last_rseq := ra_rseq a1\<rparr> else a1)"

definition reply_rseq :: "tmsg \<Rightarrow> sip_header \<Rightarrow> reply_acc \<Rightarrow> reply_acc" where
  "reply_rseq req h a =
     (if ra_rseq a \<noteq> 0 then a
      else
        case parse_rseq (tm_buf req) (cs_s (h_value h)) (nat (cs_len (h_value h))) of
          None \<Rightarrow> a
        | Some n \<Rightarrow>
            let a1 = a\<lparr>ra_rseq := n\<rparr>
            in if ra_rel100 a1 \<noteq> 0 then a1\<lparr>ra_last_rseq := n\<rparr> else a1)"

definition reply_hdr :: "tmsg \<Rightarrow> via_parm \<Rightarrow> string \<Rightarrow> int \<Rightarrow> sip_header \<Rightarrow> reply_acc \<Rightarrow> reply_acc" where
  "reply_hdr req v tag reply_code h a =
     (case h_type h of
        H_VIA \<Rightarrow> a\<lparr>ra_len := ra_len a + (if m_via1 (tm_msg req) = Some h then new_via1_len req v h
                                         else copy_hdr_len h)\<rparr>
      | H_TO \<Rightarrow> reply_to req tag reply_code h a
      | H_FROM \<Rightarrow> a\<lparr>ra_len := ra_len a + copy_hdr_len h\<rparr>
      | H_CALL_ID \<Rightarrow> a\<lparr>ra_len := ra_len a + copy_hdr_len h\<rparr>
      | H_CSEQ \<Rightarrow> a\<lparr>ra_len := ra_len a + copy_hdr_len h\<rparr>
      | H_RECORD_ROUTE \<Rightarrow> a\<lparr>ra_len := ra_len a + copy_hdr_len h\<rparr>
      | H_REQUIRE \<Rightarrow> reply_require req h a
      | H_RSEQ \<Rightarrow> reply_rseq req h a
      | _ \<Rightarrow> a)"

text \<open>The second loop; the tag written last is remembered in the transaction.\<close>

definition reply_hdr_wr :: "tmsg \<Rightarrow> via_parm \<Rightarrow> string \<Rightarrow> bool \<Rightarrow> sip_header \<Rightarrow> string \<times> string \<Rightarrow> string \<times> string" where
  "reply_hdr_wr req v tag have h acc =
     (let (c, t_tag) = acc; buf = tm_buf req in
      case h_type h of
        H_VIA \<Rightarrow> (c @ (if m_via1 (tm_msg req) = Some h then via1_wr req v h else copy_hdr_wr buf h), t_tag)
      | H_TO \<Rightarrow>
          (case to_parsed req h of
             None \<Rightarrow> (c, t_tag)
           | Some ft \<Rightarrow>
               if tag = [] \<or> have then (c @ copy_hdr_wr buf h, t_tag)
               else (c @ c2stlstr buf (h_name h) @ '': '' @ c2stlstr buf (h_value h) @ '';tag='' @ tag @ CRLF,
                     tag))
      | H_FROM \<Rightarrow> (c @ copy_hdr_wr buf h, t_tag)
      | H_CALL_ID \<Rightarrow> (c @ copy_hdr_wr buf h, t_tag)
      | H_CSEQ \<Rightarrow> (c @ copy_hdr_wr buf h, t_tag)
      | H_RECORD_ROUTE \<Rightarrow> (c @ copy_hdr_wr buf h, t_tag)
      | _ \<Rightarrow> (c, t_tag))"

definition reply_reason :: "tmsg \<Rightarrow> string" where
  "reply_reason msg = (case m_reply (tm_msg msg) of None \<Rightarrow> [] | Some r \<Rightarrow> mtxt msg (rp_reason r))"

definition reply_code_of :: "tmsg \<Rightarrow> int" where
  "reply_code_of msg = (case m_reply (tm_msg msg) of None \<Rightarrow> 0 | Some r \<Rightarrow> rp_code r)"

definition body_text :: "tmsg \<Rightarrow> string" where
  "body_text msg = mtxt msg (m_body (tm_msg msg))"

definition reply_pass1 :: "tmsg \<Rightarrow> via_parm \<Rightarrow> tmsg \<Rightarrow> string \<Rightarrow> sip_trans \<Rightarrow> reply_acc" where
  "reply_pass1 req v msg tag t =
     (let a = fold (reply_hdr req v tag (reply_code_of msg)) (m_hdrs (tm_msg req))
                \<lparr>ra_len = status_line_len (reply_reason msg), ra_have_to_tag = False, ra_rel100 = 0,
                 ra_rseq = 0, ra_to_tag = tx_to_tag t, ra_last_rseq = last_rseq t\<rparr>;
          c_len = int2str (of_nat (length (body_text msg)))
      in a\<lparr>ra_len := ra_len a + copy_hdrs_len (m_hdrs (tm_msg msg)) + content_length_len c_len +
             int (length (body_text msg)) + 2\<rparr>)"

definition reply_pass2 :: "tmsg \<Rightarrow> via_parm \<Rightarrow> tmsg \<Rightarrow> string \<Rightarrow> reply_acc \<Rightarrow> string \<times> string" where
  "reply_pass2 req v msg tag a =
     (let c_len = int2str (of_nat (length (body_text msg)));
          (c, t_tag) = fold (reply_hdr_wr req v tag (ra_have_to_tag a)) (m_hdrs (tm_msg req))
                         (status_line_wr (reply_code_of msg) (reply_reason msg), ra_to_tag a)
      in (c @ copy_hdrs_wr (tm_buf msg) (m_hdrs (tm_msg msg)) @ content_length_wr c_len @ CRLF @
            body_text msg, t_tag))"

section \<open>The two passes agree\<close>

text \<open>A message as the parser leaves it.\<close>

definition tmsg_ok :: "tmsg \<Rightarrow> bool" where
  "tmsg_ok m \<longleftrightarrow> msg_shape (length (tm_buf m)) (tm_msg m)"

lemma tmsg_hdrs_in: "tmsg_ok m \<Longrightarrow> hdrs_in (tm_buf m) (m_hdrs (tm_msg m))"
  by (simp add: tmsg_ok_def msg_shape_def msg_slices_def)

lemma tmsg_lists_in:
  assumes "tmsg_ok m"
  shows "hdrs_in (tm_buf m) (m_route (tm_msg m))" "hdrs_in (tm_buf m) (m_contacts (tm_msg m))"
    "hdrs_in (tm_buf m) (m_vias (tm_msg m))"
  using assms tmsg_hdrs_in [OF assms]
  by (auto simp: tmsg_ok_def msg_shape_def hdr_lists_def of_type_def list_all_iff)

lemma hdr_wr_length:
  assumes "tmsg_ok m" and "\<And>x. h = Some x \<Longrightarrow> x \<in> set (m_hdrs (tm_msg m))"
  shows "int (length (hdr_wr m h)) = hdr_len h"
  using assms(2) tmsg_hdrs_in [OF assms(1)]
  by (cases h) (auto simp: hdr_wr_def hdr_len_def list_all_iff copy_hdr_length)

lemma msg_hdr_length [wr_len]:
  assumes "tmsg_ok m"
  shows "int (length (hdr_wr m (m_via1 (tm_msg m)))) = hdr_len (m_via1 (tm_msg m))"
    "int (length (hdr_wr m (m_from (tm_msg m)))) = hdr_len (m_from (tm_msg m))"
    "int (length (hdr_wr m (m_to (tm_msg m)))) = hdr_len (m_to (tm_msg m))"
    "int (length (hdr_wr m (m_callid (tm_msg m)))) = hdr_len (m_callid (tm_msg m))"
proof -
  have l: "hdr_lists (tm_msg m)" using assms by (simp add: tmsg_ok_def msg_shape_def)
  show "int (length (hdr_wr m (m_via1 (tm_msg m)))) = hdr_len (m_via1 (tm_msg m))"
  proof (rule hdr_wr_length [OF assms])
    fix x assume "m_via1 (tm_msg m) = Some x"
    then have "x \<in> set (m_vias (tm_msg m))" using l by (auto simp: hdr_lists_def split: list.splits)
    then show "x \<in> set (m_hdrs (tm_msg m))" using l by (auto simp: hdr_lists_def of_type_def)
  qed
  show "int (length (hdr_wr m (m_from (tm_msg m)))) = hdr_len (m_from (tm_msg m))"
    "int (length (hdr_wr m (m_to (tm_msg m)))) = hdr_len (m_to (tm_msg m))"
    "int (length (hdr_wr m (m_callid (tm_msg m)))) = hdr_len (m_callid (tm_msg m))"
    using l by (auto intro!: hdr_wr_length [OF assms] simp: hdr_lists_def)
qed

lemma max_forwards_length [wr_len]:
  assumes "tmsg_ok m"
  shows "int (length (max_forwards_wr ev m)) = max_forwards_len ev m"
proof (cases "find_max_forwards_hdr m")
  case (Some h)
  then have "h \<in> set (m_hdrs (tm_msg m))"
    by (auto simp: find_max_forwards_hdr_def find_Some_iff)
  with Some tmsg_hdrs_in [OF assms] show ?thesis
    by (auto simp: max_forwards_wr_def max_forwards_len_def list_all_iff copy_hdr_length)
qed (simp add: max_forwards_wr_def max_forwards_len_def)

lemma ack_length:
  assumes "tmsg_ok reply" and "tmsg_ok ivt"
  shows "int (length (ack_wr ev reply ivt)) = ack_len ev reply ivt"
  using assms by (simp add: ack_wr_def ack_len_def wr_len tmsg_lists_in)

lemma cancel_length:
  assumes "tmsg_ok req"
  shows "int (length (cancel_wr ev req hdrs)) = cancel_len ev req hdrs"
  using assms by (simp add: cancel_wr_def cancel_len_def wr_len tmsg_lists_in)

subsection \<open>Stateless replies\<close>

lemma compute_tag_length [simp]: "length (compute_tag hl hh) = 8"
  by (simp add: compute_tag_def Let_def)

lemma sl_to_tag_length: "length (fst (compute_sl_to_tag m s)) = 8"
  by (simp add: compute_sl_to_tag_def branch_inc_def Let_def)

lemma sl_hdr_length:
  assumes "hdrs_in (tm_buf req) hs" and "\<forall>h \<in> set hs. h_type h = H_TO \<longrightarrow> has_to_tag req h = have"
  shows "int (length (fst (fold (sl_hdr_wr req have) hs (c, s)))) =
    fst (fold (sl_hdr_len req) hs (int (length c), b))"
  using assms
proof (induction hs arbitrary: c s b)
  case (Cons h hs)
  obtain c' s' where wr: "sl_hdr_wr req have h (c, s) = (c', s')" by fastforce
  have wd: "int (length (c2stlstr (tm_buf req) (h_name h))) + int (length (c2stlstr (tm_buf req) (h_value h))) + 4
      = copy_hdr_len h"
    using copy_hdr_length [of "tm_buf req" h] Cons.prems(1) by (simp add: copy_hdr_wr_def)
  have "\<exists>b'. sl_hdr_len req h (int (length c), b) = (int (length c'), b')"
    using wr Cons.prems wd copy_hdr_length [of "tm_buf req" h] sl_to_tag_length [of req s]
    by (auto simp: sl_hdr_len_def sl_hdr_wr_def Let_def split: if_splits prod.splits)
  with Cons wr show ?case by auto
qed simp

lemma to_tags_agree:
  assumes "tmsg_ok req" and "h \<in> set (m_hdrs (tm_msg req))" and "h_type h = H_TO"
  shows "has_to_tag req h = sl_have_tag req"
proof -
  have snd: "snd (fold (sl_hdr_len req) hs (n, b)) \<longleftrightarrow> b \<or> (\<exists>h \<in> set hs. h_type h = H_TO \<and> has_to_tag req h)"
    for hs n b
    by (induction hs arbitrary: n b) (auto simp: sl_hdr_len_def Let_def split: if_splits)
  have "has_to_tag req h = has_to_tag req h'"
    if "h' \<in> set (m_hdrs (tm_msg req))" "h_type h' = H_TO" for h'
  proof (cases "p_to (tm_msg req) = None")
    case False
    then have "of_type H_TO (tm_msg req) = opt_list (m_to (tm_msg req))"
      using assms(1) by (auto simp: tmsg_ok_def msg_shape_def hdr_unique_def)
    moreover have "{h, h'} \<subseteq> set (of_type H_TO (tm_msg req))"
      using assms(2,3) that by (simp add: of_type_def)
    ultimately have "{h, h'} \<subseteq> set (opt_list (m_to (tm_msg req)))" by (simp only:)
    then show ?thesis by (cases "m_to (tm_msg req)") auto
  qed (simp add: has_to_tag_def to_parsed_def)
  then have "has_to_tag req h \<longleftrightarrow> (\<exists>h' \<in> set (m_hdrs (tm_msg req)). h_type h' = H_TO \<and> has_to_tag req h')"
    using assms(2,3) by blast
  then show ?thesis unfolding sl_have_tag_def snd by simp
qed

lemma sl_reply_length:
  assumes "tmsg_ok req"
  shows "int (length (fst (sl_reply_wr req code reason hdrs body s))) = sl_reply_len req reason hdrs body"
proof -
  have "int (length (fst (fold (sl_hdr_wr req (sl_have_tag req)) (m_hdrs (tm_msg req))
        (status_line_wr code reason, s)))) =
      fst (fold (sl_hdr_len req) (m_hdrs (tm_msg req)) (int (length (status_line_wr code reason)), False))"
    using to_tags_agree [OF assms] by (intro sl_hdr_length [OF tmsg_hdrs_in [OF assms]]) blast
  then show ?thesis
    by (auto simp: sl_reply_wr_def sl_reply_len_def Let_def wr_len split: prod.split)
qed

subsection \<open>Stateful replies\<close>

text \<open>How the parts of the first Via lie in its value.\<close>

definition via1_layout :: "tmsg \<Rightarrow> via_parm \<Rightarrow> sip_header \<Rightarrow> bool" where
  "via1_layout req v h \<longleftrightarrow>
     (let vs = cs_s (h_value h); ve = vs + nat (cs_len (h_value h));
          rp = cs_s (vp_rport v) + nat (cs_len (vp_rport v))
      in vs \<le> vp_eop v \<and> vp_eop v \<le> ve \<and> (empty_rport v \<longrightarrow> vs \<le> rp \<and> rp \<le> vp_eop v))"

lemma sub_length: "a \<le> b \<Longrightarrow> b \<le> length buf \<Longrightarrow> length (sub buf a b) = b - a"
  by (simp add: sub_def)

lemma via1_length:
  assumes "header_ok 0 (length (tm_buf req)) h" and "via1_layout req v h"
  shows "int (length (via1_wr req v h)) = new_via1_len req v h"
proof -
  let ?buf = "tm_buf req" and ?vs = "cs_s (h_value h)" and ?n = "cs_len (h_value h)"
  have ok: "0 \<le> ?n" "?vs + nat ?n \<le> length ?buf"
    and name: "int (length (c2stlstr ?buf (h_name h))) = cs_len (h_name h)"
    using assms(1) length_c2stlstr [where lo = 0 and hi = "length ?buf" and buf = ?buf]
    by (auto simp: header_ok_def cs_ok_def)
  then show ?thesis
    using assms(2)
    by (auto simp: via1_wr_def new_via1_len_def copy_hdr_len_def via1_layout_def Let_def sub_length)
qed

lemma reply_hdr_length:
  assumes "hdrs_in (tm_buf req) hs"
    and "\<forall>h \<in> set hs. m_via1 (tm_msg req) = Some h \<longrightarrow> via1_layout req v h"
    and "\<forall>h \<in> set hs. h_type h = H_TO \<longrightarrow>
      (case to_parsed req h of None \<Rightarrow> True | Some ft \<Rightarrow> tag \<noteq> [] \<longrightarrow> (mtxt req (ft_tag ft) \<noteq> []) = have)"
    and "ra_len a = int (length c)"
  shows "int (length (fst (fold (reply_hdr_wr req v tag have) hs (c, t_tag)))) =
    ra_len (fold (reply_hdr req v tag code) hs a)"
  using assms
proof (induction hs arbitrary: c t_tag a)
  case (Cons h hs)
  obtain c' t' where wr: "reply_hdr_wr req v tag have h (c, t_tag) = (c', t')" by fastforce
  have hdr: "int (length (copy_hdr_wr (tm_buf req) h)) = copy_hdr_len h"
    using copy_hdr_length [of "tm_buf req" h] Cons.prems(1) by simp
  then have wd: "int (length (c2stlstr (tm_buf req) (h_name h))) + int (length (c2stlstr (tm_buf req) (h_value h))) + 4
      = copy_hdr_len h"
    by (simp add: copy_hdr_wr_def)
  have "ra_len (reply_hdr req v tag code h a) = int (length c')"
  proof (cases "h_type h")
    case H_VIA
    with wr Cons.prems hdr via1_length [of req h v] show ?thesis
      by (auto simp: reply_hdr_def reply_hdr_wr_def Let_def)
  next
    case H_TO
    with wr Cons.prems hdr wd show ?thesis
      by (auto simp: reply_hdr_def reply_hdr_wr_def reply_to_def Let_def split: option.splits if_splits)
  qed (use wr Cons.prems(4) hdr in \<open>auto simp: reply_hdr_def reply_hdr_wr_def reply_require_def
      reply_rseq_def Let_def split: option.splits\<close>)
  with Cons wr show ?case by simp
qed simp

lemma reply_hdr_have:
  "ra_have_to_tag (fold (reply_hdr req v tag code) hs a) \<longleftrightarrow>
     ra_have_to_tag a \<or> tag \<noteq> [] \<and> (\<exists>h \<in> set hs. h_type h = H_TO \<and> has_to_tag req h)"
proof (induction hs arbitrary: a)
  case (Cons h hs)
  have "ra_have_to_tag (reply_hdr req v tag code h a) \<longleftrightarrow>
      ra_have_to_tag a \<or> tag \<noteq> [] \<and> h_type h = H_TO \<and> has_to_tag req h"
    by (cases "h_type h")
      (auto simp: reply_hdr_def reply_to_def reply_require_def reply_rseq_def has_to_tag_def Let_def
        split: option.split)
  with Cons show ?case by auto
qed simp

lemma reply_length:
  assumes "tmsg_ok req" and "hdrs_in (tm_buf msg) (m_hdrs (tm_msg msg))"
    and "\<forall>h. m_via1 (tm_msg req) = Some h \<longrightarrow> via1_layout req v h"
  shows "int (length (fst (reply_pass2 req v msg tag (reply_pass1 req v msg tag t)))) =
    ra_len (reply_pass1 req v msg tag t)"
proof -
  define a0 where "a0 = \<lparr>ra_len = status_line_len (reply_reason msg), ra_have_to_tag = False,
    ra_rel100 = 0, ra_rseq = 0, ra_to_tag = tx_to_tag t, ra_last_rseq = last_rseq t\<rparr>"
  define a where "a = fold (reply_hdr req v tag (reply_code_of msg)) (m_hdrs (tm_msg req)) a0"
  have "int (length (fst (fold (reply_hdr_wr req v tag (ra_have_to_tag a)) (m_hdrs (tm_msg req))
      (status_line_wr (reply_code_of msg) (reply_reason msg), ra_to_tag a)))) = ra_len a"
    unfolding a_def
  proof (rule reply_hdr_length [OF tmsg_hdrs_in [OF assms(1)]])
    show "\<forall>h \<in> set (m_hdrs (tm_msg req)). m_via1 (tm_msg req) = Some h \<longrightarrow> via1_layout req v h"
      using assms(3) by blast
    show "\<forall>h \<in> set (m_hdrs (tm_msg req)). h_type h = H_TO \<longrightarrow>
        (case to_parsed req h of None \<Rightarrow> True
         | Some ft \<Rightarrow> tag \<noteq> [] \<longrightarrow> (mtxt req (ft_tag ft) \<noteq> []) =
             ra_have_to_tag (fold (reply_hdr req v tag (reply_code_of msg)) (m_hdrs (tm_msg req)) a0))"
      unfolding reply_hdr_have
      by (auto simp: a0_def has_to_tag_def to_parsed_def split: option.splits if_splits)
  qed (simp add: a0_def status_line_length)
  moreover have "reply_pass1 req v msg tag t = a\<lparr>ra_len := ra_len a + copy_hdrs_len (m_hdrs (tm_msg msg)) +
      content_length_len (int2str (of_nat (length (body_text msg)))) + int (length (body_text msg)) + 2\<rparr>"
    by (simp add: reply_pass1_def a_def a0_def Let_def)
  ultimately show ?thesis
    using assms(2) by (auto simp: reply_pass2_def Let_def wr_len split: prod.split)
qed

section \<open>Properties\<close>

abbreviation with_buf :: "string \<Rightarrow> sip_msg \<Rightarrow> trsp_socket option \<Rightarrow> sockaddr \<Rightarrow> tmsg" where
  "with_buf buf m sock ip \<equiv> \<lparr>tm_buf = buf, tm_msg = m, local_socket = sock, remote_ip = ip\<rparr>"

lemma parsed_tmsg_ok:
  "parse_sip_msg buf (length buf) junk = Some (m, err, r) \<Longrightarrow> tmsg_ok (with_buf buf m sock ip)"
  using sip_msg_shape [of buf "length buf" junk] by (auto simp: tmsg_ok_def)

text \<open>
  C35: the stateless reply to any received bytes fits its buffer. Whatever was received, accepted by
  the parser or not, the reply that \<^verbatim>\<open>send_sl_reply\<close> builds from the message the parser left has
  exactly the length for which it allocated the buffer: nothing is written behind the buffer,
  and no byte of it is sent uninitialised.
\<close>

theorem sl_reply_fits:
  "\<exists>m err r. parse_sip_msg buf (length buf) junk = Some (m, err, r) \<and>
     (\<forall>sock ip code reason hdrs body s.
        int (length (fst (sl_reply_wr (with_buf buf m sock ip) code reason hdrs body s))) =
          sl_reply_len (with_buf buf m sock ip) reason hdrs body)"
  using sip_msg_shape [of buf "length buf" junk] sl_reply_length parsed_tmsg_ok by blast

text \<open>
  C36: the ACK and the CANCEL fit their buffers. For any two received or generated texts, the ACK
  built from the first as the reply and the second as the INVITE, and the CANCEL for the second,
  have exactly the lengths that were computed for their buffers.
\<close>

theorem ack_cancel_fit:
  "\<exists>m err r m' err' r'. parse_sip_msg buf (length buf) junk = Some (m, err, r) \<and>
     parse_sip_msg buf' (length buf') junk' = Some (m', err', r') \<and>
     (\<forall>sock ip sock' ip' ev hdrs.
        int (length (ack_wr ev (with_buf buf m sock ip) (with_buf buf' m' sock' ip'))) =
          ack_len ev (with_buf buf m sock ip) (with_buf buf' m' sock' ip') \<and>
        int (length (cancel_wr ev (with_buf buf' m' sock' ip') hdrs)) =
          cancel_len ev (with_buf buf' m' sock' ip') hdrs)"
proof -
  obtain m err r where p: "parse_sip_msg buf (length buf) junk = Some (m, err, r)"
    using sip_msg_shape [of buf "length buf" junk] by blast
  obtain m' err' r' where p': "parse_sip_msg buf' (length buf') junk' = Some (m', err', r')"
    using sip_msg_shape [of buf' "length buf'" junk'] by blast
  show ?thesis
    using p p' ack_length [OF parsed_tmsg_ok [OF p] parsed_tmsg_ok [OF p']]
      cancel_length [OF parsed_tmsg_ok [OF p']] by blast
qed

end
