(* ===== verification/Trans_Send.thy ===== *)
theory Trans_Send
  imports Trans_Msg
begin

text \<open>
  The parts of \<^verbatim>\<open>core/sip/trans_layer.cpp\<close> that prepare a request for a destination: registered
  sockets and the choice among them, the patches of Contact and Request-URI, the generation of
  the outgoing message, locally generated error replies, and the list of destinations
  (\<^verbatim>\<open>core/sip/resolver.cpp\<close>).
\<close>

section \<open>Sockets\<close>

text \<open>
  The map of an interface is a list sorted by the case-insensitive order of the names. Two names
  are the same key if neither is less than the other.
\<close>

definition less_case_i :: "string \<Rightarrow> string \<Rightarrow> bool" where
  "less_case_i l r \<longleftrightarrow> lower_cmp_n l r < 0"

definition prot_find :: "string \<Rightarrow> (string \<times> trsp_socket) list \<Rightarrow> trsp_socket option" where
  "prot_find name ps =
     map_option snd (find (\<lambda>(k, _). \<not> less_case_i k name \<and> \<not> less_case_i name k) ps)"

fun prot_insert :: "string \<Rightarrow> trsp_socket \<Rightarrow> (string \<times> trsp_socket) list \<Rightarrow> (string \<times> trsp_socket) list" where
  "prot_insert name sk [] = [(name, sk)]"
| "prot_insert name sk ((k, x) # ps) =
     (if less_case_i name k then (name, sk) # (k, x) # ps else (k, x) # prot_insert name sk ps)"

definition register_transport ::
  "trsp_socket \<Rightarrow> (string \<times> trsp_socket) list list \<Rightarrow> (string \<times> trsp_socket) list list \<times> int" where
  "register_transport sk trs =
     (let if_num = nat (sk_if sk);
          trs1 = (if length trs \<le> if_num then trs @ replicate (if_num + 1 - length trs) [] else trs)
      in if prot_find (sk_transport sk) (trs1 ! if_num) \<noteq> None then (trs1, -1)
         else (trs1[if_num := prot_insert (sk_transport sk) sk (trs1 ! if_num)], 0))"

definition pick_socket :: "(string \<times> trsp_socket) list \<Rightarrow> string \<Rightarrow> trsp_socket option" where
  "pick_socket ps next_trsp =
     (case ps of
        [] \<Rightarrow> None
      | p # _ \<Rightarrow>
          (case prot_find next_trsp ps of
             Some sk \<Rightarrow> Some sk
           | None \<Rightarrow>
               (case prot_find ''udp'' ps of
                  Some sk \<Rightarrow> Some sk
                | None \<Rightarrow> Some (snd p))))"

definition set_trsp_socket :: "env \<Rightarrow> string \<Rightarrow> int \<Rightarrow> tmsg \<Rightarrow> tmsg option" where
  "set_trsp_socket ev next_trsp out_interface msg =
     (let trs = transports ev in
      if trs = [] then None
      else
        let oi = (if out_interface < 0 \<or> int (length trs) \<le> out_interface
                  then find_outbound_if ev (remote_ip msg) else out_interface)
        in if oi < 0 \<or> int (length trs) \<le> oi then None
           else
             (case pick_socket (trs ! nat oi) next_trsp of
                None \<Rightarrow> None
              | Some sk \<Rightarrow> Some (msg\<lparr>local_socket := Some sk\<rparr>)))"

section \<open>Patches\<close>

text \<open>
  The result of \<^verbatim>\<open>patch_contact_transport\<close>: the return value -1, the exception that \<^verbatim>\<open>append\<close>
  throws if it is asked for a negative number of characters (a \<^verbatim>\<open>transport\<close> parameter without a
  value has a null pointer for it), or the new value, empty if nothing is changed.
\<close>

datatype pc_res = PC_Error | PC_Throw | PC_Ok string

fun pc_params :: "string \<Rightarrow> string \<Rightarrow> sip_avp list \<Rightarrow> string \<times> nat \<times> bool \<Rightarrow> (string \<times> nat \<times> bool) option" where
  "pc_params buf tp [] acc = Some acc"
| "pc_params buf tp (p # ps) (n_contact, marker, found) =
     (if lower_cmp_n (c2stlstr buf (avp_name p)) ''transport'' = 0 then
        if lower_cmp_n (c2stlstr buf (avp_value p)) tp \<noteq> 0 then
          if cs_s (avp_value p) < marker then None
          else pc_params buf tp ps
                 (n_contact @ sub buf marker (cs_s (avp_value p)) @ tp,
                  cs_s (avp_value p) + nat (cs_len (avp_value p)), True)
        else pc_params buf tp ps (n_contact, marker, True)
      else pc_params buf tp ps (n_contact, marker, found))"

fun pc_contacts :: "string \<Rightarrow> string \<Rightarrow> cstring list \<Rightarrow> string \<times> nat \<Rightarrow> (string \<times> nat) option + unit" where
  "pc_contacts buf tp [] acc = Inl (Some acc)"
| "pc_contacts buf tp (ct # cts) (n_contact, marker) =
     (case parse_nameaddr_uri buf new_nameaddr (cs_s ct) (nat (cs_len ct)) of
        Out _ na r \<Rightarrow>
          if r < 0 then Inl None
          else
            (case pc_params buf tp (uri_params (na_uri na)) (n_contact, marker, False) of
               None \<Rightarrow> Inr ()
             | Some (n1, marker1, True) \<Rightarrow> pc_contacts buf tp cts (n1, marker1)
             | Some (n1, marker1, False) \<Rightarrow>
                 let a_end = cs_s (na_addr na) + nat (cs_len (na_addr na)) in
                 if a_end < marker1 then Inr ()
                 else pc_contacts buf tp cts
                        (n1 @ sub buf marker1 a_end @ '';transport='' @ tp, a_end))
      | _ \<Rightarrow> Inl None)"

definition patch_contact_transport :: "string \<Rightarrow> sip_header \<Rightarrow> string \<Rightarrow> pc_res" where
  "patch_contact_transport buf contact tp =
     (let vs = cs_s (h_value contact); hf_end = vs + nat (cs_len (h_value contact)) in
      case parse_nameaddr_list buf [] vs hf_end of
        Some (contact_list, r) \<Rightarrow>
          if r < 0 then PC_Error
          else
            (case pc_contacts buf tp contact_list ([], vs) of
               Inr _ \<Rightarrow> PC_Throw
             | Inl None \<Rightarrow> PC_Error
             | Inl (Some (n_contact, marker)) \<Rightarrow>
                 if n_contact = [] then PC_Ok []
                 else if hf_end < marker then PC_Throw
                 else PC_Ok (n_contact @ sub buf marker hf_end))
      | None \<Rightarrow> PC_Error)"

text \<open>A text of its own is put behind the buffer of the message.\<close>

definition patch_ruri_with_remote_ip :: "tmsg \<Rightarrow> tmsg option" where
  "patch_ruri_with_remote_ip msg =
     (case m_request (tm_msg msg) of
        None \<Rightarrow> None
      | Some rq \<Rightarrow>
          let buf = tm_buf msg; old = ruri_str rq; old_end = cs_s old + nat (cs_len old) in
          (case parse_uri buf new_uri (cs_s old) (nat (cs_len old)) of
             Out _ u r \<Rightarrow>
               if r < 0 then None
               else
                 let n_uri =
                       sub buf (cs_s old) (cs_s (host u)) @ sa_addr_sip (remote_ip msg) @
                       (if sa_port (remote_ip msg) \<noteq> 5060
                        then '':'' @ int2str (ucast (sa_port (remote_ip msg))) else []) @
                       (if cs_len (port_str u) \<noteq> 0
                        then sub buf (cs_s (port_str u) + nat (cs_len (port_str u))) old_end
                        else sub buf (cs_s (host u) + nat (cs_len (host u))) old_end);
                     rq' = rq\<lparr>ruri_str := cs_set (length buf) (int (length n_uri))\<rparr>
                 in Some (msg\<lparr>tm_buf := buf @ n_uri, tm_msg := (tm_msg msg)\<lparr>m_request := Some rq'\<rparr>\<rparr>)
           | _ \<Rightarrow> None))"

section \<open>The outgoing request\<close>

definition sock_of :: "tmsg \<Rightarrow> trsp_socket" where
  "sock_of msg = (case local_socket msg of Some sk \<Rightarrow> sk | None \<Rightarrow> undefined)"

definition via_sent_by :: "trsp_socket \<Rightarrow> string" where
  "via_sent_by sk =
     sk_advertised_ip sk @ (if sk_port sk \<noteq> 5060 then '':'' @ int2str (ucast (sk_port sk)) else [])"

text \<open>
  The patched copy of a Contact header, as name and value; \<open>None\<close> is the exception. The message
  of a transaction has been through this function before, so that its contacts have a transport
  value and the exception does not come up.
\<close>

definition patched_contact :: "tmsg \<Rightarrow> sip_header \<Rightarrow> (string \<times> string) option" where
  "patched_contact msg h =
     (let buf = tm_buf msg; same = (c2stlstr buf (h_name h), c2stlstr buf (h_value h)) in
      case patch_contact_transport buf h (sk_transport (sock_of msg)) of
        PC_Throw \<Rightarrow> None
      | PC_Error \<Rightarrow> Some same
      | PC_Ok n \<Rightarrow> Some (if n = [] then same else (fst same, n)))"

fun patched_contacts :: "tmsg \<Rightarrow> sip_header list \<Rightarrow> (string \<times> string) list option" where
  "patched_contacts msg [] = Some []"
| "patched_contacts msg (h # hs) =
     (case (patched_contact msg h, patched_contacts msg hs) of
        (Some x, Some xs) \<Rightarrow> Some (x # xs)
      | _ \<Rightarrow> None)"

definition rq_of :: "tmsg \<Rightarrow> sip_request" where
  "rq_of msg = (case m_request (tm_msg msg) of Some rq \<Rightarrow> rq | None \<Rightarrow> undefined)"

definition new_msg_len :: "tmsg \<Rightarrow> string \<Rightarrow> (string \<times> string) list \<Rightarrow> int" where
  "new_msg_len msg branch contacts =
     request_line_len (mtxt msg (rq_method_str (rq_of msg))) (msg_ruri msg) +
     via_len (sk_transport (sock_of msg)) (via_sent_by (sock_of msg)) branch True +
     copy_hdrs_len (m_vias (tm_msg msg)) + copy_hdrs_len_no_via_contact (m_hdrs (tm_msg msg)) +
     fold (\<lambda>(n, v) len. len + (int (length n) + int (length v) + 4)) contacts 0 +
     content_length_len (int2str (of_nat (length (body_text msg)))) + 2 + int (length (body_text msg))"

definition new_msg_wr :: "tmsg \<Rightarrow> string \<Rightarrow> (string \<times> string) list \<Rightarrow> string" where
  "new_msg_wr msg branch contacts =
     request_line_wr (mtxt msg (rq_method_str (rq_of msg))) (msg_ruri msg) @
     via_wr (sk_transport (sock_of msg)) (via_sent_by (sock_of msg)) branch True @
     copy_hdrs_wr (tm_buf msg) (m_vias (tm_msg msg)) @
     copy_hdrs_wr_no_via_contact (tm_buf msg) (m_hdrs (tm_msg msg)) @
     concat (map (\<lambda>(n, v). n @ '': '' @ v @ CRLF) contacts) @
     content_length_wr (int2str (of_nat (length (body_text msg)))) @ CRLF @ body_text msg"

definition hdr_text :: "tmsg \<Rightarrow> sip_header option \<Rightarrow> string" where
  "hdr_text m h = (case h of None \<Rightarrow> [] | Some x \<Rightarrow> mtxt m (h_value x))"

text \<open>
  The buffer ends with the text (a NUL follows, which is not part of the length). \<open>None\<close> stands
  for the return value \<^verbatim>\<open>MALFORMED_SIP_MSG\<close>, and for the exception that does not come up.
\<close>

definition generate_and_parse_new_msg :: "env \<Rightarrow> tmsg \<Rightarrow> tl \<Rightarrow> tmsg option \<times> tl" where
  "generate_and_parse_new_msg ev msg s =
     (let (branch, s1) = compute_branch (hdr_text msg (m_callid (tm_msg msg))) (hdr_text msg (m_cseq (tm_msg msg))) s
      in case patched_contacts msg (m_contacts (tm_msg msg)) of
           None \<Rightarrow> (None, s1)
         | Some contacts \<Rightarrow>
             let buf = new_msg_wr msg branch contacts in
             (case parse_sip_msg buf (length buf) (junk_method ev) of
                Some (m, _, r) \<Rightarrow>
                  if r \<noteq> 0 then (None, s1)
                  else (Some \<lparr>tm_buf = buf, tm_msg = m, local_socket = local_socket msg,
                              remote_ip = remote_ip msg\<rparr>, s1)
              | None \<Rightarrow> (None, s1)))"

section \<open>Local error replies\<close>

definition parsed_from_to :: "tmsg \<Rightarrow> sip_header option \<Rightarrow> sip_from_to option" where
  "parsed_from_to m h =
     (case h of
        None \<Rightarrow> None
      | Some x \<Rightarrow>
          (case parse_from_to (tm_buf m) new_from_to (cs_s (h_value x)) (nat (cs_len (h_value x))) of
             Out _ ft _ \<Rightarrow> Some ft
           | _ \<Rightarrow> None))"

definition parsed_cseq :: "tmsg \<Rightarrow> sip_header option \<Rightarrow> sip_cseq option" where
  "parsed_cseq m h =
     (case h of
        None \<Rightarrow> None
      | Some x \<Rightarrow>
          (case parse_cseq (tm_buf m) new_cseq (cs_s (h_value x)) (nat (cs_len (h_value x))) of
             Out _ cs _ \<Rightarrow> Some cs
           | _ \<Rightarrow> None))"

definition or_else :: "'a option \<Rightarrow> 'a option \<Rightarrow> 'a option" where
  "or_else x y = (case x of None \<Rightarrow> y | Some _ \<Rightarrow> x)"

text \<open>
  The error reply shares its headers with the request; a part of the request that is not parsed
  yet is parsed in place. The reply has no socket, which marks it as a local one.
\<close>

definition set_err_reply_from_req :: "tmsg \<Rightarrow> int \<Rightarrow> string \<Rightarrow> tmsg" where
  "set_err_reply_from_req req code reason =
     (let m = tm_msg req in
      \<lparr>tm_buf = tm_buf req @ reason,
       tm_msg = new_msg\<lparr>m_type := SIP_REPLY,
         m_reply := Some \<lparr>rp_code = code, rp_reason = cs_set (length (tm_buf req)) (int (length reason))\<rparr>,
         m_from := m_from m, p_from := or_else (p_from m) (parsed_from_to req (m_from m)),
         m_to := m_to m, p_to := or_else (p_to m) (parsed_from_to req (m_to m)),
         m_cseq := m_cseq m, p_cseq := or_else (p_cseq m) (parsed_cseq req (m_cseq m)),
         m_callid := m_callid m, m_via_p1 := m_via_p1 m\<rparr>,
       local_socket = None, remote_ip = \<lparr>sa_addr = [], sa_addr_sip = [], sa_port = 0\<rparr>\<rparr>)"

definition gen_error_reply_from_req :: "tmsg \<Rightarrow> int \<Rightarrow> string \<Rightarrow> tmsg" where
  "gen_error_reply_from_req req code reason =
     (let m = tm_msg req in
      \<lparr>tm_buf = tm_buf req @ reason,
       tm_msg = new_msg\<lparr>m_type := SIP_REPLY,
         m_reply := Some \<lparr>rp_code = code, rp_reason = cs_set (length (tm_buf req)) (int (length reason))\<rparr>,
         m_from := m_from m, p_from := parsed_from_to req (m_from m),
         m_to := m_to m, p_to := parsed_from_to req (m_to m),
         m_cseq := m_cseq m, p_cseq := parsed_cseq req (m_cseq m),
         m_callid := m_callid m,
         m_hdrs := opt_list (m_from m) @ opt_list (m_to m) @ opt_list (m_cseq m) @ opt_list (m_callid m)\<rparr>,
       local_socket = None, remote_ip = \<lparr>sa_addr = [], sa_addr_sip = [], sa_port = 0\<rparr>\<rparr>)"

section \<open>Destinations\<close>

definition has_next :: "sip_target list \<Rightarrow> bool" where
  "has_next ts \<longleftrightarrow> ts \<noteq> []"

abbreviation TR_FLAG_DISABLE_BL :: u32 where "TR_FLAG_DISABLE_BL \<equiv> 2"

abbreviation TR_FLAG_NEXT_HOP_RURI :: u32 where "TR_FLAG_NEXT_HOP_RURI \<equiv> 1"

definition flag :: "u32 \<Rightarrow> u32 \<Rightarrow> bool" where
  "flag f x \<longleftrightarrow> f AND x \<noteq> 0"

text \<open>\<open>None\<close> is the return value -1; otherwise the address, the transport and the rest.\<close>

fun get_next :: "(sockaddr \<Rightarrow> bool) \<Rightarrow> u32 \<Rightarrow> sip_target list \<Rightarrow> (sockaddr \<times> string \<times> sip_target list) option" where
  "get_next listed flags [] = None"
| "get_next listed flags (t # ts) =
     (if \<not> flag flags TR_FLAG_DISABLE_BL \<and> listed (tg_ss t) then get_next listed flags ts
      else Some (tg_ss t, if tg_trsp t = [] then ''udp'' else tg_trsp t, ts))"

lemma get_next_shorter: "get_next listed flags ts = Some (a, tp, ts') \<Longrightarrow> length ts' < length ts"
  by (induction ts) (auto split: if_splits)

section \<open>The generated request fits its buffer\<close>

lemma contacts_fold:
  "fold (\<lambda>(n, v) len. len + (int (length n) + int (length v) + 4)) cts k =
     k + int (length (concat (map (\<lambda>(n, v). n @ '': '' @ v @ CRLF) cts)))"
  by (induction cts arbitrary: k) (auto simp: split_beta)

lemma new_msg_length:
  assumes "tmsg_ok msg" and "all_lower (sk_transport (sock_of msg))"
  shows "int (length (new_msg_wr msg branch contacts)) = new_msg_len msg branch contacts"
  using assms tmsg_hdrs_in [OF assms(1)] tmsg_lists_in [OF assms(1)]
  by (simp add: new_msg_wr_def new_msg_len_def wr_len contacts_fold)

end
