(* ===== verification/Trans_Layer.thy ===== *)
theory Trans_Layer
  imports Trans_Send
begin

text \<open>
  The state machines of \<^verbatim>\<open>core/sip/trans_layer.cpp\<close>: what a reply, a request, an expired timer, the
  application and a transport error do to a transaction. A handler works on a copy of the
  transaction and on the state of the layer; it returns the copy, or \<open>None\<close> if the transaction
  was removed from its bucket and deleted. \<open>settle\<close> writes the copy back. A handler holds the lock
  of the bucket; where the source releases it to call the application or \<^verbatim>\<open>cancel\<close>, nothing else
  is interleaved in the model. Statistics and message logs are left out.
\<close>

section \<open>Sending\<close>

definition send_msg :: "env \<Rightarrow> tmsg \<Rightarrow> u32 \<Rightarrow> tl \<Rightarrow> int \<times> tl" where
  "send_msg ev m flags s =
     (let s1 = emit (Send (sock_of m) (remote_ip m) (tm_buf m) flags) s in (send_res ev (tl_out s1), s1))"

definition send_bytes :: "env \<Rightarrow> trsp_socket \<Rightarrow> sockaddr \<Rightarrow> string \<Rightarrow> u32 \<Rightarrow> tl \<Rightarrow> int \<times> tl" where
  "send_bytes ev sk addr b flags s =
     (let s1 = emit (Send sk addr b flags) s in (send_res ev (tl_out s1), s1))"

text \<open>The assertion that a transaction with a retransmission buffer has a socket is a case without effect.\<close>

definition retransmit :: "env \<Rightarrow> sip_trans \<Rightarrow> tl \<Rightarrow> tl" where
  "retransmit ev t s =
     (case (retr_buf t, retr_socket t) of
        (Some b, Some sk) \<Rightarrow> if b = [] then s else snd (send_bytes ev sk (retr_addr t) b (tx_flags t) s)
      | _ \<Rightarrow> s)"

definition blacklist :: "env \<Rightarrow> sockaddr \<Rightarrow> string \<Rightarrow> tl \<Rightarrow> tl" where
  "blacklist ev a reason s =
     (if default_bl_ttl ev \<noteq> 0 then emit (Blacklist a (default_bl_ttl ev) reason) s else s)"

definition send_non_200_ack :: "env \<Rightarrow> tmsg \<Rightarrow> sip_trans \<Rightarrow> tl \<Rightarrow> tl" where
  "send_non_200_ack ev reply t s =
     (let m = tx_msg t
      in snd (send_bytes ev (sock_of m) (remote_ip m) (ack_wr ev reply m) (tx_flags t) s))"

definition reliable :: "tmsg \<Rightarrow> bool" where
  "reliable m \<longleftrightarrow> sk_reliable (sock_of m)"

definition is_invite :: "sip_trans \<Rightarrow> bool" where
  "is_invite t \<longleftrightarrow> msg_method (tx_msg t) = Some INVITE"

definition is_cancel :: "sip_trans \<Rightarrow> bool" where
  "is_cancel t \<longleftrightarrow> msg_method (tx_msg t) = Some CANCEL"

text \<open>The end of a handler.\<close>

definition settle :: "nat \<Rightarrow> sip_trans option \<times> tl \<Rightarrow> tl" where
  "settle h ts = (case fst ts of None \<Rightarrow> snd ts | Some t \<Rightarrow> bucket_store h t (snd ts))"

definition removed :: "nat \<Rightarrow> sip_trans \<times> tl \<Rightarrow> sip_trans option \<times> tl" where
  "removed h ts = (None, bucket_remove h (fst ts) (snd ts))"

definition kept :: "sip_trans \<times> tl \<Rightarrow> sip_trans option \<times> tl" where
  "kept ts = (Some (fst ts), snd ts)"

definition set_state :: "trans_state \<Rightarrow> sip_trans \<times> tl \<Rightarrow> sip_trans \<times> tl" where
  "set_state x ts = ((fst ts)\<lparr>tx_state := x\<rparr>, snd ts)"

definition set_flag :: "u32 \<Rightarrow> sip_trans \<times> tl \<Rightarrow> sip_trans \<times> tl" where
  "set_flag x ts = ((fst ts)\<lparr>tx_flags := tx_flags (fst ts) OR x\<rparr>, snd ts)"

section \<open>Requests of the client\<close>

definition start_uac_timers :: "env \<Rightarrow> nat \<Rightarrow> tmsg \<Rightarrow> sip_trans \<times> tl \<Rightarrow> sip_trans \<times> tl" where
  "start_uac_timers ev h msg ts =
     (if msg_method msg = Some INVITE then
        let ts1 = (if \<not> reliable msg then reset_timer STIMER_A (sip_timers ev STIMER_A) h ts else ts)
        in reset_timer STIMER_B (sip_timers ev STIMER_B) h ts1
      else
        let ts1 = (if \<not> reliable msg then reset_timer STIMER_E (sip_timers ev STIMER_E) h ts else ts)
        in reset_timer STIMER_F (sip_timers ev STIMER_F) h ts1)"

text \<open>
  The result is the return value, the transaction if one was found or made, and the state. For an
  ACK the buffer of the message goes over to the transaction.
\<close>

definition update_uac_request :: "env \<Rightarrow> nat \<Rightarrow> tmsg \<Rightarrow> tl \<Rightarrow> int \<times> sip_trans option \<times> tl" where
  "update_uac_request ev h msg s =
     (if msg_method msg \<noteq> Some ACK then
        let (t, s1) = start_uac_timers ev h msg (add_trans (junk_flags ev) h msg TT_UAC s)
        in (0, Some t, bucket_store h t s1)
      else if \<not> reliable msg then
        (case match_request msg TT_UAC (tl_buckets s h) of
           None \<Rightarrow> (-1, None, s)
         | Some t \<Rightarrow>
             let t1 = t\<lparr>retr_buf := Some (tm_buf msg), retr_addr := remote_ip msg,
                        retr_socket := local_socket msg\<rparr>
             in (0, Some t1, bucket_store h t1 s))
      else (0, None, s))"

section \<open>The next destination\<close>

definition copy_uac_trans :: "env \<Rightarrow> sip_trans \<Rightarrow> tl \<Rightarrow> sip_trans \<times> tl" where
  "copy_uac_trans ev t s =
     ((new_trans (tl_fresh s) (tx_msg t) (junk_flags ev))
        \<lparr>tx_type := tx_type t, tx_flags := tx_flags t, dialog_id := dialog_id t\<rparr>,
      s\<lparr>tl_fresh := tl_fresh s + 1\<rparr>)"

definition vias_pop :: "tmsg \<Rightarrow> tmsg" where
  "vias_pop m = m\<lparr>tm_msg := (tm_msg m)\<lparr>m_vias := tl (m_vias (tm_msg m))\<rparr>\<rparr>"

text \<open>The new branch is written over the old one, behind the magic cookie.\<close>

definition patch_branch :: "tmsg \<Rightarrow> tl \<Rightarrow> tmsg \<times> tl" where
  "patch_branch m s =
     (let (branch, s1) = compute_branch (hdr_text m (m_callid (tm_msg m))) (hdr_text m (m_cseq (tm_msg m))) s;
          pos = (case m_via_p1 (tm_msg m) of None \<Rightarrow> 0 | Some v \<Rightarrow> cs_s (vp_branch v)) + MAGIC_BRANCH_LEN
      in (m\<lparr>tm_buf := take pos (tm_buf m) @ branch @ drop (pos + length branch) (tm_buf m)\<rparr>, s1))"

definition keep_timer_bf :: "nat \<Rightarrow> sip_trans \<Rightarrow> sip_trans \<times> tl \<Rightarrow> sip_trans \<times> tl" where
  "keep_timer_bf h t ts =
     (case get_timer STIMER_B t of
        None \<Rightarrow> ts
      | Some b \<Rightarrow>
          let (tm, s) = new_trans_timer (tt_type b) (tt_expires b) h (tx_id (fst ts)) (snd ts)
          in reset_timer_obj (Some tm) (tt_type tm) (fst ts, s))"

text \<open>
  The next destination with a message for it, or \<open>Inl\<close> for the return value -1: first with a new
  transaction, which takes over the destinations and gets a copy of timer B or F; then within one
  transaction. In the first case a failure behind the patch of the Request-URI leaves the old
  message with a pointer into a string that is gone; the model keeps the old URI there.
\<close>

definition next_dest_new :: "env \<Rightarrow> nat \<Rightarrow> sip_trans \<times> tl \<Rightarrow> sip_trans \<times> tl + sip_trans \<times> sip_trans \<times> tl" where
  "next_dest_new ev h ts =
     (let (t, s) = ts in
      case targets t of
        None \<Rightarrow> Inl (t, s)
      | Some tgs \<Rightarrow>
          (case get_next (bl_exist ev (tl_out s)) (tx_flags t) tgs of
             None \<Rightarrow> Inl (t\<lparr>targets := Some []\<rparr>, s)
           | Some (sa, next_trsp, rest) \<Rightarrow>
               let (n, s1) = copy_uac_trans ev t s;
                   t1 = t\<lparr>targets := Some rest\<rparr>;
                   tmp = (vias_pop (tx_msg t))\<lparr>remote_ip := sa, local_socket := None\<rparr>
               in case set_trsp_socket ev next_trsp (sk_if (sock_of (tx_msg t))) tmp of
                    None \<Rightarrow> Inl (t1, s1)
                  | Some m1 \<Rightarrow>
                      (case (if flag (tx_flags n) TR_FLAG_NEXT_HOP_RURI
                             then patch_ruri_with_remote_ip m1 else Some m1) of
                         None \<Rightarrow> Inl (t1, s1)
                       | Some m2 \<Rightarrow>
                           (case generate_and_parse_new_msg ev m2 s1 of
                              (None, s2) \<Rightarrow> Inl (t1, s2)
                            | (Some p, s2) \<Rightarrow>
                                let n1 = n\<lparr>tx_msg := p, targets := Some rest\<rparr>;
                                    t2 = t1\<lparr>targets := None\<rparr>;
                                    (n2, s3) = keep_timer_bf h t (n1, s2)
                                in Inr (t2, n2, bucket_append h n2 s3)))))"

definition next_dest_same :: "env \<Rightarrow> sip_trans \<times> tl \<Rightarrow> sip_trans \<times> tl + sip_trans \<times> tl" where
  "next_dest_same ev ts =
     (let (t, s) = ts in
      case targets t of
        None \<Rightarrow> Inl (t, s)
      | Some tgs \<Rightarrow>
          (case get_next (bl_exist ev (tl_out s)) (tx_flags t) tgs of
             None \<Rightarrow> Inl (t\<lparr>targets := Some []\<rparr>, s)
           | Some (sa, next_trsp, rest) \<Rightarrow>
               let m = (tx_msg t)\<lparr>remote_ip := sa\<rparr>;
                   t1 = t\<lparr>targets := Some rest, tx_msg := m\<rparr>
               in case set_trsp_socket ev next_trsp (sk_if (sock_of m)) m of
                    None \<Rightarrow> Inl (t1, s)
                  | Some m1 \<Rightarrow>
                      if flag (tx_flags t) TR_FLAG_NEXT_HOP_RURI then
                        (case patch_ruri_with_remote_ip m1 of
                           None \<Rightarrow> Inl (t1\<lparr>tx_msg := m1\<rparr>, s)
                         | Some m2 \<Rightarrow>
                             (case generate_and_parse_new_msg ev m2 s of
                                (None, s1) \<Rightarrow> Inl (t1\<lparr>tx_msg := m2\<rparr>, s1)
                              | (Some p, s1) \<Rightarrow> Inr (t1\<lparr>tx_msg := p\<rparr>, s1)))
                      else if local_socket m \<noteq> local_socket m1 then
                        (case generate_and_parse_new_msg ev m1 s of
                           (None, s1) \<Rightarrow> Inl (t1\<lparr>tx_msg := m1\<rparr>, s1)
                         | (Some p, s1) \<Rightarrow> Inr (t1\<lparr>tx_msg := p\<rparr>, s1))
                      else
                        let (m2, s1) = patch_branch m1 s in Inr (t1\<lparr>tx_msg := m2\<rparr>, s1)))"

definition resent :: "env \<Rightarrow> nat \<Rightarrow> sip_trans \<times> tl \<Rightarrow> sip_trans \<times> tl" where
  "resent ev h ts =
     (let rel = reliable (tx_msg (fst ts));
          arm = (\<lambda>ty ts. reset_timer ty (sip_timers ev ty) h ts);
          ts1 = (if is_invite (fst ts) then
                   let ts1 = set_state TS_CALLING ts;
                       ts2 = (if \<not> rel then arm STIMER_A ts1 else ts1)
                   in if get_timer STIMER_B (fst ts2) = None then arm STIMER_B ts2 else ts2
                 else
                   let ts1 = set_state TS_TRYING ts;
                       ts2 = (if \<not> rel then arm STIMER_E ts1 else ts1)
                   in if get_timer STIMER_F (fst ts2) = None then arm STIMER_F ts2 else ts2)
      in case targets (fst ts1) of
           Some tgs \<Rightarrow> if has_next tgs then arm STIMER_M ts1 else ts1
         | None \<Rightarrow> ts1)"

definition tgt_len :: "sip_trans \<Rightarrow> nat" where
  "tgt_len t = (case targets t of None \<Rightarrow> 0 | Some tgs \<Rightarrow> length tgs)"

lemma next_dest_same_shorter: "next_dest_same ev (t, s) = Inr (t1, s1) \<Longrightarrow> tgt_len t1 < tgt_len t"
  by (auto simp: next_dest_same_def tgt_len_def Let_def dest: get_next_shorter
      split: option.splits if_splits prod.splits)

text \<open>The loop \<^verbatim>\<open>goto try_next_dest\<close> within one transaction; every turn uses up a destination.\<close>

function try_same :: "env \<Rightarrow> nat \<Rightarrow> sip_trans \<Rightarrow> tl \<Rightarrow> int \<times> sip_trans \<times> tl" where
  "try_same ev h t s =
     (case next_dest_same ev (t, s) of
        Inl (t1, s1) \<Rightarrow> (-1, t1, s1)
      | Inr (t1, s1) \<Rightarrow>
          let (r, s2) = send_msg ev (tx_msg t1) (tx_flags t1) s1 in
          if r < 0 then try_same ev h t1 (blacklist ev (remote_ip (tx_msg t1)) ''503'' s2)
          else (0, resent ev h (t1, s2)))"
  by pat_completeness auto
termination
  by (relation "measure (\<lambda>(ev, h, t, s). tgt_len t)") (auto simp: next_dest_same_shorter)

declare try_same.simps [simp del]

text \<open>
  The result is the return value, the transaction the function was called for, and the state.
  After a failed send the new transaction is in the bucket already, and the loop goes on with it.
\<close>

definition try_next_ip :: "env \<Rightarrow> nat \<Rightarrow> bool \<Rightarrow> sip_trans \<times> tl \<Rightarrow> int \<times> sip_trans \<times> tl" where
  "try_next_ip ev h use_new_trans ts =
     (let (t, s) = clear_timer STIMER_M ts in
      if \<not> use_new_trans then try_same ev h t s
      else
        case next_dest_new ev h (t, s) of
          Inl (t1, s1) \<Rightarrow> (-1, t1, s1)
        | Inr (t1, n, s1) \<Rightarrow>
            let (r, s2) = send_msg ev (tx_msg n) (tx_flags n) s1 in
            if r < 0 then
              let (res, n1, s3) = try_same ev h n (blacklist ev (remote_ip (tx_msg n)) ''503'' s2)
              in (res, t1, bucket_store h n1 s3)
            else
              let (n1, s3) = resent ev h (n, s2) in (0, t1, bucket_store h n1 s3))"

section \<open>CANCEL\<close>

text \<open>From the test of \<^verbatim>\<open>t->canceled\<close> on; the return value, the transaction and the state.\<close>

definition cancel_trans :: "env \<Rightarrow> nat \<Rightarrow> string \<Rightarrow> sip_trans \<times> tl \<Rightarrow> int \<times> sip_trans \<times> tl" where
  "cancel_trans ev h hdrs ts =
     (let (t, s) = ts; req = tx_msg t in
      if canceled t then (0, t, s)
      else if \<not> is_invite t then (-1, t, s)
      else if tx_state t = TS_CALLING then
        let (t1, s1) = clear_timer STIMER_M (clear_timer STIMER_A (t, s));
            t2 = t1\<lparr>tx_flags := tx_flags t1 OR TR_FLAG_DISABLE_BL, tx_state := TS_ABANDONED\<rparr>
        in (0, t2, emit (UA_Reply (dialog_id t2)
                     (gen_error_reply_from_req (tx_msg t2) 487 ''Request Terminated'')) s1)
      else if tx_state t = TS_PROCEEDING \<or> tx_state t = TS_ABANDONED then
        let buf = cancel_wr ev req hdrs in
        (case parse_sip_msg buf (length buf) (junk_method ev) of
           Some (m, _, r) \<Rightarrow>
             if r \<noteq> 0 then (MALFORMED_SIP_MSG, t, s)
             else
               let p = \<lparr>tm_buf = buf, tm_msg = m, local_socket = local_socket req, remote_ip = remote_ip req\<rparr>;
                   (err, s1) = send_msg ev p (tx_flags t) s
               in if err < 0 then (err, t, s1)
                  else
                    let (err2, ct, s2) = update_uac_request ev h p s1
                    in if err2 < 0 then (err2, t, s2) else (err2, t\<lparr>canceled := True\<rparr>, s2)
         | None \<Rightarrow> (MALFORMED_SIP_MSG, t, s))
      else (-1, t, s))"

text \<open>
  The call from inside the layer, with a ticket for an existing transaction and no dialog id. An
  abandoned transaction counts as not existing.
\<close>

definition cancel_self :: "env \<Rightarrow> nat \<Rightarrow> sip_trans \<times> tl \<Rightarrow> int \<times> sip_trans \<times> tl" where
  "cancel_self ev h ts =
     (let (t, s) = ts in
      if \<not> bucket_exist (tx_id t) (tl_buckets s h) \<or> tx_state t = TS_ABANDONED then (0, t, s)
      else cancel_trans ev h [] (t, s))"

definition cancel :: "env \<Rightarrow> nat \<Rightarrow> nat \<Rightarrow> string \<Rightarrow> u32 \<Rightarrow> string \<Rightarrow> tl \<Rightarrow> int \<times> tl" where
  "cancel ev h i dlg inv_cseq hdrs s =
     (let found = bucket_find i (tl_buckets s h);
          target = (case found of
                      Some t \<Rightarrow> if tx_state t = TS_ABANDONED
                               then if dlg \<noteq> [] then find_uac_trans dlg inv_cseq (tl_buckets s h) else None
                               else Some t
                    | None \<Rightarrow> if dlg \<noteq> [] then find_uac_trans dlg inv_cseq (tl_buckets s h) else None)
      in case target of
           None \<Rightarrow> (0, s)
         | Some t \<Rightarrow> let (r, t1, s1) = cancel_trans ev h hdrs (t, s) in (r, bucket_store h t1 s1))"

section \<open>Timeouts\<close>

definition timeout :: "env \<Rightarrow> nat \<Rightarrow> sip_trans \<times> tl \<Rightarrow> sip_trans option \<times> tl" where
  "timeout ev h ts =
     (let (t, s) = set_state TS_TERMINATED (reset_all_timers ts);
          reply = gen_error_reply_from_req (tx_msg t) 408 ''Request Timeout'';
          (ot, s1) = (if flag (tx_flags t) TR_FLAG_DISABLE_BL then removed h (t, s)
                      else kept (reset_timer STIMER_BL (sip_timers ev STIMER_BL) h (t, s)))
      in (ot, emit (UA_Reply (dialog_id t) reply) s1))"

definition shl :: "env \<Rightarrow> u32 \<Rightarrow> nat \<Rightarrow> u32" where
  "shl ev x n = (if n < 32 then push_bit n x else wide_shift ev x n)"

definition with_count :: "nat \<Rightarrow> u32 \<Rightarrow> u32" where
  "with_count n ty = push_bit 16 (of_nat n) OR ty"

definition expired_A :: "env \<Rightarrow> nat \<Rightarrow> nat \<Rightarrow> sip_trans \<times> tl \<Rightarrow> sip_trans option \<times> tl" where
  "expired_A ev h n ts =
     (let (t, s) = ts; n1 = n + 1; (_, s1) = send_msg ev (tx_msg t) (tx_flags t) s
      in kept (reset_timer (with_count n1 STIMER_A) (shl ev (sip_timers ev STIMER_A) n1) h (t, s1)))"

definition abandoned_expired :: "env \<Rightarrow> nat \<Rightarrow> sip_trans \<times> tl \<Rightarrow> sip_trans option \<times> tl" where
  "abandoned_expired ev h ts =
     (if flag (tx_flags (fst ts)) TR_FLAG_DISABLE_BL then removed h ts
      else kept (reset_timer STIMER_BL (sip_timers ev STIMER_BL) h ts))"

definition expired_B :: "env \<Rightarrow> nat \<Rightarrow> sip_trans \<times> tl \<Rightarrow> sip_trans option \<times> tl" where
  "expired_B ev h ts =
     (let ts1 = clear_timer STIMER_B ts in
      if tx_state (fst ts1) = TS_CALLING then timeout ev h ts1
      else if tx_state (fst ts1) = TS_ABANDONED then abandoned_expired ev h ts1
      else removed h ts1)"

definition expired_C :: "env \<Rightarrow> nat \<Rightarrow> sip_trans \<times> tl \<Rightarrow> sip_trans option \<times> tl" where
  "expired_C ev h ts =
     (let (r, t1, s1) = cancel_self ev h (clear_timer STIMER_C ts) in timeout ev h (t1, s1))"

definition expired_F :: "env \<Rightarrow> nat \<Rightarrow> sip_trans \<times> tl \<Rightarrow> sip_trans option \<times> tl" where
  "expired_F ev h ts =
     (let ts1 = clear_timer STIMER_F ts in
      if tx_state (fst ts1) = TS_TRYING \<or> tx_state (fst ts1) = TS_PROCEEDING then timeout ev h ts1
      else if tx_state (fst ts1) = TS_ABANDONED then abandoned_expired ev h ts1
      else removed h ts1)"

definition expired_end :: "nat \<Rightarrow> u32 \<Rightarrow> sip_trans \<times> tl \<Rightarrow> sip_trans option \<times> tl" where
  "expired_end h ty ts = removed h (clear_timer ty ts)"

definition expired_H :: "env \<Rightarrow> nat \<Rightarrow> sip_trans \<times> tl \<Rightarrow> sip_trans option \<times> tl" where
  "expired_H ev h ts =
     (if tx_type (fst ts) = TT_UAS \<and> tx_state (fst ts) = TS_PROCEEDING_REL then
        let (t, s) = clear_timer STIMER_H ts in (Some t, emit (UA_Reply_Timeout NoPRACK (tx_id t)) s)
      else if tx_type (fst ts) = TT_UAS \<and>
              (tx_state (fst ts) = TS_TERMINATED_200 \<or> tx_state (fst ts) = TS_COMPLETED) then
        let (t, s) = clear_timer STIMER_H ts
        in removed h (t, emit (UA_Reply_Timeout NoACK (tx_id t)) s)
      else expired_end h STIMER_H ts)"

definition retr_interval :: "env \<Rightarrow> u32 \<Rightarrow> nat \<Rightarrow> u32" where
  "retr_interval ev ty n =
     (let retr_timer = shl ev (sip_timers ev (if ty = STIMER_E then STIMER_E else STIMER_G)) n
      in if retr_timer > sip_timer_t2 ev then sip_timer_t2 ev else retr_timer)"

definition expired_EG :: "env \<Rightarrow> nat \<Rightarrow> u32 \<Rightarrow> nat \<Rightarrow> sip_trans \<times> tl \<Rightarrow> sip_trans option \<times> tl" where
  "expired_EG ev h ty n ts =
     (let (t, s) = ts; n1 = n + 1;
          s1 = (if tx_type t = TT_UAS then retransmit ev t s
                else snd (send_msg ev (tx_msg t) (tx_flags t) s))
      in kept (reset_timer (with_count n1 ty) (retr_interval ev ty n1) h (t, s1)))"

definition expired_M :: "env \<Rightarrow> nat \<Rightarrow> sip_trans \<times> tl \<Rightarrow> sip_trans option \<times> tl" where
  "expired_M ev h ts =
     (let (r, t, s) = try_next_ip ev h True ts in
      kept (if r = 0 then set_state TS_ABANDONED (clear_timer STIMER_A (t, s)) else (t, s)))"

definition expired_BL :: "env \<Rightarrow> nat \<Rightarrow> sip_trans \<times> tl \<Rightarrow> sip_trans option \<times> tl" where
  "expired_BL ev h ts =
     (let (t, s) = clear_timer STIMER_BL ts;
          s1 = (if \<not> flag (tx_flags t) TR_FLAG_DISABLE_BL
                then blacklist ev (remote_ip (tx_msg t)) ''timeout'' s else s)
      in removed h (t, s1))"

definition timer_expired :: "env \<Rightarrow> nat \<Rightarrow> trans_timer \<Rightarrow> sip_trans \<times> tl \<Rightarrow> sip_trans option \<times> tl" where
  "timer_expired ev h tm ts =
     (let n = unat (drop_bit 16 (tt_type tm)); ty = tt_type tm AND 0xFFFF in
      if ty = STIMER_A then expired_A ev h n ts
      else if ty = STIMER_B then expired_B ev h ts
      else if ty = STIMER_C then expired_C ev h ts
      else if ty = STIMER_F then expired_F ev h ts
      else if ty = STIMER_H then expired_H ev h ts
      else if ty = STIMER_D \<or> ty = STIMER_K \<or> ty = STIMER_J \<or> ty = STIMER_I \<or> ty = STIMER_L
        then expired_end h ty ts
      else if ty = STIMER_E \<or> ty = STIMER_G then expired_EG ev h ty n ts
      else if ty = STIMER_M then expired_M ev h ts
      else if ty = STIMER_BL then expired_BL ev h ts
      else kept ts)"

text \<open>
  The callback of the timer wheel. A timer whose slot holds another one by now, or whose
  transaction is gone, is ignored.
\<close>

definition fire_timer :: "env \<Rightarrow> trans_timer \<Rightarrow> tl \<Rightarrow> tl" where
  "fire_timer ev tm s =
     (let h = tt_bucket tm mod H_TABLE_ENTRIES in
      case bucket_find (tt_trans tm) (tl_buckets s h) of
        None \<Rightarrow> s
      | Some t \<Rightarrow>
          if get_timer (tt_type tm AND 0xFFFF) t \<noteq> Some tm then s
          else settle h (timer_expired ev h tm (t, s)))"

section \<open>Replies to the client\<close>

text \<open>
  The return value 1 has the reply passed to the application (\<^verbatim>\<open>goto pass_reply\<close>), 0 has not
  (\<^verbatim>\<open>goto end\<close>). The cases fall through as in the source.
\<close>

type_synonym uac_result = "int \<times> sip_trans option \<times> tl"

definition pass_reply :: "sip_trans option \<times> tl \<Rightarrow> uac_result" where
  "pass_reply r = (1, r)"

definition no_reply :: "sip_trans option \<times> tl \<Rightarrow> uac_result" where
  "no_reply r = (0, r)"

definition uac_proceeding :: "env \<Rightarrow> nat \<Rightarrow> sip_trans \<times> tl \<Rightarrow> uac_result" where
  "uac_proceeding ev h ts =
     (if \<not> is_cancel (fst ts) then
        pass_reply (kept (if is_invite (fst ts)
                          then reset_timer STIMER_C (sip_timers ev STIMER_C) h ts else ts))
      else no_reply (kept ts))"

definition uac_provisional :: "env \<Rightarrow> nat \<Rightarrow> sip_trans \<times> tl \<Rightarrow> uac_result" where
  "uac_provisional ev h ts =
     (case tx_state (fst ts) of
        TS_CALLING \<Rightarrow> uac_proceeding ev h (set_state TS_PROCEEDING (reset_all_timers ts))
      | TS_TRYING \<Rightarrow> uac_proceeding ev h (set_state TS_PROCEEDING ts)
      | TS_PROCEEDING \<Rightarrow> uac_proceeding ev h ts
      | TS_ABANDONED \<Rightarrow>
          let (r, t, s) = cancel_self ev h (set_flag TR_FLAG_DISABLE_BL ts) in no_reply (kept (t, s))
      | TS_TERMINATED \<Rightarrow> no_reply (kept (set_flag TR_FLAG_DISABLE_BL ts))
      | _ \<Rightarrow> no_reply (kept ts))"

definition uac_error_proceeding :: "env \<Rightarrow> nat \<Rightarrow> tmsg \<Rightarrow> bool \<Rightarrow> sip_trans \<times> tl \<Rightarrow> uac_result" where
  "uac_error_proceeding ev h msg forget_reply ts =
     (let (t, s) = set_state TS_COMPLETED (clear_timer STIMER_C ts);
          ts2 = reset_timer STIMER_D (sip_timers ev STIMER_D) h (t, send_non_200_ack ev msg t s)
      in if forget_reply then no_reply (kept ts2) else pass_reply (kept ts2))"

definition uac_error :: "env \<Rightarrow> nat \<Rightarrow> tmsg \<Rightarrow> bool \<Rightarrow> sip_trans \<times> tl \<Rightarrow> uac_result" where
  "uac_error ev h msg forget_reply ts =
     (case tx_state (fst ts) of
        TS_CALLING \<Rightarrow> uac_error_proceeding ev h msg forget_reply (reset_all_timers ts)
      | TS_PROCEEDING \<Rightarrow> uac_error_proceeding ev h msg forget_reply ts
      | TS_ABANDONED \<Rightarrow>
          if local_socket msg = None then no_reply (removed h (reset_all_timers ts))
          else let (t, s) = set_flag TR_FLAG_DISABLE_BL ts
               in no_reply (kept (t, send_non_200_ack ev msg t s))
      | TS_TERMINATED \<Rightarrow>
          if local_socket msg = None then no_reply (removed h (reset_all_timers ts))
          else let (t, s) = set_flag TR_FLAG_DISABLE_BL ts
               in no_reply (kept (t, send_non_200_ack ev msg t s))
      | TS_COMPLETED \<Rightarrow> no_reply (kept (fst ts, send_non_200_ack ev msg (fst ts) (snd ts)))
      | _ \<Rightarrow> no_reply (kept ts))"

definition uac_invite_error :: "env \<Rightarrow> nat \<Rightarrow> tmsg \<Rightarrow> sip_trans \<times> tl \<Rightarrow> uac_result" where
  "uac_invite_error ev h msg ts =
     (let (t, s) = ts in
      if reply_code_of msg = 503 \<and> (tx_state t = TS_CALLING \<or> tx_state t = TS_PROCEEDING) then
        let s1 = (if \<not> flag (tx_flags t) TR_FLAG_DISABLE_BL
                  then blacklist ev (remote_ip (tx_msg t)) ''503'' s else s);
            (r, t1, s2) = try_next_ip ev h (local_socket msg \<noteq> None) (t, s1)
        in if local_socket msg \<noteq> None then uac_error ev h msg (r = 0) (t1, s2)
           else if r = 0 then no_reply (kept (t1, s2))
           else uac_error ev h msg False (t1, s2)
      else uac_error ev h msg False (t, s))"

definition uac_success :: "env \<Rightarrow> nat \<Rightarrow> tmsg \<Rightarrow> sip_trans \<times> tl \<Rightarrow> uac_result" where
  "uac_success ev h msg ts =
     (let tag = (case to_tag msg of None \<Rightarrow> [] | Some x \<Rightarrow> x);
          accept = (\<lambda>ts. let (t, s) = reset_timer STIMER_L (sip_timers ev STIMER_L) h
                                         (reset_all_timers (set_state TS_TERMINATED_200 ts))
                         in pass_reply (kept ((if tx_to_tag t = [] \<and> tag \<noteq> [] then t\<lparr>tx_to_tag := tag\<rparr> else t), s)))
      in case tx_state (fst ts) of
           TS_CALLING \<Rightarrow> accept ts
         | TS_PROCEEDING \<Rightarrow> accept ts
         | TS_TERMINATED_200 \<Rightarrow>
             if tag \<noteq> tx_to_tag (fst ts) then no_reply (kept ts)
             else no_reply (kept (fst ts, retransmit ev (fst ts) (snd ts)))
         | TS_ABANDONED \<Rightarrow> no_reply (kept (set_flag TR_FLAG_DISABLE_BL ts))
         | TS_TERMINATED \<Rightarrow> no_reply (kept (set_flag TR_FLAG_DISABLE_BL ts))
         | _ \<Rightarrow> no_reply (kept ts))"

definition uac_non_invite_done :: "env \<Rightarrow> nat \<Rightarrow> tmsg \<Rightarrow> sip_trans \<times> tl \<Rightarrow> uac_result" where
  "uac_non_invite_done ev h msg ts =
     (let ts1 = clear_timer STIMER_F (clear_timer STIMER_M (clear_timer STIMER_E (set_state TS_COMPLETED ts)));
          r = (if local_socket msg \<noteq> None \<and> \<not> reliable msg
               then kept (reset_timer STIMER_K (sip_timers ev STIMER_K) h ts1)
               else removed h ts1)
      in if \<not> is_cancel (fst ts1) then pass_reply r else no_reply r)"

definition uac_non_invite_final :: "env \<Rightarrow> nat \<Rightarrow> tmsg \<Rightarrow> sip_trans \<times> tl \<Rightarrow> uac_result" where
  "uac_non_invite_final ev h msg ts =
     (let late = (if local_socket msg = None
                  then if reply_code_of msg = 500 \<or> reply_code_of msg = 503
                       then no_reply (removed h ts) else no_reply (kept ts)
                  else no_reply (kept (set_flag TR_FLAG_DISABLE_BL ts)))
      in case tx_state (fst ts) of
           TS_TRYING \<Rightarrow> uac_non_invite_done ev h msg ts
         | TS_CALLING \<Rightarrow> uac_non_invite_done ev h msg ts
         | TS_PROCEEDING \<Rightarrow> uac_non_invite_done ev h msg ts
         | TS_ABANDONED \<Rightarrow> late
         | TS_TERMINATED \<Rightarrow> late
         | _ \<Rightarrow> no_reply (kept ts))"

definition uac_non_invite :: "env \<Rightarrow> nat \<Rightarrow> tmsg \<Rightarrow> sip_trans \<times> tl \<Rightarrow> uac_result" where
  "uac_non_invite ev h msg ts =
     (if reply_code_of msg = 503 then
        let (t, s) = ts;
            (r, t1, s1) = try_next_ip ev h False (t, blacklist ev (remote_ip (tx_msg t)) ''503'' s)
        in if r = 0 then no_reply (kept (t1, s1)) else uac_non_invite_final ev h msg (t1, s1)
      else uac_non_invite_final ev h msg ts)"

definition update_uac_reply :: "env \<Rightarrow> nat \<Rightarrow> tmsg \<Rightarrow> sip_trans \<times> tl \<Rightarrow> uac_result" where
  "update_uac_reply ev h msg ts =
     (if reply_code_of msg < 200 then uac_provisional ev h ts
      else if is_invite (fst ts) then
        if reply_code_of msg \<ge> 300 then uac_invite_error ev h msg ts else uac_success ev h msg ts
      else uac_non_invite ev h msg ts)"

section \<open>The server\<close>

text \<open>The return values of the server's functions: a state, or -1.\<close>

definition uas_error_reply :: "env \<Rightarrow> nat \<Rightarrow> bool \<Rightarrow> sip_trans \<times> tl \<Rightarrow> sip_trans option \<times> tl" where
  "uas_error_reply ev h rel ts =
     (let ts1 = set_state TS_COMPLETED ts;
          arm = (\<lambda>ty ts. reset_timer ty (sip_timers ev ty) h ts)
      in if is_invite (fst ts1) then
           kept (arm STIMER_H (if \<not> rel then arm STIMER_G ts1 else ts1))
         else if \<not> rel then kept (arm STIMER_J ts1)
         else removed h ts1)"

definition uas_final_reply :: "env \<Rightarrow> nat \<Rightarrow> bool \<Rightarrow> sip_trans \<times> tl \<Rightarrow> sip_trans option \<times> tl" where
  "uas_final_reply ev h rel ts =
     (let arm = (\<lambda>ty ts. reset_timer ty (sip_timers ev ty) h ts) in
      if is_invite (fst ts) then
        let ts1 = set_state TS_TERMINATED_200 ts
        in kept (arm STIMER_H (if \<not> rel then arm STIMER_G ts1 else ts1))
      else if \<not> rel then kept (arm STIMER_J (set_state TS_COMPLETED ts))
      else removed h ts)"

definition uas_provisional_reply :: "env \<Rightarrow> nat \<Rightarrow> bool \<Rightarrow> sip_trans \<times> tl \<Rightarrow> sip_trans option \<times> tl" where
  "uas_provisional_reply ev h rel ts =
     (let arm = (\<lambda>ty ts. reset_timer ty (sip_timers ev ty) h ts) in
      if last_rseq (fst ts) \<noteq> 0 then
        let ts1 = set_state TS_PROCEEDING_REL ts
        in kept (arm STIMER_H (if \<not> rel then arm STIMER_G ts1 else ts1))
      else kept (set_state TS_PROCEEDING ts))"

definition update_uas_reply :: "env \<Rightarrow> nat \<Rightarrow> int \<Rightarrow> sip_trans \<times> tl \<Rightarrow> trans_state \<times> sip_trans option \<times> tl" where
  "update_uas_reply ev h reply_code ts =
     (let t = (fst ts)\<lparr>reply_status := reply_code\<rparr>;
          rel = (case retr_socket t of Some sk \<Rightarrow> sk_reliable sk | None \<Rightarrow> False);
          r = (if reply_code \<ge> 300 then uas_error_reply ev h rel (t, snd ts)
               else if reply_code \<ge> 200 then uas_final_reply ev h rel (t, snd ts)
               else uas_provisional_reply ev h rel (t, snd ts))
      in (case fst r of None \<Rightarrow> TS_REMOVED | Some t1 \<Rightarrow> tx_state t1, r))"

text \<open>\<open>None\<close> as the first component is the return value -1.\<close>

definition update_uas_request ::
  "env \<Rightarrow> nat \<Rightarrow> tmsg \<Rightarrow> sip_trans \<times> tl \<Rightarrow> trans_state option \<times> sip_trans option \<times> tl" where
  "update_uas_request ev h msg ts =
     (let meth = msg_method msg in
      if meth \<noteq> Some ACK \<and> meth \<noteq> Some PRACK then (None, kept ts)
      else
        case tx_state (fst ts) of
          TS_PROCEEDING_REL \<Rightarrow>
            (Some TS_PROCEEDING_REL,
             kept (if meth = Some PRACK then clear_timer STIMER_H (clear_timer STIMER_G ts) else ts))
        | TS_COMPLETED \<Rightarrow>
            if meth \<noteq> Some ACK then (None, kept ts)
            else
              let ts1 = clear_timer STIMER_H (clear_timer STIMER_G (set_state TS_CONFIRMED ts))
              in if reliable msg then (Some TS_REMOVED, removed h ts1)
                 else (Some TS_CONFIRMED, kept (reset_timer STIMER_I (sip_timers ev STIMER_I) h ts1))
        | TS_CONFIRMED \<Rightarrow> (Some TS_CONFIRMED, kept ts)
        | TS_TERMINATED_200 \<Rightarrow>
            if meth \<noteq> Some ACK then (None, kept ts) else (Some TS_REMOVED, removed h ts)
        | _ \<Rightarrow> (None, kept ts))"

section \<open>Replies of the server\<close>

text \<open>
  \<^verbatim>\<open>send_reply\<close>: the Contact headers of the reply are patched before; the address of the first Via
  is used if the socket says so. The result is the return value and the state.
\<close>

definition patch_reply_contact :: "trsp_socket \<Rightarrow> sip_header \<Rightarrow> tmsg \<Rightarrow> tmsg" where
  "patch_reply_contact sk h msg =
     (case patch_contact_transport (tm_buf msg) h (sk_transport sk) of
        PC_Ok n \<Rightarrow>
          if n = [] then msg
          else
            let h' = h\<lparr>h_value := cs_set (length (tm_buf msg)) (int (length n))\<rparr>;
                rep = (\<lambda>x. if x = h then h' else x)
            in msg\<lparr>tm_buf := tm_buf msg @ n,
                   tm_msg := (tm_msg msg)\<lparr>m_hdrs := map rep (m_hdrs (tm_msg msg)),
                                          m_contacts := map rep (m_contacts (tm_msg msg))\<rparr>\<rparr>
      | _ \<Rightarrow> msg)"

definition reply_dest :: "env \<Rightarrow> trsp_socket \<Rightarrow> tmsg \<Rightarrow> via_parm \<Rightarrow> sockaddr option" where
  "reply_dest ev sk req v =
     (if sk_force_via_address sk then
        (case str2ip ev (mtxt req (vp_host v)) of
           None \<Rightarrow> None
         | Some a \<Rightarrow>
             Some (if vp_has_rport v
                   then if vp_rport_i v \<noteq> 0 then a\<lparr>sa_port := ucast (vp_rport_i v)\<rparr> else a
                   else if vp_port_i v \<noteq> 0 then a\<lparr>sa_port := ucast (vp_port_i v)\<rparr>
                   else a\<lparr>sa_port := 5060\<rparr>))
      else Some (remote_ip req))"

definition reply_not_sent :: "env \<Rightarrow> nat \<Rightarrow> trsp_socket \<Rightarrow> sip_trans \<times> tl \<Rightarrow> sip_trans option \<times> tl" where
  "reply_not_sent ev h sk ts =
     (if \<not> sk_reliable sk then kept (reset_timer STIMER_J (sip_timers ev STIMER_J) h ts)
      else removed h ts)"

definition reply_sent :: "env \<Rightarrow> nat \<Rightarrow> trsp_socket \<Rightarrow> sockaddr \<Rightarrow> string \<Rightarrow> int \<Rightarrow> string \<Rightarrow> sip_trans \<times> tl \<Rightarrow>
    sip_trans option \<times> tl" where
  "reply_sent ev h sk a buf reply_code dlg ts =
     (let t = (fst ts)\<lparr>retr_buf := Some buf, retr_addr := a, retr_socket := Some sk\<rparr>;
          (st2, ot, s) = update_uas_reply ev h reply_code (t, snd ts)
      in (map_option (\<lambda>t. if dlg \<noteq> [] \<and> dialog_id t = [] then t\<lparr>dialog_id := dlg\<rparr> else t) ot, s))"

definition send_reply_trans :: "env \<Rightarrow> nat \<Rightarrow> tmsg \<Rightarrow> string \<Rightarrow> string \<Rightarrow> sip_trans \<times> tl \<Rightarrow> int \<times> sip_trans option \<times> tl" where
  "send_reply_trans ev h msg dlg tag ts =
     (let (t, s) = ts; req = tx_msg t in
      case (local_socket req, m_via_p1 (tm_msg req)) of
        (Some sk, Some v) \<Rightarrow>
          let msg1 = (if \<not> sk_no_transport_in_contact sk
                      then fold (patch_reply_contact sk) (m_contacts (tm_msg msg)) msg else msg);
              a = reply_pass1 req v msg1 tag t;
              (buf, t_tag) = reply_pass2 req v msg1 tag a;
              t1 = t\<lparr>last_rseq := ra_last_rseq a, tx_to_tag := t_tag\<rparr>
          in (case reply_dest ev sk req v of
                None \<Rightarrow> (-1, Some t1, s)
              | Some dst \<Rightarrow>
                  let (err, s1) = send_bytes ev sk dst buf 0 s
                  in (err, if err < 0 then reply_not_sent ev h sk (t1, s1)
                           else reply_sent ev h sk dst buf (reply_code_of msg) dlg (t1, s1)))
      | _ \<Rightarrow> (-1, Some t, s))"

definition send_reply :: "env \<Rightarrow> nat \<Rightarrow> nat \<Rightarrow> tmsg \<Rightarrow> string \<Rightarrow> string \<Rightarrow> tl \<Rightarrow> int \<times> tl" where
  "send_reply ev h i msg dlg tag s =
     (case bucket_find i (tl_buckets s h) of
        None \<Rightarrow> (-1, s)
      | Some t \<Rightarrow>
          if reply_status t \<ge> 200 then (-1, s)
          else let (r, ts) = send_reply_trans ev h msg dlg tag (t, s) in (r, settle h ts))"

definition send_sl_reply :: "env \<Rightarrow> tmsg \<Rightarrow> int \<Rightarrow> string \<Rightarrow> string \<Rightarrow> string \<Rightarrow> tl \<Rightarrow> int \<times> tl" where
  "send_sl_reply ev req code reason hdrs body s =
     (let (buf, s1) = sl_reply_wr req code reason hdrs body s
      in send_bytes ev (sock_of req) (remote_ip req) buf 0 s1)"

section \<open>Received messages\<close>

definition rcvd_known_request :: "env \<Rightarrow> nat \<Rightarrow> tmsg \<Rightarrow> sip_trans \<Rightarrow> tl \<Rightarrow> tl" where
  "rcvd_known_request ev h msg t s =
     (if msg_method msg \<noteq> msg_method (tx_msg t) then
        let (r, ts) = update_uas_request ev h msg (t, s); s1 = settle h ts
        in if r \<noteq> None \<and> tx_state t = TS_TERMINATED_200 then emit (UA_Request None msg) s1 else s1
      else retransmit ev t s)"

definition rcvd_new_request :: "env \<Rightarrow> nat \<Rightarrow> tmsg \<Rightarrow> tl \<Rightarrow> tl" where
  "rcvd_new_request ev h msg s =
     (let (t, s1) = add_trans (junk_flags ev) h msg TT_UAS s
      in emit (UA_Request (Some (h, tx_id t)) msg) s1)"

definition bucket_of :: "string \<Rightarrow> string \<Rightarrow> nat" where
  "bucket_of callid n = get_trans_bucket (hash_text callid n)"

definition rcvd_prack :: "env \<Rightarrow> tmsg \<Rightarrow> sip_rack \<Rightarrow> tl \<Rightarrow> tl" where
  "rcvd_prack ev msg rack s =
     (let h = bucket_of (msg_callid msg) (mtxt msg (rk_cseq_str rack)) in
      case match_1xx_prack msg (tl_buckets s h) of
        None \<Rightarrow> s
      | Some t \<Rightarrow> settle h (snd (update_uas_request ev h msg (t, s))))"

definition rcvd_reply :: "env \<Rightarrow> nat \<Rightarrow> tmsg \<Rightarrow> tl \<Rightarrow> tl" where
  "rcvd_reply ev h msg s =
     (case match_reply msg (tl_buckets s h) of
        None \<Rightarrow> s
      | Some t \<Rightarrow>
          let (res, ts) = update_uac_reply ev h msg (t, s); s1 = settle h ts
          in if res > 0 then emit (UA_Reply (dialog_id t) msg) s1 else s1)"

definition process_rcvd_msg :: "env \<Rightarrow> tmsg \<Rightarrow> tl \<Rightarrow> tl" where
  "process_rcvd_msg ev msg s =
     (let h = bucket_of (msg_callid msg) (num_str_of msg) in
      case m_type (tm_msg msg) of
        SIP_REQUEST \<Rightarrow>
          (case match_request msg TT_UAS (tl_buckets s h) of
             Some t \<Rightarrow> rcvd_known_request ev h msg t s
           | None \<Rightarrow>
               if msg_method msg = Some ACK then s
               else if msg_method msg = Some PRACK then
                 if m_rack (tm_msg msg) = None
                 then snd (send_sl_reply ev msg 400 ''Missing valid RSeq header'' [] [] s)
                 else
                   (case p_rack (tm_msg msg) of
                      None \<Rightarrow> s
                    | Some rack \<Rightarrow> rcvd_new_request ev h msg (rcvd_prack ev msg rack s))
               else rcvd_new_request ev h msg s)
      | SIP_REPLY \<Rightarrow> rcvd_reply ev h msg s
      | SIP_UNKNOWN \<Rightarrow> s)"

definition received_msg :: "env \<Rightarrow> string \<Rightarrow> trsp_socket \<Rightarrow> sockaddr \<Rightarrow> tl \<Rightarrow> tl" where
  "received_msg ev buf sk a s =
     (case parse_sip_msg buf (length buf) (junk_method ev) of
        None \<Rightarrow> s
      | Some (m, err_msg, err) \<Rightarrow>
          let msg = \<lparr>tm_buf = buf, tm_msg = m, local_socket = Some sk, remote_ip = a\<rparr>;
              not_ack = (m_type m = SIP_REQUEST \<and> msg_method msg \<noteq> Some ACK)
          in if err = 0 then process_rcvd_msg ev msg s
             else if err = MALFORMED_SIP_VERSION \<and> not_ack \<and> m_via1 m \<noteq> None \<and> m_from m \<noteq> None \<and>
                     m_to m \<noteq> None \<and> m_cseq m \<noteq> None \<and> m_callid m \<noteq> None
             then snd (send_sl_reply ev msg 505 ''Version Not Supported'' [] [] s)
             else if err \<noteq> MALFORMED_FLINE \<and> err \<noteq> MALFORMED_SIP_VERSION \<and> not_ack
             then snd (send_sl_reply ev msg 400 err_msg [] [] s)
             else s)"

definition transport_error :: "env \<Rightarrow> string \<Rightarrow> tl \<Rightarrow> tl" where
  "transport_error ev buf s =
     (case parse_sip_msg buf (length buf) (junk_method ev) of
        None \<Rightarrow> s
      | Some (m, _, err) \<Rightarrow>
          let msg = \<lparr>tm_buf = buf, tm_msg = m, local_socket = None,
                     remote_ip = \<lparr>sa_addr = [], sa_addr_sip = [], sa_port = 0\<rparr>\<rparr>
          in if err \<noteq> 0 \<or> m_type m \<noteq> SIP_REQUEST \<or> msg_method msg = Some ACK then s
             else process_rcvd_msg ev (set_err_reply_from_req msg 503 ''Service Unavailable'') s)"

section \<open>Requests of the application\<close>

text \<open>
  \<^verbatim>\<open>send_request\<close> from the destinations on: the next hop, its resolution and strict routing come
  before and are not modelled, so that the list of destinations is an argument. \<open>None\<close> is a
  return before the message reaches a bucket.
\<close>

definition request_for_next ::
  "env \<Rightarrow> int \<Rightarrow> u32 \<Rightarrow> string \<Rightarrow> tmsg \<Rightarrow> sip_target list \<Rightarrow> tl \<Rightarrow> int \<times> (tmsg \<times> tmsg \<times> sip_target list) option \<times> tl" where
  "request_for_next ev out_interface flags dlg msg tgs s =
     (case get_next (bl_exist ev (tl_out s)) flags tgs of
        None \<Rightarrow> (0, None, emit (UA_Reply dlg (set_err_reply_from_req msg 500 ''No destination available'')) s)
      | Some (sa, next_trsp, rest) \<Rightarrow>
          (case set_trsp_socket ev next_trsp out_interface (msg\<lparr>remote_ip := sa\<rparr>) of
             None \<Rightarrow> (-1, None, s)
           | Some m1 \<Rightarrow>
               (case (if flag flags TR_FLAG_NEXT_HOP_RURI then patch_ruri_with_remote_ip m1 else Some m1) of
                  None \<Rightarrow> (-1, None, s)
                | Some m2 \<Rightarrow>
                    (case generate_and_parse_new_msg ev m2 s of
                       (None, s1) \<Rightarrow> (MALFORMED_SIP_MSG, None, s1)
                     | (Some p, s1) \<Rightarrow> (0, Some (m2, p, rest), s1)))))"

lemma request_for_next_shorter:
  "request_for_next ev oi flags dlg msg tgs s = (r, Some (m2, p, rest), s1) \<Longrightarrow> length rest < length tgs"
  by (auto simp: request_for_next_def dest: get_next_shorter split: option.splits prod.splits if_splits)

definition request_sent :: "env \<Rightarrow> nat \<Rightarrow> u32 \<Rightarrow> string \<Rightarrow> sip_target list \<Rightarrow> tmsg \<Rightarrow> sip_trans \<times> tl \<Rightarrow> sip_trans \<times> tl" where
  "request_sent ev h flags dlg rest p ts =
     (let (t, s) = (if msg_method p \<noteq> Some ACK then
                      let ts1 = ((fst ts)\<lparr>tx_flags := flags, targets := Some rest\<rparr>, snd ts)
                      in if has_next rest then reset_timer STIMER_M (sip_timers ev STIMER_M) h ts1 else ts1
                    else ts)
      in (if dlg \<noteq> [] \<and> dialog_id t = [] then t\<lparr>dialog_id := dlg\<rparr> else t, s))"

text \<open>The result is the return value, the ticket and the state.\<close>

function send_to_targets ::
  "env \<Rightarrow> int \<Rightarrow> u32 \<Rightarrow> string \<Rightarrow> tmsg \<Rightarrow> sip_target list \<Rightarrow> tl \<Rightarrow> int \<times> (nat \<times> nat) option \<times> tl" where
  "send_to_targets ev out_interface flags dlg msg tgs s =
     (case request_for_next ev out_interface flags dlg msg tgs s of
        (r, None, s1) \<Rightarrow> (r, None, s1)
      | (r, Some (m2, p, rest), s1) \<Rightarrow>
          let h = bucket_of (msg_callid p) (num_str_of p);
              (err, s2) = send_msg ev p flags s1
          in if err < 0
             then send_to_targets ev out_interface flags dlg m2 rest (blacklist ev (remote_ip p) ''503'' s2)
             else
               let (err2, ot, s3) = update_uac_request ev h p s2 in
               if err2 < 0 then (err2, None, s3)
               else
                 (case ot of
                    None \<Rightarrow> (err2, None, s3)
                  | Some t \<Rightarrow>
                      let (t1, s4) = request_sent ev h flags dlg rest p (t, s3)
                      in (err2, Some (h, tx_id t1), bucket_store h t1 s4)))"
  by pat_completeness auto
termination
  by (relation "measure (\<lambda>(ev, oi, flags, dlg, msg, tgs, s). length tgs)")
    (auto dest: request_for_next_shorter [OF sym])

declare send_to_targets.simps [simp del]

definition send_request ::
  "env \<Rightarrow> int \<Rightarrow> u32 \<Rightarrow> string \<Rightarrow> tmsg \<Rightarrow> sip_target list \<Rightarrow> tl \<Rightarrow> int \<times> (nat \<times> nat) option \<times> tl" where
  "send_request ev out_interface flags dlg msg tgs s =
     (if msg_ruri msg = [] \<or> mtxt msg (rq_method_str (rq_of msg)) = [] then (-1, None, s)
      else send_to_targets ev out_interface flags dlg msg tgs s)"

end
