(* ===== verification/Req_Method.thy ===== *)
theory Req_Method
  imports Trans_Layer
begin

text \<open>
  A client transaction chooses its timers by the method of its request, and the request is
  generated anew for every destination. The lemmas of this theory show that it stays an INVITE,
  or stays another request: what the parser reads as method is the text before the first blank,
  the generated request starts with that text, and a branch written over the old one does not
  reach the first eight characters.
\<close>

section \<open>The method is the text before the first blank\<close>

text \<open>Behind the method nothing changes it any more.\<close>

definition fl_after :: "cstring \<Rightarrow> sip_method \<Rightarrow> fl_fsm \<Rightarrow> bool" where
  "fl_after x mt s \<longleftrightarrow> st s \<noteq> St FL_METH \<and> (st s = St FL_RURI \<or> fl_is_request s) \<and>
     (\<exists>rq. m_request (fl_msg s) = Some rq \<and> rq_method_str rq = x \<and> rq_method rq = mt)"

lemma fl_after_body:
  assumes "fl_after x mt s"
  shows "case fl_body buf c s of Next k s' \<Rightarrow> fl_after x mt s'
    | Ret c' s' r \<Rightarrow> \<exists>rq. m_request (fl_msg s') = Some rq \<and> rq_method_str rq = x \<and> rq_method rq = mt"
proof (cases "st s")
  case (St y)
  with assms show ?thesis
    by (cases y)
      (auto simp: fl_after_def fl_body_def case_SIPVER_def fl_sipver4_def fl_version_def
        fl_sipver_dig2_def fl_ruri_def fl_blank_def case_STCODE_def fl_to_eol_def
        fl_eol_def enter_CR_def enter_LF_def Let_def
        split: out.splits)
qed (use assms in \<open>auto simp: fl_after_def fl_body_def case_ST_CR_def fl_line_end_def Let_def\<close>)

lemma first_line_method:
  assumes "buf = mt @ SP # rest" and "list_all IS_TOKEN mt" and "length mt < e"
    and "parse_first_line buf new_msg 0 e = Out c m r"
  shows "\<exists>rq. m_request m = Some rq \<and> rq_method_str rq = cs_set 0 (int (length mt)) \<and> rq_method rq = method_of mt"
proof -
  let ?x = "cs_set 0 (int (length mt))"
  obtain s where s: "m = fl_msg s" "fl_run buf e 0 (fl_init new_msg 0) = Out c s r"
    using assms(4) by (cases "fl_run buf e 0 (fl_init new_msg 0)") (auto simp: parse_first_line_def)
  obtain z where z: "fl_run buf e 0 (fl_init new_msg 0) = fl_run buf e (length mt) ((fl_init new_msg 0)\<lparr>st := z\<rparr>)"
    "in_method ((fl_init new_msg 0)\<lparr>st := z\<rparr>)"
    using fl_run_token [of buf "[]" mt "SP # rest" e "fl_init new_msg 0"] assms(1-3)
    by (auto simp: in_method_def fl_init_def)
  have at: "buf ! length mt = SP" "c2stlstr buf ?x = mt" using assms(1) by (simp_all add: c2stlstr_def)
  obtain s1 where s1: "fl_run buf e (length mt) ((fl_init new_msg 0)\<lparr>st := z\<rparr>) = fl_run buf e (length mt + 1) s1"
    "fl_after ?x (method_of mt) s1"
    using fl_run_method_end [OF z(2) at(1) assms(3), of "method_of mt"] assms(2) at(2)
    by (auto simp: fl_init_def parse_method_def fl_after_def)
  have "\<exists>rq. m_request (fl_msg s) = Some rq \<and> rq_method_str rq = ?x \<and> rq_method rq = method_of mt"
  proof (rule scan_keeps [where I = "\<lambda>_. fl_after ?x (method_of mt)", OF fl_after_body _ s1(2)])
    show "fl_run buf e (length mt + 1) s1 = Out c s r" using s z s1 by simp
  qed (auto simp: fl_after_def)
  with s(1) show ?thesis by simp
qed

section \<open>Requests of a transaction\<close>

lemma accepted_first_line:
  assumes "parse_sip_msg buf len junk = Some (m, err, 0)"
  shows "\<exists>c m0. parse_first_line buf new_msg 0 len = Out c m0 0 \<and> m_request m = m_request m0"
proof -
  obtain c m0 r where f: "parse_first_line buf new_msg 0 len = Out c m0 r" "c \<le> len" "fl_slices len m0"
    "fl_frame m0"
    using first_line_total [of buf len] by blast
  obtain c1 m1 r1 where h: "parse_msg_headers buf m0 c len = Out c1 m1 r1" "c1 \<le> len"
    "r1 = 0 \<longrightarrow> sound len m1" "m_request m1 = m_request m0"
    using headers_sound [OF f(2-4), of buf] by blast
  have rest: "r = 0" "parse_msg_rest buf junk m0 c len = Some (m, err, 0)"
    using assms f(1) by (auto simp: parse_sip_msg_def split: out.splits if_splits)
  then have "r1 = 0" using h by (auto simp: parse_msg_rest_def split: if_splits)
  with rest(2) obtain m2 where m2: "set_body buf len c1 m1 = Some (m2, None)"
    "run_steps (msg_parts buf junk) m2 = Some (m, err, 0)"
    using h(1) by (auto simp: parse_msg_rest_def split: option.splits)
  have "sound len m2"
    using set_body_ok [of len m1 c1 buf] h \<open>r1 = 0\<close> m2(1) by auto
  with run_steps_total [OF msg_parts_ok this, of buf junk] m2(2) have "m_request m = m_request m2"
    using hdr_part_cong(2) [of m m2] by auto
  moreover have "m_request m2 = m_request m1"
    using set_body_done [OF m2(1)] hdr_part_cong(2) by blast
  ultimately show ?thesis using f(1) h(4) rest(1) by auto
qed

lemma request_method:
  assumes "buf = mt @ SP # rest" and "list_all IS_TOKEN mt"
    and "parse_sip_msg buf (length buf) junk = Some (m, err, 0)"
  shows "\<exists>rq. m_request m = Some rq \<and> rq_method_str rq = cs_set 0 (int (length mt)) \<and> rq_method rq = method_of mt"
proof -
  obtain c m0 where "parse_first_line buf new_msg 0 (length buf) = Out c m0 0" "m_request m = m_request m0"
    using accepted_first_line [OF assms(3)] by blast
  with first_line_method [OF assms(1,2) _ this(1)] assms(1) show ?thesis by simp
qed

text \<open>
  A request whose method text stands at the start of its buffer, and which is an INVITE exactly if
  this text says so.
\<close>

definition invite_text :: "tmsg \<Rightarrow> bool" where
  "invite_text m \<longleftrightarrow>
     (\<exists>rq L. m_request (tm_msg m) = Some rq \<and> rq_method_str rq = cs_set 0 (int L) \<and> L \<le> length (tm_buf m) \<and>
        list_all IS_TOKEN (take L (tm_buf m)) \<and> (rq_method rq = INVITE \<longleftrightarrow> take L (tm_buf m) = ''INVITE''))"

lemma method_of_invite: "method_of t = INVITE \<longleftrightarrow> t = ''INVITE''"
  using method_of_strict [of t] method_of_name [of INVITE] by (auto simp: strict_method_def)

lemma generated_invite_text:
  assumes "buf = mt @ SP # rest" and "list_all IS_TOKEN mt"
    and "parse_sip_msg buf (length buf) junk = Some (m, err, 0)"
  shows "invite_text \<lparr>tm_buf = buf, tm_msg = m, local_socket = sk, remote_ip = a\<rparr>"
    "msg_method \<lparr>tm_buf = buf, tm_msg = m, local_socket = sk, remote_ip = a\<rparr> = Some (method_of mt)"
  using request_method [OF assms] assms(1,2)
  by (auto simp: invite_text_def msg_method_def method_of_invite intro!: exI [of _ "length mt"])

section \<open>Every change of a request keeps its kind\<close>

definition same_kind :: "tmsg \<Rightarrow> tmsg \<Rightarrow> bool" where
  "same_kind m m' \<longleftrightarrow> invite_text m' \<and> (msg_method m' = Some INVITE \<longleftrightarrow> msg_method m = Some INVITE)"

lemma same_kind_refl: "invite_text m \<Longrightarrow> same_kind m m"
  by (simp add: same_kind_def)

lemma same_kind_trans: "same_kind m m' \<Longrightarrow> same_kind m' m'' \<Longrightarrow> same_kind m m''"
  by (simp add: same_kind_def)

lemma invite_text_cong:
  "tm_buf m' = tm_buf m \<Longrightarrow> m_request (tm_msg m') = m_request (tm_msg m) \<Longrightarrow> invite_text m \<Longrightarrow> same_kind m m'"
  by (simp add: same_kind_def invite_text_def msg_method_def)

lemma set_trsp_socket_kind:
  "invite_text m \<Longrightarrow> set_trsp_socket ev tp oi m = Some m' \<Longrightarrow> same_kind m m'"
  by (rule invite_text_cong) (auto simp: set_trsp_socket_def Let_def split: if_splits option.splits)

lemma patch_ruri_shape:
  assumes "patch_ruri_with_remote_ip m = Some m'"
  obtains rq n x where "m_request (tm_msg m) = Some rq"
    "m' = m\<lparr>tm_buf := tm_buf m @ n, tm_msg := (tm_msg m)\<lparr>m_request := Some (rq\<lparr>ruri_str := x\<rparr>)\<rparr>\<rparr>"
  using assms unfolding patch_ruri_with_remote_ip_def Let_def
  by (fastforce split: option.splits out.splits if_split_asm)

lemma patch_ruri_kind:
  assumes "invite_text m" and "patch_ruri_with_remote_ip m = Some m'"
  shows "same_kind m m'"
  using assms(2)
proof (rule patch_ruri_shape)
  fix rq n x assume "m_request (tm_msg m) = Some rq"
    "m' = m\<lparr>tm_buf := tm_buf m @ n, tm_msg := (tm_msg m)\<lparr>m_request := Some (rq\<lparr>ruri_str := x\<rparr>)\<rparr>\<rparr>"
  with assms(1) show ?thesis by (auto simp: same_kind_def invite_text_def msg_method_def)
qed

lemma generate_kind:
  assumes "invite_text m" and "generate_and_parse_new_msg ev m s = (Some p, s')"
  shows "same_kind m p"
proof -
  obtain rq L where m: "m_request (tm_msg m) = Some rq" "rq_method_str rq = cs_set 0 (int L)"
    "list_all IS_TOKEN (take L (tm_buf m))" "rq_method rq = INVITE \<longleftrightarrow> take L (tm_buf m) = ''INVITE''"
    using assms(1) by (auto simp: invite_text_def)
  obtain branch cts q err where
    q: "p = \<lparr>tm_buf = new_msg_wr m branch cts, tm_msg = q, local_socket = local_socket m, remote_ip = remote_ip m\<rparr>"
      "parse_sip_msg (new_msg_wr m branch cts) (length (new_msg_wr m branch cts)) (junk_method ev) = Some (q, err, 0)"
    using assms(2) by (auto simp: generate_and_parse_new_msg_def Let_def split: option.splits prod.splits if_splits)
  obtain rest where "new_msg_wr m branch cts = take L (tm_buf m) @ SP # rest"
    using m(1,2) by (simp add: new_msg_wr_def request_line_wr_def rq_of_def mtxt_def c2stlstr_def)
  from generated_invite_text [OF this m(3) q(2)] q(1) m(1,4) show ?thesis
    by (auto simp: same_kind_def msg_method_def method_of_invite)
qed

lemma tag_lookup_token: "k < 64 \<Longrightarrow> IS_TOKEN (tag_lookup ! k)"
proof -
  have "list_all IS_TOKEN tag_lookup" by code_simp
  moreover have "length tag_lookup = 64" by (simp add: tag_lookup_def)
  ultimately show "k < 64 \<Longrightarrow> IS_TOKEN (tag_lookup ! k)" by (simp add: list_all_length)
qed

lemma compute_tag_token: "list_all IS_TOKEN (compute_tag hl hh)" "length (compute_tag hl hh) = 8"
proof -
  have "unat (x AND 0x3F) < 64" for x :: u32
  proof -
    have "unat (x AND 0x3F) \<le> unat (0x3F :: u32)" by (rule word_le_nat_alt [THEN iffD1]) (rule word_and_le1)
    then show ?thesis by simp
  qed
  moreover have "unat (y AND (x AND 0x3F)) < 64" for x y :: u32
    using calculation [of "y AND x"] by (simp add: and.assoc)
  ultimately show "list_all IS_TOKEN (compute_tag hl hh)" "length (compute_tag hl hh) = 8"
    by (simp_all add: compute_tag_def Let_def tag_lookup_token)
qed

lemma same_kind_buf:
  assumes "invite_text m"
    and "\<And>L. L \<le> length (tm_buf m) \<Longrightarrow> list_all IS_TOKEN (take L (tm_buf m)) \<Longrightarrow>
      L \<le> length b \<and> list_all IS_TOKEN (take L b) \<and> (take L b = ''INVITE'' \<longleftrightarrow> take L (tm_buf m) = ''INVITE'')"
  shows "same_kind m (m\<lparr>tm_buf := b\<rparr>)"
  using assms by (fastforce simp: same_kind_def invite_text_def msg_method_def)

lemma invite_length: "length ''INVITE'' = 6"
  by simp

lemma patch_branch_kind:
  assumes "invite_text m"
  shows "same_kind m (fst (patch_branch m s))"
proof -
  obtain b pos where p: "fst (patch_branch m s) =
      m\<lparr>tm_buf := take pos (tm_buf m) @ b @ drop (pos + length b) (tm_buf m)\<rparr>"
    "7 \<le> pos" "list_all IS_TOKEN b"
  proof
    show "fst (patch_branch m s) = m\<lparr>tm_buf :=
        take ((case m_via_p1 (tm_msg m) of None \<Rightarrow> 0 | Some v \<Rightarrow> cs_s (vp_branch v)) + 7) (tm_buf m) @
        fst (compute_branch (hdr_text m (m_callid (tm_msg m))) (hdr_text m (m_cseq (tm_msg m))) s) @
        drop ((case m_via_p1 (tm_msg m) of None \<Rightarrow> 0 | Some v \<Rightarrow> cs_s (vp_branch v)) + 7 +
          length (fst (compute_branch (hdr_text m (m_callid (tm_msg m))) (hdr_text m (m_cseq (tm_msg m))) s)))
          (tm_buf m)\<rparr>"
      by (simp add: patch_branch_def Let_def split_beta)
  qed (simp_all add: compute_branch_def Let_def split_beta compute_tag_token)
  let ?buf = "take pos (tm_buf m) @ b @ drop (pos + length b) (tm_buf m)"
  show ?thesis unfolding p(1)
  proof (rule same_kind_buf [OF assms], intro conjI)
    fix L assume L: "L \<le> length (tm_buf m)" "list_all IS_TOKEN (take L (tm_buf m))"
    then show len: "L \<le> length ?buf" by simp
    have "IS_TOKEN (tm_buf m ! i)" if "i < L" for i
      using that L by (auto simp: list_all_length)
    then have "IS_TOKEN (?buf ! i)" if "i < L" for i
      using that L(1) p(3) by (auto simp: list_all_length nth_append min_def)
    then show "list_all IS_TOKEN (take L ?buf)"
      using len unfolding list_all_length by (metis length_take min.absorb2 nth_take)
    show "take L ?buf = ''INVITE'' \<longleftrightarrow> take L (tm_buf m) = ''INVITE''"
    proof (cases "L \<le> 7")
      case True
      with p(2) L(1) have "take L ?buf = take L (tm_buf m)" by (simp add: min_def)
      then show ?thesis by simp
    next
      case False
      then have "length (take L ?buf) \<noteq> 6" "length (take L (tm_buf m)) \<noteq> 6" using len L(1) by simp_all
      then have "take L ?buf \<noteq> ''INVITE''" "take L (tm_buf m) \<noteq> ''INVITE''" by (metis invite_length)+
      then show ?thesis by blast
    qed
  qed
qed

end
