(* ===== verification/Trans_Inv.thy ===== *)
theory Trans_Inv
  imports Req_Method
begin

text \<open>
  The invariant of the transaction layer. In every state that received messages, expired timers,
  transport errors and calls of the application can lead to, each timer slot of a transaction
  holds a timer of the kind that its state asks for, every client transaction that still waits
  for something has a timer that will end the waiting, and the transactions of a bucket are
  told apart by their addresses.
\<close>

section \<open>Slots\<close>

lemma with_count_type [simp]: "take_bit 16 ty = ty \<Longrightarrow> with_count n ty AND 0xFFFF = ty"
  by (simp add: with_count_def and_0xFFFF take_bit_or take_bit_push_bit)

lemma fetch_with_count [simp]: "take_bit 16 ty = ty \<Longrightarrow> fetch_timer (with_count n ty) = fetch_timer ty"
  by (metis fetch_timer_and with_count_type)

section \<open>The invariant of a transaction\<close>

text \<open>Every timer knows its slot, its transaction and its bucket, which is one of the table.\<close>

definition own :: "nat \<Rightarrow> nat \<Rightarrow> (nat \<Rightarrow> trans_timer option) \<Rightarrow> bool" where
  "own h i f \<longleftrightarrow> h < H_TABLE_ENTRIES \<and>
     (\<forall>k tm. f k = Some tm \<longrightarrow> tt_trans tm = i \<and> tt_bucket tm = h \<and> fetch_timer (tt_type tm) = Some k)"

lemma own_upd [simp]:
  "own h i f \<Longrightarrow> own h i (f(k := None))"
  "own h i f \<Longrightarrow>
     own h i (f(k \<mapsto> tm)) \<longleftrightarrow> tt_trans tm = i \<and> tt_bucket tm = h \<and> fetch_timer (tt_type tm) = Some k"
  by (auto simp: own_def)

lemma own_empty [simp]: "own h i (\<lambda>_. None) \<longleftrightarrow> h < H_TABLE_ENTRIES"
  by (simp add: own_def)

definition ty_at :: "(nat \<Rightarrow> trans_timer option) \<Rightarrow> nat \<Rightarrow> u32 option" where
  "ty_at f k = map_option (\<lambda>tm. tt_type tm AND 0xFFFF) (f k)"

lemma ty_at_upd [simp]:
  "ty_at (f(k := None)) j = (if j = k then None else ty_at f j)"
  "ty_at (f(k \<mapsto> tm)) j = (if j = k then Some (tt_type tm AND 0xFFFF) else ty_at f j)"
  "ty_at (\<lambda>_. None) j = None"
  by (simp_all add: ty_at_def)

lemma ty_at_None: "ty_at f k = None \<longleftrightarrow> f k = None"
  by (simp add: ty_at_def)

text \<open>
  The kinds of timers that the three slots hold, for a client transaction of an INVITE or of
  another request, by its state. The state \<open>TS_NONE\<close> belongs to a new transaction for the next
  destination until its request is sent.
\<close>

fun uac_slots :: "bool \<Rightarrow> trans_state \<Rightarrow> u32 option \<Rightarrow> u32 option \<Rightarrow> u32 option \<Rightarrow> bool" where
  "uac_slots ivt TS_NONE a b c \<longleftrightarrow>
     a = None \<and> (b = None \<or> b = Some (if ivt then STIMER_B else STIMER_F)) \<and> c = None"
| "uac_slots ivt TS_CALLING a b c \<longleftrightarrow>
     ivt \<and> (a = None \<or> a = Some STIMER_A) \<and> b = Some STIMER_B \<and> (c = None \<or> c = Some STIMER_M)"
| "uac_slots ivt TS_TRYING a b c \<longleftrightarrow>
     \<not> ivt \<and> (a = None \<or> a = Some STIMER_E) \<and> b = Some STIMER_F \<and> (c = None \<or> c = Some STIMER_M)"
| "uac_slots ivt TS_PROCEEDING a b c \<longleftrightarrow>
     (if ivt then a = None \<and> b = None \<and> c = Some STIMER_C
      else (a = None \<or> a = Some STIMER_E) \<and> b = Some STIMER_F \<and> (c = None \<or> c = Some STIMER_M))"
| "uac_slots ivt TS_COMPLETED a b c \<longleftrightarrow>
     a = None \<and> b = None \<and> (if ivt then c = Some STIMER_D else c = None \<or> c = Some STIMER_K)"
| "uac_slots ivt TS_TERMINATED_200 a b c \<longleftrightarrow> ivt \<and> a = None \<and> b = None \<and> c = Some STIMER_L"
| "uac_slots ivt TS_TERMINATED a b c \<longleftrightarrow>
     a = None \<and> b = None \<and> (c = Some STIMER_BL \<or> \<not> ivt \<and> c = None)"
| "uac_slots ivt TS_ABANDONED a b c \<longleftrightarrow>
     a = None \<and>
     (if ivt then b = Some STIMER_B \<and> c = None \<or> b = None \<and> c = Some STIMER_BL
      else (b = None \<or> b = Some STIMER_F) \<and> (c = None \<or> c = Some STIMER_BL))"
| "uac_slots ivt _ a b c \<longleftrightarrow> False"

text \<open>The same for a server transaction, with the status of the last reply.\<close>

definition uas_slot0 :: "u32 option \<Rightarrow> bool" where
  "uas_slot0 a \<longleftrightarrow> a = None \<or> a = Some STIMER_G \<or> a = Some STIMER_J"

definition uas_slot1 :: "u32 option \<Rightarrow> bool" where
  "uas_slot1 b \<longleftrightarrow> b = None \<or> b = Some STIMER_H"

definition uas_slot2 :: "u32 option \<Rightarrow> bool" where
  "uas_slot2 c \<longleftrightarrow> c = None \<or> c = Some STIMER_I"

lemma uas_slot_simps [simp]:
  "uas_slot0 None" "uas_slot0 (Some x) \<longleftrightarrow> x = STIMER_G \<or> x = STIMER_J"
  "uas_slot1 None" "uas_slot1 (Some x) \<longleftrightarrow> x = STIMER_H" "uas_slot2 None" "uas_slot2 (Some x) \<longleftrightarrow> x = STIMER_I"
  by (simp_all add: uas_slot0_def uas_slot1_def uas_slot2_def)

fun uas_due :: "bool \<Rightarrow> trans_state \<Rightarrow> int \<Rightarrow> u32 option \<Rightarrow> u32 option \<Rightarrow> u32 option \<Rightarrow> bool" where
  "uas_due ivt TS_TRYING code a b c \<longleftrightarrow> True"
| "uas_due ivt TS_PROCEEDING code a b c \<longleftrightarrow> True"
| "uas_due ivt TS_PROCEEDING_REL code a b c \<longleftrightarrow> True"
| "uas_due ivt TS_COMPLETED code a b c \<longleftrightarrow>
     code \<ge> 200 \<and> (if ivt then b = Some STIMER_H else a = Some STIMER_J)"
| "uas_due ivt TS_CONFIRMED code a b c \<longleftrightarrow> code \<ge> 200 \<and> c = Some STIMER_I"
| "uas_due ivt TS_TERMINATED_200 code a b c \<longleftrightarrow> code \<ge> 200 \<and> ivt \<and> b = Some STIMER_H"
| "uas_due ivt _ code a b c \<longleftrightarrow> False"

definition trans_ok :: "nat \<Rightarrow> sip_trans \<Rightarrow> bool" where
  "trans_ok h t \<longleftrightarrow> own h (tx_id t) (timers t) \<and>
     (case tx_type t of
        TT_UAC \<Rightarrow> invite_text (tx_msg t) \<and>
          uac_slots (is_invite t) (tx_state t) (ty_at (timers t) 0) (ty_at (timers t) 1) (ty_at (timers t) 2)
      | TT_UAS \<Rightarrow>
          uas_slot0 (ty_at (timers t) 0) \<and> uas_slot1 (ty_at (timers t) 1) \<and> uas_slot2 (ty_at (timers t) 2) \<and>
          uas_due (is_invite t) (tx_state t) (reply_status t)
            (ty_at (timers t) 0) (ty_at (timers t) 1) (ty_at (timers t) 2)
      | TT_NONE \<Rightarrow> False)"

section \<open>The invariant of the table\<close>

abbreviation ids :: "nat \<Rightarrow> tl \<Rightarrow> nat set" where
  "ids h s \<equiv> tx_id ` set (tl_buckets s h)"

definition layer_ok :: "tl \<Rightarrow> bool" where
  "layer_ok s \<longleftrightarrow>
     (\<forall>h. distinct (map tx_id (tl_buckets s h)) \<and>
          (\<forall>t \<in> set (tl_buckets s h). trans_ok h t \<and> tx_id t < tl_fresh s))"

text \<open>What a handler may rely on about its copy of a transaction, and what it must leave behind.\<close>

definition copy_ok :: "nat \<Rightarrow> sip_trans \<Rightarrow> tl \<Rightarrow> bool" where
  "copy_ok h t s \<longleftrightarrow> trans_ok h t \<and> tx_id t \<in> ids h s"

definition leaves :: "nat \<Rightarrow> sip_trans option \<times> tl \<Rightarrow> bool" where
  "leaves h r \<longleftrightarrow> layer_ok (snd r) \<and> (\<forall>t. fst r = Some t \<longrightarrow> copy_ok h t (snd r))"

text \<open>A step that leaves the table alone.\<close>

definition same_table :: "tl \<Rightarrow> tl \<Rightarrow> bool" where
  "same_table s s' \<longleftrightarrow> tl_buckets s' = tl_buckets s \<and> tl_fresh s \<le> tl_fresh s'"

lemma layer_ok_same: "layer_ok s \<Longrightarrow> same_table s s' \<Longrightarrow> layer_ok s'"
  by (fastforce simp: layer_ok_def same_table_def)

lemma copy_ok_same: "copy_ok h t s \<Longrightarrow> same_table s s' \<Longrightarrow> copy_ok h t s'"
  by (simp add: copy_ok_def same_table_def)

lemma emit_post_table [simp]:
  "tl_buckets (emit x s) = tl_buckets s" "tl_fresh (emit x s) = tl_fresh s"
  "tl_buckets (post r s) = tl_buckets s" "tl_fresh (post r s) = tl_fresh s"
  by (simp_all add: emit_def post_def)

lemma layer_ok_emit [simp]: "layer_ok (emit x s) = layer_ok s"
  by (simp add: layer_ok_def)

lemma copy_ok_emit [simp]: "copy_ok h t (emit x s) = copy_ok h t s"
  by (simp add: copy_ok_def)

lemma store_ids [simp]: "map tx_id (tl_buckets (bucket_store h' t s) h) = map tx_id (tl_buckets s h)"
  by (simp add: bucket_store_def)

lemma ids_store [simp]: "ids h (bucket_store h' t s) = ids h s"
  by (metis store_ids set_map)

lemma layer_ok_store:
  assumes "layer_ok s" and "copy_ok h t s"
  shows "layer_ok (bucket_store h t s)"
proof -
  have "tx_id t < tl_fresh s" using assms by (auto simp: layer_ok_def copy_ok_def)
  then have "trans_ok h' x \<and> tx_id x < tl_fresh s" if "x \<in> set (tl_buckets (bucket_store h t s) h')" for h' x
    using assms that by (auto simp: layer_ok_def copy_ok_def bucket_store_def split: if_splits)
  moreover have "tl_fresh (bucket_store h t s) = tl_fresh s" by (simp add: bucket_store_def)
  ultimately show ?thesis using assms(1) by (simp add: layer_ok_def)
qed

lemma copy_ok_store [simp]: "copy_ok h t (bucket_store h' t' s) = copy_ok h t s"
  by (simp add: copy_ok_def)

lemma layer_ok_remove:
  assumes "layer_ok s"
  shows "layer_ok (bucket_remove h t s)"
  using assms by (auto simp: layer_ok_def bucket_remove_def split_beta Let_def distinct_map_filter)

lemma layer_ok_append:
  assumes "layer_ok s" and "trans_ok h t" and "tx_id t \<notin> ids h s" and "tx_id t < tl_fresh s"
  shows "layer_ok (bucket_append h t s)" "copy_ok h t (bucket_append h t s)"
  using assms by (auto simp: layer_ok_def bucket_append_def copy_ok_def)

lemma layer_ok_found: "layer_ok s \<Longrightarrow> t \<in> set (tl_buckets s h) \<Longrightarrow> copy_ok h t s"
  by (auto simp: layer_ok_def copy_ok_def)

lemma leaves_kept: "layer_ok (snd ts) \<Longrightarrow> copy_ok h (fst ts) (snd ts) \<Longrightarrow> leaves h (kept ts)"
  by (simp add: leaves_def kept_def)

lemma leaves_removed: "layer_ok (snd ts) \<Longrightarrow> leaves h (removed h ts)"
  by (simp add: leaves_def removed_def layer_ok_remove)

lemma settle_ok: "leaves h r \<Longrightarrow> layer_ok (settle h r)"
  by (auto simp: leaves_def settle_def layer_ok_store split: option.split)

lemma keptI:
  assumes "layer_ok s" and "copy_ok h t s" and same: "same_table s (snd ts)"
    and "tx_id (fst ts) = tx_id t" and "trans_ok h (fst ts)"
  shows "leaves h (kept ts)"
  using layer_ok_same [OF assms(1) same] assms(2,4,5) same
  by (intro leaves_kept) (auto simp: copy_ok_def same_table_def)

lemma keptI':
  assumes "layer_ok s" and "tx_id (fst ts) \<in> ids h s" and "same_table s (snd ts)" and "trans_ok h (fst ts)"
  shows "leaves h (kept ts)"
  using layer_ok_same [OF assms(1,3)] assms(2-4)
  by (intro leaves_kept) (auto simp: copy_ok_def same_table_def)

lemma removedI: "layer_ok s \<Longrightarrow> same_table s (snd ts) \<Longrightarrow> leaves h (removed h ts)"
  using layer_ok_same leaves_removed by blast

section \<open>Timers\<close>

lemma send_table [simp]:
  "tl_buckets (snd (send_msg ev m fl s)) = tl_buckets s" "tl_fresh (snd (send_msg ev m fl s)) = tl_fresh s"
  "tl_buckets (snd (send_bytes ev sk a b fl s)) = tl_buckets s"
  "tl_fresh (snd (send_bytes ev sk a b fl s)) = tl_fresh s"
  "tl_buckets (retransmit ev t s) = tl_buckets s" "tl_fresh (retransmit ev t s) = tl_fresh s"
  "tl_buckets (blacklist ev a r s) = tl_buckets s" "tl_fresh (blacklist ev a r s) = tl_fresh s"
  "tl_buckets (send_non_200_ack ev m t s) = tl_buckets s" "tl_fresh (send_non_200_ack ev m t s) = tl_fresh s"
  by (simp_all add: send_msg_def send_bytes_def retransmit_def blacklist_def send_non_200_ack_def Let_def
      split: option.split)

lemma set_fields [simp]:
  "fst (set_state x ts) = (fst ts)\<lparr>tx_state := x\<rparr>" "snd (set_state x ts) = snd ts"
  "fst (set_flag y ts) = (fst ts)\<lparr>tx_flags := tx_flags (fst ts) OR y\<rparr>" "snd (set_flag y ts) = snd ts"
  by (simp_all add: set_state_def set_flag_def)

lemma is_invite_upd [simp]:
  "is_invite (t\<lparr>timers := f\<rparr>) = is_invite t" "is_invite (t\<lparr>tx_state := x\<rparr>) = is_invite t"
  "is_invite (t\<lparr>tx_flags := fl\<rparr>) = is_invite t" "is_invite (t\<lparr>reply_status := r\<rparr>) = is_invite t"
  "is_invite (t\<lparr>targets := tg\<rparr>) = is_invite t" "is_invite (t\<lparr>canceled := cc\<rparr>) = is_invite t"
  "is_invite (t\<lparr>tx_to_tag := tt\<rparr>) = is_invite t" "is_invite (t\<lparr>dialog_id := d\<rparr>) = is_invite t"
  "is_invite (t\<lparr>last_rseq := l\<rparr>) = is_invite t" "is_invite (t\<lparr>retr_buf := b\<rparr>) = is_invite t"
  "is_invite (t\<lparr>retr_addr := a\<rparr>) = is_invite t" "is_invite (t\<lparr>retr_socket := sk\<rparr>) = is_invite t"
  by (simp_all add: is_invite_def)

lemma trans_ok_frame [simp]:
  "trans_ok h (t\<lparr>tx_flags := fl\<rparr>) = trans_ok h t" "trans_ok h (t\<lparr>targets := tg\<rparr>) = trans_ok h t"
  "trans_ok h (t\<lparr>canceled := cc\<rparr>) = trans_ok h t" "trans_ok h (t\<lparr>tx_to_tag := tt\<rparr>) = trans_ok h t"
  "trans_ok h (t\<lparr>dialog_id := d\<rparr>) = trans_ok h t" "trans_ok h (t\<lparr>last_rseq := l\<rparr>) = trans_ok h t"
  "trans_ok h (t\<lparr>retr_buf := b\<rparr>) = trans_ok h t" "trans_ok h (t\<lparr>retr_addr := a\<rparr>) = trans_ok h t"
  "trans_ok h (t\<lparr>retr_socket := sk\<rparr>) = trans_ok h t"
  by (cases "tx_type t"; simp add: trans_ok_def)+

text \<open>An armed timer and the state of its transaction.\<close>

lemma armed:
  assumes "trans_ok h t" and "get_timer (tt_type tm AND 0xFFFF) t = Some tm" and "fetch_timer (tt_type tm) = Some k"
  shows "ty_at (timers t) k = Some (tt_type tm AND 0xFFFF)"
  using assms by (simp add: get_timer_def ty_at_def)

lemma copy_trans_ok: "copy_ok h t s \<Longrightarrow> trans_ok h t"
  by (simp add: copy_ok_def)

lemma expired_A_ok:
  assumes "layer_ok s" and "copy_ok h t s" and "ty_at (timers t) 0 = Some STIMER_A"
  shows "leaves h (expired_A ev h n (t, s))"
  unfolding expired_A_def Let_def split_beta
  by (rule keptI [OF assms(1,2)]; insert copy_trans_ok [OF assms(2)] assms(3); cases "tx_type t"; cases "tx_state t")
    (simp_all add: same_table_def trans_ok_def split: if_split_asm)

lemma expired_end_ok: "layer_ok s \<Longrightarrow> leaves h (expired_end h ty (t, s))"
  unfolding expired_end_def by (erule removedI) (simp add: same_table_def)

lemma leaves_emit: "leaves h (r, emit x s) = leaves h (r, s)"
  by (simp add: leaves_def)

lemma timeout_ok:
  assumes "layer_ok (snd ts)" and "copy_ok h t (snd ts)" and "tx_id (fst ts) = tx_id t"
    and "tx_type (fst ts) = TT_UAC" and "invite_text (tx_msg (fst ts))" and "own h (tx_id t) (timers (fst ts))"
  shows "leaves h (timeout ev h ts)"
  unfolding timeout_def Let_def split_beta leaves_emit prod.collapse
  using assms
  by (auto intro!: removedI [OF assms(1)] keptI [OF assms(1,2)]
      simp: same_table_def trans_ok_def reset_all_fst)

lemma abandoned_expired_ok:
  assumes "layer_ok s" and "copy_ok h t s" and "tx_id (fst ts) = tx_id t" and "same_table s (snd ts)"
    and "tx_type (fst ts) = TT_UAC" and "invite_text (tx_msg (fst ts))" and "own h (tx_id t) (timers (fst ts))"
    and "tx_state (fst ts) = TS_ABANDONED" and "timers (fst ts) 0 = None" and "timers (fst ts) 1 = None"
  shows "leaves h (abandoned_expired ev h ts)"
  using assms(3-)
  by (auto intro!: removedI [OF assms(1,4)] keptI [OF assms(1,2)]
      simp: abandoned_expired_def same_table_def trans_ok_def ty_at_def)

lemma expired_B_ok:
  assumes "layer_ok s" and "copy_ok h t s" and "ty_at (timers t) 1 = Some STIMER_B"
  shows "leaves h (expired_B ev h (t, s))"
proof -
  have t: "tx_type t = TT_UAC" "invite_text (tx_msg t)" "own h (tx_id t) (timers t)"
    "tx_state t = TS_ABANDONED \<longrightarrow> timers t 0 = None"
    using copy_trans_ok [OF assms(2)] assms(3)
    by (cases "tx_type t"; auto simp: trans_ok_def ty_at_None)+
  have same: "same_table s (snd (clear_timer STIMER_B (t, s)))" by (simp add: same_table_def)
  then show ?thesis
    using t unfolding expired_B_def Let_def
    by (auto intro!: timeout_ok [OF layer_ok_same [OF assms(1) same] copy_ok_same [OF assms(2) same]]
        abandoned_expired_ok [OF assms(1,2)] removedI [OF assms(1)])
qed

lemma expired_F_ok:
  assumes "layer_ok s" and "copy_ok h t s" and "ty_at (timers t) 1 = Some STIMER_F"
  shows "leaves h (expired_F ev h (t, s))"
proof -
  have t: "tx_type t = TT_UAC" "invite_text (tx_msg t)" "own h (tx_id t) (timers t)"
    "tx_state t = TS_ABANDONED \<longrightarrow> timers t 0 = None"
    using copy_trans_ok [OF assms(2)] assms(3)
    by (cases "tx_type t"; auto simp: trans_ok_def ty_at_None)+
  have same: "same_table s (snd (clear_timer STIMER_F (t, s)))" by (simp add: same_table_def)
  then show ?thesis
    using t unfolding expired_F_def Let_def
    by (auto intro!: timeout_ok [OF layer_ok_same [OF assms(1) same] copy_ok_same [OF assms(2) same]]
        abandoned_expired_ok [OF assms(1,2)] removedI [OF assms(1)])
qed

lemma expired_BL_ok: "layer_ok s \<Longrightarrow> leaves h (expired_BL ev h (t, s))"
  unfolding expired_BL_def Let_def split_beta by (erule removedI) (simp add: same_table_def)

lemma expired_EG_ok:
  assumes "layer_ok s" and "copy_ok h t s" and "ty_at (timers t) 0 = Some ty" and "ty = STIMER_E \<or> ty = STIMER_G"
  shows "leaves h (expired_EG ev h ty n (t, s))"
  unfolding expired_EG_def Let_def split_beta
  by (rule keptI [OF assms(1,2)]; insert copy_trans_ok [OF assms(2)] assms(3,4); cases "tx_type t"; cases "tx_state t"; elim disjE)
    (simp_all add: same_table_def trans_ok_def split: if_split_asm)

lemma expired_H_ok:
  assumes "layer_ok s" and "copy_ok h t s" and "ty_at (timers t) 1 = Some STIMER_H"
  shows "leaves h (expired_H ev h (t, s))"
proof -
  have "leaves h (kept (clear_timer STIMER_H (t, s)))" if "tx_type t = TT_UAS" "tx_state t = TS_PROCEEDING_REL"
    using copy_trans_ok [OF assms(2)] assms(3) that
    by (intro keptI [OF assms(1,2)]) (auto simp: same_table_def trans_ok_def)
  then show ?thesis
    unfolding expired_H_def Let_def split_beta
    by (auto simp: leaves_emit kept_def same_table_def intro!: removedI [OF assms(1)] expired_end_ok [OF assms(1)])
qed

section \<open>New client transactions\<close>

lemma add_trans_simps:
  "fst (add_trans junk h msg tp s) =
     (new_trans (tl_fresh s) msg junk)\<lparr>tx_type := tp, reply_status := 0,
        tx_state := (if msg_method msg = Some INVITE then if tp = TT_UAS then TS_PROCEEDING else TS_CALLING
                     else TS_TRYING)\<rparr>"
  "snd (add_trans junk h msg tp s) = bucket_append h (fst (add_trans junk h msg tp s)) (s\<lparr>tl_fresh := tl_fresh s + 1\<rparr>)"
  by (simp_all add: add_trans_def Let_def)

lemma fresh_not_in: "layer_ok s \<Longrightarrow> tl_fresh s \<notin> ids h s"
  by (fastforce simp: layer_ok_def)

lemma start_uac_timers_table [simp]:
  "tl_buckets (snd (start_uac_timers ev h msg ts)) = tl_buckets (snd ts)"
  "tl_fresh (snd (start_uac_timers ev h msg ts)) \<ge> tl_fresh (snd ts)"
  by (simp_all add: start_uac_timers_def Let_def)

text \<open>
  The transaction has no timers yet when it enters the bucket, and its slots are filled before the
  handler ends: the copy that is written back is the one that counts.
\<close>

lemma store_append:
  assumes "layer_ok s" and "trans_ok h t'" and "tx_id t' = tl_fresh s" and "tx_id t = tl_fresh s"
    and "tl_buckets s' = tl_buckets (bucket_append h t s)" and "tl_fresh s < tl_fresh s'"
  shows "layer_ok (bucket_store h t' s')" "copy_ok h t' (bucket_store h t' s')"
proof -
  have ne: "tx_id x \<noteq> tl_fresh s" if "x \<in> set (tl_buckets s h)" for x
    using fresh_not_in [OF assms(1), of h] that by (metis imageI)
  then have "map (\<lambda>x. if tx_id x = tx_id t' then t' else x) (tl_buckets s h) = tl_buckets s h"
    using assms(3) by (intro map_idI) auto
  then have b: "tl_buckets (bucket_store h t' s') = (tl_buckets s)(h := tl_buckets s h @ [t'])"
    using assms(3-5) by (simp add: bucket_store_def bucket_append_def fun_eq_iff)
  show "copy_ok h t' (bucket_store h t' s')" using assms(2) b by (simp add: copy_ok_def)
  have old: "distinct (map tx_id (tl_buckets s k))"
    "\<And>x. x \<in> set (tl_buckets s k) \<Longrightarrow> trans_ok k x \<and> tx_id x < tl_fresh s'" for k
    using assms(1,6) by (auto simp: layer_ok_def intro: less_trans)
  have "distinct (map tx_id (tl_buckets s h @ [t']))"
    using old(1) [of h] fresh_not_in [OF assms(1), of h] assms(3) by simp
  moreover have "tl_fresh (bucket_store h t' s') = tl_fresh s'" by (simp add: bucket_store_def)
  ultimately show "layer_ok (bucket_store h t' s')"
    using old assms(2,3,6) unfolding layer_ok_def b by auto
qed

lemma start_uac_timers_ok:
  assumes "invite_text msg" and "h < H_TABLE_ENTRIES"
  shows "trans_ok h (fst (start_uac_timers ev h msg (add_trans junk h msg TT_UAC s)))"
    "tx_id (fst (start_uac_timers ev h msg (add_trans junk h msg TT_UAC s))) = tl_fresh s"
  using assms
  by (simp_all add: start_uac_timers_def Let_def add_trans_simps(1) new_trans_def trans_ok_def is_invite_def)

lemma update_uac_request_new:
  assumes "layer_ok s" and "invite_text msg" and "msg_method msg \<noteq> Some ACK" and "h < H_TABLE_ENTRIES"
    and "update_uac_request ev h msg s = (r, ot, s')"
  shows "layer_ok s'" "r = 0" "\<exists>t. ot = Some t \<and> copy_ok h t s'" "ids h s \<subseteq> ids h s'"
proof -
  let ?ts = "start_uac_timers ev h msg (add_trans (junk_flags ev) h msg TT_UAC s)"
  have eq: "r = 0" "ot = Some (fst ?ts)" "s' = bucket_store h (fst ?ts) (snd ?ts)"
    using assms(3,5) by (auto simp: update_uac_request_def split_beta Let_def)
  note new = start_uac_timers_ok [OF assms(2,4), where ev = ev and junk = "junk_flags ev" and s = s]
  have b: "tl_buckets (snd ?ts) = tl_buckets (bucket_append h (fst (add_trans (junk_flags ev) h msg TT_UAC s)) s)"
    "tl_fresh s < tl_fresh (snd ?ts)"
    using start_uac_timers_table(2) [of "add_trans (junk_flags ev) h msg TT_UAC s" ev h msg]
    by (simp_all add: add_trans_simps(2) bucket_append_def)
  note st = store_append [OF assms(1) new _ b(1,2)]
  show "layer_ok s'" "\<exists>t. ot = Some t \<and> copy_ok h t s'" "r = 0"
    using st eq by (simp_all add: add_trans_simps(1) new_trans_def)
  show "ids h s \<subseteq> ids h s'" unfolding eq(3) ids_store b(1) by (auto simp: bucket_append_def)
qed

lemma update_uac_request_ack:
  assumes "layer_ok s" and "msg_method msg = Some ACK" and "update_uac_request ev h msg s = (r, ot, s')"
  shows "layer_ok s'" "\<forall>t. ot = Some t \<longrightarrow> copy_ok h t s'" "ids h s \<subseteq> ids h s'"
proof -
  have found: "copy_ok h t s" if "match_request msg TT_UAC (tl_buckets s h) = Some t" for t
    using that layer_ok_found [OF assms(1)]
    by (auto simp: match_request_def Let_def find_Some_iff split: if_splits)
  have upd: "copy_ok h (t\<lparr>retr_buf := b, retr_addr := a, retr_socket := sk\<rparr>) s" if "copy_ok h t s" for t b a sk
    using that by (simp add: copy_ok_def)
  show "layer_ok s'" "\<forall>t. ot = Some t \<longrightarrow> copy_ok h t s'" "ids h s \<subseteq> ids h s'"
    using assms found
    by (auto simp: update_uac_request_def layer_ok_store upd Let_def split: option.splits if_splits)
qed

section \<open>CANCEL\<close>

lemma copy_ok_grows: "copy_ok h t s \<Longrightarrow> ids h s \<subseteq> ids h s' \<Longrightarrow> copy_ok h t s'"
  by (auto simp: copy_ok_def)

lemma cancel_invite_text:
  assumes "parse_sip_msg (cancel_wr ev req hdrs) (length (cancel_wr ev req hdrs)) junk = Some (m, err, 0)"
  shows "invite_text \<lparr>tm_buf = cancel_wr ev req hdrs, tm_msg = m, local_socket = sk, remote_ip = a\<rparr>"
    "msg_method \<lparr>tm_buf = cancel_wr ev req hdrs, tm_msg = m, local_socket = sk, remote_ip = a\<rparr> = Some CANCEL"
proof -
  obtain rest where "cancel_wr ev req hdrs = ''CANCEL'' @ SP # rest"
    by (simp add: cancel_wr_def request_line_wr_def)
  from generated_invite_text [OF this _ assms] name_token [of CANCEL] method_of_name [of CANCEL]
  show "invite_text \<lparr>tm_buf = cancel_wr ev req hdrs, tm_msg = m, local_socket = sk, remote_ip = a\<rparr>"
    "msg_method \<lparr>tm_buf = cancel_wr ev req hdrs, tm_msg = m, local_socket = sk, remote_ip = a\<rparr> = Some CANCEL"
    by simp_all
qed

text \<open>
  CANCEL either gives up an INVITE that is still being sent, or leaves the transaction in its
  state and starts a transaction of its own.
\<close>

lemma cancel_trans_layer:
  assumes "layer_ok s" and "cancel_trans ev h hdrs (t, s) = (r, t', s')" and "tx_state t \<noteq> TS_CALLING"
    and "h < H_TABLE_ENTRIES"
  shows "layer_ok s' \<and> ids h s \<subseteq> ids h s' \<and> (t' = t \<or> t' = t\<lparr>canceled := True\<rparr>)"
proof (cases "s' = s \<and> t' = t")
  case False
  let ?buf = "cancel_wr ev (tx_msg t) hdrs"
  obtain m err where p: "parse_sip_msg ?buf (length ?buf) (junk_method ev) = Some (m, err, 0)"
    and c: "\<not> canceled t" "is_invite t" "tx_state t = TS_PROCEEDING \<or> tx_state t = TS_ABANDONED"
    using assms(2,3) False by (auto simp: cancel_trans_def Let_def split: option.splits prod.splits if_splits)
  let ?p = "\<lparr>tm_buf = ?buf, tm_msg = m, local_socket = local_socket (tx_msg t), remote_ip = remote_ip (tx_msg t)\<rparr>"
  obtain e1 s1 where send: "send_msg ev ?p (tx_flags t) s = (e1, s1)" by fastforce
  obtain e2 ct s2 where upd: "update_uac_request ev h ?p s1 = (e2, ct, s2)" by (metis prod_cases3)
  have same: "same_table s s1" using send_table(1,2) [of ev ?p "tx_flags t" s] send by (simp add: same_table_def)
  note ok = layer_ok_same [OF assms(1) same]
  note new = cancel_invite_text [OF p, of "local_socket (tx_msg t)" "remote_ip (tx_msg t)"]
  have "layer_ok s2" "ids h s1 \<subseteq> ids h s2"
    using update_uac_request_new [OF ok new(1) _ assms(4) upd] new(2) by simp_all
  with ok assms(2,3) p c send upd same show ?thesis
    by (auto simp: cancel_trans_def Let_def same_table_def split: if_splits)
qed (use assms(1) in simp)

lemma copy_bucket: "copy_ok h t s \<Longrightarrow> h < H_TABLE_ENTRIES"
  by (simp add: copy_ok_def trans_ok_def own_def)

lemma cancel_trans_ok:
  assumes "layer_ok s" and "copy_ok h t s" and "cancel_trans ev h hdrs (t, s) = (r, t', s')"
  shows "layer_ok s' \<and> copy_ok h t' s'"
proof (cases "tx_state t = TS_CALLING")
  case False
  from cancel_trans_layer [OF assms(1,3) this copy_bucket [OF assms(2)]] assms(2) show ?thesis by (auto simp: copy_ok_def)
next
  case True
  have "copy_ok h (t\<lparr>timers := (timers t)(0 := None, 2 := None), tx_flags := fl, tx_state := TS_ABANDONED\<rparr>) s" for fl
    using assms(2) True by (cases "tx_type t") (auto simp: copy_ok_def trans_ok_def)
  moreover have "t' = t \<and> s' = s \<or> same_table s s' \<and>
      t' = t\<lparr>timers := (timers t)(0 := None, 2 := None),
             tx_flags := tx_flags t OR TR_FLAG_DISABLE_BL, tx_state := TS_ABANDONED\<rparr>"
    using True assms(3) by (auto simp: cancel_trans_def Let_def split_beta same_table_def split: if_splits)
  ultimately show ?thesis
    using assms(1,2) layer_ok_same [of s s'] copy_ok_same [of h t' s s'] by auto
qed

lemma cancel_self_layer:
  assumes "layer_ok s" and "cancel_self ev h (t, s) = (r, t', s')" and "tx_state t \<noteq> TS_CALLING"
    and "h < H_TABLE_ENTRIES"
  shows "layer_ok s' \<and> ids h s \<subseteq> ids h s' \<and> (t' = t \<or> t' = t\<lparr>canceled := True\<rparr>)"
  using assms cancel_trans_layer [OF assms(1) _ assms(3,4)] by (auto simp: cancel_self_def split: if_splits)

lemma expired_C_ok:
  assumes "layer_ok s" and "copy_ok h t s" and "ty_at (timers t) 2 = Some STIMER_C"
  shows "leaves h (expired_C ev h (t, s))"
proof -
  have t: "tx_type t = TT_UAC" "invite_text (tx_msg t)" "own h (tx_id t) (timers t)" "tx_state t = TS_PROCEEDING"
    using copy_trans_ok [OF assms(2)] assms(3)
    by (cases "tx_type t"; cases "tx_state t"; auto simp: trans_ok_def split: if_splits)+
  obtain t1 s1 where cl: "clear_timer STIMER_C (t, s) = (t1, s1)" by fastforce
  have t1: "t1 = t\<lparr>timers := (timers t)(2 := None)\<rparr>" "same_table s s1"
    using fst_clear_timer [of STIMER_C 2 "(t, s)"] reset_timer_table(3,4) [of STIMER_C "(t, s)"] cl
    by (simp_all add: same_table_def)
  obtain r t2 s2 where c: "cancel_self ev h (t1, s1) = (r, t2, s2)" by (metis prod_cases3)
  from cancel_self_layer [OF layer_ok_same [OF assms(1) t1(2)] c _ copy_bucket [OF assms(2)]] t t1
  have "layer_ok s2" "ids h s1 \<subseteq> ids h s2" "t2 = t1 \<or> t2 = t1\<lparr>canceled := True\<rparr>" by auto
  moreover have "copy_ok h t s2"
    using copy_ok_same [OF assms(2) t1(2)] copy_ok_grows calculation(2) by blast
  moreover have "expired_C ev h (t, s) = timeout ev h (t2, s2)" by (simp add: expired_C_def cl c)
  ultimately show ?thesis
    using t t1(1) by (auto intro!: timeout_ok [where t = t])
qed

section \<open>The next destination\<close>

definition main_timer :: "bool \<Rightarrow> u32" where
  "main_timer ivt = (if ivt then STIMER_B else STIMER_F)"

definition retr_timer :: "bool \<Rightarrow> u32" where
  "retr_timer ivt = (if ivt then STIMER_A else STIMER_E)"

definition first_state :: "bool \<Rightarrow> trans_state" where
  "first_state ivt = (if ivt then TS_CALLING else TS_TRYING)"

text \<open>A timer that is armed under a condition.\<close>

definition arm_if :: "bool \<Rightarrow> env \<Rightarrow> nat \<Rightarrow> u32 \<Rightarrow> sip_trans \<times> tl \<Rightarrow> sip_trans \<times> tl" where
  "arm_if c ev h ty ts = (if c then reset_timer ty (sip_timers ev ty) h ts else ts)"

lemma arm_if_simps [simp]:
  assumes "fetch_timer ty = Some k"
  shows "tx_id (fst (arm_if c ev h ty ts)) = tx_id (fst ts)" "tx_type (fst (arm_if c ev h ty ts)) = tx_type (fst ts)"
    "tx_msg (fst (arm_if c ev h ty ts)) = tx_msg (fst ts)" "tx_state (fst (arm_if c ev h ty ts)) = tx_state (fst ts)"
    "is_invite (fst (arm_if c ev h ty ts)) = is_invite (fst ts)"
    "targets (fst (arm_if c ev h ty ts)) = targets (fst ts)"
    "timers (fst (arm_if c ev h ty ts)) j = (if c \<and> j = k then Some (new_timer ty (sip_timers ev ty) h ts) else timers (fst ts) j)"
    "tl_buckets (snd (arm_if c ev h ty ts)) = tl_buckets (snd ts)"
    "tl_fresh (snd (arm_if c ev h ty ts)) = (if c then Suc (tl_fresh (snd ts)) else tl_fresh (snd ts))"
    "own h i (timers (fst ts)) \<Longrightarrow> tx_id (fst ts) = i \<Longrightarrow> own h i (timers (fst (arm_if c ev h ty ts)))"
  using assms by (simp_all add: arm_if_def is_invite_def)

lemma resent_arm:
  "resent ev h ts =
     (let i = is_invite (fst ts);
          ts1 = arm_if (\<not> reliable (tx_msg (fst ts))) ev h (retr_timer i) (set_state (first_state i) ts);
          ts2 = arm_if (timers (fst ts) 1 = None) ev h (main_timer i) ts1
      in arm_if (\<exists>x xs. targets (fst ts) = Some (x # xs)) ev h STIMER_M ts2)"
proof -
  have "has_next xs \<longleftrightarrow> (\<exists>y ys. xs = y # ys)" for xs by (cases xs) (simp_all add: has_next_def)
  moreover have "get_timer STIMER_B t = timers t 1" "get_timer STIMER_F t = timers t 1" for t
    by (simp_all add: get_timer_def)
  ultimately show ?thesis
    by (cases "is_invite (fst ts)"; cases "targets (fst ts)")
      (simp_all add: resent_def Let_def arm_if_def retr_timer_def main_timer_def first_state_def)
qed

lemma timer_slots [simp]:
  "fetch_timer (retr_timer i) = Some 0" "fetch_timer (main_timer i) = Some 1"
  "retr_timer i AND 0xFFFF = retr_timer i" "main_timer i AND 0xFFFF = main_timer i"
  by (simp_all add: retr_timer_def main_timer_def)

text \<open>The transaction after the request was sent to another destination.\<close>

lemma resent_slots:
  assumes "own h (tx_id t) (timers t)"
  shows "tx_id (fst (resent ev h (t, s))) = tx_id t" "tx_type (fst (resent ev h (t, s))) = tx_type t"
    "tx_msg (fst (resent ev h (t, s))) = tx_msg t"
    "tx_state (fst (resent ev h (t, s))) = first_state (is_invite t)"
    "own h (tx_id t) (timers (fst (resent ev h (t, s))))"
    "ty_at (timers (fst (resent ev h (t, s)))) 0 \<in> {ty_at (timers t) 0, Some (retr_timer (is_invite t))}"
    "ty_at (timers (fst (resent ev h (t, s)))) 1 =
       Some (case ty_at (timers t) 1 of Some x \<Rightarrow> x | None \<Rightarrow> main_timer (is_invite t))"
    "ty_at (timers (fst (resent ev h (t, s)))) 2 \<in> {ty_at (timers t) 2, Some STIMER_M}"
    "tl_buckets (snd (resent ev h (t, s))) = tl_buckets s" "tl_fresh s \<le> tl_fresh (snd (resent ev h (t, s)))"
  using assms by (cases "timers t (Suc 0)"; simp add: resent_arm Let_def ty_at_def)+

text \<open>What stays the same while a transaction looks for a destination.\<close>

definition same_trans :: "sip_trans \<Rightarrow> sip_trans \<Rightarrow> bool" where
  "same_trans t t' \<longleftrightarrow> tx_id t' = tx_id t \<and> tx_type t' = tx_type t \<and> tx_state t' = tx_state t \<and>
     timers t' = timers t \<and> same_kind (tx_msg t) (tx_msg t')"

lemma same_trans_trans: "same_trans t t' \<Longrightarrow> same_trans t' t'' \<Longrightarrow> same_trans t t''"
  unfolding same_trans_def by (auto intro: same_kind_trans)

lemma same_trans_invite: "same_trans t t' \<Longrightarrow> is_invite t' = is_invite t"
  by (simp add: same_trans_def same_kind_def is_invite_def)

lemma branch_table [simp]:
  "tl_buckets (snd (compute_branch x y s)) = tl_buckets s" "tl_fresh (snd (compute_branch x y s)) = tl_fresh s"
  "tl_buckets (snd (patch_branch m s)) = tl_buckets s" "tl_fresh (snd (patch_branch m s)) = tl_fresh s"
  "tl_buckets (snd (generate_and_parse_new_msg ev m s)) = tl_buckets s"
  "tl_fresh (snd (generate_and_parse_new_msg ev m s)) = tl_fresh s"
  by (simp_all add: compute_branch_def branch_inc_def patch_branch_def generate_and_parse_new_msg_def
      Let_def split_beta split: option.split)

lemma generate_table:
  "generate_and_parse_new_msg ev m s = (p, s') \<Longrightarrow> same_table s s'"
  using branch_table(5,6) [of ev m s] by (simp add: same_table_def)

lemma next_dest_same_ok:
  assumes "invite_text (tx_msg t)" and "next_dest_same ev (t, s) = Inl (t', s') \<or> next_dest_same ev (t, s) = Inr (t', s')"
  shows "same_trans t t' \<and> same_table s s'"
proof -
  let ?k = "same_kind (tx_msg t)"
  have m: "?k ((tx_msg t)\<lparr>remote_ip := sa\<rparr>)" for sa by (rule invite_text_cong) (simp_all add: assms(1))
  have m1: "?k m1" if "set_trsp_socket ev tp oi ((tx_msg t)\<lparr>remote_ip := sa\<rparr>) = Some m1" for tp oi sa m1
    using same_kind_trans [OF m set_trsp_socket_kind [OF _ that]] m by (simp add: same_kind_def)
  have m2: "?k m2" if "?k m1" "patch_ruri_with_remote_ip m1 = Some m2" for m1 m2
    using same_kind_trans [OF that(1) patch_ruri_kind [OF _ that(2)]] that(1) by (simp add: same_kind_def)
  have p: "?k p" if "?k m1" "generate_and_parse_new_msg ev m1 s = (Some p, s1)" for m1 p s1
    using same_kind_trans [OF that(1) generate_kind [OF _ that(2)]] that(1) by (simp add: same_kind_def)
  have b: "?k (fst (patch_branch m1 s))" if "?k m1" for m1
    using same_kind_trans [OF that patch_branch_kind] that by (simp add: same_kind_def)
  have self: "same_table s s" "?k (tx_msg t)" using assms(1) by (simp_all add: same_table_def same_kind_refl)
  have gen: "same_trans t (t\<lparr>targets := Some tg, tx_msg := (case q of None \<Rightarrow> m1 | Some x \<Rightarrow> x)\<rparr>) \<and> same_table s s1"
    if "?k m1" "generate_and_parse_new_msg ev m1 s = (q, s1)" for m1 q s1 tg
    using that p [OF that(1)] generate_table [OF that(2)] by (cases q) (auto simp: same_trans_def)
  show ?thesis
  proof (cases "targets t")
    case None
    with assms(2) self show ?thesis by (simp add: next_dest_same_def same_trans_def)
  next
    case (Some tgs)
    note tg = this
    show ?thesis
    proof (cases "get_next (bl_exist ev (tl_out s)) (tx_flags t) tgs")
      case None
      with assms(2) self tg show ?thesis by (auto simp: next_dest_same_def same_trans_def)
    next
      case (Some x)
      then obtain sa tp rest where n: "get_next (bl_exist ev (tl_out s)) (tx_flags t) tgs = Some (sa, tp, rest)"
        by (metis prod_cases3)
      let ?m = "(tx_msg t)\<lparr>remote_ip := sa\<rparr>"
      show ?thesis
      proof (cases "set_trsp_socket ev tp (sk_if (sock_of ?m)) ?m")
        case None
        with assms(2) self tg n m show ?thesis by (auto simp: next_dest_same_def same_trans_def Let_def)
      next
        case (Some m1)
        note k1 = m1 [OF Some]
        note def = next_dest_same_def tg n Some Let_def
        consider (ruri) "flag (tx_flags t) TR_FLAG_NEXT_HOP_RURI"
          | (socket) "\<not> flag (tx_flags t) TR_FLAG_NEXT_HOP_RURI" "local_socket ?m \<noteq> local_socket m1"
          | (branch) "\<not> flag (tx_flags t) TR_FLAG_NEXT_HOP_RURI" "local_socket ?m = local_socket m1" by blast
        then show ?thesis
        proof cases
          case ruri
          show ?thesis
          proof (cases "patch_ruri_with_remote_ip m1")
            case None
            with assms(2) self(1) k1 ruri show ?thesis by (auto simp: def same_trans_def)
          next
            case (Some m2')
            obtain q s1 where g: "generate_and_parse_new_msg ev m2' s = (q, s1)" by fastforce
            from gen [OF m2 [OF k1 Some] g, of rest] assms(2) ruri Some g show ?thesis
              by (cases q) (auto simp: def)
          qed
        next
          case socket
          obtain q s1 where g: "generate_and_parse_new_msg ev m1 s = (q, s1)" by fastforce
          from gen [OF k1 g, of rest] assms(2) socket g show ?thesis by (cases q) (auto simp: def)
        next
          case branch
          with assms(2) b [OF k1] branch_table(3,4) [of m1 s] show ?thesis
            by (auto simp: def split_beta same_trans_def same_table_def)
        qed
      qed
    qed
  qed
qed

definition moved_on :: "env \<Rightarrow> nat \<Rightarrow> sip_trans \<Rightarrow> int \<Rightarrow> sip_trans \<Rightarrow> bool" where
  "moved_on ev h t r t' \<longleftrightarrow>
     r = -1 \<and> same_trans t t' \<or> r = 0 \<and> (\<exists>t1 s1. same_trans t t1 \<and> t' = fst (resent ev h (t1, s1)))"

lemma same_table_trans: "same_table s s' \<Longrightarrow> same_table s' s'' \<Longrightarrow> same_table s s''"
  by (simp add: same_table_def)

lemma try_same_ok:
  assumes "invite_text (tx_msg t)" and "own h (tx_id t) (timers t)" and "try_same ev h t s = (r, t', s')"
  shows "same_table s s' \<and> moved_on ev h t r t'"
  using assms
proof (induction ev h t s arbitrary: r t' s' rule: try_same.induct)
  case (1 ev h t s)
  show ?case
  proof (cases "next_dest_same ev (t, s)")
    case (Inl x)
    with 1 next_dest_same_ok [OF "1.prems"(1), of ev s] show ?thesis
      by (cases x) (auto simp: try_same.simps [of ev h t] moved_on_def)
  next
    case (Inr x)
    then obtain t1 s1 where n: "next_dest_same ev (t, s) = Inr (t1, s1)" by (cases x) auto
    have d: "same_trans t t1" "same_table s s1" using next_dest_same_ok [OF "1.prems"(1)] n by blast+
    obtain e s2 where send: "send_msg ev (tx_msg t1) (tx_flags t1) s1 = (e, s2)" by fastforce
    have s2: "same_table s s2"
      using d(2) send_table(1,2) [of ev "tx_msg t1" "tx_flags t1" s1] send by (simp add: same_table_def)
    have t1: "invite_text (tx_msg t1)" "own h (tx_id t1) (timers t1)"
      using d(1) "1.prems"(2) by (auto simp: same_trans_def same_kind_def)
    show ?thesis
    proof (cases "e < 0")
      case True
      let ?s3 = "blacklist ev (remote_ip (tx_msg t1)) ''503'' s2"
      have run: "try_same ev h t1 ?s3 = (r, t', s')"
        using "1.prems"(3) n send True by (simp add: try_same.simps [of ev h t])
      have "same_table ?s3 s' \<and> moved_on ev h t1 r t'"
        using "1.IH" [OF n _ send [symmetric] _ True t1 run] by simp
      moreover have "same_table s ?s3" using s2 by (simp add: same_table_def)
      ultimately show ?thesis
        using d(1) same_table_trans same_trans_trans unfolding moved_on_def by blast
    next
      case False
      then have "r = 0" "t' = fst (resent ev h (t1, s2))" "s' = snd (resent ev h (t1, s2))"
        using "1.prems"(3) n send by (auto simp: try_same.simps [of ev h t])
      with d(1) s2 resent_slots(9,10) [OF t1(2), where ev = ev and s = s2] show ?thesis
        by (auto simp: moved_on_def same_table_def)
    qed
  qed
qed

lemma trans_ok_same: "same_trans t t' \<Longrightarrow> tx_type t = TT_UAC \<Longrightarrow> trans_ok h t \<Longrightarrow> trans_ok h t'"
  using same_trans_invite [of t t'] by (simp add: same_trans_def trans_ok_def same_kind_def)

text \<open>A client transaction whose slots are open for another attempt.\<close>

definition can_resend :: "nat \<Rightarrow> sip_trans \<Rightarrow> bool" where
  "can_resend h t \<longleftrightarrow> tx_type t = TT_UAC \<and> invite_text (tx_msg t) \<and> own h (tx_id t) (timers t) \<and>
     (ty_at (timers t) 0 = None \<or> ty_at (timers t) 0 = Some (retr_timer (is_invite t))) \<and>
     (ty_at (timers t) 1 = None \<or> ty_at (timers t) 1 = Some (main_timer (is_invite t))) \<and>
     (ty_at (timers t) 2 = None \<or> ty_at (timers t) 2 = Some STIMER_M)"

lemma can_resend_same: "can_resend h t \<Longrightarrow> same_trans t t' \<Longrightarrow> can_resend h t'"
  using same_trans_invite [of t t'] by (simp add: can_resend_def same_trans_def same_kind_def)

lemma resent_ok:
  assumes "can_resend h t"
  shows "trans_ok h (fst (resent ev h (t, s)))"
proof -
  have o: "own h (tx_id t) (timers t)" using assms by (simp add: can_resend_def)
  note r = resent_slots [OF o, where ev = ev and s = s]
  have "is_invite (fst (resent ev h (t, s))) = is_invite t" using r(3) by (simp add: is_invite_def)
  with assms r show ?thesis
    by (cases "is_invite t")
      (auto simp: can_resend_def trans_ok_def first_state_def main_timer_def retr_timer_def)
qed

lemma moved_on_ok:
  assumes "moved_on ev h t r t'" and "can_resend h t"
  shows "tx_id t' = tx_id t \<and> (r = -1 \<and> same_trans t t' \<or> r = 0 \<and> trans_ok h t')"
proof (cases "r = -1 \<and> same_trans t t'")
  case False
  with assms(1) obtain t1 s1 where t1: "r = 0" "same_trans t t1" "t' = fst (resent ev h (t1, s1))"
    by (auto simp: moved_on_def)
  have c: "can_resend h t1" using can_resend_same [OF assms(2) t1(2)] .
  moreover have "tx_id t' = tx_id t1"
    using c resent_slots(1) [of h t1 ev s1] t1(3) by (simp add: can_resend_def)
  ultimately show ?thesis using t1 resent_ok [OF c] by (simp add: same_trans_def)
qed (simp add: same_trans_def)

text \<open>The new transaction for the next destination, before its request is sent.\<close>

definition copy_of :: "nat \<Rightarrow> sip_trans \<Rightarrow> tl \<Rightarrow> sip_trans \<Rightarrow> bool" where
  "copy_of h t s n \<longleftrightarrow> tx_id n = tl_fresh s \<and> tx_type n = tx_type t \<and> tx_state n = TS_NONE \<and>
     same_kind (tx_msg t) (tx_msg n) \<and> own h (tl_fresh s) (timers n) \<and>
     timers n 0 = None \<and> ty_at (timers n) 1 = ty_at (timers t) 1 \<and> timers n 2 = None"

lemma keep_timer_bf_ok:
  assumes "own h (tx_id t) (timers t)" and "timers n = (\<lambda>_. None)"
  shows "same_table s (snd (keep_timer_bf h t (n, s)))"
    "own h (tx_id n) (timers (fst (keep_timer_bf h t (n, s))))"
    "timers (fst (keep_timer_bf h t (n, s))) 0 = None" "timers (fst (keep_timer_bf h t (n, s))) 2 = None"
    "ty_at (timers (fst (keep_timer_bf h t (n, s)))) 1 = ty_at (timers t) 1"
    "\<exists>f. fst (keep_timer_bf h t (n, s)) = n\<lparr>timers := f\<rparr>"
proof -
  have none: "\<exists>f. n = n\<lparr>timers := f\<rparr>" by (rule exI [of _ "timers n"]) simp
  have "fetch_timer (tt_type b) = Some 1" if "timers t (Suc 0) = Some b" for b
    using assms(1) that by (auto simp: own_def)
  then show "same_table s (snd (keep_timer_bf h t (n, s)))"
    "own h (tx_id n) (timers (fst (keep_timer_bf h t (n, s))))"
    "timers (fst (keep_timer_bf h t (n, s))) 0 = None" "timers (fst (keep_timer_bf h t (n, s))) 2 = None"
    "ty_at (timers (fst (keep_timer_bf h t (n, s)))) 1 = ty_at (timers t) 1"
    "\<exists>f. fst (keep_timer_bf h t (n, s)) = n\<lparr>timers := f\<rparr>"
    using assms(2) none own_def [of h "tx_id t" "timers t"] assms(1)
    by (auto simp: keep_timer_bf_def get_timer_def new_trans_timer_def reset_timer_obj_def same_table_def
        ty_at_def own_def Let_def split: option.split)
qed

text \<open>The message for the new transaction is generated from a copy of the old one.\<close>

lemma new_msg_kind:
  assumes "invite_text (tx_msg t)"
    and "set_trsp_socket ev tp oi ((vias_pop (tx_msg t))\<lparr>remote_ip := sa, local_socket := None\<rparr>) = Some m1"
    and "(if fl then patch_ruri_with_remote_ip m1 else Some m1) = Some m2"
    and "generate_and_parse_new_msg ev m2 s = (Some p, s1)"
  shows "same_kind (tx_msg t) p"
proof -
  let ?m = "(vias_pop (tx_msg t))\<lparr>remote_ip := sa, local_socket := None\<rparr>"
  have m: "same_kind (tx_msg t) ?m" by (rule invite_text_cong) (simp_all add: assms(1) vias_pop_def)
  moreover have "same_kind ?m m1" using set_trsp_socket_kind [OF _ assms(2)] m by (simp add: same_kind_def)
  moreover from this have "same_kind m1 m2"
    using patch_ruri_kind [of m1 m2] assms(3) by (auto simp: same_kind_def split: if_splits)
  moreover from this have "same_kind m2 p" using generate_kind [OF _ assms(4)] by (simp add: same_kind_def)
  ultimately show ?thesis by (blast intro: same_kind_trans)
qed

lemma next_dest_new_fail:
  assumes "invite_text (tx_msg t)" and "next_dest_new ev h (t, s) = Inl (t1, s1)"
  shows "same_trans t t1 \<and> same_table s s1"
proof -
  have k: "same_kind (tx_msg t) (tx_msg t)" "same_table s s"
    using assms(1) by (simp_all add: same_kind_refl same_table_def)
  have c: "same_table s (snd (copy_uac_trans ev t s))" by (simp add: copy_uac_trans_def same_table_def)
  have "same_table s (snd (generate_and_parse_new_msg ev m (snd (copy_uac_trans ev t s))))" for m
    using c by (simp add: same_table_def)
  with assms(2) k c show ?thesis
    unfolding next_dest_new_def Let_def split_beta
    by (auto simp: same_trans_def split: option.splits prod.splits if_splits)
qed

lemma next_dest_new_done:
  assumes "invite_text (tx_msg t)" and "own h (tx_id t) (timers t)"
    and "next_dest_new ev h (t, s) = Inr (t1, n, s1)"
  shows "same_trans t t1 \<and> copy_of h t s n \<and>
    (\<exists>s0. s1 = bucket_append h n s0 \<and> tl_buckets s0 = tl_buckets s \<and> tl_fresh s < tl_fresh s0)"
proof -
  let ?c = "copy_uac_trans ev t s"
  let ?fl = "flag (tx_flags (fst ?c)) TR_FLAG_NEXT_HOP_RURI"
  let ?oi = "sk_if (sock_of (tx_msg t))"
  note eq = assms(3) [unfolded next_dest_new_def Let_def split_beta fst_conv snd_conv]
  obtain tgs where tg: "targets t = Some tgs" using eq by (auto split: option.splits)
  obtain sa tp rest where n: "get_next (bl_exist ev (tl_out s)) (tx_flags t) tgs = Some (sa, tp, rest)"
    using eq tg by (auto split: option.splits)
  obtain m1 where g1: "set_trsp_socket ev tp ?oi ((vias_pop (tx_msg t))\<lparr>remote_ip := sa, local_socket := None\<rparr>) = Some m1"
    using eq tg n by (auto split: option.splits)
  obtain m2 where g2: "(if ?fl then patch_ruri_with_remote_ip m1 else Some m1) = Some m2"
    using eq tg n g1 by (cases "if ?fl then patch_ruri_with_remote_ip m1 else Some m1") auto
  obtain p s2 where g3: "generate_and_parse_new_msg ev m2 (snd ?c) = (Some p, s2)"
    using eq tg n g1 g2 by (cases "generate_and_parse_new_msg ev m2 (snd ?c)"; cases "fst (generate_and_parse_new_msg ev m2 (snd ?c))") auto
  note g = g1 g2 g3
  have r: "t1 = t\<lparr>targets := None\<rparr>" "n = fst (keep_timer_bf h t ((fst ?c)\<lparr>tx_msg := p, targets := Some rest\<rparr>, s2))"
      "s1 = bucket_append h n (snd (keep_timer_bf h t ((fst ?c)\<lparr>tx_msg := p, targets := Some rest\<rparr>, s2)))"
    using eq tg n g by auto
  let ?n = "(fst ?c)\<lparr>tx_msg := p, targets := Some rest\<rparr>"
  have c: "timers ?n = (\<lambda>_. None)" "tx_id ?n = tl_fresh s" "tx_type ?n = tx_type t" "tx_state ?n = TS_NONE"
    by (simp_all add: copy_uac_trans_def new_trans_def)
  note tm = keep_timer_bf_ok [OF assms(2) c(1), where s = s2, folded r(2)]
  have "tl_buckets s2 = tl_buckets s" "tl_fresh s < tl_fresh s2"
    using generate_table [OF g(3)] by (auto simp: same_table_def copy_uac_trans_def)
  moreover from tm(6) obtain f where "n = ?n\<lparr>timers := f\<rparr>" by blast
  ultimately show ?thesis
    using tm(1-5) r(1,3) c new_msg_kind [OF assms(1) g] same_kind_refl [OF assms(1)]
    by (auto simp: same_trans_def copy_of_def same_table_def)
qed

lemma copy_of_ok:
  assumes "copy_of h t s n" and "tx_type t = TT_UAC"
    and "ty_at (timers t) 1 = None \<or> ty_at (timers t) 1 = Some (main_timer (is_invite t))"
  shows "trans_ok h n" "can_resend h n"
proof -
  have "is_invite n = is_invite t" using assms(1) by (simp add: copy_of_def same_kind_def is_invite_def)
  with assms show "trans_ok h n" "can_resend h n"
    by (auto simp: copy_of_def trans_ok_def can_resend_def same_kind_def main_timer_def ty_at_None)
qed

definition no_slot2 :: "sip_trans \<Rightarrow> sip_trans" where
  "no_slot2 t = t\<lparr>timers := (timers t)(2 := None)\<rparr>"

lemma clear_M: "\<exists>s1. clear_timer STIMER_M (t, s) = (no_slot2 t, s1) \<and> same_table s s1"
  using fst_clear_timer [of STIMER_M 2 "(t, s)"] reset_timer_table(3,4) [of STIMER_M "(t, s)"]
  by (cases "clear_timer STIMER_M (t, s)") (simp add: no_slot2_def same_table_def)

lemma try_next_same_ok:
  assumes "invite_text (tx_msg t)" and "own h (tx_id t) (timers t)"
    and "try_next_ip ev h False (t, s) = (r, t', s')"
  shows "same_table s s' \<and> moved_on ev h (no_slot2 t) r t'"
proof -
  obtain s1 where c: "clear_timer STIMER_M (t, s) = (no_slot2 t, s1)" "same_table s s1" using clear_M by blast
  with assms(3) have "try_same ev h (no_slot2 t) s1 = (r, t', s')" by (simp add: try_next_ip_def)
  from try_same_ok [OF _ _ this] assms(1,2) c(2) same_table_trans show ?thesis
    by (auto simp: no_slot2_def)
qed

lemma store_append_new:
  assumes "layer_ok s" and "tl_buckets s0 = tl_buckets s" and "tl_fresh s < tl_fresh s0"
    and "tx_id n = tl_fresh s" and "same_table (bucket_append h n s0) s2" and "trans_ok h n1" and "tx_id n1 = tx_id n"
  shows "layer_ok (bucket_store h n1 s2)" "ids h s \<subseteq> ids h (bucket_store h n1 s2)"
proof -
  have b: "tl_buckets s2 = tl_buckets (bucket_append h n s)" "tl_fresh s < tl_fresh s2"
    using assms(2,3,5) by (auto simp: same_table_def bucket_append_def)
  show "layer_ok (bucket_store h n1 s2)"
    using store_append(1) [OF assms(1,6) _ assms(4) b] assms(4,7) by simp
  show "ids h s \<subseteq> ids h (bucket_store h n1 s2)" unfolding ids_store b(1) by (auto simp: bucket_append_def)
qed

lemma try_next_new_ok:
  assumes "layer_ok s" and "tx_type t = TT_UAC" and "invite_text (tx_msg t)" and "own h (tx_id t) (timers t)"
    and "ty_at (timers t) 1 = None \<or> ty_at (timers t) 1 = Some (main_timer (is_invite t))"
    and "try_next_ip ev h True (t, s) = (r, t', s')"
  shows "layer_ok s' \<and> ids h s \<subseteq> ids h s' \<and> same_trans (no_slot2 t) t'"
proof -
  let ?t = "no_slot2 t"
  obtain s1 where c: "clear_timer STIMER_M (t, s) = (?t, s1)" "same_table s s1" using clear_M by blast
  have t: "invite_text (tx_msg ?t)" "own h (tx_id ?t) (timers ?t)" "tx_type ?t = TT_UAC"
    "ty_at (timers ?t) 1 = None \<or> ty_at (timers ?t) 1 = Some (main_timer (is_invite ?t))"
    using assms(2-5) by (simp_all add: no_slot2_def)
  note ok = layer_ok_same [OF assms(1) c(2)]
  show ?thesis
  proof (cases "next_dest_new ev h (?t, s1)")
    case (Inl x)
    then obtain t1 s2 where f: "next_dest_new ev h (?t, s1) = Inl (t1, s2)" by (cases x) auto
    with c(1) assms(6) have "t' = t1" "s' = s2" by (auto simp: try_next_ip_def)
    with next_dest_new_fail [OF t(1) f] ok c(2) layer_ok_same show ?thesis by (auto simp: same_table_def)
  next
    case (Inr x)
    then obtain t1 n s2 where f: "next_dest_new ev h (?t, s1) = Inr (t1, n, s2)" by (cases x) auto
    obtain s0 where d: "same_trans ?t t1" "copy_of h ?t s1 n" "s2 = bucket_append h n s0"
        "tl_buckets s0 = tl_buckets s1" "tl_fresh s1 < tl_fresh s0"
      using next_dest_new_done [OF t(1,2) f] by blast
    note n = copy_of_ok [OF d(2) t(3,4)]
    have id: "tx_id n = tl_fresh s1" using d(2) by (simp add: copy_of_def)
    obtain e s3 where send: "send_msg ev (tx_msg n) (tx_flags n) s2 = (e, s3)" by fastforce
    have s3: "same_table s2 s3"
      using send_table(1,2) [of ev "tx_msg n" "tx_flags n" s2] send by (simp add: same_table_def)
    note fin = store_append_new [OF ok d(4,5) id, of h, folded d(3)]
    have ids: "ids h s = ids h s1" using c(2) by (simp add: same_table_def)
    show ?thesis
    proof (cases "e < 0")
      case True
      let ?s4 = "blacklist ev (remote_ip (tx_msg n)) ''503'' s3"
      obtain r1 n1 s5 where run: "try_same ev h n ?s4 = (r1, n1, s5)" by (metis prod_cases3)
      have s5: "same_table ?s4 s5 \<and> moved_on ev h n r1 n1"
        using try_same_ok [OF _ _ run] n(2) by (simp add: can_resend_def)
      then have n1: "trans_ok h n1" "tx_id n1 = tx_id n"
        using moved_on_ok [OF _ n(2)] trans_ok_same [of n n1 h] n by (auto simp: can_resend_def)
      have "same_table s2 s5" using s3 s5 by (simp add: same_table_def)
      from fin [OF this n1] d(1) assms(6) c(1) f send True run ids show ?thesis
        by (auto simp: try_next_ip_def)
    next
      case False
      let ?n1 = "fst (resent ev h (n, s3))" and ?s4 = "snd (resent ev h (n, s3))"
      have o: "own h (tx_id n) (timers n)" using n(2) by (simp add: can_resend_def)
      have "same_table s2 ?s4"
        using s3 resent_slots(9,10) [OF o, where ev = ev and s = s3] by (simp add: same_table_def)
      from fin [OF this resent_ok [OF n(2)] resent_slots(1) [OF o]] d(1) assms(6) c(1) f send False ids
      show ?thesis by (auto simp: try_next_ip_def split_beta)
    qed
  qed
qed

lemma expired_M_ok:
  assumes "layer_ok s" and "copy_ok h t s" and "ty_at (timers t) 2 = Some STIMER_M"
  shows "leaves h (expired_M ev h (t, s))"
proof -
  have t: "tx_type t = TT_UAC" "invite_text (tx_msg t)" "own h (tx_id t) (timers t)"
    "ty_at (timers t) 1 = Some (main_timer (is_invite t))"
    "tx_state t = TS_CALLING \<and> is_invite t \<or> (tx_state t = TS_TRYING \<or> tx_state t = TS_PROCEEDING) \<and> \<not> is_invite t"
    "ty_at (timers t) 0 = None \<or> ty_at (timers t) 0 = Some (retr_timer (is_invite t))"
    using copy_trans_ok [OF assms(2)] assms(3)
    by (cases "tx_type t"; cases "tx_state t"; auto simp: trans_ok_def main_timer_def retr_timer_def split: if_splits)+
  obtain r t1 s1 where r: "try_next_ip ev h True (t, s) = (r, t1, s1)" by (metis prod_cases3)
  from try_next_new_ok [OF assms(1) t(1-3) _ r] t(4)
  have ok: "layer_ok s1" "ids h s \<subseteq> ids h s1" "same_trans (no_slot2 t) t1" by auto
  have t1: "is_invite t1 = is_invite t" "tx_id t1 = tx_id t" "tx_type t1 = TT_UAC" "tx_state t1 = tx_state t"
    "timers t1 = (timers t)(2 := None)" "invite_text (tx_msg t1)"
    using same_trans_invite [OF ok(3)] ok(3) t(1) by (auto simp: same_trans_def no_slot2_def same_kind_def)
  have "copy_ok h t1 s1"
    using assms(2) ok(2) t t1 by (auto simp: copy_ok_def trans_ok_def main_timer_def retr_timer_def)
  moreover have "copy_ok h (t1\<lparr>timers := (timers t1)(0 := None), tx_state := TS_ABANDONED\<rparr>) s1"
    using assms(2) ok(2) t t1 by (auto simp: copy_ok_def trans_ok_def main_timer_def)
  moreover have "same_table s1 (snd (clear_timer STIMER_A (t1, s1)))" by (simp add: same_table_def)
  ultimately show ?thesis
    using ok(1) layer_ok_same [of s1 "snd (clear_timer STIMER_A (t1, s1))"]
      copy_ok_same [of h _ s1 "snd (clear_timer STIMER_A (t1, s1))"]
    by (auto simp: expired_M_def r intro!: leaves_kept)
qed

lemma timer_expired_ok:
  assumes "layer_ok s" and "copy_ok h t s" and "get_timer (tt_type tm AND 0xFFFF) t = Some tm"
  shows "leaves h (timer_expired ev h tm (t, s))"
proof -
  obtain k where k: "fetch_timer (tt_type tm) = Some k"
    using assms(3) by (auto simp: get_timer_def split: option.splits)
  note ty = armed [OF copy_trans_ok [OF assms(2)] assms(3) this]
  define x where "x = tt_type tm AND 0xFFFF"
  have "leaves h (kept (t, s))" using assms(1,2) by (simp add: leaves_kept)
  moreover have "fetch_timer x = Some k" "ty_at (timers t) k = Some x" using k ty by (simp_all add: x_def)
  ultimately show ?thesis
    using assms(1,2) unfolding timer_expired_def Let_def x_def [symmetric]
    by (auto intro!: expired_A_ok expired_B_ok expired_C_ok expired_F_ok expired_H_ok expired_end_ok
        expired_EG_ok expired_M_ok expired_BL_ok split: if_splits)
qed

section \<open>Replies to the client\<close>

lemma is_cancel_upd [simp]:
  "is_cancel (t\<lparr>timers := f\<rparr>) = is_cancel t" "is_cancel (t\<lparr>tx_state := x\<rparr>) = is_cancel t"
  by (simp_all add: is_cancel_def)

lemma is_cancel_invite: "is_invite t \<Longrightarrow> \<not> is_cancel t"
  by (simp add: is_invite_def is_cancel_def)

lemma verdict_simps [simp]: "snd (pass_reply r) = r" "snd (no_reply r) = r" "fst (pass_reply r) = 1" "fst (no_reply r) = 0"
  by (simp_all add: pass_reply_def no_reply_def)

lemma uac_provisional_ok:
  assumes "layer_ok s" and "copy_ok h t s" and "tx_type t = TT_UAC"
  shows "leaves h (snd (uac_provisional ev h (t, s)))"
proof -
  have t: "invite_text (tx_msg t)" "own h (tx_id t) (timers t)"
    "uac_slots (is_invite t) (tx_state t) (ty_at (timers t) 0) (ty_at (timers t) 1) (ty_at (timers t) 2)"
    using copy_trans_ok [OF assms(2)] assms(3) by (simp_all add: trans_ok_def)
  have same: "leaves h (kept (t, s))" "leaves h (kept (set_flag x (t, s)))" for x
    using assms(1,2) by (auto intro!: leaves_kept simp: copy_ok_def)
  have calling: "leaves h (snd (uac_proceeding ev h (set_state TS_PROCEEDING (reset_all_timers (t, s)))))"
    if "tx_state t = TS_CALLING"
    using t that is_cancel_invite [of t]
    by (auto simp: uac_proceeding_def reset_all_fst same_table_def trans_ok_def assms(3)
        intro!: keptI [OF assms(1,2)])
  have trying: "leaves h (snd (uac_proceeding ev h (set_state TS_PROCEEDING (t, s))))"
    if "tx_state t = TS_TRYING"
    using t that
    by (auto simp: uac_proceeding_def same_table_def trans_ok_def assms(3) intro!: keptI [OF assms(1,2)])
  have proceeding: "leaves h (snd (uac_proceeding ev h (t, s)))" if "tx_state t = TS_PROCEEDING"
    using t that
    by (auto simp: uac_proceeding_def same_table_def trans_ok_def assms(3) intro!: keptI [OF assms(1,2)])
  have "leaves h (kept (snd (cancel_self ev h (set_flag x (t, s)))))" if "tx_state t = TS_ABANDONED" for x
  proof -
    obtain r t' s' where c: "cancel_self ev h (t\<lparr>tx_flags := tx_flags t OR x\<rparr>, s) = (r, t', s')" by (metis prod_cases3)
    from cancel_self_layer [OF assms(1) c _ copy_bucket [OF assms(2)]] that assms(2) show ?thesis
      by (auto simp: set_flag_def c copy_ok_def intro!: leaves_kept)
  qed
  then show ?thesis
    using same calling trying proceeding
    by (cases "tx_state t") (simp_all add: uac_provisional_def split_beta)
qed

lemma uac_error_ok:
  assumes "layer_ok s" and "tx_id t \<in> ids h s" and "tx_type t = TT_UAC" and "invite_text (tx_msg t)"
    and "own h (tx_id t) (timers t)" and "is_invite t"
    and "tx_state t = TS_PROCEEDING \<longrightarrow> timers t 0 = None \<and> timers t 1 = None"
    and "tx_state t \<noteq> TS_CALLING \<and> tx_state t \<noteq> TS_PROCEEDING \<longrightarrow> trans_ok h t"
  shows "leaves h (snd (uac_error ev h msg fg (t, s)))"
proof -
  have fin: "leaves h (snd (uac_error_proceeding ev h msg fg ts))"
    if "tx_id (fst ts) = tx_id t" "tx_type (fst ts) = TT_UAC" "invite_text (tx_msg (fst ts))"
      "own h (tx_id t) (timers (fst ts))" "is_invite (fst ts)" "timers (fst ts) 0 = None" "timers (fst ts) 1 = None"
      "same_table s (snd ts)" for ts
    using that assms(2)
    by (auto simp: uac_error_proceeding_def Let_def split_beta same_table_def trans_ok_def ty_at_None
        intro!: keptI' [OF assms(1)])
  have other: "leaves h (kept (t\<lparr>tx_flags := fl\<rparr>, send_non_200_ack ev msg t' s))" "leaves h (kept (t, send_non_200_ack ev msg t' s))"
    "leaves h (kept (t, s))" "leaves h (removed h (reset_all_timers (t, s)))"
    if "trans_ok h t" for fl t'
    using assms(1,2) that by (auto intro!: keptI' [OF assms(1)] removedI [OF assms(1)] simp: same_table_def)
  show ?thesis
    using assms(3-8) fin [of "(t, s)"] fin [of "reset_all_timers (t, s)"] other
    by (cases "tx_state t") (simp_all add: uac_error_def Let_def split_beta reset_all_fst same_table_def set_flag_def)
qed

lemma uac_invite_error_ok:
  assumes "layer_ok s" and "copy_ok h t s" and "tx_type t = TT_UAC" and "is_invite t"
  shows "leaves h (snd (uac_invite_error ev h msg (t, s)))"
proof (cases "reply_code_of msg = 503 \<and> (tx_state t = TS_CALLING \<or> tx_state t = TS_PROCEEDING)")
  case False
  have "tx_state t = TS_PROCEEDING \<longrightarrow> timers t 0 = None \<and> timers t 1 = None" "trans_ok h t" "tx_id t \<in> ids h s"
    "own h (tx_id t) (timers t)" "invite_text (tx_msg t)"
    using assms by (auto simp: copy_ok_def trans_ok_def ty_at_None)
  with False assms(1,3,4) uac_error_ok show ?thesis by (auto simp: uac_invite_error_def)
next
  case True
  define s0 where "s0 = (if \<not> flag (tx_flags t) TR_FLAG_DISABLE_BL
    then blacklist ev (remote_ip (tx_msg t)) ''503'' s else s)"
  have s: "same_table s s0" by (simp add: same_table_def s0_def)
  have ok: "layer_ok s0" "copy_ok h t s0" using layer_ok_same [OF assms(1) s] copy_ok_same [OF assms(2) s] .
  have t: "invite_text (tx_msg t)" "own h (tx_id t) (timers t)" "tx_id t \<in> ids h s0"
    "uac_slots True (tx_state t) (ty_at (timers t) 0) (ty_at (timers t) 1) (ty_at (timers t) 2)"
    using ok(2) assms(3,4) by (simp_all add: copy_ok_def trans_ok_def)
  obtain r t1 s1 where r: "try_next_ip ev h (local_socket msg \<noteq> None) (t, s0) = (r, t1, s1)" by (metis prod_cases3)
  have err: "leaves h (snd (uac_error ev h msg fg (t1, s1)))"
    if "layer_ok s1" "ids h s0 \<subseteq> ids h s1" "same_trans (no_slot2 t) t1" for fg
  proof (rule uac_error_ok)
    show "is_invite t1" using same_trans_invite [OF that(3)] assms(4) by (simp add: no_slot2_def)
  qed (use that t True assms(3) in \<open>auto simp: same_trans_def no_slot2_def same_kind_def ty_at_None\<close>)
  show ?thesis
  proof (cases "local_socket msg \<noteq> None")
    case new: True
    have "layer_ok s1 \<and> ids h s0 \<subseteq> ids h s1 \<and> same_trans (no_slot2 t) t1"
    proof (rule try_next_new_ok [OF ok(1) assms(3) t(1,2)])
      show "try_next_ip ev h True (t, s0) = (r, t1, s1)" using r new by simp
    qed (use t(4) True assms(4) in \<open>auto simp: main_timer_def\<close>)
    with err True new r show ?thesis by (simp add: uac_invite_error_def s0_def [symmetric])
  next
    case False
    from r False have "same_table s0 s1 \<and> moved_on ev h (no_slot2 t) r t1"
      using try_next_same_ok [OF t(1,2)] by auto
    moreover have "can_resend h (no_slot2 t)"
      using t True assms(3,4) by (auto simp: can_resend_def no_slot2_def main_timer_def retr_timer_def)
    ultimately have m: "same_table s0 s1" "tx_id t1 = tx_id t"
      "r = -1 \<and> same_trans (no_slot2 t) t1 \<or> r = 0 \<and> trans_ok h t1"
      using moved_on_ok by (fastforce simp: no_slot2_def)+
    have "layer_ok s1" "ids h s0 = ids h s1" using layer_ok_same [OF ok(1) m(1)] m(1) by (simp_all add: same_table_def)
    with m err t(3) True False r show ?thesis
      by (auto simp: uac_invite_error_def s0_def [symmetric] copy_ok_def intro!: leaves_kept)
  qed
qed

lemma uac_success_ok:
  assumes "layer_ok s" and "copy_ok h t s" and "tx_type t = TT_UAC" and "is_invite t"
  shows "leaves h (snd (uac_success ev h msg (t, s)))"
proof -
  have t: "invite_text (tx_msg t)" "own h (tx_id t) (timers t)" "trans_ok h t"
    using assms(2,3) by (simp_all add: copy_ok_def trans_ok_def)
  have "trans_ok h (t\<lparr>tx_state := TS_TERMINATED_200, timers := (timers t)(0 := None, 1 := None, 2 \<mapsto> tm)\<rparr>)"
    if "tt_type tm = STIMER_L" "tt_bucket tm = h" "tt_trans tm = tx_id t" for tm
    using t that assms(3,4) by (simp add: trans_ok_def)
  with t(3) assms(3) show ?thesis
    by (cases "tx_state t")
      (auto simp: uac_success_def Let_def split_beta same_table_def reset_all_fst
        intro!: keptI [OF assms(1,2)])
qed

text \<open>
  A 503 to another request than an INVITE: the slot of timers K and BL is emptied before the state
  is looked at, which is why the invariant allows it to be empty behind the final reply.
\<close>

lemma uac_non_invite_final_ok:
  assumes "layer_ok s" and "tx_id t \<in> ids h s" and "tx_type t = TT_UAC" and "trans_ok h t" and "\<not> is_invite t"
  shows "leaves h (snd (uac_non_invite_final ev h msg (t, s)))"
proof -
  have t: "invite_text (tx_msg t)" "own h (tx_id t) (timers t)" using assms(3,4) by (simp_all add: trans_ok_def)
  have fin: "leaves h (snd (uac_non_invite_done ev h msg (t, s)))"
    using t assms(2,3,5)
    by (auto simp: uac_non_invite_done_def Let_def same_table_def trans_ok_def
        intro!: keptI' [OF assms(1)] removedI [OF assms(1)])
  have same: "leaves h (kept (t, s))" "leaves h (kept (set_flag x (t, s)))" "leaves h (removed h (t, s))" for x
    using assms by (auto intro!: keptI' [OF assms(1)] removedI [OF assms(1)] simp: same_table_def)
  show ?thesis
    using fin same by (cases "tx_state t") (simp_all add: uac_non_invite_final_def Let_def)
qed

lemma no_slot2_ok:
  "trans_ok h t \<Longrightarrow> tx_type t = TT_UAC \<Longrightarrow> \<not> is_invite t \<Longrightarrow> trans_ok h (no_slot2 t)"
  by (cases "tx_state t") (auto simp: trans_ok_def no_slot2_def)

lemma uac_non_invite_ok:
  assumes "layer_ok s" and "copy_ok h t s" and "tx_type t = TT_UAC" and "\<not> is_invite t"
  shows "leaves h (snd (uac_non_invite ev h msg (t, s)))"
proof (cases "reply_code_of msg = 503")
  case False
  with uac_non_invite_final_ok [OF assms(1) _ assms(3) _ assms(4)] assms(2) show ?thesis
    by (simp add: uac_non_invite_def copy_ok_def)
next
  case True
  let ?s = "blacklist ev (remote_ip (tx_msg t)) ''503'' s"
  obtain r t1 s1 where r: "try_next_ip ev h False (t, ?s) = (r, t1, s1)" by (metis prod_cases3)
  have t: "invite_text (tx_msg t)" "own h (tx_id t) (timers t)" "trans_ok h t" "tx_id t \<in> ids h s"
    using assms(2,3) by (simp_all add: copy_ok_def trans_ok_def)
  have m: "same_table ?s s1 \<and> moved_on ev h (no_slot2 t) r t1" using try_next_same_ok [OF t(1,2) r] .
  have "can_resend h (no_slot2 t)"
    using t assms(3,4) by (cases "tx_state t")
      (auto simp: can_resend_def trans_ok_def no_slot2_def main_timer_def retr_timer_def)
  with m have t1: "tx_id t1 = tx_id t" "r = -1 \<and> same_trans (no_slot2 t) t1 \<or> r = 0 \<and> trans_ok h t1"
    using moved_on_ok by (fastforce simp: no_slot2_def)+
  have same: "same_table s s1" using m by (simp add: same_table_def)
  have ok: "layer_ok s1" "tx_id t1 \<in> ids h s1"
    using layer_ok_same [OF assms(1) same] same t(4) t1(1) by (simp_all add: same_table_def)
  show ?thesis
  proof (cases "r = 0")
    case rr: True
    with t1(2) ok show ?thesis using True r by (auto simp: uac_non_invite_def copy_ok_def intro!: leaves_kept)
  next
    case False
    with t1(2) have st: "same_trans (no_slot2 t) t1" by auto
    have "trans_ok h t1" "tx_type t1 = TT_UAC" "\<not> is_invite t1"
      using trans_ok_same [OF st] no_slot2_ok [OF t(3) assms(3,4)] same_trans_invite [OF st] st assms(3,4)
      by (auto simp: no_slot2_def same_trans_def)
    with uac_non_invite_final_ok [OF ok] False True r show ?thesis by (simp add: uac_non_invite_def)
  qed
qed

lemma update_uac_reply_ok:
  "layer_ok s \<Longrightarrow> copy_ok h t s \<Longrightarrow> tx_type t = TT_UAC \<Longrightarrow> leaves h (snd (update_uac_reply ev h msg (t, s)))"
  by (simp add: update_uac_reply_def uac_provisional_ok uac_invite_error_ok uac_success_ok uac_non_invite_ok)

section \<open>The server\<close>

lemma uas_reply_ok:
  assumes "layer_ok s" and "copy_ok h t s" and "tx_type t = TT_UAS" and "reply_status t < 200"
  shows "leaves h (snd (update_uas_reply ev h code (t, s)))"
proof -
  have t: "own h (tx_id t) (timers t)"
    "uas_slot0 (ty_at (timers t) 0)" "uas_slot1 (ty_at (timers t) 1)" "uas_slot2 (ty_at (timers t) 2)"
    using assms(2,3) by (simp_all add: copy_ok_def trans_ok_def)
  have r: "leaves h (uas_error_reply ev h rel (t\<lparr>reply_status := code\<rparr>, s))" if "300 \<le> code" for rel
    using t assms(3,4) that
    by (auto simp: uas_error_reply_def Let_def same_table_def trans_ok_def
        intro!: keptI [OF assms(1,2)] removedI [OF assms(1)])
  moreover have "leaves h (uas_final_reply ev h rel (t\<lparr>reply_status := code\<rparr>, s))" if "200 \<le> code" for rel
    using t assms(3,4) that
    by (auto simp: uas_final_reply_def Let_def same_table_def trans_ok_def
        intro!: keptI [OF assms(1,2)] removedI [OF assms(1)])
  moreover have "leaves h (uas_provisional_reply ev h rel (t\<lparr>reply_status := code\<rparr>, s))" for rel
    using t assms(3,4)
    by (auto simp: uas_provisional_reply_def Let_def same_table_def trans_ok_def
        intro!: keptI [OF assms(1,2)])
  ultimately show ?thesis by (simp add: update_uas_reply_def Let_def)
qed

lemma update_uas_request_ok:
  assumes "layer_ok s" and "copy_ok h t s" and "tx_type t = TT_UAS \<or> msg_method msg \<noteq> Some ACK"
  shows "leaves h (snd (update_uas_request ev h msg (t, s)))"
proof -
  have t: "trans_ok h t" "tx_id t \<in> ids h s" using assms(2) by (simp_all add: copy_ok_def)
  have same: "leaves h (kept (t, s))" "leaves h (removed h (t, s))"
    using assms(1,2) by (simp_all add: leaves_kept leaves_removed)
  have prack: "leaves h (kept (clear_timer STIMER_H (clear_timer STIMER_G (t, s))))" if "tx_state t = TS_PROCEEDING_REL"
    using t that
    by (cases "tx_type t") (auto simp: same_table_def trans_ok_def intro!: keptI [OF assms(1,2)])
  let ?ts = "clear_timer STIMER_H (clear_timer STIMER_G (set_state TS_CONFIRMED (t, s)))"
  have ack: "leaves h (kept (reset_timer STIMER_I d h ?ts))" "leaves h (removed h ?ts)"
    if "tx_state t = TS_COMPLETED" "tx_type t = TT_UAS" for d
    using t that
    by (auto simp: same_table_def trans_ok_def intro!: keptI [OF assms(1,2)] removedI [OF assms(1)])
  show ?thesis
    using same prack ack assms(3)
    by (cases "tx_state t") (auto simp: update_uas_request_def Let_def)
qed

lemma send_reply_trans_ok:
  assumes "layer_ok s" and "copy_ok h t s" and "tx_type t = TT_UAS" and "reply_status t < 200"
  shows "leaves h (snd (send_reply_trans ev h msg dlg tag (t, s)))"
proof (cases "\<exists>sk v. local_socket (tx_msg t) = Some sk \<and> m_via_p1 (tm_msg (tx_msg t)) = Some v")
  case False
  then have "send_reply_trans ev h msg dlg tag (t, s) = (-1, Some t, s)"
    by (cases "local_socket (tx_msg t)"; cases "m_via_p1 (tm_msg (tx_msg t))")
      (simp_all add: send_reply_trans_def Let_def)
  with assms(1,2) show ?thesis by (simp add: leaves_def)
next
  case True
  then obtain sk v where v: "local_socket (tx_msg t) = Some sk" "m_via_p1 (tm_msg (tx_msg t)) = Some v" by blast
  have t: "tx_state t = TS_TRYING \<or> tx_state t = TS_PROCEEDING \<or> tx_state t = TS_PROCEEDING_REL" "trans_ok h t"
    using assms(2-4) by (cases "tx_state t"; simp add: copy_ok_def trans_ok_def)+
  define t1 where "t1 l tg = t\<lparr>last_rseq := l, tx_to_tag := tg\<rparr>" for l tg
  have t1: "copy_ok h (t1 l tg) s" "tx_type (t1 l tg) = TT_UAS" "reply_status (t1 l tg) < 200" "tx_id (t1 l tg) = tx_id t" for l tg
    using assms(2-4) by (simp_all add: t1_def copy_ok_def)
  have sent: "leaves h (reply_sent ev h sk a buf code dlg (t1 l tg, s1))"
    if "same_table s s1" for s1 a buf code l tg
  proof -
    let ?t = "(t1 l tg)\<lparr>retr_buf := Some buf, retr_addr := a, retr_socket := Some sk\<rparr>"
    obtain x ot s2 where u: "update_uas_reply ev h code (?t, s1) = (x, ot, s2)" by (metis prod_cases3)
    have "copy_ok h ?t s" using t1(1) [of l tg] by (simp add: copy_ok_def)
    then have "leaves h (ot, s2)"
      using uas_reply_ok [OF layer_ok_same [OF assms(1) that] copy_ok_same [OF _ that], where t = ?t and h = h and ev = ev and code = code] t1(2,3) u
      by simp
    then show ?thesis
      by (cases ot) (simp_all add: reply_sent_def u leaves_def copy_ok_def)
  qed
  have "leaves h (reply_not_sent ev h sk (t1 l tg, s1))" if "same_table s s1" for s1 l tg
  proof (cases "sk_reliable sk")
    case True
    with removedI [OF assms(1)] that show ?thesis by (simp add: reply_not_sent_def)
  next
    case False
    have "trans_ok h (t1 l tg)" using t(2) by (simp add: t1_def)
    then have "trans_ok h (fst (reset_timer STIMER_J d h (t1 l tg, s1)))" for d
      using t(1) assms(3) by (elim disjE) (simp_all add: t1_def trans_ok_def)
    with False that show ?thesis
      by (simp add: reply_not_sent_def keptI [OF assms(1,2)] t1_def same_table_def)
  qed
  moreover have "same_table s (snd (send_bytes ev sk a b fl s))" for a b fl by (simp add: same_table_def)
  moreover have "leaves h (Some (t1 l tg), s)" for l tg using assms(1) t1(1) by (simp add: leaves_def)
  ultimately show ?thesis
    using sent v by (simp add: send_reply_trans_def split_beta Let_def t1_def split: option.split)
qed

lemma new_uas_ok:
  assumes "layer_ok s" and "h < H_TABLE_ENTRIES"
  shows "layer_ok (snd (add_trans junk h msg TT_UAS s))"
  unfolding add_trans_simps(2)
proof (rule layer_ok_append)
  show "layer_ok (s\<lparr>tl_fresh := tl_fresh s + 1\<rparr>)"
    using assms(1) by (rule layer_ok_same) (simp add: same_table_def)
qed (use fresh_not_in [OF assms(1), of h] assms(2) in \<open>simp_all add: add_trans_simps(1) new_trans_def trans_ok_def is_invite_def\<close>)

end
