(* ===== verification/Trans_Reach.thy ===== *)
theory Trans_Reach
  imports Trans_Inv
begin

text \<open>
  The entry points of the transaction layer, the steps of the system and the states they reach.
  The entry points find a transaction, run one of the state machines on it and write the result
  back. They rely on the handlers only through what the locale below asks of them, and the
  properties of the layer hold in every reachable state.
\<close>

section \<open>What the entry points rely on\<close>

lemma bucket_of_less [simp]: "bucket_of x y < H_TABLE_ENTRIES"
  by (simp add: bucket_of_def get_trans_bucket_def)

locale handlers =
  fixes ev :: env
    and Inv :: "tl \<Rightarrow> bool"
    and Copy :: "nat \<Rightarrow> sip_trans \<Rightarrow> tl \<Rightarrow> bool"
  assumes lookup: "Inv s \<Longrightarrow> t \<in> set (tl_buckets s h) \<Longrightarrow> Copy h t s"
    and store: "Inv s \<Longrightarrow> Copy h t s \<Longrightarrow> Inv (bucket_store h t s)"
    and emit: "Inv s \<Longrightarrow> Inv (emit x s)"
    and counter: "Inv s \<Longrightarrow> Inv (s\<lparr>branch_cnt := n\<rparr>)"
    and timer: "Inv s \<Longrightarrow> Copy h t s \<Longrightarrow> get_timer (tt_type tm AND 0xFFFF) t = Some tm \<Longrightarrow>
      timer_expired ev h tm (t, s) = (ot, s') \<Longrightarrow> Inv s' \<and> (\<forall>t'. ot = Some t' \<longrightarrow> Copy h t' s')"
    and reply: "Inv s \<Longrightarrow> Copy h t s \<Longrightarrow> tx_type t = TT_UAC \<Longrightarrow>
      update_uac_reply ev h msg (t, s) = (r, ot, s') \<Longrightarrow> Inv s' \<and> (\<forall>t'. ot = Some t' \<longrightarrow> Copy h t' s')"
    and request: "Inv s \<Longrightarrow> Copy h t s \<Longrightarrow> tx_type t = TT_UAS \<or> msg_method msg \<noteq> Some ACK \<Longrightarrow>
      update_uas_request ev h msg (t, s) = (y, ot, s') \<Longrightarrow> Inv s' \<and> (\<forall>t'. ot = Some t' \<longrightarrow> Copy h t' s')"
    and answer: "Inv s \<Longrightarrow> Copy h t s \<Longrightarrow> tx_type t = TT_UAS \<Longrightarrow> reply_status t < 200 \<Longrightarrow>
      send_reply_trans ev h msg dlg tag (t, s) = (c, ot, s') \<Longrightarrow> Inv s' \<and> (\<forall>t'. ot = Some t' \<longrightarrow> Copy h t' s')"
    and cancel_one: "Inv s \<Longrightarrow> Copy h t s \<Longrightarrow> cancel_trans ev h hdrs (t, s) = (c, t', s') \<Longrightarrow> Inv s' \<and> Copy h t' s'"
    and server_new: "Inv s \<Longrightarrow> h < H_TABLE_ENTRIES \<Longrightarrow> Inv (snd (add_trans (junk_flags ev) h msg TT_UAS s))"
begin

lemma settle_inv: "Inv (snd r) \<Longrightarrow> (\<And>t. fst r = Some t \<Longrightarrow> Copy h t (snd r)) \<Longrightarrow> Inv (settle h r)"
  by (auto simp: settle_def store split: option.split)

lemma send_inv: "Inv s \<Longrightarrow> Inv (snd (send_bytes ev sk a b fl s))"
  by (simp add: send_bytes_def emit Let_def)

lemma retransmit_inv: "Inv s \<Longrightarrow> Inv (retransmit ev t s)"
  by (auto simp: retransmit_def send_inv split: option.split)

lemma sl_reply_inv: "Inv s \<Longrightarrow> Inv (snd (send_sl_reply ev msg code reason hdrs body s))"
proof -
  have one: "Inv (snd (sl_hdr_wr msg b x cs))" if "Inv (snd cs)" for b x cs
    using that by (auto simp: sl_hdr_wr_def compute_sl_to_tag_def branch_inc_def split_beta Let_def counter
        split: hdr_type.split)
  have "Inv (snd (fold (sl_hdr_wr msg b) hs cs))" if "Inv (snd cs)" for b hs cs
    using that by (induction hs arbitrary: cs) (simp_all add: one)
  then show "Inv s \<Longrightarrow> Inv (snd (send_sl_reply ev msg code reason hdrs body s))"
    by (simp add: send_sl_reply_def sl_reply_wr_def split_beta Let_def send_inv)
qed

lemma fire_timer_inv:
  assumes "Inv s"
  shows "Inv (fire_timer ev tm s)"
proof (cases "bucket_find (tt_trans tm) (tl_buckets s (tt_bucket tm mod H_TABLE_ENTRIES))")
  case (Some t)
  let ?h = "tt_bucket tm mod H_TABLE_ENTRIES"
  have t: "Copy ?h t s" using Some lookup [OF assms] by (auto simp: bucket_find_def find_Some_iff)
  obtain ot s' where r: "timer_expired ev ?h tm (t, s) = (ot, s')" by fastforce
  show ?thesis
    using timer [OF assms t _ r] assms Some r by (auto simp: fire_timer_def Let_def intro!: settle_inv)
qed (use assms in \<open>simp add: fire_timer_def Let_def\<close>)

lemma rcvd_reply_inv:
  assumes "Inv s"
  shows "Inv (rcvd_reply ev h msg s)"
proof (cases "match_reply msg (tl_buckets s h)")
  case (Some t)
  then have "t \<in> set (tl_buckets s h)" "tx_type t = TT_UAC"
    by (auto simp: match_reply_def reply_matches_def Let_def find_Some_iff split: if_splits)
  moreover obtain r ot s' where u: "update_uac_reply ev h msg (t, s) = (r, ot, s')" by (metis prod_cases3)
  ultimately have "Inv (settle h (ot, s'))"
    using reply [OF assms lookup [OF assms]] by (auto intro!: settle_inv)
  with Some u show ?thesis by (simp add: rcvd_reply_def emit Let_def)
qed (use assms in \<open>simp add: rcvd_reply_def\<close>)

lemma update_uas_inv:
  assumes "Inv s" and "t \<in> set (tl_buckets s h)" and "tx_type t = TT_UAS \<or> msg_method msg \<noteq> Some ACK"
  shows "Inv (settle h (snd (update_uas_request ev h msg (t, s))))"
proof -
  obtain x ot s' where "update_uas_request ev h msg (t, s) = (x, ot, s')" by (metis prod_cases3)
  with request [OF assms(1) lookup [OF assms(1,2)] assms(3) this] show ?thesis by (auto intro!: settle_inv)
qed

lemma rcvd_new_inv: "Inv s \<Longrightarrow> Inv (rcvd_new_request ev (bucket_of x y) msg s)"
  by (simp add: rcvd_new_request_def split_beta Let_def emit server_new bucket_of_less)

lemma process_rcvd_msg_inv:
  assumes "Inv s"
  shows "Inv (process_rcvd_msg ev msg s)"
proof -
  have known: "Inv (rcvd_known_request ev h msg t s)"
    if "match_request msg TT_UAS (tl_buckets s h) = Some t" for h t
  proof -
    have "t \<in> set (tl_buckets s h)" "tx_type t = TT_UAS"
      using that
      by (auto simp: match_request_def match_3261_def match_pre_3261_def Let_def find_Some_iff split: if_splits)
    then show ?thesis
      using update_uas_inv [OF assms, of t h msg] retransmit_inv [OF assms]
      by (simp add: rcvd_known_request_def split_beta Let_def emit)
  qed
  have "Inv (rcvd_prack ev msg rack s)" if "msg_method msg = Some PRACK" for rack
    using that assms update_uas_inv [OF assms, of _ _ msg]
    by (auto simp: rcvd_prack_def match_1xx_prack_def Let_def find_Some_iff split: option.split)
  with known show ?thesis
    by (auto simp: process_rcvd_msg_def Let_def assms rcvd_new_inv rcvd_reply_inv sl_reply_inv
        split: msg_type.split option.split)
qed

lemma received_msg_inv: "Inv s \<Longrightarrow> Inv (received_msg ev buf sk a s)"
  by (auto simp: received_msg_def Let_def process_rcvd_msg_inv sl_reply_inv split: option.split)

lemma transport_error_inv: "Inv s \<Longrightarrow> Inv (transport_error ev buf s)"
  by (auto simp: transport_error_def Let_def process_rcvd_msg_inv split: option.split)

lemma send_reply_inv:
  assumes "Inv s" and "\<forall>t \<in> set (tl_buckets s h). tx_id t = i \<longrightarrow> tx_type t = TT_UAS"
  shows "Inv (snd (send_reply ev h i msg dlg tag s))"
proof (cases "bucket_find i (tl_buckets s h)")
  case (Some t)
  then have "t \<in> set (tl_buckets s h)" "tx_type t = TT_UAS"
    using assms(2) by (auto simp: bucket_find_def find_Some_iff)
  moreover obtain c ot s' where u: "send_reply_trans ev h msg dlg tag (t, s) = (c, ot, s')" by (metis prod_cases3)
  ultimately show ?thesis
    using answer [OF assms(1) lookup [OF assms(1)]] assms(1) Some
    by (auto simp: send_reply_def intro!: settle_inv)
qed (use assms in \<open>simp add: send_reply_def\<close>)

lemma cancel_inv:
  assumes "Inv s"
  shows "Inv (snd (cancel ev h i dlg inv_cseq hdrs s))"
proof -
  have one: "Inv (snd (let (r, t1, s1) = cancel_trans ev h hdrs (t, s) in (r, bucket_store h t1 s1)))"
    if "t \<in> set (tl_buckets s h)" for t
  proof -
    obtain c t' s' where "cancel_trans ev h hdrs (t, s) = (c, t', s')" by (metis prod_cases3)
    with cancel_one [OF assms lookup [OF assms that] this] show ?thesis by (simp add: store)
  qed
  have "t \<in> set (tl_buckets s h)"
    if "bucket_find i (tl_buckets s h) = Some t \<or> find_uac_trans dlg inv_cseq (tl_buckets s h) = Some t" for t
    using that by (auto simp: bucket_find_def find_uac_trans_def find_Some_iff) (metis nth_mem length_rev set_rev)
  with one assms show ?thesis
    by (auto simp: cancel_def Let_def split: option.splits if_splits)
qed

end

section \<open>The handlers keep the invariant\<close>

lemma leavesD: "leaves h (ot, s) \<Longrightarrow> layer_ok s \<and> (\<forall>t. ot = Some t \<longrightarrow> copy_ok h t s)"
  by (simp add: leaves_def)

interpretation layer: handlers ev layer_ok copy_ok for ev
proof
  fix s :: tl and n show "layer_ok s \<Longrightarrow> layer_ok (s\<lparr>branch_cnt := n\<rparr>)" by (simp add: layer_ok_def)
next
  fix s h t tm ot s'
  assume "layer_ok s" "copy_ok h t s" "get_timer (tt_type tm AND 0xFFFF) t = Some tm"
    "timer_expired ev h tm (t, s) = (ot, s')"
  with timer_expired_ok [OF this(1-3), of ev] show "layer_ok s' \<and> (\<forall>t'. ot = Some t' \<longrightarrow> copy_ok h t' s')"
    by (simp add: leavesD)
next
  fix s h t msg r ot s'
  assume "layer_ok s" "copy_ok h t s" "tx_type t = TT_UAC" "update_uac_reply ev h msg (t, s) = (r, ot, s')"
  with update_uac_reply_ok [OF this(1-3), of ev msg] show "layer_ok s' \<and> (\<forall>t'. ot = Some t' \<longrightarrow> copy_ok h t' s')"
    by (simp add: leavesD)
next
  fix s h t msg y ot s'
  assume "layer_ok s" "copy_ok h t s" "tx_type t = TT_UAS \<or> msg_method msg \<noteq> Some ACK"
    "update_uas_request ev h msg (t, s) = (y, ot, s')"
  with update_uas_request_ok [OF this(1-3), of ev] show "layer_ok s' \<and> (\<forall>t'. ot = Some t' \<longrightarrow> copy_ok h t' s')"
    by (simp add: leavesD)
next
  fix s h t msg dlg tag c ot s'
  assume "layer_ok s" "copy_ok h t s" "tx_type t = TT_UAS" "reply_status t < 200"
    "send_reply_trans ev h msg dlg tag (t, s) = (c, ot, s')"
  with send_reply_trans_ok [OF this(1-4), of ev msg dlg tag]
  show "layer_ok s' \<and> (\<forall>t'. ot = Some t' \<longrightarrow> copy_ok h t' s')" by (simp add: leavesD)
next
  fix s h t hdrs c t' s'
  assume "layer_ok s" "copy_ok h t s" "cancel_trans ev h hdrs (t, s) = (c, t', s')"
  then show "layer_ok s' \<and> copy_ok h t' s'" by (rule cancel_trans_ok)
qed (simp_all add: layer_ok_found layer_ok_store new_uas_ok)

section \<open>Requests of the application\<close>

text \<open>What the layer expects of a message of the application: a method that is a token.\<close>

definition app_request :: "tmsg \<Rightarrow> bool" where
  "app_request m \<longleftrightarrow>
     (\<exists>rq. m_request (tm_msg m) = Some rq \<and> cs_ok 0 (length (tm_buf m)) (rq_method_str rq) \<and>
           list_all IS_TOKEN (mtxt m (rq_method_str rq)))"

lemma app_request_cong:
  "tm_buf m' = tm_buf m \<Longrightarrow> m_request (tm_msg m') = m_request (tm_msg m) \<Longrightarrow> app_request m \<Longrightarrow> app_request m'"
  by (simp add: app_request_def mtxt_def)

lemma app_request_socket: "app_request m \<Longrightarrow> set_trsp_socket ev tp oi m = Some m' \<Longrightarrow> app_request m'"
  by (rule app_request_cong [of m' m]) (auto simp: set_trsp_socket_def Let_def split: if_splits option.splits)

lemma c2stlstr_append: "cs_ok 0 (length buf) cs \<Longrightarrow> c2stlstr (buf @ x) cs = c2stlstr buf cs"
  by (auto simp: c2stlstr_def cs_ok_def)

lemma app_request_ruri:
  assumes "app_request m" and "patch_ruri_with_remote_ip m = Some m'"
  shows "app_request m'"
  using assms(2)
proof (rule patch_ruri_shape)
  fix rq n x assume m': "m_request (tm_msg m) = Some rq"
    "m' = m\<lparr>tm_buf := tm_buf m @ n, tm_msg := (tm_msg m)\<lparr>m_request := Some (rq\<lparr>ruri_str := x\<rparr>)\<rparr>\<rparr>"
  with assms(1) have c: "cs_ok 0 (length (tm_buf m)) (rq_method_str rq)" by (simp add: app_request_def)
  moreover have "cs_ok 0 (length (tm_buf m @ n)) (rq_method_str rq)"
    by (rule cs_ok_mono [OF c]) simp_all
  ultimately show ?thesis
    using assms(1) m' by (simp add: app_request_def mtxt_def c2stlstr_append)
qed

lemma app_request_generate:
  assumes "app_request m" and "generate_and_parse_new_msg ev m s = (Some p, s')"
  shows "invite_text p" "same_table s s'"
proof -
  obtain rq where rq: "m_request (tm_msg m) = Some rq" "list_all IS_TOKEN (mtxt m (rq_method_str rq))"
    using assms(1) by (auto simp: app_request_def)
  obtain branch cts q err where
    q: "p = \<lparr>tm_buf = new_msg_wr m branch cts, tm_msg = q, local_socket = local_socket m, remote_ip = remote_ip m\<rparr>"
      "parse_sip_msg (new_msg_wr m branch cts) (length (new_msg_wr m branch cts)) (junk_method ev) = Some (q, err, 0)"
    using assms(2) by (auto simp: generate_and_parse_new_msg_def Let_def split: option.splits prod.splits if_splits)
  obtain rest where "new_msg_wr m branch cts = mtxt m (rq_method_str rq) @ SP # rest"
    using rq(1) by (simp add: new_msg_wr_def request_line_wr_def rq_of_def)
  from generated_invite_text(1) [OF this rq(2) q(2)] q(1) show "invite_text p" by simp
  show "same_table s s'" using generate_table [OF assms(2)] .
qed

lemma request_for_next_ok:
  assumes "app_request m" and "request_for_next ev oi fl dlg m tgs s = (r, x, s')"
  shows "same_table s s' \<and> (\<forall>m2 p rest. x = Some (m2, p, rest) \<longrightarrow> app_request m2 \<and> invite_text p)"
proof -
  have self: "same_table s s" "same_table s (emit e s)" for e by (simp_all add: same_table_def)
  have m: "app_request (m\<lparr>remote_ip := sa\<rparr>)" for sa by (rule app_request_cong [OF _ _ assms(1)]) simp_all
  have m2: "app_request m2"
    if "set_trsp_socket ev tp oi (m\<lparr>remote_ip := sa\<rparr>) = Some m1"
      "(if fl' then patch_ruri_with_remote_ip m1 else Some m1) = Some m2" for tp sa fl' m1 m2
    using app_request_socket [OF m that(1)] app_request_ruri [of m1 m2] that(2) by (auto split: if_splits)
  show ?thesis
  proof (cases "get_next (bl_exist ev (tl_out s)) fl tgs")
    case None
    with assms(2) self show ?thesis by (auto simp: request_for_next_def)
  next
    case (Some a)
    then obtain sa tp rest where n: "get_next (bl_exist ev (tl_out s)) fl tgs = Some (sa, tp, rest)"
      by (metis prod_cases3)
    show ?thesis
    proof (cases "set_trsp_socket ev tp oi (m\<lparr>remote_ip := sa\<rparr>)")
      case None
      with assms(2) self n show ?thesis by (simp add: request_for_next_def)
    next
      case (Some m1)
      let ?m2 = "if flag fl TR_FLAG_NEXT_HOP_RURI then patch_ruri_with_remote_ip m1 else Some m1"
      show ?thesis
      proof (cases ?m2)
        case None
        with assms(2) self n Some show ?thesis by (simp add: request_for_next_def)
      next
        case (Some m2')
        obtain q s1 where g: "generate_and_parse_new_msg ev m2' s = (q, s1)" by fastforce
        with \<open>set_trsp_socket ev tp oi _ = Some m1\<close> Some n assms(2)
        have "s' = s1" "x = map_option (\<lambda>p. (m2', p, rest)) q"
          by (cases q; simp add: request_for_next_def)+
        with app_request_generate [of m2' ev s] generate_table [OF g] g m2 [OF \<open>set_trsp_socket ev tp oi _ = Some m1\<close> Some]
        show ?thesis by auto
      qed
    qed
  qed
qed

lemma request_sent_ok:
  assumes "layer_ok s" and "invite_text p" and "update_uac_request ev h p s = (r, Some t, s1)" and "h < H_TABLE_ENTRIES"
  shows "layer_ok (bucket_store h (fst (request_sent ev h fl dlg rest p (t, s1))) (snd (request_sent ev h fl dlg rest p (t, s1))))"
proof (cases "msg_method p = Some ACK")
  case True
  note u = update_uac_request_ack [OF assms(1) True assms(3)]
  with True show ?thesis by (auto simp: request_sent_def layer_ok_store copy_ok_def)
next
  case False
  note u = update_uac_request_new [OF assms(1,2) False assms(4,3)]
  have t: "copy_ok h t s1" using u(3) by simp
  have st: "tx_type t = TT_UAC" "tx_msg t = p" "tx_state t = (if msg_method p = Some INVITE then TS_CALLING else TS_TRYING)"
    using assms(3) False
    by (auto simp: update_uac_request_def start_uac_timers_def new_trans_def add_trans_simps(1) Let_def split_beta)
  let ?ts = "(t\<lparr>tx_flags := fl, targets := Some rest\<rparr>, s1)"
  have "same_table s1 (snd (reset_timer STIMER_M d h ?ts))" for d by (simp add: same_table_def)
  moreover have "trans_ok h (fst (reset_timer STIMER_M d h ?ts))" for d
    using copy_trans_ok [OF t] st by (auto simp: trans_ok_def is_invite_def)
  ultimately have m: "layer_ok (snd (reset_timer STIMER_M d h ?ts))"
    "copy_ok h (fst (reset_timer STIMER_M d h ?ts)) (snd (reset_timer STIMER_M d h ?ts))" for d
    using u(1) t layer_ok_same by (auto simp: copy_ok_def)
  have d: "copy_ok h (x\<lparr>dialog_id := y\<rparr>) s2 = copy_ok h x s2" for x y s2 by (simp add: copy_ok_def)
  have "copy_ok h (t\<lparr>tx_flags := fl, targets := Some rest\<rparr>) s1" using t by (simp add: copy_ok_def)
  with m False u(1) show ?thesis
    by (simp add: request_sent_def Let_def split_beta layer_ok_store d)
qed

lemma send_to_targets_ok:
  assumes "layer_ok s" and "app_request m"
  shows "layer_ok (snd (snd (send_to_targets ev oi fl dlg m tgs s)))"
  using assms
proof (induction ev oi fl dlg m tgs s rule: send_to_targets.induct)
  case (1 ev oi fl dlg m tgs s)
  obtain r x s1 where n: "request_for_next ev oi fl dlg m tgs s = (r, x, s1)" by (metis prod_cases3)
  note nx = request_for_next_ok [OF "1.prems"(2) n]
  then have ok: "layer_ok s1" using layer_ok_same [OF "1.prems"(1)] by blast
  show ?case
  proof (cases x)
    case None
    with n ok show ?thesis by (simp add: send_to_targets.simps [of ev oi])
  next
    case (Some y)
    then obtain m2 p rest where y: "x = Some (m2, p, rest)" by (metis prod_cases3)
    with nx have mp: "app_request m2" "invite_text p" by auto
    let ?h = "bucket_of (msg_callid p) (num_str_of p)"
    obtain e s2 where send: "send_msg ev p fl s1 = (e, s2)" by fastforce
    have "same_table s1 s2" using send_table(1,2) [of ev p fl s1] send by (simp add: same_table_def)
    then have ok2: "layer_ok s2" "layer_ok (blacklist ev (remote_ip p) ''503'' s2)"
      using layer_ok_same [OF ok] by (simp_all add: layer_ok_def)
    obtain e2 ot s3 where u: "update_uac_request ev ?h p s2 = (e2, ot, s3)" by (metis prod_cases3)
    have ok3: "layer_ok s3"
      using update_uac_request_new(1) [OF ok2(1) mp(2) _ bucket_of_less u]
        update_uac_request_ack(1) [OF ok2(1) _ u] by blast
    have sent: "layer_ok (bucket_store ?h (fst (request_sent ev ?h fl dlg rest p (t, s3)))
        (snd (request_sent ev ?h fl dlg rest p (t, s3))))" if "ot = Some t" for t
      using request_sent_ok [OF ok2(1) mp(2) _ bucket_of_less] u that by simp
    show ?thesis
    proof (cases "e < 0")
      case True
      have "layer_ok (snd (snd (send_to_targets ev oi fl dlg m2 rest (blacklist ev (remote_ip p) ''503'' s2))))"
        by (rule "1.IH" [OF n [symmetric] _ y _ _ refl send [symmetric] _ True ok2(2) mp(1)]) simp_all
      with n y send True show ?thesis by (simp add: send_to_targets.simps [of ev oi _ _ m] Let_def)
    next
      case False
      with n y send u ok3 sent show ?thesis
        by (cases ot) (simp_all add: send_to_targets.simps [of ev oi] Let_def split_beta)
    qed
  qed
qed

lemma send_request_ok: "layer_ok s \<Longrightarrow> app_request m \<Longrightarrow> layer_ok (snd (snd (send_request ev oi fl dlg m tgs s)))"
  by (simp add: send_request_def send_to_targets_ok)

section \<open>Reachable states\<close>

text \<open>
  The initial state: an empty table and the clock of a new wheel. The steps: a message arrives,
  the transport reports an error, a timer fires (any timer, at any time), the application sends a
  request, answers one with a ticket that it did not get for a client transaction, answers one
  statelessly or cancels one, the clock moves and the wheel takes requests over.
\<close>

definition init_tl :: tl where
  "init_tl = \<lparr>tl_buckets = (\<lambda>_. []), tl_clock = 0, tl_reqs = [], tl_fresh = 0, tl_timers = (\<lambda>_. None),
     tl_out = [], branch_cnt = 0\<rparr>"

inductive tl_step :: "env \<Rightarrow> tl \<Rightarrow> tl \<Rightarrow> bool" for ev where
  received: "tl_step ev s (received_msg ev buf sk a s)"
| unsent: "tl_step ev s (transport_error ev buf s)"
| fired: "tl_step ev s (fire_timer ev tm s)"
| request: "app_request m \<Longrightarrow> tl_step ev s (snd (snd (send_request ev oi fl dlg m tgs s)))"
| answer: "\<forall>t \<in> set (tl_buckets s h). tx_id t = i \<longrightarrow> tx_type t = TT_UAS \<Longrightarrow>
    tl_step ev s (snd (send_reply ev h i msg dlg tag s))"
| stateless: "tl_step ev s (snd (send_sl_reply ev msg code reason hdrs body s))"
| cancelled: "tl_step ev s (snd (cancel ev h i dlg inv_cseq hdrs s))"
| clock: "tl_step ev s (s\<lparr>tl_clock := n, tl_reqs := rqs\<rparr>)"

inductive reachable :: "env \<Rightarrow> tl \<Rightarrow> bool" for ev where
  start: "reachable ev init_tl"
| step: "reachable ev s \<Longrightarrow> tl_step ev s s' \<Longrightarrow> reachable ev s'"

lemma clock_ok: "layer_ok (s\<lparr>tl_clock := n, tl_reqs := rqs\<rparr>) = layer_ok s" "layer_ok init_tl"
  by (simp_all add: layer_ok_def init_tl_def)

lemma tl_step_ok: "tl_step ev s s' \<Longrightarrow> layer_ok s \<Longrightarrow> layer_ok s'"
  by (induction rule: tl_step.induct)
    (auto intro: layer.received_msg_inv layer.transport_error_inv layer.fire_timer_inv send_request_ok
      layer.send_reply_inv layer.sl_reply_inv layer.cancel_inv simp: clock_ok)

lemma reachable_ok: "reachable ev s \<Longrightarrow> layer_ok s"
  by (induction rule: reachable.induct) (auto intro: tl_step_ok simp: clock_ok)

end
