(* ===== verification/Trans_Props.thy ===== *)
theory Trans_Props
  imports Trans_Reach
begin

text \<open>
  What the invariant of the transaction layer is good for: a client that waits is told about a
  timeout at the latest, an INVITE gets at most one final reply, and what becomes of transactions
  whose timers are lost.
\<close>

section \<open>Samples\<close>

text \<open>Surroundings with the default timers, and an INVITE of a client that was just sent.\<close>

definition sample_sock :: trsp_socket where
  "sample_sock = \<lparr>sk_id = 1, sk_if = 0, sk_transport = ''udp'', sk_reliable = False, sk_advertised_ip = ''10.0.0.1'',
     sk_port = 5060, sk_no_transport_in_contact = False, sk_force_via_address = False\<rparr>"

definition sample_addr :: sockaddr where
  "sample_addr = \<lparr>sa_addr = ''10.0.0.2'', sa_addr_sip = ''10.0.0.2'', sa_port = 5060\<rparr>"

definition sample_env :: env where
  "sample_env = \<lparr>max_forwards = 70, sip_timers = default_sip_timers, sip_timer_t2 = default_t2,
     default_bl_ttl = 60000, junk_flags = 0, junk_method = OTHER_METHOD, wide_shift = (\<lambda>x n. x),
     send_res = (\<lambda>_. 0), bl_exist = (\<lambda>_ _. False), transports = [[(''udp'', sample_sock)]],
     find_outbound_if = (\<lambda>_. 0), str2ip = (\<lambda>_. None)\<rparr>"

definition sample_client :: "string \<Rightarrow> sip_method \<Rightarrow> trans_state \<Rightarrow> (nat \<times> u32) list \<Rightarrow> sip_trans" where
  "sample_client m meth x ts =
     (new_trans 0 \<lparr>tm_buf = m,
        tm_msg = new_msg\<lparr>m_type := SIP_REQUEST,
          m_request := Some \<lparr>rq_method_str = cs_set 0 (int (length m)), rq_method = meth, ruri_str = cs_null, ruri = new_uri\<rparr>\<rparr>,
        local_socket = Some sample_sock, remote_ip = sample_addr\<rparr> 0)
     \<lparr>tx_type := TT_UAC, tx_state := x, dialog_id := ''d'',
      timers := map_of (map (\<lambda>(k, ty). (k, \<lparr>tt_id = k + 1, tt_expires = 1600, tt_type = ty,
                                            tt_bucket = 7, tt_trans = 0\<rparr>)) ts)\<rparr>"

definition sample_tl :: "sip_trans \<Rightarrow> tl" where
  "sample_tl t = init_tl\<lparr>tl_buckets := (\<lambda>_. [])(7 := [t]), tl_fresh := 9\<rparr>"

lemma sample_tl_ok: "trans_ok 7 (sample_client m meth x ts) \<Longrightarrow> layer_ok (sample_tl (sample_client m meth x ts))"
  by (simp add: layer_ok_def sample_tl_def sample_client_def new_trans_def)

section \<open>The invariant\<close>

text \<open>
  C3: in every reachable state of the transaction layer, whatever messages arrive, whichever
  timers fire and whatever the application asks for, the transactions of a bucket have different
  addresses, and every timer in a slot was made for this transaction and this bucket. A client
  transaction has only timers of the kinds that its state allows, and while it waits for a reply the
  one that ends the waiting is set. A server transaction has only timers of server transactions in
  their slots, and once the final reply is sent the timer H, J or I that its state ends with is set.
\<close>

theorem layer_invariant:
  assumes "reachable ev s"
  shows "layer_ok s"
  using assms by (rule reachable_ok)

lemma sample_received:
  "\<exists>h t. tl_buckets (received_msg sample_env (print_request sample_req) sample_sock sample_addr init_tl) h = [t] \<and>
     tx_type t = TT_UAS \<and> tx_state t = TS_PROCEEDING"
proof -
  obtain m rq where m: "parse_sip_msg (print_request sample_req) (length (print_request sample_req)) OTHER_METHOD =
      Some (m, [], 0)" "m_type m = SIP_REQUEST" "m_request m = Some rq" "rq_method rq = INVITE"
    using request_print_parse [OF sample_req_ok, of OTHER_METHOD] method_of_invite
    by (auto simp: request_says_def sample_req_def)
  let ?msg = "\<lparr>tm_buf = print_request sample_req, tm_msg = m, local_socket = Some sample_sock, remote_ip = sample_addr\<rparr>"
  have "received_msg sample_env (print_request sample_req) sample_sock sample_addr init_tl =
      rcvd_new_request sample_env (bucket_of (msg_callid ?msg) (num_str_of ?msg)) ?msg init_tl"
    using m by (simp add: received_msg_def sample_env_def process_rcvd_msg_def Let_def match_request_def
        init_tl_def msg_method_def)
  with m show ?thesis
    by (auto simp: rcvd_new_request_def add_trans_def bucket_append_def emit_def init_tl_def new_trans_def
        msg_method_def Let_def)
qed

theorem layer_invariant_witness:
  "layer_ok (received_msg sample_env (print_request sample_req) sample_sock sample_addr init_tl) \<and>
   (\<exists>h t. tl_buckets (received_msg sample_env (print_request sample_req) sample_sock sample_addr init_tl) h = [t] \<and>
      tx_type t = TT_UAS \<and> tx_state t = TS_PROCEEDING)"
  by (intro conjI sample_received layer_invariant [of sample_env] reachable.step [OF reachable.start] tl_step.received)

section \<open>Timeouts of the client\<close>

lemma out_timers [simp]:
  "tl_out (snd (reset_timer ty d h ts)) = tl_out (snd ts)" "tl_out (snd (clear_timer ty ts)) = tl_out (snd ts)"
  "tl_out (snd (reset_all_timers ts)) = tl_out (snd ts)" "tl_out (bucket_remove h t s) = tl_out s"
  "tl_out (bucket_store h t s) = tl_out s" "tl_out (bucket_append h t s) = tl_out s" "tl_out (post r s) = tl_out s"
  by (auto simp: reset_timer_def clear_timer_def reset_timer_obj_def new_trans_timer_def post_def
      reset_all_timers_def bucket_remove_def bucket_store_def bucket_append_def Let_def split_beta split: option.split)

lemma settle_at:
  "x \<in> set (tl_buckets (settle h (kept (t, s))) h) \<Longrightarrow> tx_id x = tx_id t \<Longrightarrow> x = t"
  "x \<in> set (tl_buckets (settle h (removed h (t, s))) h) \<Longrightarrow> tx_id x \<noteq> tx_id t"
  by (auto simp: settle_def kept_def removed_def bucket_store_def bucket_remove_def bucket_exist_def bucket_find_def
      find_None_iff Let_def split_beta split: if_splits)

lemma timeout_reports:
  fixes r :: "sip_trans option \<times> tl"
  assumes "r = timeout ev h (t, s)"
  shows "tl_out (settle h r) =
      tl_out s @ [UA_Reply (dialog_id t) (gen_error_reply_from_req (tx_msg t) 408 ''Request Timeout'')]"
    "\<forall>t' \<in> set (tl_buckets (settle h r) h). tx_id t' = tx_id t \<longrightarrow> tx_state t' = TS_TERMINATED"
proof -
  define t1 where "t1 = (fst (reset_all_timers (t, s)))\<lparr>tx_state := TS_TERMINATED\<rparr>"
  define s1 where "s1 = snd (reset_all_timers (t, s))"
  have t1: "tx_id t1 = tx_id t" "tx_state t1 = TS_TERMINATED" "dialog_id t1 = dialog_id t" "tx_msg t1 = tx_msg t"
    "tx_flags t1 = tx_flags t" "tl_out s1 = tl_out s"
    by (simp_all add: t1_def s1_def reset_all_fst)
  let ?k = "kept (reset_timer STIMER_BL (sip_timers ev STIMER_BL) h (t1, s1))" and ?x = "removed h (t1, s1)"
  have r: "r = (if flag (tx_flags t) TR_FLAG_DISABLE_BL then (fst ?x, emit (UA_Reply (dialog_id t)
      (gen_error_reply_from_req (tx_msg t) 408 ''Request Timeout'')) (snd ?x))
    else (fst ?k, emit (UA_Reply (dialog_id t) (gen_error_reply_from_req (tx_msg t) 408 ''Request Timeout'')) (snd ?k)))"
    unfolding assms timeout_def Let_def split_beta set_state_def t1_def [symmetric] s1_def [symmetric] fst_conv snd_conv
    by (simp add: reset_all_fst t1_def)
  then show "tl_out (settle h r) =
      tl_out s @ [UA_Reply (dialog_id t) (gen_error_reply_from_req (tx_msg t) 408 ''Request Timeout'')]"
    using t1(6) by (simp add: settle_def kept_def removed_def emit_def)
  show "\<forall>t' \<in> set (tl_buckets (settle h r) h). tx_id t' = tx_id t \<longrightarrow> tx_state t' = TS_TERMINATED"
    using t1(1,2) unfolding r
    by (auto simp: settle_def kept_def removed_def bucket_store_def bucket_remove_def bucket_exist_def bucket_find_def
        find_None_iff Let_def split_beta split: if_splits)
qed

lemma find_by_id: "distinct (map tx_id ts) \<Longrightarrow> t \<in> set ts \<Longrightarrow> bucket_find (tx_id t) ts = Some t"
  by (induction ts) (auto simp: bucket_find_def)

lemma fire_found:
  assumes "layer_ok s" and "t \<in> set (tl_buckets s h)" and "timers t k = Some tm"
  shows "fire_timer ev tm s = settle h (timer_expired ev h tm (t, s))"
proof -
  have t: "trans_ok h t" "distinct (map tx_id (tl_buckets s h))" using assms(1,2) by (auto simp: layer_ok_def)
  then have o: "tt_trans tm = tx_id t" "tt_bucket tm = h" "h < H_TABLE_ENTRIES" "fetch_timer (tt_type tm) = Some k"
    using assms(3) by (auto simp: trans_ok_def own_def)
  have "bucket_find (tx_id t) (tl_buckets s h) = Some t"
    using t(2) assms(2) by (rule find_by_id)
  with o assms(3) show ?thesis by (simp add: fire_timer_def get_timer_def)
qed

text \<open>What a step adds to the effects.\<close>

definition adds :: "(effect \<Rightarrow> bool) \<Rightarrow> tl \<Rightarrow> tl \<Rightarrow> bool" where
  "adds P s s' \<longleftrightarrow> (\<exists>xs. tl_out s' = tl_out s @ xs \<and> list_all P xs)"

lemma addsI [intro]: "tl_out s' = tl_out s \<Longrightarrow> adds P s s'"
  by (simp add: adds_def)

lemma adds_trans: "adds P s s' \<Longrightarrow> adds P s' s'' \<Longrightarrow> adds P s s''"
  by (auto simp: adds_def)

lemma adds_emit: "P x \<Longrightarrow> adds P s (emit x s)"
  by (simp add: adds_def emit_def)

abbreviation quiet_effect :: "effect \<Rightarrow> bool" where
  "quiet_effect x \<equiv> (\<forall>d m. x \<noteq> UA_Reply d m)"

lemma adds_send:
  "adds quiet_effect s (snd (send_msg ev m fl s))" "adds quiet_effect s (snd (send_bytes ev sk a b fl s))"
  "adds quiet_effect s (retransmit ev t s)" "adds quiet_effect s (blacklist ev a rs s)"
  "adds quiet_effect s (send_non_200_ack ev m t s)"
  by (auto simp: send_msg_def send_bytes_def retransmit_def blacklist_def send_non_200_ack_def Let_def adds_emit
      split: option.split)

lemma out_update_uac_request [simp]: "tl_out (snd (snd (update_uac_request ev h p s))) = tl_out s"
  by (auto simp: update_uac_request_def start_uac_timers_def add_trans_def Let_def split_beta
      split: option.splits)

lemma out_send_msg: "tl_out (snd (send_msg ev m fl s)) = tl_out s @ [Send (sock_of m) (remote_ip m) (tm_buf m) fl]"
  by (simp add: send_msg_def emit_def Let_def)

lemma cancel_self_adds:
  assumes "cancel_self ev h (t, s) = (r, t', s')" and "tx_state t \<noteq> TS_CALLING"
  shows "adds quiet_effect s s'"
  using assms
  by (auto simp: cancel_self_def cancel_trans_def adds_def out_send_msg Let_def split_beta split: option.splits if_splits)

lemma expired_C_timeout:
  assumes "layer_ok s" and "tx_state t = TS_PROCEEDING" and "h < H_TABLE_ENTRIES"
  shows "\<exists>t' s'. expired_C ev h (t, s) = timeout ev h (t', s') \<and> adds quiet_effect s s' \<and>
    tx_id t' = tx_id t \<and> dialog_id t' = dialog_id t \<and> tx_msg t' = tx_msg t \<and> tx_type t' = tx_type t"
proof -
  obtain t1 s1 where cl: "clear_timer STIMER_C (t, s) = (t1, s1)" by fastforce
  have t1: "t1 = t\<lparr>timers := (timers t)(2 := None)\<rparr>" "same_table s s1" "tl_out s1 = tl_out s"
    using fst_clear_timer [of STIMER_C 2 "(t, s)"] reset_timer_table(3,4) [of STIMER_C "(t, s)"]
      out_timers(2) [of STIMER_C "(t, s)"] cl
    by (simp_all add: same_table_def)
  obtain r t2 s2 where c: "cancel_self ev h (t1, s1) = (r, t2, s2)" by (metis prod_cases3)
  have "t2 = t1 \<or> t2 = t1\<lparr>canceled := True\<rparr>"
    using cancel_self_layer [OF layer_ok_same [OF assms(1) t1(2)] c _ assms(3)] t1(1) assms(2) by simp
  moreover have "adds quiet_effect s s2"
    using cancel_self_adds [OF c] t1 assms(2) by (simp add: adds_def)
  moreover have "expired_C ev h (t, s) = timeout ev h (t2, s2)" by (simp add: expired_C_def cl c)
  ultimately show ?thesis using t1(1) by fastforce
qed

lemma timer_expired_simps:
  "tt_type tm AND 0xFFFF = STIMER_B \<Longrightarrow> timer_expired ev h tm ts = expired_B ev h ts"
  "tt_type tm AND 0xFFFF = STIMER_C \<Longrightarrow> timer_expired ev h tm ts = expired_C ev h ts"
  "tt_type tm AND 0xFFFF = STIMER_F \<Longrightarrow> timer_expired ev h tm ts = expired_F ev h ts"
  by (simp_all add: timer_expired_def Let_def)

text \<open>The timeout of a transaction at a timer: its handler is the timeout, after effects that are no replies.\<close>

definition times_out :: "env \<Rightarrow> nat \<Rightarrow> sip_trans option \<times> tl \<Rightarrow> sip_trans \<Rightarrow> tl \<Rightarrow> bool" where
  "times_out ev h r t s \<longleftrightarrow>
     (\<exists>t' s'. r = timeout ev h (t', s') \<and> adds quiet_effect s s' \<and>
        tx_id t' = tx_id t \<and> dialog_id t' = dialog_id t \<and> tx_msg t' = tx_msg t \<and> tx_type t' = tx_type t)"

lemma expired_BF_timeout:
  "tx_state t = TS_CALLING \<Longrightarrow> times_out ev h (expired_B ev h (t, s)) t s"
  "tx_state t = TS_TRYING \<or> tx_state t = TS_PROCEEDING \<Longrightarrow> times_out ev h (expired_F ev h (t, s)) t s"
proof -
  have a: "adds quiet_effect s (snd (clear_timer ty (t, s)))" for ty by (simp add: addsI)
  have x: "times_out ev h (timeout ev h (clear_timer ty (t, s))) t s" if k: "fetch_timer ty = Some k" for ty k
  proof -
    obtain t1 s1 where cl: "clear_timer ty (t, s) = (t1, s1)" by fastforce
    with fst_clear_timer [OF k, of "(t, s)"] a [of ty]
    have "t1 = t\<lparr>timers := (timers t)(k := None)\<rparr>" "adds quiet_effect s s1" by simp_all
    then show ?thesis unfolding times_out_def cl by (intro exI [of _ t1] exI [of _ s1]) simp
  qed
  show "tx_state t = TS_CALLING \<Longrightarrow> times_out ev h (expired_B ev h (t, s)) t s"
    using x [of STIMER_B 1] by (simp add: expired_B_def Let_def)
  show "tx_state t = TS_TRYING \<or> tx_state t = TS_PROCEEDING \<Longrightarrow> times_out ev h (expired_F ev h (t, s)) t s"
    using x [of STIMER_F 1] by (auto simp: expired_F_def Let_def)
qed

lemma waiting_expires:
  assumes "layer_ok s" and "t \<in> set (tl_buckets s h)" and "tx_type t = TT_UAC"
    and "tx_state t \<in> {TS_CALLING, TS_TRYING, TS_PROCEEDING}"
  shows "\<exists>k tm. timers t k = Some tm \<and> times_out ev h (timer_expired ev h tm (t, s)) t s"
proof -
  have t: "trans_ok h t" "h < H_TABLE_ENTRIES" using assms(1,2) by (auto simp: layer_ok_def trans_ok_def own_def)
  have tm: "\<exists>tm. timers t k = Some tm \<and> tt_type tm AND 0xFFFF = ty" if "ty_at (timers t) k = Some ty" for k ty
    using that by (auto simp: ty_at_def)
  consider "tx_state t = TS_CALLING" | "tx_state t = TS_TRYING \<or> tx_state t = TS_PROCEEDING" "\<not> is_invite t"
    | "tx_state t = TS_PROCEEDING" "is_invite t"
    using t(1) assms(3,4) by (cases "is_invite t") (auto simp: trans_ok_def)
  then show ?thesis
  proof cases
    case 1
    with t(1) assms(3) tm [of 1 STIMER_B] obtain tm where "timers t 1 = Some tm" "tt_type tm AND 0xFFFF = STIMER_B"
      by (auto simp: trans_ok_def)
    with expired_BF_timeout(1) [OF 1] show ?thesis by (intro exI [of _ 1] exI [of _ tm]) (simp add: timer_expired_simps)
  next
    case 2
    with t(1) assms(3) tm [of 1 STIMER_F] obtain tm where "timers t 1 = Some tm" "tt_type tm AND 0xFFFF = STIMER_F"
      by (auto simp: trans_ok_def)
    with expired_BF_timeout(2) [OF 2(1)] show ?thesis by (intro exI [of _ 1] exI [of _ tm]) (simp add: timer_expired_simps)
  next
    case 3
    with t(1) assms(3) tm [of 2 STIMER_C] obtain tm where "timers t 2 = Some tm" "tt_type tm AND 0xFFFF = STIMER_C"
      by (auto simp: trans_ok_def)
    with expired_C_timeout [OF assms(1) 3(1) t(2), of ev, folded times_out_def] show ?thesis
      by (intro exI [of _ 2] exI [of _ tm]) (simp add: timer_expired_simps)
  qed
qed

text \<open>
  C4: a client that waits for a reply is never left waiting. While a client transaction is
  calling, trying or proceeding, one of its slots holds a timer, and when this timer fires the
  application gets a 408 reply for the dialog of the transaction as the last of the effects (the
  others are not replies), and the transaction is terminated or gone.
\<close>

theorem client_times_out:
  assumes "layer_ok s" and "t \<in> set (tl_buckets s h)" and "tx_type t = TT_UAC"
    and "tx_state t \<in> {TS_CALLING, TS_TRYING, TS_PROCEEDING}"
  shows "\<exists>k tm xs. timers t k = Some tm \<and> list_all quiet_effect xs \<and>
    tl_out (fire_timer ev tm s) = tl_out s @ xs @
      [UA_Reply (dialog_id t) (gen_error_reply_from_req (tx_msg t) 408 ''Request Timeout'')] \<and>
    (\<forall>t' \<in> set (tl_buckets (fire_timer ev tm s) h). tx_id t' = tx_id t \<longrightarrow> tx_state t' = TS_TERMINATED)"
proof -
  obtain k tm t' s' where x: "timers t k = Some tm" "timer_expired ev h tm (t, s) = timeout ev h (t', s')"
      "adds quiet_effect s s'" "tx_id t' = tx_id t" "dialog_id t' = dialog_id t" "tx_msg t' = tx_msg t"
    using waiting_expires [OF assms] unfolding times_out_def by blast
  have f: "fire_timer ev tm s = settle h (timeout ev h (t', s'))"
    using fire_found [OF assms(1,2) x(1)] x(2) by simp
  from x(3) obtain xs where "tl_out s' = tl_out s @ xs" "list_all quiet_effect xs" by (auto simp: adds_def)
  with x timeout_reports [OF refl, of h ev t' s'] f show ?thesis
    by (intro exI [of _ k] exI [of _ tm] exI [of _ xs]) auto
qed

lemma sample_calling_ok:
  "trans_ok 7 (sample_client ''INVITE'' INVITE TS_CALLING [(0, STIMER_A), (1, STIMER_B)])"
  "trans_ok 7 (sample_client ''BYE'' BYE TS_COMPLETED [(2, STIMER_K)])"
proof -
  have tok: "IS_TOKEN CHR ''I''" "IS_TOKEN CHR ''N''" "IS_TOKEN CHR ''V''" "IS_TOKEN CHR ''T''"
    "IS_TOKEN CHR ''E''" "IS_TOKEN CHR ''B''" "IS_TOKEN CHR ''Y''" by code_simp+
  have "invite_text (tx_msg (sample_client ''INVITE'' INVITE x ts))"
    "invite_text (tx_msg (sample_client ''BYE'' BYE x ts))" for x ts
    by (simp_all add: invite_text_def sample_client_def new_trans_def)
      (rule exI [of _ 6], simp add: tok, rule exI [of _ 3], simp add: tok)
  then show "trans_ok 7 (sample_client ''INVITE'' INVITE TS_CALLING [(0, STIMER_A), (1, STIMER_B)])"
    "trans_ok 7 (sample_client ''BYE'' BYE TS_COMPLETED [(2, STIMER_K)])"
    by (simp_all add: trans_ok_def own_def ty_at_def sample_client_def new_trans_def is_invite_def msg_method_def)
qed

abbreviation calling_client :: sip_trans where
  "calling_client \<equiv> sample_client ''INVITE'' INVITE TS_CALLING [(0, STIMER_A), (1, STIMER_B)]"

theorem client_times_out_witness:
  "\<exists>k tm xs. timers calling_client k = Some tm \<and> list_all quiet_effect xs \<and>
    tl_out (fire_timer sample_env tm (sample_tl calling_client)) = tl_out (sample_tl calling_client) @ xs @
      [UA_Reply (dialog_id calling_client) (gen_error_reply_from_req (tx_msg calling_client) 408 ''Request Timeout'')] \<and>
    (\<forall>t' \<in> set (tl_buckets (fire_timer sample_env tm (sample_tl calling_client)) 7).
       tx_id t' = tx_id calling_client \<longrightarrow> tx_state t' = TS_TERMINATED)"
  by (rule client_times_out [OF sample_tl_ok [OF sample_calling_ok(1)]])
    (simp_all add: sample_tl_def sample_client_def new_trans_def)

section \<open>One final reply\<close>

text \<open>
  The life of a client transaction: a reply arrives for it, one of its timers fires (a timer that
  has been replaced is ignored), or the application cancels it. A reply is passed on as in
  \<^verbatim>\<open>process_rcvd_msg\<close>. The life ends when the transaction is removed.
\<close>

datatype client_event = Reply tmsg | Expire trans_timer | Abort string

fun client_step :: "env \<Rightarrow> nat \<Rightarrow> client_event \<Rightarrow> sip_trans \<times> tl \<Rightarrow> sip_trans option \<times> tl" where
  "client_step ev h (Reply msg) ts =
     (let (r, ot, s) = update_uac_reply ev h msg ts
      in (ot, if r > 0 then emit (UA_Reply (dialog_id (fst ts)) msg) s else s))"
| "client_step ev h (Expire tm) ts =
     (if get_timer (tt_type tm AND 0xFFFF) (fst ts) \<noteq> Some tm then kept ts else timer_expired ev h tm ts)"
| "client_step ev h (Abort hdrs) ts = (let (r, ts') = cancel_trans ev h hdrs ts in kept ts')"

fun client_life :: "env \<Rightarrow> nat \<Rightarrow> client_event list \<Rightarrow> sip_trans option \<times> tl \<Rightarrow> sip_trans option \<times> tl" where
  "client_life ev h (e # es) (Some t, s) = client_life ev h es (client_step ev h e (t, s))"
| "client_life ev h es r = r"

definition is_final :: "effect \<Rightarrow> bool" where
  "is_final x = (case x of UA_Reply d m \<Rightarrow> reply_code_of m \<ge> 200 | _ \<Rightarrow> False)"

definition finals :: "tl \<Rightarrow> nat" where
  "finals s = length (filter is_final (tl_out s))"

text \<open>A transaction that may still report a final reply.\<close>

fun is_open :: "trans_state \<Rightarrow> bool" where
  "is_open TS_CALLING = True"
| "is_open TS_TRYING = True"
| "is_open TS_PROCEEDING = True"
| "is_open TS_NONE = True"
| "is_open _ = False"

definition chances :: "sip_trans option \<times> tl \<Rightarrow> nat" where
  "chances r = finals (snd r) + (case fst r of None \<Rightarrow> 0 | Some t \<Rightarrow> if is_open (tx_state t) then 1 else 0)"

definition invite_client :: "sip_trans \<Rightarrow> bool" where
  "invite_client t \<longleftrightarrow> tx_type t = TT_UAC \<and> is_invite t"

lemma invite_client_upd [simp]:
  "invite_client (t\<lparr>timers := f\<rparr>) = invite_client t" "invite_client (t\<lparr>tx_state := x\<rparr>) = invite_client t"
  "invite_client (t\<lparr>tx_flags := fl\<rparr>) = invite_client t" "invite_client (t\<lparr>canceled := cc\<rparr>) = invite_client t"
  "invite_client (t\<lparr>tx_to_tag := tt\<rparr>) = invite_client t"
  by (simp_all add: invite_client_def)

lemma finals_adds: "adds quiet_effect s s' \<Longrightarrow> finals s' = finals s"
  by (auto simp: adds_def finals_def is_final_def list_all_iff filter_empty_conv split: effect.splits)

lemma finals_out: "tl_out s' = tl_out s \<Longrightarrow> finals s' = finals s"
  by (simp add: finals_def)

lemma finals_emit [simp]: "finals (emit x s) = finals s + (if is_final x then 1 else 0)"
  by (simp add: finals_def emit_def)

lemma finals_frame [simp]:
  "finals (snd (reset_timer ty d h ts)) = finals (snd ts)" "finals (snd (clear_timer ty ts)) = finals (snd ts)"
  "finals (snd (reset_all_timers ts)) = finals (snd ts)" "finals (bucket_remove h t s) = finals s"
  "finals (bucket_store h t s) = finals s" "finals (bucket_append h t s) = finals s"
  "finals (snd (send_msg ev m fl s)) = finals s" "finals (retransmit ev t s) = finals s"
  "finals (blacklist ev a rs s) = finals s" "finals (send_non_200_ack ev m t s) = finals s"
  using finals_adds [OF adds_send(1)] finals_adds [OF adds_send(3)] finals_adds [OF adds_send(4)]
    finals_adds [OF adds_send(5)]
  by (simp_all add: finals_def)

text \<open>What a step owes: no more chances than before, and the transaction is still the same.\<close>

definition owes :: "sip_trans \<Rightarrow> tl \<Rightarrow> sip_trans option \<times> tl \<Rightarrow> bool" where
  "owes t s r \<longleftrightarrow> chances r \<le> chances (Some t, s) \<and> (\<forall>t'. fst r = Some t' \<longrightarrow> invite_client t')"

lemma owes_kept:
  "invite_client (fst ts) \<Longrightarrow> finals (snd ts) = finals s \<Longrightarrow> is_open (tx_state (fst ts)) \<longrightarrow> is_open (tx_state t) \<Longrightarrow>
   owes t s (kept ts)"
  by (auto simp: owes_def chances_def kept_def)

lemma owes_removed: "finals (snd ts) = finals s \<Longrightarrow> owes t s (removed h ts)"
  by (auto simp: owes_def chances_def removed_def)

lemma owes_timeout:
  assumes "finals (snd ts) = finals s" and "is_open (tx_state t)" and "invite_client (fst ts)"
  shows "owes t s (timeout ev h ts)"
  using assms by (auto simp: owes_def chances_def timeout_def Let_def split_beta kept_def removed_def reset_all_fst)

lemma resent_out [simp]: "finals (snd (resent ev h ts)) = finals (snd ts)"
  by (simp add: resent_arm arm_if_def Let_def)

lemma generate_out [simp]:
  "finals (snd (generate_and_parse_new_msg ev m s)) = finals s" "finals (snd (patch_branch m s)) = finals s"
  by (simp_all add: finals_def compute_branch_def branch_inc_def patch_branch_def generate_and_parse_new_msg_def
      Let_def split_beta split: option.split)

lemma generate_outD: "generate_and_parse_new_msg ev m s = (p, s') \<Longrightarrow> finals s' = finals s"
  by (metis generate_out(1) snd_conv)

lemma next_dest_same_out:
  "next_dest_same ev (t, s) = Inl (t', s') \<or> next_dest_same ev (t, s) = Inr (t', s') \<Longrightarrow> finals s' = finals s"
  using generate_out(2)
  by (auto simp: next_dest_same_def Let_def split_beta dest: generate_outD split: option.splits if_splits prod.splits)

lemma try_same_out: "finals (snd (snd (try_same ev h t s))) = finals s"
proof (induction ev h t s rule: try_same.induct)
  case (1 ev h t s)
  show ?case
  proof (cases "next_dest_same ev (t, s)")
    case (Inl x)
    with next_dest_same_out [of ev t s "fst x" "snd x"] show ?thesis
      by (simp add: try_same.simps [of ev h t] split_beta)
  next
    case (Inr x)
    then obtain t1 s1 where n: "next_dest_same ev (t, s) = Inr (t1, s1)" by (cases x) auto
    obtain e s2 where send: "send_msg ev (tx_msg t1) (tx_flags t1) s1 = (e, s2)" by fastforce
    have s2: "finals s2 = finals s"
      using next_dest_same_out [of ev t s t1 s1] n finals_frame(7) [of ev "tx_msg t1" "tx_flags t1" s1] send by simp
    show ?thesis
    proof (cases "e < 0")
      case True
      with "1.IH" [OF n refl send [symmetric] refl] n send s2 show ?thesis by (simp add: try_same.simps [of ev h t])
    next
      case False
      with n send s2 show ?thesis by (simp add: try_same.simps [of ev h t])
    qed
  qed
qed

lemma try_same_outD: "try_same ev h t s = (r, t', s') \<Longrightarrow> finals s' = finals s"
  by (metis try_same_out snd_conv)

lemma keep_timer_bf_out: "finals (snd (keep_timer_bf h t ts)) = finals (snd ts)"
  by (simp add: keep_timer_bf_def finals_def reset_timer_obj_def new_trans_timer_def post_def Let_def split: option.split)

lemma next_dest_new_out:
  "next_dest_new ev h (t, s) = Inl (t', s') \<Longrightarrow> finals s' = finals s"
  "next_dest_new ev h (t, s) = Inr (t', n, s') \<Longrightarrow> finals s' = finals s"
proof -
  have c: "finals (snd (copy_uac_trans ev t s)) = finals s" by (simp add: copy_uac_trans_def finals_def)
  show "next_dest_new ev h (t, s) = Inl (t', s') \<Longrightarrow> finals s' = finals s"
    "next_dest_new ev h (t, s) = Inr (t', n, s') \<Longrightarrow> finals s' = finals s"
    using c keep_timer_bf_out
    by (auto simp: next_dest_new_def Let_def split_beta dest: generate_outD split: option.splits if_splits prod.splits)
qed

lemma try_next_ip_out: "finals (snd (snd (try_next_ip ev h nw (t, s)))) = finals s"
proof -
  obtain t1 s1 where c: "clear_timer STIMER_M (t, s) = (t1, s1)" by fastforce
  then have s1: "finals s1 = finals s" using finals_frame(2) [of STIMER_M "(t, s)"] by simp
  show ?thesis
  proof (cases nw)
    case False
    with c s1 show ?thesis by (simp add: try_next_ip_def try_same_out)
  next
    case True
    show ?thesis
    proof (cases "next_dest_new ev h (t1, s1)")
      case (Inl x)
      with True c s1 next_dest_new_out(1) [of ev h t1 s1 "fst x" "snd x"] show ?thesis
        by (simp add: try_next_ip_def split_beta)
    next
      case (Inr x)
      then obtain t2 n s2 where n: "next_dest_new ev h (t1, s1) = Inr (t2, n, s2)" by (cases x) auto
      with True c s1 next_dest_new_out(2) [OF n] show ?thesis
        by (simp add: try_next_ip_def Let_def split_beta try_same_out)
    qed
  qed
qed

lemma try_next_ip_outD: "try_next_ip ev h nw (t, s) = (r, t', s') \<Longrightarrow> finals s' = finals s"
  by (metis try_next_ip_out snd_conv)

lemma same_trans_client: "same_trans (no_slot2 t) t' \<Longrightarrow> invite_client t' = invite_client t \<and> tx_state t' = tx_state t"
  using same_trans_invite [of "no_slot2 t" t'] by (auto simp: same_trans_def no_slot2_def invite_client_def)

lemma try_next_invite:
  assumes "layer_ok s" and "copy_ok h t s" and "invite_client t" and "tx_state t = TS_CALLING \<or> tx_state t = TS_PROCEEDING"
    and "try_next_ip ev h nw (t, s) = (r, t', s')"
  shows "invite_client t' \<and> is_open (tx_state t')"
proof -
  have t: "tx_type t = TT_UAC" "is_invite t" "invite_text (tx_msg t)" "own h (tx_id t) (timers t)"
    "ty_at (timers t) 1 = None \<or> ty_at (timers t) 1 = Some (main_timer (is_invite t))"
    using assms(2-4) by (auto simp: copy_ok_def trans_ok_def invite_client_def main_timer_def)
  show ?thesis
  proof (cases nw)
    case True
    with try_next_new_ok [OF assms(1) t(1,3-5)] assms(5) have "same_trans (no_slot2 t) t'" by simp
    from same_trans_client [OF this] assms(3,4) show ?thesis by auto
  next
    case False
    with try_next_same_ok [OF t(3,4)] assms(5) have "moved_on ev h (no_slot2 t) r t'" by simp
    then consider "same_trans (no_slot2 t) t'"
      | t1 s1 where "same_trans (no_slot2 t) t1" "t' = fst (resent ev h (t1, s1))"
      by (auto simp: moved_on_def)
    then show ?thesis
    proof cases
      case 1
      from same_trans_client [OF 1] assms(3,4) show ?thesis by auto
    next
      case 2
      then have "own h (tx_id t1) (timers t1)" "invite_client t1"
        using t(4) same_trans_client [OF 2(1)] assms(3) by (auto simp: same_trans_def no_slot2_def)
      with resent_slots [where h = h and t = t1 and ev = ev and s = s1] 2(2) show ?thesis
        by (auto simp: invite_client_def is_invite_def first_state_def)
    qed
  qed
qed

lemma expired_client_simps:
  "tt_type tm AND 0xFFFF = STIMER_A \<Longrightarrow> timer_expired ev h tm ts = expired_A ev h (unat (drop_bit 16 (tt_type tm))) ts"
  "tt_type tm AND 0xFFFF = STIMER_D \<Longrightarrow> timer_expired ev h tm ts = expired_end h STIMER_D ts"
  "tt_type tm AND 0xFFFF = STIMER_L \<Longrightarrow> timer_expired ev h tm ts = expired_end h STIMER_L ts"
  "tt_type tm AND 0xFFFF = STIMER_M \<Longrightarrow> timer_expired ev h tm ts = expired_M ev h ts"
  "tt_type tm AND 0xFFFF = STIMER_BL \<Longrightarrow> timer_expired ev h tm ts = expired_BL ev h ts"
  by (simp_all add: timer_expired_def Let_def)

lemma expired_owes_simple:
  assumes "invite_client t"
  shows "owes t s (expired_A ev h n (t, s))" "owes t s (expired_end h ty (t, s))" "owes t s (expired_BL ev h (t, s))"
    "owes t s (expired_B ev h (t, s))"
proof -
  show "owes t s (expired_A ev h n (t, s))"
    unfolding expired_A_def Let_def split_beta using assms by (intro owes_kept) simp_all
  show "owes t s (expired_end h ty (t, s))" unfolding expired_end_def by (intro owes_removed) simp
  show "owes t s (expired_BL ev h (t, s))"
    unfolding expired_BL_def Let_def split_beta by (intro owes_removed) simp
  show "owes t s (expired_B ev h (t, s))"
    using assms by (auto simp: expired_B_def abandoned_expired_def Let_def intro!: owes_timeout owes_kept owes_removed)
qed

lemma expired_C_owes:
  assumes "layer_ok s" and "h < H_TABLE_ENTRIES" and "invite_client t" and "tx_state t = TS_PROCEEDING"
  shows "owes t s (expired_C ev h (t, s))"
proof -
  obtain t' s' where x: "expired_C ev h (t, s) = timeout ev h (t', s')" "adds quiet_effect s s'" "invite_client t'"
    using expired_C_timeout [OF assms(1,4,2), of ev] assms(3)
    by (auto simp: invite_client_def is_invite_def)
  then show ?thesis using owes_timeout [of "(t', s')" s t ev h] finals_adds [OF x(2)] assms(4) by simp
qed

lemma expired_M_owes:
  assumes "layer_ok s" and "copy_ok h t s" and "invite_client t" and "tx_state t = TS_CALLING"
  shows "owes t s (expired_M ev h (t, s))"
proof -
  obtain r t1 s1 where r: "try_next_ip ev h True (t, s) = (r, t1, s1)" by (metis prod_cases3)
  from try_next_invite [OF assms(1-3) _ r] try_next_ip_outD [OF r] assms(4) show ?thesis
    by (auto simp: expired_M_def r intro!: owes_kept)
qed

lemma expired_owes:
  assumes "layer_ok s" and "copy_ok h t s" and "invite_client t" and "get_timer (tt_type tm AND 0xFFFF) t = Some tm"
  shows "owes t s (timer_expired ev h tm (t, s))"
proof -
  define x where "x = tt_type tm AND 0xFFFF"
  obtain k where k: "fetch_timer (tt_type tm) = Some k" using assms(4) by (auto simp: get_timer_def split: option.splits)
  note ty = armed [OF copy_trans_ok [OF assms(2)] assms(4) k]
  have "k \<in> {0, 1, 2}" using k by (auto simp: fetch_timer_def timer_type_lookup_def Let_def nth_Cons' split: if_splits)
  moreover have ok: "uac_slots True (tx_state t) (ty_at (timers t) 0) (ty_at (timers t) 1) (ty_at (timers t) 2)"
    using copy_trans_ok [OF assms(2)] assms(3) by (simp add: trans_ok_def invite_client_def)
  ultimately consider "x = STIMER_A" | "x = STIMER_B" | "x = STIMER_C" "tx_state t = TS_PROCEEDING" | "x = STIMER_D"
    | "x = STIMER_L" | "x = STIMER_M" "tx_state t = TS_CALLING" | "x = STIMER_BL"
    using ty unfolding x_def [symmetric] by (cases "tx_state t") auto
  then show ?thesis
    using expired_owes_simple [OF assms(3)] expired_C_owes [OF assms(1) copy_bucket [OF assms(2)] assms(3)]
      expired_M_owes [OF assms(1-3)]
    unfolding x_def by cases (simp_all add: expired_client_simps timer_expired_simps)
qed

text \<open>A reply that is passed on counts.\<close>

definition owes_reply :: "sip_trans \<Rightarrow> tl \<Rightarrow> tmsg \<Rightarrow> uac_result \<Rightarrow> bool" where
  "owes_reply t s msg y \<longleftrightarrow>
     owes t s (fst (snd y), if fst y > 0 then emit (UA_Reply (dialog_id t) msg) (snd (snd y)) else snd (snd y))"

lemma owes_no_reply [simp]: "owes_reply t s msg (no_reply r) = owes t s r"
  by (simp add: owes_reply_def no_reply_def)

lemma owes_pass_provisional:
  "reply_code_of msg < 200 \<Longrightarrow> owes_reply t s msg (pass_reply r) = owes t s r"
  by (simp add: owes_reply_def pass_reply_def owes_def chances_def is_final_def)

lemma owes_pass_final:
  assumes "invite_client (fst ts)" and "finals (snd ts) = finals s" and "is_open (tx_state t)" and "\<not> is_open (tx_state (fst ts))"
  shows "owes_reply t s msg (pass_reply (kept ts))"
  using assms by (simp add: owes_reply_def pass_reply_def kept_def owes_def chances_def)

lemma provisional_owes:
  assumes "invite_client t" and "reply_code_of msg < 200"
  shows "owes_reply t s msg (uac_provisional ev h (t, s))"
proof -
  have p: "owes_reply t s msg (uac_proceeding ev h ts)"
    if "invite_client (fst ts)" "finals (snd ts) = finals s" "is_open (tx_state t)" for ts
    using that by (auto simp: uac_proceeding_def owes_pass_provisional [OF assms(2)] intro!: owes_kept)
  have self: "snd (cancel_self ev h (set_flag x (t, s))) = set_flag x (t, s)" if "tx_state t = TS_ABANDONED" for x
    using that by (simp add: cancel_self_def set_flag_def)
  show ?thesis
    using assms(1) by (cases "tx_state t")
      (auto simp: uac_provisional_def split_beta self reset_all_fst intro!: p owes_kept)
qed

lemma error_owes:
  assumes "invite_client t1" and "finals s1 = finals s" and "is_open (tx_state t1) \<longrightarrow> is_open (tx_state t)"
  shows "owes_reply t s msg (uac_error ev h msg fg (t1, s1))"
proof -
  have p: "owes_reply t s msg (uac_error_proceeding ev h msg fg ts)"
    if "invite_client (fst ts)" "finals (snd ts) = finals s" "is_open (tx_state t)" for ts
    using that by (auto simp: uac_error_proceeding_def Let_def split_beta intro!: owes_kept owes_pass_final)
  show ?thesis
    using assms by (cases "tx_state t1")
      (auto simp: uac_error_def split_beta reset_all_fst intro!: p owes_kept owes_removed)
qed

lemma success_owes:
  assumes "invite_client t"
  shows "owes_reply t s msg (uac_success ev h msg (t, s))"
  using assms
  by (cases "tx_state t")
    (auto simp: uac_success_def Let_def split_beta reset_all_fst intro!: owes_kept owes_pass_final)

lemma invite_error_owes:
  assumes "layer_ok s" and "copy_ok h t s" and "invite_client t"
  shows "owes_reply t s msg (uac_invite_error ev h msg (t, s))"
proof (cases "reply_code_of msg = 503 \<and> (tx_state t = TS_CALLING \<or> tx_state t = TS_PROCEEDING)")
  case False
  with error_owes [OF assms(3), of s s t] show ?thesis by (auto simp: uac_invite_error_def)
next
  case True
  define s0 where "s0 = (if \<not> flag (tx_flags t) TR_FLAG_DISABLE_BL
    then blacklist ev (remote_ip (tx_msg t)) ''503'' s else s)"
  have s: "same_table s s0" "finals s0 = finals s" by (simp_all add: same_table_def s0_def)
  obtain r t1 s1 where r: "try_next_ip ev h (local_socket msg \<noteq> None) (t, s0) = (r, t1, s1)" by (metis prod_cases3)
  have n: "invite_client t1" "is_open (tx_state t1)" "finals s1 = finals s" "is_open (tx_state t)"
    using try_next_invite [OF layer_ok_same [OF assms(1) s(1)] copy_ok_same [OF assms(2) s(1)] assms(3) _ r]
      try_next_ip_outD [OF r] s(2) True by auto
  with error_owes [OF n(1,3), of t] r True show ?thesis
    by (auto simp: uac_invite_error_def s0_def [symmetric] intro!: owes_kept)
qed

lemma client_step_owes:
  assumes "layer_ok s" and "copy_ok h t s" and "invite_client t"
  shows "owes t s (client_step ev h e (t, s)) \<and> leaves h (client_step ev h e (t, s))"
proof (cases e)
  case (Reply msg)
  have t: "tx_type t = TT_UAC" "is_invite t" using assms(3) by (simp_all add: invite_client_def)
  obtain r ot s' where u: "update_uac_reply ev h msg (t, s) = (r, ot, s')" by (metis prod_cases3)
  have "owes_reply t s msg (r, ot, s')"
    using provisional_owes [OF assms(3), of msg] success_owes [OF assms(3)] invite_error_owes [OF assms] t
    unfolding u [symmetric] update_uac_reply_def by auto
  with update_uac_reply_ok [OF assms(1,2) t(1), of ev msg] u Reply show ?thesis
    by (auto simp: owes_reply_def leaves_def)
next
  case (Expire tm)
  have "owes t s (kept (t, s))" "leaves h (kept (t, s))" using assms by (auto intro!: owes_kept leaves_kept)
  with expired_owes [OF assms] timer_expired_ok [OF assms(1,2)] Expire show ?thesis by auto
next
  case (Abort hdrs)
  obtain r t' s' where c: "cancel_trans ev h hdrs (t, s) = (r, t', s')" by (metis prod_cases3)
  have "owes t s (kept (t', s'))"
    using c assms(3)
    by (auto simp: cancel_trans_def owes_def chances_def kept_def finals_def is_final_def emit_def out_send_msg
        Let_def split_beta split: option.splits if_splits)
  with cancel_trans_ok [OF assms(1,2) c] Abort c show ?thesis by (auto intro!: leaves_kept)
qed

lemma client_life_owes:
  assumes "layer_ok s" and "copy_ok h t s" and "invite_client t"
  shows "finals (snd (client_life ev h es (Some t, s))) \<le> chances (Some t, s)"
  using assms
proof (induction es arbitrary: t s)
  case Nil
  then show ?case by (simp add: chances_def)
next
  case (Cons e es)
  obtain ot s' where st: "client_step ev h e (t, s) = (ot, s')" by fastforce
  note one = client_step_owes [OF Cons.prems, of ev e, unfolded st]
  show ?case
  proof (cases ot)
    case None
    with one st show ?thesis by (cases es) (auto simp: owes_def chances_def)
  next
    case (Some t')
    with one have "layer_ok s'" "copy_ok h t' s'" "invite_client t'" "chances (Some t', s') \<le> chances (Some t, s)"
      by (auto simp: owes_def leaves_def)
    with Cons.IH [OF this(1-3)] st Some show ?thesis by simp
  qed
qed

text \<open>
  C5: an INVITE has at most one final reply. Whatever replies arrive for a client transaction of
  an INVITE, in whatever order its timers fire, and however often the application cancels it, the
  application gets at most one final reply for it: from the network, from a timeout, or from its
  own CANCEL. A transaction that has been completed, terminated or abandoned gives none.
\<close>

theorem invite_final_once:
  assumes "layer_ok s" and "t \<in> set (tl_buckets s h)" and "tx_type t = TT_UAC" and "is_invite t"
  shows "finals (snd (client_life ev h es (Some t, s))) \<le> finals s + (if is_open (tx_state t) then 1 else 0)"
  using client_life_owes [OF assms(1) layer_ok_found [OF assms(1,2)], of ev es] assms(3,4)
  by (simp add: invite_client_def chances_def)

definition sample_reply :: "int \<Rightarrow> tmsg" where
  "sample_reply code =
     \<lparr>tm_buf = [], tm_msg = new_msg\<lparr>m_type := SIP_REPLY, m_reply := Some \<lparr>rp_code = code, rp_reason = cs_null\<rparr>\<rparr>,
      local_socket = Some sample_sock, remote_ip = sample_addr\<rparr>"

theorem invite_final_once_witness:
  "finals (snd (client_life sample_env 7 [Abort [], Reply (sample_reply 200)] (Some calling_client, sample_tl calling_client)))
     \<le> finals (sample_tl calling_client) + (if is_open (tx_state calling_client) then 1 else 0) \<and>
   finals (snd (client_life sample_env 7 [Abort [], Reply (sample_reply 200)] (Some calling_client, sample_tl calling_client))) = 1"
proof
  show "finals (snd (client_life sample_env 7 [Abort [], Reply (sample_reply 200)] (Some calling_client, sample_tl calling_client)))
     \<le> finals (sample_tl calling_client) + (if is_open (tx_state calling_client) then 1 else 0)"
    by (rule invite_final_once [OF sample_tl_ok [OF sample_calling_ok(1)]])
      (simp_all add: sample_tl_def sample_client_def new_trans_def is_invite_def msg_method_def)
  show "finals (snd (client_life sample_env 7 [Abort [], Reply (sample_reply 200)] (Some calling_client, sample_tl calling_client))) = 1"
    by (simp add: sample_tl_def sample_client_def new_trans_def is_invite_def msg_method_def cancel_trans_def Let_def
        split_beta kept_def update_uac_reply_def uac_success_def sample_reply_def reply_code_of_def no_reply_def
        finals_def is_final_def emit_def gen_error_reply_from_req_def init_tl_def)
qed

section \<open>Lost timers\<close>

text \<open>
  C37: a second 503 makes a transaction immortal. The answer to a request other than INVITE has come,
  and the transaction is completed and kept for timer K to absorb repetitions. If a repetition is
  a 503, \<^verbatim>\<open>update_uac_reply\<close> looks for another destination in every state, and the search starts by
  clearing \<^verbatim>\<open>STIMER_M\<close>, which shares its slot with timer K. Without another destination the
  transaction stays completed in the table, and no timer is left that would ever remove it.
\<close>

theorem late_503_leak:
  assumes "trans_ok h t" and "tx_type t = TT_UAC" and "\<not> is_invite t" and "tx_state t = TS_COMPLETED"
    and "targets t = None \<or> targets t = Some []" and "reply_code_of msg = 503"
  shows "\<exists>t' s'. update_uac_reply ev h msg (t, s) = (0, Some t', s') \<and> tx_state t' = TS_COMPLETED \<and>
    timers t' 0 = None \<and> timers t' 1 = None \<and> timers t' 2 = None"
proof -
  have t: "timers t 0 = None" "timers t 1 = None" using assms(1-4) by (auto simp: trans_ok_def ty_at_None)
  obtain t1 s1 where c: "clear_timer STIMER_M (t, blacklist ev (remote_ip (tx_msg t)) ''503'' s) = (t1, s1)" by fastforce
  then have t1: "t1 = t\<lparr>timers := (timers t)(2 := None)\<rparr>"
    using fst_clear_timer [of STIMER_M 2 "(t, blacklist ev (remote_ip (tx_msg t)) ''503'' s)"] by simp
  have "\<exists>t2. try_same ev h t1 s1 = (-1, t2, s1) \<and> tx_state t2 = TS_COMPLETED \<and> timers t2 = (timers t)(2 := None)"
    unfolding try_same.simps [of ev h t1] using assms(4,5) t1 by (auto simp: next_dest_same_def)
  with assms(3,4,6) c t show ?thesis
    by (auto simp: update_uac_reply_def uac_non_invite_def try_next_ip_def uac_non_invite_final_def no_reply_def kept_def)
qed

theorem late_503_leak_witness:
  "\<exists>t' s'. update_uac_reply sample_env 7 (sample_reply 503)
      (sample_client ''BYE'' BYE TS_COMPLETED [(2, STIMER_K)], sample_tl (sample_client ''BYE'' BYE TS_COMPLETED [(2, STIMER_K)]))
    = (0, Some t', s') \<and> tx_state t' = TS_COMPLETED \<and>
    timers t' 0 = None \<and> timers t' 1 = None \<and> timers t' 2 = None"
  by (rule late_503_leak [OF sample_calling_ok(2)])
    (simp_all add: sample_client_def new_trans_def is_invite_def msg_method_def sample_reply_def reply_code_of_def)

section \<open>Intervals and tags\<close>

text \<open>
  C39: the retransmission interval. With the default timers the interval before the n-th
  retransmission of a non-INVITE request or of a final reply doubles from half a second and stays at
  \<^verbatim>\<open>T2\<close> = 4 seconds, up to the 29th; the 30th follows at once, because the shifted value wraps to 0.
\<close>

theorem retransmission_intervals:
  assumes "sip_timers ev = default_sip_timers" and "sip_timer_t2 ev = default_t2" and "ty = STIMER_E \<or> ty = STIMER_G"
  shows "(n \<le> 29 \<longrightarrow> unat (retr_interval ev ty n) = min (500 * 2 ^ n) 4000) \<and> retr_interval ev ty 30 = 0"
proof -
  have ty: "sip_timers ev (if ty = STIMER_E then STIMER_E else STIMER_G) = 500"
    using assms(1,3) by (auto simp: default_sip_timers_def)
  have "\<forall>n \<in> set [0..<30]. unat (let r = push_bit n (500 :: u32) in if r > 4000 then 4000 else r) = min (500 * 2 ^ n) 4000"
    by (simp add: upt_rec push_bit_eq_mult Let_def)
  then have "n \<le> 29 \<Longrightarrow> unat (let r = push_bit n (500 :: u32) in if r > 4000 then 4000 else r) = min (500 * 2 ^ n) 4000"
    by (simp only: set_upt atLeastLessThan_iff) force
  moreover have "push_bit 30 (500 :: u32) = 0" by (simp add: push_bit_eq_mult)
  ultimately show ?thesis
    by (auto simp: retr_interval_def ty assms(2) default_t2_def shl_def Let_def)
qed

theorem retransmission_intervals_witness:
  "unat (retr_interval sample_env STIMER_E 3) = 4000 \<and> unat (retr_interval sample_env STIMER_G 2) = 2000"
  using retransmission_intervals [of sample_env STIMER_E 3] retransmission_intervals [of sample_env STIMER_G 2]
  by (simp add: sample_env_def)

text \<open>
  C40: the sixth character of branches and tags. \<^verbatim>\<open>compute_tag\<close> means to put the two upper bits of one word
  and four bits of the other together there, but takes their conjunction, and these bits do not
  overlap: the character is the first of the alphabet whatever the hash values are.
\<close>

theorem tag_sixth_char: "compute_tag hl hh ! 5 = CHR ''a'' \<and> length (compute_tag hl hh) = 8"
proof -
  have "drop_bit 30 x AND (push_bit 2 y AND 0x3F) = 0" for x y :: u32
    by (rule bit_eqI) (auto simp: bit_and_iff bit_drop_bit_eq bit_push_bit_iff dest: bit_imp_le_length)
  then show ?thesis by (simp add: compute_tag_def Let_def tag_lookup_def)
qed

end
