(* ===== verification/G711.thy ===== *)
theory G711
  imports Prelude
begin

text \<open>
  \<^verbatim>\<open>core/plug-in/wav/g711.c\<close>: the conversions between linear samples and the A-law and u-law codes,
  as functions. The plug-in is compiled with tables that the functions were used to generate; the
  theories of the tables show that every entry is the value of the function. A 16-bit sample and a
  byte are integers here, and the lemmas show that they stay in the ranges of their types.
\<close>

section \<open>Segments\<close>

definition seg_aend :: "int list" where
  "seg_aend = [0x1F, 0x3F, 0x7F, 0xFF, 0x1FF, 0x3FF, 0x7FF, 0xFFF]"

definition seg_uend :: "int list" where
  "seg_uend = [0x3F, 0x7F, 0xFF, 0x1FF, 0x3FF, 0x7FF, 0xFFF, 0x1FFF]"

fun search :: "int \<Rightarrow> int list \<Rightarrow> int" where
  "search val [] = 0"
| "search val (x # xs) = (if val \<le> x then 0 else 1 + search val xs)"

section \<open>Codes\<close>

definition st_13linear2alaw_fun :: "int \<Rightarrow> int" where
  "st_13linear2alaw_fun pcm_val =
     (let (msk, v) = (if pcm_val \<ge> 0 then (0xD5, pcm_val) else (0x55, - pcm_val - 1));
          seg = search v seg_aend
      in if seg \<ge> 8 then 0x7F XOR msk
         else
           let aval = push_bit 4 seg;
               aval = (if seg < 2 then aval OR (drop_bit 1 v AND 0xF)
                       else aval OR (drop_bit (nat seg) v AND 0xF))
           in aval XOR msk)"

definition st_alaw2linear16_fun :: "int \<Rightarrow> int" where
  "st_alaw2linear16_fun a_val =
     (let a = a_val XOR 0x55;
          t = push_bit 4 (a AND 0xF);
          seg = drop_bit 4 (a AND 0x70);
          t = (if seg = 0 then t + 8
               else if seg = 1 then t + 0x108
               else push_bit (nat (seg - 1)) (t + 0x108))
      in if a AND 0x80 \<noteq> 0 then t else - t)"

definition st_14linear2ulaw_fun :: "int \<Rightarrow> int" where
  "st_14linear2ulaw_fun pcm_val =
     (let (v, msk) = (if pcm_val < 0 then (- pcm_val, 0x7F) else (pcm_val, 0xFF));
          v = (if v > 8159 then 8159 else v);
          v = v + drop_bit 2 0x84;
          seg = search v seg_uend
      in if seg \<ge> 8 then 0x7F XOR msk
         else (push_bit 4 seg OR (drop_bit (nat (seg + 1)) v AND 0xF)) XOR msk)"

text \<open>The complement of an \<^verbatim>\<open>unsigned char\<close> is the difference to 255.\<close>

definition st_ulaw2linear16_fun :: "int \<Rightarrow> int" where
  "st_ulaw2linear16_fun u_val =
     (let u = 255 - u_val;
          t = push_bit 3 (u AND 0xF) + 0x84;
          t = push_bit (nat (drop_bit 4 (u AND 0x70))) t
      in if u AND 0x80 \<noteq> 0 then 0x84 - t else t - 0x84)"

section \<open>Tables\<close>

text \<open>
  A table is given line by line as in the source, in groups of ten lines. \<open>agrees f a xs\<close> reads
  entries from position \<open>a\<close> on, compares each with the value of \<open>f\<close>, and returns the position
  behind the last one.
\<close>

type_synonym lines = "int list list list"

definition entries :: "lines \<Rightarrow> int list" where
  "entries ls = concat (concat ls)"

fun agrees :: "(int \<Rightarrow> int) \<Rightarrow> int \<Rightarrow> int list \<Rightarrow> int option" where
  "agrees f a [] = Some a"
| "agrees f a (x # xs) = (if f a = x then agrees f (a + 1) xs else None)"

fun agrees_list :: "(int \<Rightarrow> 'a \<Rightarrow> int option) \<Rightarrow> int \<Rightarrow> 'a list \<Rightarrow> int option" where
  "agrees_list g a [] = Some a"
| "agrees_list g a (x # xs) = (case g a x of None \<Rightarrow> None | Some b \<Rightarrow> agrees_list g b xs)"

definition agrees_lines :: "(int \<Rightarrow> int) \<Rightarrow> int \<Rightarrow> lines \<Rightarrow> int option" where
  "agrees_lines f a ls = agrees_list (agrees_list (agrees f)) a ls"

lemma agrees_append: "agrees f a (xs @ ys) = (case agrees f a xs of None \<Rightarrow> None | Some b \<Rightarrow> agrees f b ys)"
  by (induction xs arbitrary: a) simp_all

lemma agrees_list_concat:
  "agrees_list (agrees f) a xss = agrees f a (concat xss)"
  by (induction xss arbitrary: a) (simp_all add: agrees_append split: option.split)

lemma agrees_lines_entries: "agrees_lines f a ls = agrees f a (entries ls)"
proof -
  have "agrees_list (agrees_list (agrees f)) a ls = agrees f a (concat (concat ls))" for a
    by (induction ls arbitrary: a) (simp_all add: agrees_list_concat agrees_append split: option.split)
  then show ?thesis by (simp add: agrees_lines_def entries_def)
qed

lemma agrees_nth:
  "agrees f a xs = Some b \<Longrightarrow> b = a + int (length xs) \<and> (\<forall>i < length xs. xs ! i = f (a + int i))"
proof (induction xs arbitrary: a)
  case (Cons x xs)
  then have "f a = x" "b = a + 1 + int (length xs)" "\<forall>i < length xs. xs ! i = f (a + 1 + int i)"
    by (auto split: if_splits)
  then show ?case by (auto simp: nth_Cons' algebra_simps of_nat_diff)
qed simp

text \<open>A table entry by its index; \<open>None\<close> is an access outside the table.\<close>

definition table_at :: "int list \<Rightarrow> int \<Rightarrow> int option" where
  "table_at tab i = (if 0 \<le> i \<and> i < int (length tab) then Some (tab ! nat i) else None)"

lemma agrees_table_at:
  assumes "agrees f a tab = Some b" and "a \<le> v" and "v < b"
  shows "table_at tab (v - a) = Some (f v)"
  using agrees_nth [OF assms(1)] assms(2,3) by (simp add: table_at_def)

lemma agrees_table_outside:
  assumes "agrees f a tab = Some b" and "v < a \<or> b \<le> v"
  shows "table_at tab (v - a) = None"
  using agrees_nth [OF assms(1)] assms(2) by (auto simp: table_at_def)

section \<open>Ranges\<close>

lemma search_bounds: "0 \<le> search v xs \<and> search v xs \<le> int (length xs)"
  by (induction xs) auto

lemma nibble: "0 \<le> x AND 0xF" "x AND 0xF < (16 :: int)"
proof -
  have "x AND 0xF = take_bit 4 x" by (simp add: take_bit_eq_mask mask_eq_exp_minus_1)
  then show "0 \<le> x AND 0xF" "x AND 0xF < (16 :: int)" by (simp_all add: take_bit_int_less_exp [of 4, simplified])
qed

lemma code_byte:
  assumes "0 \<le> s" and "s < (8 :: int)" and "0 \<le> q" and "q < (16 :: int)" and "0 \<le> m" and "m \<le> 255"
  shows "0 \<le> (push_bit 4 s OR q) XOR m \<and> (push_bit 4 s OR q) XOR m \<le> 255"
proof -
  have "push_bit 4 s < 2 ^ 8" using assms by (simp add: push_bit_eq_mult)
  then have "push_bit 4 s OR q < 2 ^ 8" using assms by (intro OR_upper) simp_all
  moreover have "0 \<le> push_bit 4 s OR q" using assms by simp
  ultimately have "(push_bit 4 s OR q) XOR m < 2 ^ 8" using assms by (intro XOR_upper) simp_all
  with assms show ?thesis by simp
qed

lemma alaw_code_range: "0 \<le> st_13linear2alaw_fun v \<and> st_13linear2alaw_fun v \<le> 255"
proof -
  obtain m w where mw: "(if v \<ge> 0 then (0xD5, v) else (0x55, - v - 1)) = (m :: int, w)" by fastforce
  then have m: "m = 0xD5 \<or> m = 0x55" by (auto split: if_splits)
  define s where "s = search w seg_aend"
  have s: "0 \<le> s" "s \<le> 8" using search_bounds [of w seg_aend] by (simp_all add: s_def seg_aend_def)
  have "0 \<le> (push_bit 4 s OR (x AND 0xF)) XOR m \<and> (push_bit 4 s OR (x AND 0xF)) XOR m \<le> 255" if "s < 8" for x
    by (rule code_byte) (use m s that nibble in auto)
  with m s show ?thesis
    unfolding st_13linear2alaw_fun_def mw Let_def prod.case s_def [symmetric] by auto
qed

lemma ulaw_code_range: "0 \<le> st_14linear2ulaw_fun v \<and> st_14linear2ulaw_fun v \<le> 255"
proof -
  obtain m w where mw: "(if v < 0 then (- v, 0x7F) else (v, 0xFF)) = (w, m :: int)" by fastforce
  then have m: "m = 0x7F \<or> m = 0xFF" by (auto split: if_splits)
  define w' where "w' = (if w > 8159 then 8159 else w) + drop_bit 2 0x84"
  define s where "s = search w' seg_uend"
  have s: "0 \<le> s" "s \<le> 8" using search_bounds [of w' seg_uend] by (simp_all add: s_def seg_uend_def)
  have "0 \<le> (push_bit 4 s OR (x AND 0xF)) XOR m \<and> (push_bit 4 s OR (x AND 0xF)) XOR m \<le> 255" if "s < 8" for x
    by (rule code_byte) (use m s that nibble in auto)
  with m s show ?thesis
    unfolding st_14linear2ulaw_fun_def mw Let_def prod.case w'_def [symmetric] s_def [symmetric] by auto
qed

section \<open>Reading back a code\<close>

lemma all_bytes: "list_all P [0..255] \<Longrightarrow> 0 \<le> u \<Longrightarrow> u \<le> 255 \<Longrightarrow> P (u :: int)"
  by (simp add: list_all_iff)

lemma alaw_reads_back:
  assumes "0 \<le> u" and "u \<le> 255"
  shows "st_13linear2alaw_fun (drop_bit 3 (st_alaw2linear16_fun u)) = u"
proof -
  have "list_all (\<lambda>u. st_13linear2alaw_fun (drop_bit 3 (st_alaw2linear16_fun u)) = u) [0..255]" by code_simp
  from all_bytes [OF this assms] show ?thesis .
qed

lemma ulaw_reads_back:
  assumes "0 \<le> u" and "u \<le> 255"
  shows "st_14linear2ulaw_fun (drop_bit 2 (st_ulaw2linear16_fun u)) = (if u = 0x7F then 0xFF else u)"
proof -
  have "list_all (\<lambda>u. st_14linear2ulaw_fun (drop_bit 2 (st_ulaw2linear16_fun u)) = (if u = 0x7F then 0xFF else u)) [0..255]"
    by code_simp
  from all_bytes [OF this assms] show ?thesis .
qed

lemma linear_range:
  assumes "0 \<le> u" and "u \<le> 255"
  shows "- 32768 \<le> st_alaw2linear16_fun u \<and> st_alaw2linear16_fun u \<le> 32767 \<and>
    - 32768 \<le> st_ulaw2linear16_fun u \<and> st_ulaw2linear16_fun u \<le> 32767"
proof -
  have "list_all (\<lambda>u. - 32768 \<le> st_alaw2linear16_fun u \<and> st_alaw2linear16_fun u \<le> 32767 \<and>
    - 32768 \<le> st_ulaw2linear16_fun u \<and> st_ulaw2linear16_fun u \<le> 32767) [0..255]" by code_simp
  from all_bytes [OF this assms] show ?thesis .
qed

end
