(* ===== verification/Wav_Codec.thy ===== *)
theory Wav_Codec
  imports G711_Alaw G711_Ulaw
begin

text \<open>
  \<^verbatim>\<open>core/plug-in/wav/wav.c\<close>: the G.711 codecs of the plug-in, which convert whole buffers with the
  tables. A buffer is a list of bytes; a sample takes two of them, in the byte order of the
  machine. \<open>None\<close> is an access outside a table, which the lemmas show never to happen.
\<close>

section \<open>Samples in a buffer\<close>

definition is_byte :: "int \<Rightarrow> bool" where
  "is_byte b \<longleftrightarrow> 0 \<le> b \<and> b \<le> 255"

definition short_of :: "bool \<Rightarrow> int \<Rightarrow> int \<Rightarrow> int" where
  "short_of le b0 b1 =
     (let u = (if le then b0 + 256 * b1 else 256 * b0 + b1) in if u \<ge> 32768 then u - 65536 else u)"

definition bytes_of :: "bool \<Rightarrow> int \<Rightarrow> int list" where
  "bytes_of le v =
     (let u = v mod 65536 in if le then [u mod 256, u div 256] else [u div 256, u mod 256])"

definition is_short :: "int \<Rightarrow> bool" where
  "is_short v \<longleftrightarrow> - 32768 \<le> v \<and> v \<le> 32767"

lemma bytes_of_byte: "list_all is_byte (bytes_of le v)"
proof -
  have "0 \<le> v mod 65536" "v mod 65536 < 65536" by simp_all
  then show ?thesis by (auto simp: bytes_of_def is_byte_def Let_def)
qed

lemma bytes_of_two: "\<exists>b0 b1. bytes_of le v = [b0, b1]"
  by (simp add: bytes_of_def Let_def)

lemma short_shift:
  assumes "is_short v"
  shows "- 4096 \<le> drop_bit 3 v" "drop_bit 3 v < 4096" "- 8192 \<le> drop_bit 2 v" "drop_bit 2 v < 8192"
proof -
  have v: "- 32768 \<le> v" "v \<le> 32767" using assms by (simp_all add: is_short_def)
  have "drop_bit 3 v = v div 8" "drop_bit 2 v = v div 4" by (simp_all add: drop_bit_eq_div)
  with v show "- 4096 \<le> drop_bit 3 v" "drop_bit 3 v < 4096" "- 8192 \<le> drop_bit 2 v" "drop_bit 2 v < 8192"
    by presburger+
qed

lemma short_of_bytes:
  assumes "is_short v" and "bytes_of le v = [b0, b1]"
  shows "short_of le b0 b1 = v"
proof -
  have "b0 = (if le then v mod 65536 mod 256 else v mod 65536 div 256)"
    "b1 = (if le then v mod 65536 div 256 else v mod 65536 mod 256)"
    using assms(2) by (auto simp: bytes_of_def Let_def split: if_splits)
  then have "short_of le b0 b1 = (let u = v mod 65536 in if u \<ge> 32768 then u - 65536 else u)"
    by (simp add: short_of_def mult_div_mod_eq)
  moreover have "v mod 65536 = (if v < 0 then v + 65536 else v)"
  proof (cases "v < 0")
    case True
    then have "(v + 65536) mod 65536 = v + 65536" using assms(1) by (intro mod_pos_pos_trivial) (simp_all add: is_short_def)
    with True show ?thesis by simp
  qed (use assms(1) in \<open>simp add: is_short_def mod_pos_pos_trivial\<close>)
  ultimately show ?thesis using assms(1) by (auto simp: is_short_def Let_def)
qed

lemma short_of_short: "is_byte b0 \<Longrightarrow> is_byte b1 \<Longrightarrow> is_short (short_of le b0 b1)"
  by (auto simp: is_byte_def is_short_def short_of_def Let_def)

section \<open>The loops\<close>

fun decode_loop :: "(int \<Rightarrow> int option) \<Rightarrow> bool \<Rightarrow> int list \<Rightarrow> int list option" where
  "decode_loop dec le [] = Some []"
| "decode_loop dec le (b # bs) =
     (case dec b of
        None \<Rightarrow> None
      | Some v \<Rightarrow> map_option (\<lambda>r. bytes_of le v @ r) (decode_loop dec le bs))"

text \<open>The loop condition \<^verbatim>\<open>in_b + 1 <= end\<close> leaves a single byte at the end of the buffer alone.\<close>

fun encode_loop :: "(int \<Rightarrow> int option) \<Rightarrow> nat \<Rightarrow> bool \<Rightarrow> int list \<Rightarrow> int list option" where
  "encode_loop enc sh le (b0 # b1 # bs) =
     (case enc (drop_bit sh (short_of le b0 b1)) of
        None \<Rightarrow> None
      | Some c \<Rightarrow> map_option ((#) c) (encode_loop enc sh le bs))"
| "encode_loop enc sh le _ = Some []"

section \<open>The codecs\<close>

text \<open>The result is the return value and what was written to the output buffer.\<close>

definition ULaw_2_Pcm16 :: "bool \<Rightarrow> int list \<Rightarrow> (u32 \<times> int list) option" where
  "ULaw_2_Pcm16 le in_buf =
     map_option (Pair (of_nat (length in_buf) * 2)) (decode_loop st_ulaw2linear16 le in_buf)"

definition ALaw_2_Pcm16 :: "bool \<Rightarrow> int list \<Rightarrow> (u32 \<times> int list) option" where
  "ALaw_2_Pcm16 le in_buf =
     map_option (Pair (of_nat (length in_buf) * 2)) (decode_loop st_alaw2linear16 le in_buf)"

definition Pcm16_2_ULaw :: "bool \<Rightarrow> int list \<Rightarrow> (u32 \<times> int list) option" where
  "Pcm16_2_ULaw le in_buf =
     map_option (Pair (of_nat (length in_buf) div 2)) (encode_loop st_14linear2ulaw 2 le in_buf)"

definition Pcm16_2_ALaw :: "bool \<Rightarrow> int list \<Rightarrow> (u32 \<times> int list) option" where
  "Pcm16_2_ALaw le in_buf =
     map_option (Pair (of_nat (length in_buf) div 2)) (encode_loop st_13linear2alaw 3 le in_buf)"

definition g711_bytes2samples :: "u32 \<Rightarrow> u32" where
  "g711_bytes2samples num_bytes = num_bytes"

definition g711_samples2bytes :: "u32 \<Rightarrow> u32" where
  "g711_samples2bytes num_samples = num_samples"

section \<open>What the loops rely on\<close>

text \<open>
  A sample codec: every byte has a linear value, every shifted sample a code, and the code of the
  linear value of a byte is the byte itself, up to the normal form of the codec.
\<close>

locale sample_codec =
  fixes dec enc :: "int \<Rightarrow> int option"
    and sh :: nat
    and norm :: "int \<Rightarrow> int"
  assumes dec_total: "is_byte b \<Longrightarrow> \<exists>v. dec b = Some v \<and> is_short v"
    and enc_total: "is_short v \<Longrightarrow> \<exists>c. enc (drop_bit sh v) = Some c \<and> is_byte c"
    and reads_back: "is_byte b \<Longrightarrow> dec b = Some v \<Longrightarrow> enc (drop_bit sh v) = Some (norm b)"
begin

lemma decodes:
  "list_all is_byte bs \<Longrightarrow>
   \<exists>ps. decode_loop dec le bs = Some ps \<and> list_all is_byte ps \<and> length ps = 2 * length bs"
proof (induction bs)
  case (Cons b bs)
  from dec_total [of b] Cons.prems obtain v where "dec b = Some v" by auto
  with Cons show ?case
    using bytes_of_byte [of le v] by (auto simp: bytes_of_def Let_def)
qed simp

lemma encodes:
  "list_all is_byte ps \<Longrightarrow>
   \<exists>bs. encode_loop enc sh le ps = Some bs \<and> list_all is_byte bs \<and> length bs = length ps div 2"
proof (induction "length ps" arbitrary: ps rule: less_induct)
  case less
  show ?case
  proof (cases "\<exists>b0 b1 qs. ps = b0 # b1 # qs")
    case True
    then obtain b0 b1 qs where ps: "ps = b0 # b1 # qs" by blast
    with enc_total [OF short_of_short [of b0 b1 le]] less.prems less.hyps [of qs] show ?thesis by auto
  next
    case False
    then consider "ps = []" | b where "ps = [b]" by (metis neq_Nil_conv)
    then show ?thesis by cases simp_all
  qed
qed

lemma round_trip:
  "list_all is_byte bs \<Longrightarrow> decode_loop dec le bs = Some ps \<Longrightarrow> encode_loop enc sh le ps = Some (map norm bs)"
proof (induction bs arbitrary: ps)
  case (Cons b bs)
  then obtain v qs where v: "dec b = Some v" "decode_loop dec le bs = Some qs" "ps = bytes_of le v @ qs" "is_short v"
    using dec_total [of b] by (auto split: option.splits)
  obtain b0 b1 where b: "bytes_of le v = [b0, b1]" using bytes_of_two by blast
  with v short_of_bytes [OF v(4) b] reads_back [of b v] Cons show ?case by simp
qed simp

end

lemma is_byteI: "0 \<le> b \<Longrightarrow> b \<le> 255 \<Longrightarrow> is_byte b"
  by (simp add: is_byte_def)

interpretation alaw: sample_codec st_alaw2linear16 st_13linear2alaw 3 "\<lambda>b. b"
proof
  show "\<exists>v. st_alaw2linear16 b = Some v \<and> is_short v" if "is_byte b" for b
    using that st_alaw2linear16_exact(1) [of b] linear_range [of b] by (simp add: is_byte_def is_short_def)
  show "\<exists>c. st_13linear2alaw (drop_bit 3 v) = Some c \<and> is_byte c" if "is_short v" for v
    using st_13linear2alaw_exact(1) alaw_code_range short_shift [OF that] by (simp add: is_byte_def)
  show "st_13linear2alaw (drop_bit 3 v) = Some b" if "is_byte b" "st_alaw2linear16 b = Some v" for b v
  proof -
    have b: "0 \<le> b" "b \<le> 255" using that(1) by (simp_all add: is_byte_def)
    then have v: "v = st_alaw2linear16_fun b" "- 32768 \<le> v" "v \<le> 32767"
      using that(2) st_alaw2linear16_exact(1) [of b] linear_range [of b] by auto
    with short_shift [of v] st_13linear2alaw_exact(1) alaw_reads_back [OF b] v show ?thesis by (simp add: is_short_def)
  qed
qed

interpretation ulaw: sample_codec st_ulaw2linear16 st_14linear2ulaw 2 "\<lambda>b. if b = 0x7F then 0xFF else b"
proof
  show "\<exists>v. st_ulaw2linear16 b = Some v \<and> is_short v" if "is_byte b" for b
    using that st_ulaw2linear16_exact(1) [of b] linear_range [of b] by (simp add: is_byte_def is_short_def)
  show "\<exists>c. st_14linear2ulaw (drop_bit 2 v) = Some c \<and> is_byte c" if "is_short v" for v
    using st_14linear2ulaw_exact(1) ulaw_code_range short_shift [OF that] by (simp add: is_byte_def)
  show "st_14linear2ulaw (drop_bit 2 v) = Some (if b = 0x7F then 0xFF else b)"
    if "is_byte b" "st_ulaw2linear16 b = Some v" for b v
  proof -
    have b: "0 \<le> b" "b \<le> 255" using that(1) by (simp_all add: is_byte_def)
    then have v: "v = st_ulaw2linear16_fun b" "- 32768 \<le> v" "v \<le> 32767"
      using that(2) st_ulaw2linear16_exact(1) [of b] linear_range [of b] by auto
    with short_shift [of v] st_14linear2ulaw_exact(1) ulaw_reads_back [OF b] v show ?thesis by (simp add: is_short_def)
  qed
qed

section \<open>Properties\<close>

text \<open>
  C12: the tables of the G.711 codecs are the functions they were generated from. Each of the 8192
  A-law and 16384 u-law codes, and each of the 512 linear values, is the value of the conversion
  function at its index, and the tables have no entry outside this range.
\<close>

theorem g711_tables_exact:
  "st_13linear2alaw v = (if - 4096 \<le> v \<and> v < 4096 then Some (st_13linear2alaw_fun v) else None) \<and>
   st_14linear2ulaw v = (if - 8192 \<le> v \<and> v < 8192 then Some (st_14linear2ulaw_fun v) else None) \<and>
   st_alaw2linear16 u = (if 0 \<le> u \<and> u \<le> 255 then Some (st_alaw2linear16_fun u) else None) \<and>
   st_ulaw2linear16 u = (if 0 \<le> u \<and> u \<le> 255 then Some (st_ulaw2linear16_fun u) else None)"
  using st_13linear2alaw_exact [of v] st_14linear2ulaw_exact [of v]
    st_alaw2linear16_exact [of u] st_ulaw2linear16_exact [of u] by auto

text \<open>
  C11: decoding and encoding again gives the same bytes. For any buffer of bytes and either byte
  order of the machine, both decoders fill twice as many bytes, and the encoders give these back
  as the buffer decoded: all of it for A-law, and for u-law with the negative zero 0x7F written
  as the positive one, 0xFF.
\<close>

theorem g711_round_trip:
  assumes "list_all is_byte bs" and "length bs < 2 ^ 31"
  shows "(\<exists>n ps m. ALaw_2_Pcm16 le bs = Some (n, ps) \<and> unat n = 2 * length bs \<and> length ps = 2 * length bs \<and>
      Pcm16_2_ALaw le ps = Some (m, bs) \<and> unat m = length bs) \<and>
    (\<exists>n ps m. ULaw_2_Pcm16 le bs = Some (n, ps) \<and> unat n = 2 * length bs \<and> length ps = 2 * length bs \<and>
      Pcm16_2_ULaw le ps = Some (m, map (\<lambda>b. if b = 0x7F then 0xFF else b) bs) \<and> unat m = length bs)"
proof -
  obtain ps where a: "decode_loop st_alaw2linear16 le bs = Some ps" "length ps = 2 * length bs"
    using alaw.decodes [OF assms(1)] by blast
  obtain qs where u: "decode_loop st_ulaw2linear16 le bs = Some qs" "length qs = 2 * length bs"
    using ulaw.decodes [OF assms(1)] by blast
  have n: "unat (of_nat (length bs) * 2 :: u32) = 2 * length bs" "unat (of_nat (2 * length bs) div 2 :: u32) = length bs"
    using assms(2) by (simp_all add: unat_word_ariths unat_div unat_of_nat)
  from a u n alaw.round_trip [OF assms(1) a(1)] ulaw.round_trip [OF assms(1) u(1)] show ?thesis
    by (simp add: ALaw_2_Pcm16_def Pcm16_2_ALaw_def ULaw_2_Pcm16_def Pcm16_2_ULaw_def)
qed

abbreviation sample_bytes :: "int list" where
  "sample_bytes \<equiv> [0xD5, 0x7F, 0x00]"

theorem g711_round_trip_witness:
  "(\<exists>n ps m. ALaw_2_Pcm16 True sample_bytes = Some (n, ps) \<and> unat n = 2 * length sample_bytes \<and>
      length ps = 2 * length sample_bytes \<and> Pcm16_2_ALaw True ps = Some (m, sample_bytes) \<and> unat m = length sample_bytes) \<and>
    (\<exists>n ps m. ULaw_2_Pcm16 True sample_bytes = Some (n, ps) \<and> unat n = 2 * length sample_bytes \<and>
      length ps = 2 * length sample_bytes \<and>
      Pcm16_2_ULaw True ps = Some (m, map (\<lambda>b. if b = 0x7F then 0xFF else b) sample_bytes) \<and> unat m = length sample_bytes)"
  by (rule g711_round_trip) (simp_all add: is_byte_def)

text \<open>
  C20: every codec of the plug-in turns bytes into bytes. On any buffer of bytes, of even or odd
  length, in either byte order, no access lies outside a table, the output consists of bytes, and
  its length is that of the input doubled or halved.
\<close>

theorem g711_codecs_typed:
  assumes "list_all is_byte bs"
  shows "(\<exists>n out. ULaw_2_Pcm16 le bs = Some (n, out) \<and> list_all is_byte out \<and> length out = 2 * length bs) \<and>
    (\<exists>n out. ALaw_2_Pcm16 le bs = Some (n, out) \<and> list_all is_byte out \<and> length out = 2 * length bs) \<and>
    (\<exists>n out. Pcm16_2_ULaw le bs = Some (n, out) \<and> list_all is_byte out \<and> length out = length bs div 2) \<and>
    (\<exists>n out. Pcm16_2_ALaw le bs = Some (n, out) \<and> list_all is_byte out \<and> length out = length bs div 2)"
  using alaw.decodes [OF assms, of le] ulaw.decodes [OF assms, of le]
    alaw.encodes [OF assms, of le] ulaw.encodes [OF assms, of le]
  by (auto simp: ALaw_2_Pcm16_def Pcm16_2_ALaw_def ULaw_2_Pcm16_def Pcm16_2_ULaw_def)

theorem g711_codecs_typed_witness:
  "\<exists>n out. Pcm16_2_ULaw False [0x80, 0x00, 0x01] = Some (n, out) \<and> list_all is_byte out \<and> length out = 1"
  using g711_codecs_typed [of "[0x80, 0x00, 0x01]" False] by (simp add: is_byte_def)

end
