(* ===== verification/Adpcm.thy ===== *)
theory Adpcm
  imports G711
begin

text \<open>
  \<^verbatim>\<open>core/plug-in/adpcm/g711.c\<close>, \<^verbatim>\<open>g72x.c\<close>, \<^verbatim>\<open>g721.c\<close> and \<^verbatim>\<open>g723_16.c\<close>, \<^verbatim>\<open>g723_24.c\<close>, \<^verbatim>\<open>g723_40.c\<close>: the
  adaptive predictor and quantizer of G.726 with its four rates. Encoder and decoder adapt the same
  state from the codes alone. An \<^verbatim>\<open>int\<close> expression is an integer; every value that goes through a
  \<^verbatim>\<open>short\<close> or a \<^verbatim>\<open>char\<close> is cut to its width there.
\<close>

section \<open>Narrow types\<close>

definition sh16 :: "int \<Rightarrow> int" where
  "sh16 x = (x + 32768) mod 65536 - 32768"

definition sh8 :: "int \<Rightarrow> int" where
  "sh8 x = (x + 128) mod 256 - 128"

lemma sh16_id [simp]: "- 32768 \<le> x \<Longrightarrow> x \<le> 32767 \<Longrightarrow> sh16 x = x"
  by (simp add: sh16_def mod_pos_pos_trivial)

lemma sh16_range: "- 32768 \<le> sh16 x" "sh16 x \<le> 32767"
proof -
  have "0 \<le> (x + 32768) mod 65536" "(x + 32768) mod 65536 < 65536" by simp_all
  then show "- 32768 \<le> sh16 x" "sh16 x \<le> 32767" unfolding sh16_def by linarith+
qed

section \<open>Conversions between linear, A-law and u-law samples\<close>

text \<open>The bodies are those of the wav plug-in behind a shift to 13 or 14 bits.\<close>

definition linear2alaw :: "int \<Rightarrow> int" where
  "linear2alaw pcm_val = st_13linear2alaw_fun (drop_bit 3 (sh16 pcm_val))"

definition alaw2linear :: "int \<Rightarrow> int" where
  "alaw2linear a_val = st_alaw2linear16_fun (a_val mod 256)"

definition linear2ulaw :: "int \<Rightarrow> int" where
  "linear2ulaw pcm_val = st_14linear2ulaw_fun (drop_bit 2 (sh16 pcm_val))"

definition ulaw2linear :: "int \<Rightarrow> int" where
  "ulaw2linear u_val = st_ulaw2linear16_fun (u_val mod 256)"

definition u2a :: "int list" where
  "u2a =
     [1, 1, 2, 2, 3, 3, 4, 4, 5, 5, 6, 6, 7, 7, 8, 8,
      9, 10, 11, 12, 13, 14, 15, 16, 17, 18, 19, 20, 21, 22, 23, 24,
      25, 27, 29, 31, 33, 34, 35, 36, 37, 38, 39, 40, 41, 42, 43, 44,
      46, 48, 49, 50, 51, 52, 53, 54, 55, 56, 57, 58, 59, 60, 61, 62,
      64, 65, 66, 67, 68, 69, 70, 71, 72, 73, 74, 75, 76, 77, 78, 79,
      80, 82, 83, 84, 85, 86, 87, 88, 89, 90, 91, 92, 93, 94, 95, 96,
      97, 98, 99, 100, 101, 102, 103, 104, 105, 106, 107, 108, 109, 110, 111, 112,
      113, 114, 115, 116, 117, 118, 119, 120, 121, 122, 123, 124, 125, 126, 127, 128]"

definition a2u :: "int list" where
  "a2u =
     [1, 3, 5, 7, 9, 11, 13, 15, 16, 17, 18, 19, 20, 21, 22, 23,
      24, 25, 26, 27, 28, 29, 30, 31, 32, 32, 33, 33, 34, 34, 35, 35,
      36, 37, 38, 39, 40, 41, 42, 43, 44, 45, 46, 47, 48, 48, 49, 49,
      50, 51, 52, 53, 54, 55, 56, 57, 58, 59, 60, 61, 62, 63, 64, 64,
      65, 66, 67, 68, 69, 70, 71, 72, 73, 74, 75, 76, 77, 78, 79, 80,
      80, 81, 82, 83, 84, 85, 86, 87, 88, 89, 90, 91, 92, 93, 94, 95,
      96, 97, 98, 99, 100, 101, 102, 103, 104, 105, 106, 107, 108, 109, 110, 111,
      112, 113, 114, 115, 116, 117, 118, 119, 120, 121, 122, 123, 124, 125, 126, 127]"

definition alaw2ulaw :: "int \<Rightarrow> int" where
  "alaw2ulaw aval =
     (let a = aval AND 0xFF in
      (if a AND 0x80 \<noteq> 0 then 0xFF XOR a2u ! nat (a XOR 0xD5) else 0x7F XOR a2u ! nat (a XOR 0x55)) mod 256)"

definition ulaw2alaw :: "int \<Rightarrow> int" where
  "ulaw2alaw uval =
     (let u = uval AND 0xFF in
      (if u AND 0x80 \<noteq> 0 then 0xD5 XOR (u2a ! nat (0xFF XOR u) - 1) else 0x55 XOR (u2a ! nat (0x7F XOR u) - 1)) mod 256)"

section \<open>The state\<close>

record g72x_state =
  yl :: int
  yu :: int
  dms :: int
  dml :: int
  ap :: int
  a0 :: int
  a1 :: int
  bs :: "int list"
  pk0 :: int
  pk1 :: int
  dqs :: "int list"
  sr0 :: int
  sr1 :: int
  td :: int

definition g72x_init_state :: g72x_state where
  "g72x_init_state =
     \<lparr>yl = 34816, yu = 544, dms = 0, dml = 0, ap = 0, a0 = 0, a1 = 0, bs = replicate 6 0, pk0 = 0, pk1 = 0,
      dqs = replicate 6 32, sr0 = 32, sr1 = 32, td = 0\<rparr>"

section \<open>Arithmetic of the predictor and the quantizer\<close>

definition power2 :: "int list" where
  "power2 = [1, 2, 4, 8, 0x10, 0x20, 0x40, 0x80, 0x100, 0x200, 0x400, 0x800, 0x1000, 0x2000, 0x4000]"

fun quan :: "int \<Rightarrow> int list \<Rightarrow> int" where
  "quan val [] = 0"
| "quan val (x # table) = (if val < x then 0 else 1 + quan val table)"

definition shl :: "int \<Rightarrow> int \<Rightarrow> int" where
  "shl x n = push_bit (nat n) x"

definition shr :: "int \<Rightarrow> int \<Rightarrow> int" where
  "shr x n = drop_bit (nat n) x"

definition fmult :: "int \<Rightarrow> int \<Rightarrow> int" where
  "fmult an srn =
     (let anmag = sh16 (if an > 0 then an else (- an) AND 0x1FFF);
          anexp = sh16 (quan anmag power2 - 6);
          anmant = sh16 (if anmag = 0 then 32
                         else if anexp \<ge> 0 then shr anmag anexp else shl anmag (- anexp));
          wanexp = sh16 (anexp + (shr srn 6 AND 0xF) - 13);
          wanmant = sh16 (shr (anmant * (srn AND 0x3F) + 0x30) 4);
          retval = sh16 (if wanexp \<ge> 0 then shl wanmant wanexp AND 0x7FFF else shr wanmant (- wanexp))
      in if an XOR srn < 0 then - retval else retval)"

definition predictor_zero :: "g72x_state \<Rightarrow> int" where
  "predictor_zero s = sum_list (map2 (\<lambda>b dq. fmult (shr b 2) dq) (bs s) (dqs s))"

definition predictor_pole :: "g72x_state \<Rightarrow> int" where
  "predictor_pole s = fmult (shr (a1 s) 2) (sr1 s) + fmult (shr (a0 s) 2) (sr0 s)"

definition step_size :: "g72x_state \<Rightarrow> int" where
  "step_size s =
     (if ap s \<ge> 256 then yu s
      else
        let y = shr (yl s) 6; dif = yu s - y; al = shr (ap s) 2
        in if dif > 0 then y + shr (dif * al) 6
           else if dif < 0 then y + shr (dif * al + 0x3F) 6
           else y)"

definition quantize :: "int \<Rightarrow> int \<Rightarrow> int list \<Rightarrow> int" where
  "quantize d y table =
     (let size = int (length table);
          dqm = sh16 (abs d);
          ex = sh16 (quan (shr dqm 1) power2);
          mant = sh16 (shr (shl dqm 7) ex AND 0x7F);
          dl = sh16 (shl ex 7 + mant);
          dln = sh16 (dl - shr y 2);
          i = quan dln table
      in if d < 0 then shl size 1 + 1 - i
         else if i = 0 then shl size 1 + 1
         else i)"

definition reconstruct :: "bool \<Rightarrow> int \<Rightarrow> int \<Rightarrow> int" where
  "reconstruct sign dqln y =
     (let dql = sh16 (dqln + shr y 2) in
      if dql < 0 then (if sign then - 0x8000 else 0)
      else
        let dex = sh16 (shr dql 7 AND 15);
            dqt = sh16 (128 + (dql AND 127));
            dq = sh16 (shr (shl dqt 7) (14 - dex))
        in if sign then dq - 0x8000 else dq)"

section \<open>Adaptation\<close>

definition tone_transition :: "int \<Rightarrow> g72x_state \<Rightarrow> bool" where
  "tone_transition mag s =
     (let ylint = sh16 (shr (yl s) 15);
          ylfrac = sh16 (shr (yl s) 10 AND 0x1F);
          thr1 = sh16 (shl (32 + ylfrac) ylint);
          thr2 = sh16 (if ylint > 9 then shl 31 10 else thr1);
          dqthr = sh16 (shr (thr2 + shr thr2 1) 1)
      in td s \<noteq> 0 \<and> mag > dqthr)"

definition adapt_scale :: "int \<Rightarrow> int \<Rightarrow> g72x_state \<Rightarrow> g72x_state" where
  "adapt_scale y wi s =
     (let u = sh16 (y + shr (wi - y) 5);
          u = (if u < 544 then 544 else if u > 5120 then 5120 else u)
      in s\<lparr>yu := u, yl := yl s + u + shr (- yl s) 6\<rparr>)"

definition adapt_a1 :: "int \<Rightarrow> int \<Rightarrow> g72x_state \<Rightarrow> int" where
  "adapt_a1 dqsez p s =
     (let pks1 = p XOR pk0 s;
          a2p = sh16 (a1 s - shr (a1 s) 7)
      in if dqsez = 0 then a2p
         else
           let fa1 = sh16 (if pks1 \<noteq> 0 then a0 s else - a0 s);
               a2p = sh16 (if fa1 < - 8191 then a2p - 0x100
                           else if fa1 > 8191 then a2p + 0xFF
                           else a2p + shr fa1 5)
           in if p XOR pk1 s \<noteq> 0 then
                if a2p \<le> - 12160 then - 12288 else if a2p \<ge> 12416 then 12288 else sh16 (a2p - 0x80)
              else
                if a2p \<le> - 12416 then - 12288 else if a2p \<ge> 12160 then 12288 else sh16 (a2p + 0x80))"

definition adapt_a0 :: "int \<Rightarrow> int \<Rightarrow> int \<Rightarrow> g72x_state \<Rightarrow> int" where
  "adapt_a0 dqsez p a2p s =
     (let pks1 = p XOR pk0 s;
          x = sh16 (a0 s - shr (a0 s) 8);
          x = (if dqsez = 0 then x else if pks1 = 0 then sh16 (x + 192) else sh16 (x - 192));
          a1ul = sh16 (15360 - a2p)
      in if x < - a1ul then sh16 (- a1ul) else if x > a1ul then a1ul else x)"

definition adapt_b :: "int \<Rightarrow> int \<Rightarrow> int \<Rightarrow> int \<Rightarrow> int" where
  "adapt_b code_size dq b d =
     (let x = sh16 (b - shr b (if code_size = 5 then 9 else 8))
      in if dq AND 0x7FFF = 0 then x
         else if dq XOR d \<ge> 0 then sh16 (x + 128) else sh16 (x - 128))"

definition float_a :: "int \<Rightarrow> int \<Rightarrow> int" where
  "float_a mag dq =
     (if mag = 0 then (if dq \<ge> 0 then 0x20 else sh16 0xFC20)
      else
        let ex = sh16 (quan mag power2); x = shl ex 6 + shr (shl mag 6) ex
        in if dq \<ge> 0 then sh16 x else sh16 (x - 0x400))"

definition float_b :: "int \<Rightarrow> int" where
  "float_b sr =
     (if sr = 0 then 0x20
      else if sr > 0 then
        let ex = sh16 (quan sr power2) in sh16 (shl ex 6 + shr (shl sr 6) ex)
      else if sr > - 32768 then
        let mag = sh16 (- sr); ex = sh16 (quan mag power2) in sh16 (shl ex 6 + shr (shl mag 6) ex - 0x400)
      else sh16 0xFC20)"

definition adapt_ap :: "bool \<Rightarrow> int \<Rightarrow> g72x_state \<Rightarrow> int" where
  "adapt_ap tr y s =
     (if tr then 256
      else if y < 1536 \<or> td s = 1 \<or> abs (shl (dms s) 2 - dml s) \<ge> shr (dml s) 3
      then sh16 (ap s + shr (0x200 - ap s) 4)
      else sh16 (ap s + shr (- ap s) 4))"

definition update :: "int \<Rightarrow> int \<Rightarrow> int \<Rightarrow> int \<Rightarrow> int \<Rightarrow> int \<Rightarrow> int \<Rightarrow> g72x_state \<Rightarrow> g72x_state" where
  "update code_size y wi fi dq sr dqsez s =
     (let p = (if dqsez < 0 then 1 else 0);
          mag = sh16 (dq AND 0x7FFF);
          tr = tone_transition mag s;
          s1 = adapt_scale y wi s;
          a2p = (if tr then 0 else adapt_a1 dqsez p s);
          s2 = s1\<lparr>a1 := a2p, a0 := (if tr then 0 else adapt_a0 dqsez p a2p s),
                  bs := (if tr then replicate 6 0 else map2 (adapt_b code_size dq) (bs s) (dqs s))\<rparr>;
          s3 = s2\<lparr>dqs := float_a mag dq # take 5 (dqs s), sr1 := sr0 s, sr0 := float_b sr,
                  pk1 := pk0 s, pk0 := p,
                  td := (if tr then 0 else if a2p < - 11776 then 1 else 0)\<rparr>;
          s4 = s3\<lparr>dms := sh16 (dms s + shr (fi - dms s) 5), dml := sh16 (dml s + shr (shl fi 2 - dml s) 7)\<rparr>
      in s4\<lparr>ap := adapt_ap tr y s4\<rparr>)"

section \<open>Tandem adjustment\<close>

text \<open>\<open>sign\<close> is the sign bit of the code; the table has one entry less than it.\<close>

definition tandem_adjust_alaw :: "int \<Rightarrow> int \<Rightarrow> int \<Rightarrow> int \<Rightarrow> int \<Rightarrow> int list \<Rightarrow> int" where
  "tandem_adjust_alaw sr se y i sign qtab =
     (let sr = (if sr \<le> - 32768 then - 1 else sr);
          sp = linear2alaw (shl (shr sr 1) 3);
          dx = sh16 (shr (alaw2linear sp) 2 - se);
          id = sh8 (quantize dx y (take (nat (sign - 1)) qtab))
      in if id = i then sp
         else
           let im = i XOR sign; imx = id XOR sign
           in if imx > im then
                if sp AND 0x80 \<noteq> 0
                then if sp = 0xD5 then 0x55 else ((sp XOR 0x55) - 1) XOR 0x55
                else if sp = 0x2A then 0x2A else ((sp XOR 0x55) + 1) XOR 0x55
              else
                if sp AND 0x80 \<noteq> 0
                then if sp = 0xAA then 0xAA else ((sp XOR 0x55) + 1) XOR 0x55
                else if sp = 0x55 then 0xD5 else ((sp XOR 0x55) - 1) XOR 0x55)"

definition tandem_adjust_ulaw :: "int \<Rightarrow> int \<Rightarrow> int \<Rightarrow> int \<Rightarrow> int \<Rightarrow> int list \<Rightarrow> int" where
  "tandem_adjust_ulaw sr se y i sign qtab =
     (let sr = (if sr \<le> - 32768 then 0 else sr);
          sp = linear2ulaw (shl sr 2);
          dx = sh16 (shr (ulaw2linear sp) 2 - se);
          id = sh8 (quantize dx y (take (nat (sign - 1)) qtab))
      in if id = i then sp
         else
           let im = i XOR sign; imx = id XOR sign
           in if imx > im then
                if sp AND 0x80 \<noteq> 0
                then if sp = 0xFF then 0x7E else sp + 1
                else if sp = 0 then 0 else sp - 1
              else
                if sp AND 0x80 \<noteq> 0
                then if sp = 0x80 then 0x80 else sp - 1
                else if sp = 0x7F then 0xFE else sp + 1)"

section \<open>The four rates\<close>

text \<open>
  What the coders of the four rates differ in: the tables, the width and the sign bit of a code,
  the mask of a negative difference, the correction of code 3 at 16 kbit/s, and whether the
  encoder keeps the sum of the two predictors in a \<^verbatim>\<open>short\<close>. The decoder always does.
\<close>

record adpcm_rate =
  code_size :: int
  sign_bit :: int
  qtab :: "int list"
  dqlntab :: "int list"
  witab :: "int list"
  fitab :: "int list"
  dq_mask :: int
  zero_fix :: bool
  short_sum :: bool

definition rate_32 :: adpcm_rate where
  "rate_32 =
     \<lparr>code_size = 4, sign_bit = 8, qtab = [- 124, 80, 178, 246, 300, 349, 400],
      dqlntab = [- 2048, 4, 135, 213, 273, 323, 373, 425, 425, 373, 323, 273, 213, 135, 4, - 2048],
      witab = map (\<lambda>w. shl w 5) [- 12, 18, 41, 64, 112, 198, 355, 1122, 1122, 355, 198, 112, 64, 41, 18, - 12],
      fitab = [0, 0, 0, 0x200, 0x200, 0x200, 0x600, 0xE00, 0xE00, 0x600, 0x200, 0x200, 0x200, 0, 0, 0],
      dq_mask = 0x3FFF, zero_fix = False, short_sum = False\<rparr>"

definition rate_16 :: adpcm_rate where
  "rate_16 =
     \<lparr>code_size = 2, sign_bit = 2, qtab = [261], dqlntab = [116, 365, 365, 116],
      witab = [- 704, 14048, 14048, - 704], fitab = [0, 0xE00, 0xE00, 0],
      dq_mask = 0x3FFF, zero_fix = True, short_sum = True\<rparr>"

definition rate_24 :: adpcm_rate where
  "rate_24 =
     \<lparr>code_size = 3, sign_bit = 4, qtab = [8, 218, 331],
      dqlntab = [- 2048, 135, 273, 373, 373, 273, 135, - 2048],
      witab = [- 128, 960, 4384, 18624, 18624, 4384, 960, - 128],
      fitab = [0, 0x200, 0x400, 0xE00, 0xE00, 0x400, 0x200, 0],
      dq_mask = 0x3FFF, zero_fix = False, short_sum = True\<rparr>"

definition rate_40 :: adpcm_rate where
  "rate_40 =
     \<lparr>code_size = 5, sign_bit = 0x10,
      qtab = [- 122, - 16, 68, 139, 198, 250, 298, 339, 378, 413, 445, 475, 502, 528, 553],
      dqlntab = [- 2048, - 66, 28, 104, 169, 224, 274, 318, 358, 395, 429, 459, 488, 514, 539, 566,
                 566, 539, 514, 488, 459, 429, 395, 358, 318, 274, 224, 169, 104, 28, - 66, - 2048],
      witab = [448, 448, 768, 1248, 1280, 1312, 1856, 3200, 4512, 5728, 7008, 8960, 11456, 14080, 16928, 22272,
               22272, 16928, 14080, 11456, 8960, 7008, 5728, 4512, 3200, 1856, 1312, 1280, 1248, 768, 448, 448],
      fitab = [0, 0, 0, 0, 0, 0x200, 0x200, 0x200, 0x200, 0x200, 0x400, 0x600, 0x800, 0xA00, 0xC00, 0xC00,
               0xC00, 0xC00, 0xA00, 0x800, 0x600, 0x400, 0x200, 0x200, 0x200, 0x200, 0x200, 0, 0, 0, 0, 0],
      dq_mask = 0x7FFF, zero_fix = False, short_sum = True\<rparr>"

section \<open>Encoder and decoder\<close>

datatype coding = AUDIO_ENCODING_ULAW | AUDIO_ENCODING_ALAW | AUDIO_ENCODING_LINEAR | AUDIO_ENCODING_OTHER

definition linearize :: "coding \<Rightarrow> int \<Rightarrow> int option" where
  "linearize in_coding sl =
     (case in_coding of
        AUDIO_ENCODING_ALAW \<Rightarrow> Some (shr (alaw2linear sl) 2)
      | AUDIO_ENCODING_ULAW \<Rightarrow> Some (shr (ulaw2linear sl) 2)
      | AUDIO_ENCODING_LINEAR \<Rightarrow> Some (shr sl 2)
      | AUDIO_ENCODING_OTHER \<Rightarrow> None)"

text \<open>What both do with a code: the reconstructed signal and the new state.\<close>

definition adapt :: "adpcm_rate \<Rightarrow> int \<Rightarrow> int \<Rightarrow> int \<Rightarrow> int \<Rightarrow> g72x_state \<Rightarrow> int \<times> g72x_state" where
  "adapt r i se sez y s =
     (let dq = sh16 (reconstruct (i AND sign_bit r \<noteq> 0) (dqlntab r ! nat i) y);
          sr = sh16 (if dq < 0 then se - (dq AND dq_mask r) else se + dq);
          dqsez = sh16 (sr + sez - se)
      in (sr, update (code_size r) y (witab r ! nat i) (fitab r ! nat i) dq sr dqsez s))"

definition encode_sample :: "adpcm_rate \<Rightarrow> int \<Rightarrow> g72x_state \<Rightarrow> int \<times> int \<times> g72x_state" where
  "encode_sample r sl s =
     (let sezi = sh16 (predictor_zero s);
          sez = sh16 (shr sezi 1);
          sei = (if short_sum r then sh16 (sezi + predictor_pole s) else sezi + predictor_pole s);
          se = sh16 (shr sei 1);
          d = sh16 (sl - se);
          y = sh16 (step_size s);
          i = sh16 (quantize d y (qtab r));
          i = (if zero_fix r \<and> i = 3 \<and> d AND 0x8000 = 0 then 0 else i)
      in (i, adapt r i se sez y s))"

definition decode_code :: "adpcm_rate \<Rightarrow> int \<Rightarrow> g72x_state \<Rightarrow> int \<times> int \<times> int \<times> int \<times> g72x_state" where
  "decode_code r i s =
     (let i = i AND (2 ^ nat (code_size r) - 1);
          sezi = sh16 (predictor_zero s);
          sez = sh16 (shr sezi 1);
          sei = sh16 (sezi + predictor_pole s);
          se = sh16 (shr sei 1);
          y = sh16 (step_size s)
      in (i, se, y, adapt r i se sez y s))"

text \<open>The result is the return value and the new state.\<close>

definition g72x_encoder :: "adpcm_rate \<Rightarrow> int \<Rightarrow> coding \<Rightarrow> g72x_state \<Rightarrow> int \<times> g72x_state" where
  "g72x_encoder r sl in_coding s =
     (case linearize in_coding sl of
        None \<Rightarrow> (- 1, s)
      | Some x \<Rightarrow> let (i, sr, s1) = encode_sample r x s in (i, s1))"

definition g72x_decoder :: "adpcm_rate \<Rightarrow> int \<Rightarrow> coding \<Rightarrow> g72x_state \<Rightarrow> int \<times> g72x_state" where
  "g72x_decoder r i out_coding s =
     (let (i, se, y, sr, s1) = decode_code r i s in
      (case out_coding of
         AUDIO_ENCODING_ALAW \<Rightarrow> tandem_adjust_alaw sr se y i (sign_bit r) (qtab r)
       | AUDIO_ENCODING_ULAW \<Rightarrow> tandem_adjust_ulaw sr se y i (sign_bit r) (qtab r)
       | AUDIO_ENCODING_LINEAR \<Rightarrow> shl sr 2
       | AUDIO_ENCODING_OTHER \<Rightarrow> - 1, s1))"

definition g721_encoder :: "int \<Rightarrow> coding \<Rightarrow> g72x_state \<Rightarrow> int \<times> g72x_state" where
  "g721_encoder = g72x_encoder rate_32"

definition g721_decoder :: "int \<Rightarrow> coding \<Rightarrow> g72x_state \<Rightarrow> int \<times> g72x_state" where
  "g721_decoder = g72x_decoder rate_32"

definition g723_16_encoder :: "int \<Rightarrow> coding \<Rightarrow> g72x_state \<Rightarrow> int \<times> g72x_state" where
  "g723_16_encoder = g72x_encoder rate_16"

definition g723_16_decoder :: "int \<Rightarrow> coding \<Rightarrow> g72x_state \<Rightarrow> int \<times> g72x_state" where
  "g723_16_decoder = g72x_decoder rate_16"

definition g723_24_encoder :: "int \<Rightarrow> coding \<Rightarrow> g72x_state \<Rightarrow> int \<times> g72x_state" where
  "g723_24_encoder = g72x_encoder rate_24"

definition g723_24_decoder :: "int \<Rightarrow> coding \<Rightarrow> g72x_state \<Rightarrow> int \<times> g72x_state" where
  "g723_24_decoder = g72x_decoder rate_24"

definition g723_40_encoder :: "int \<Rightarrow> coding \<Rightarrow> g72x_state \<Rightarrow> int \<times> g72x_state" where
  "g723_40_encoder = g72x_encoder rate_40"

definition g723_40_decoder :: "int \<Rightarrow> coding \<Rightarrow> g72x_state \<Rightarrow> int \<times> g72x_state" where
  "g723_40_decoder = g72x_decoder rate_40"

end
