(* ===== verification/Adpcm_Inv.thy ===== *)
theory Adpcm_Inv
  imports Adpcm
begin

text \<open>
  The state of the G.726 coders stays in the ranges of the Recommendation whatever codes arrive,
  and encoder and decoder stay in step as long as the encoder computes the estimate in the same
  width as the decoder. At 32 kbit/s it does not, and the states it loses its decoder in are
  characterised.
\<close>

section \<open>Ranges of the state\<close>

definition state_ok :: "g72x_state \<Rightarrow> bool" where
  "state_ok s \<longleftrightarrow>
     544 \<le> yu s \<and> yu s \<le> 5120 \<and> 34816 \<le> yl s \<and> yl s \<le> 327680 \<and> 0 \<le> ap s \<and> ap s \<le> 512 \<and>
     - 12288 \<le> a1 s \<and> a1 s \<le> 12288 \<and> abs (a0 s) \<le> 15360 - a1 s \<and>
     0 \<le> dms s \<and> dms s \<le> 0xE00 \<and> 0 \<le> dml s \<and> dml s \<le> 0x3800 \<and>
     pk0 s \<in> {0, 1} \<and> pk1 s \<in> {0, 1} \<and> td s \<in> {0, 1} \<and>
     length (bs s) = 6 \<and> list_all (\<lambda>b. - 32768 \<le> b \<and> b \<le> 32767) (bs s) \<and>
     length (dqs s) = 6 \<and> list_all (\<lambda>d. - 32768 \<le> d \<and> d \<le> 32767) (dqs s) \<and>
     - 32768 \<le> sr0 s \<and> sr0 s \<le> 32767 \<and> - 32768 \<le> sr1 s \<and> sr1 s \<le> 32767"

lemma init_state_ok: "state_ok g72x_init_state"
  by (simp add: state_ok_def g72x_init_state_def list_all_iff)

lemma shr_div: "shr x n = x div 2 ^ nat n"
  by (simp add: shr_def drop_bit_eq_div)

lemma shl_mult: "shl x n = x * 2 ^ nat n"
  by (simp add: shl_def push_bit_eq_mult)

lemma div_bounds:
  assumes "0 < (k :: int)"
  shows "k * (x div k) \<le> x" "x < k * (x div k) + k"
proof -
  have "x = k * (x div k) + x mod k" "0 \<le> x mod k" "x mod k < k" using assms by simp_all
  then show "k * (x div k) \<le> x" "x < k * (x div k) + k" by linarith+
qed

lemma step_size_range:
  assumes "state_ok s"
  shows "544 \<le> step_size s \<and> step_size s \<le> 5120"
proof (cases "ap s \<ge> 256")
  case False
  define y dif al where "y = yl s div 64" and "dif = yu s - y" and "al = ap s div 4"
  have y: "544 \<le> y" "y \<le> 5120" "544 \<le> y + dif" "y + dif \<le> 5120" "0 \<le> al" "al \<le> 63"
    using assms False by (auto simp: state_ok_def y_def dif_def al_def)
  have up: "0 \<le> dif * al div 64 \<and> dif * al div 64 \<le> dif" if "dif > 0"
  proof -
    have "0 \<le> dif * al" "dif * al \<le> dif * 63" using that y by (simp_all add: mult_left_mono)
    then show ?thesis by linarith
  qed
  have dn: "dif \<le> (dif * al + 63) div 64 \<and> (dif * al + 63) div 64 \<le> 0" if "dif < 0"
  proof -
    have "dif * 63 \<le> dif * al" using that y by (simp add: mult_left_mono_neg)
    moreover have "dif * al \<le> 0" using that y by (simp add: mult_nonpos_nonneg)
    ultimately show ?thesis using that by linarith
  qed
  have "step_size s = (if dif > 0 then y + dif * al div 64 else if dif < 0 then y + (dif * al + 63) div 64 else y)"
    using False by (simp add: step_size_def shr_div y_def dif_def al_def Let_def)
  with y up dn show ?thesis by auto
qed (use assms in \<open>auto simp: step_size_def state_ok_def\<close>)

lemma adapt_scale_range:
  assumes "state_ok s"
  shows "544 \<le> yu (adapt_scale y wi s)" "yu (adapt_scale y wi s) \<le> 5120"
    "34816 \<le> yl (adapt_scale y wi s)" "yl (adapt_scale y wi s) \<le> 327680"
proof -
  have l: "34816 \<le> yl s" "yl s \<le> 327680" using assms by (simp_all add: state_ok_def)
  show u: "544 \<le> yu (adapt_scale y wi s)" "yu (adapt_scale y wi s) \<le> 5120"
    by (auto simp: adapt_scale_def Let_def)
  have "yl (adapt_scale y wi s) = yl s + yu (adapt_scale y wi s) + (- yl s) div 64"
    by (simp add: adapt_scale_def Let_def shr_div)
  with l u div_bounds [of 64 "- yl s"]
  show "34816 \<le> yl (adapt_scale y wi s)" "yl (adapt_scale y wi s) \<le> 327680" by linarith+
qed

lemma adapt_a1_range:
  assumes "- 12288 \<le> a1 s" and "a1 s \<le> 12288"
  shows "- 12288 \<le> adapt_a1 dqsez p s \<and> adapt_a1 dqsez p s \<le> 12288"
proof -
  have "- 12288 \<le> a1 s - a1 s div 128" "a1 s - a1 s div 128 \<le> 12288"
    using assms div_bounds [of 128 "a1 s"] by linarith+
  then have 1: "sh16 (a1 s - shr (a1 s) 7) = a1 s - a1 s div 128" "- 12288 \<le> a1 s - a1 s div 128" "a1 s - a1 s div 128 \<le> 12288"
    by (simp_all add: shr_div)
  have limc: "- 12288 \<le> (if z \<le> - 12160 then - 12288 else if z \<ge> 12416 then 12288 else sh16 (z - 0x80))"
    "(if z \<le> - 12160 then - 12288 else if z \<ge> 12416 then 12288 else sh16 (z - 0x80)) \<le> 12288"
    "- 12288 \<le> (if z \<le> - 12416 then - 12288 else if z \<ge> 12160 then 12288 else sh16 (z + 0x80))"
    "(if z \<le> - 12416 then - 12288 else if z \<ge> 12160 then 12288 else sh16 (z + 0x80)) \<le> 12288" for z
    by auto
  define z where "z = sh16 (if sh16 (if p XOR pk0 s \<noteq> 0 then a0 s else - a0 s) < - 8191 then a1 s - a1 s div 128 - 0x100
    else if sh16 (if p XOR pk0 s \<noteq> 0 then a0 s else - a0 s) > 8191 then a1 s - a1 s div 128 + 0xFF
    else a1 s - a1 s div 128 + shr (sh16 (if p XOR pk0 s \<noteq> 0 then a0 s else - a0 s)) 5)"
  show ?thesis
    unfolding adapt_a1_def Let_def 1 z_def [symmetric] using 1(2,3) limc [of z]
    by (cases "dqsez = 0"; cases "p XOR pk1 s = 0") simp_all
qed

lemma adapt_a0_range:
  assumes "- 12288 \<le> a2p" and "a2p \<le> 12288"
  shows "abs (adapt_a0 dqsez p a2p s) \<le> 15360 - a2p"
  using assms by (auto simp: adapt_a0_def Let_def)

lemma adapt_b_range: "- 32768 \<le> adapt_b c dq b d \<and> adapt_b c dq b d \<le> 32767"
  by (simp add: adapt_b_def Let_def sh16_range)

lemma float_range:
  "- 32768 \<le> float_a mag dq \<and> float_a mag dq \<le> 32767" "- 32768 \<le> float_b sr \<and> float_b sr \<le> 32767"
  by (simp_all add: float_a_def float_b_def Let_def sh16_range)

lemma filter_range:
  assumes "0 \<le> x" and "x \<le> m" and "0 \<le> f" and "f \<le> (m :: int)" and "m \<le> 32767" and "0 < k"
  shows "0 \<le> sh16 (x + (f - x) div k) \<and> sh16 (x + (f - x) div k) \<le> m"
proof -
  have "0 \<le> x + (f - x) div k \<and> x + (f - x) div k \<le> m"
  proof (cases "f \<ge> x")
    case True
    then have "0 \<le> (f - x) div k" using assms(6) by (simp add: pos_imp_zdiv_nonneg_iff)
    moreover have "(f - x) div k \<le> f - x" using True assms(6) zdiv_mono2 [of "f - x" 1 k] by simp
    ultimately show ?thesis using assms by linarith
  next
    case False
    then have "(f - x) div k < 0" using assms(6) by (simp add: pos_imp_zdiv_neg_iff)
    moreover have "f - x \<le> (f - x) div k" using False assms(6) zdiv_mono2_neg [of "f - x" 1 k] by simp
    ultimately show ?thesis using assms by linarith
  qed
  with assms(5) show ?thesis by simp
qed

lemma adapt_ap_range:
  assumes "0 \<le> ap s" and "ap s \<le> 512"
  shows "0 \<le> adapt_ap tr y s \<and> adapt_ap tr y s \<le> 512"
proof -
  have "0 \<le> sh16 (ap s + (512 - ap s) div 16) \<and> sh16 (ap s + (512 - ap s) div 16) \<le> 512"
    "0 \<le> sh16 (ap s + (0 - ap s) div 16) \<and> sh16 (ap s + (0 - ap s) div 16) \<le> 512"
    using assms by (intro filter_range; simp)+
  then show ?thesis by (simp add: adapt_ap_def shr_div)
qed

lemma update_ok:
  assumes "state_ok s" and "0 \<le> fi" and "fi \<le> 0xE00"
  shows "state_ok (update c y wi fi dq sr dqsez s)"
proof -
  define p :: int where "p = (if dqsez < 0 then 1 else 0)"
  define mag where "mag = sh16 (dq AND 0x7FFF)"
  define tr where "tr = tone_transition mag s"
  define a2p where "a2p = (if tr then 0 else adapt_a1 dqsez p s)"
  have s: "- 12288 \<le> a1 s" "a1 s \<le> 12288" "0 \<le> ap s" "ap s \<le> 512" using assms(1) by (simp_all add: state_ok_def)
  have a: "- 12288 \<le> a2p" "a2p \<le> 12288" using adapt_a1_range [OF s(1,2)] by (simp_all add: a2p_def)
  have d: "0 \<le> sh16 (dms s + shr (fi - dms s) 5) \<and> sh16 (dms s + shr (fi - dms s) 5) \<le> 0xE00"
    "0 \<le> sh16 (dml s + shr (shl fi 2 - dml s) 7) \<and> sh16 (dml s + shr (shl fi 2 - dml s) 7) \<le> 0x3800"
    unfolding shr_div shl_mult using assms by (intro filter_range; simp add: state_ok_def)+
  have b: "length (map2 (adapt_b c dq) (bs s) (dqs s)) = 6"
    "list_all (\<lambda>b. - 32768 \<le> b \<and> b \<le> 32767) (map2 (adapt_b c dq) (bs s) (dqs s))"
    "length (float_a mag dq # take 5 (dqs s)) = 6"
    "list_all (\<lambda>d. - 32768 \<le> d \<and> d \<le> 32767) (float_a mag dq # take 5 (dqs s))"
    using assms(1) adapt_b_range float_range(1) by (auto simp: state_ok_def list_all_iff dest: in_set_takeD)
  have z: "list_all (\<lambda>b. - 32768 \<le> b \<and> b \<le> (32767 :: int)) (replicate 6 0)" by (simp add: list_all_iff)
  have r: "abs (if tr then 0 else adapt_a0 dqsez p a2p s) \<le> 15360 - a2p" using a adapt_a0_range [OF a] by simp
  note sc = adapt_scale_range [OF assms(1), of y wi]
  have p: "p \<in> {0, 1}" by (simp add: p_def)
  have keep: "pk0 s \<in> {0, 1}" "- 32768 \<le> sr0 s" "sr0 s \<le> 32767" using assms(1) by (simp_all add: state_ok_def)
  define s1 where "s1 = adapt_scale y wi s"
  define s4 where "s4 = s1\<lparr>a1 := a2p, a0 := (if tr then 0 else adapt_a0 dqsez p a2p s),
      bs := (if tr then replicate 6 0 else map2 (adapt_b c dq) (bs s) (dqs s)),
      dqs := float_a mag dq # take 5 (dqs s), sr1 := sr0 s, sr0 := float_b sr, pk1 := pk0 s, pk0 := p,
      td := (if tr then 0 else if a2p < - 11776 then 1 else 0),
      dms := sh16 (dms s + shr (fi - dms s) 5), dml := sh16 (dml s + shr (shl fi 2 - dml s) 7)\<rparr>"
  have u: "update c y wi fi dq sr dqsez s = s4\<lparr>ap := adapt_ap tr y s4\<rparr>"
    unfolding update_def Let_def p_def [symmetric] mag_def [symmetric] tr_def [symmetric] a2p_def [symmetric]
      s1_def [symmetric] s4_def by simp
  have "ap s4 = ap s" by (simp add: s4_def s1_def adapt_scale_def Let_def)
  then have ap: "0 \<le> adapt_ap tr y s4 \<and> adapt_ap tr y s4 \<le> 512" using adapt_ap_range [of s4] s by simp
  show ?thesis
    unfolding u state_ok_def using sc [folded s1_def] a r d b z p keep float_range(2) [of sr] ap by (simp add: s4_def)
qed

section \<open>Codes\<close>

definition rates :: "adpcm_rate list" where
  "rates = [rate_16, rate_24, rate_32, rate_40]"

lemma quan_range: "0 \<le> quan v t \<and> quan v t \<le> int (length t)"
  by (induction t) auto

lemma quantize_range:
  assumes "t \<noteq> []"
  shows "1 \<le> quantize d y t \<and> quantize d y t \<le> 2 * int (length t) + 1"
proof -
  have "1 \<le> length t" using assms by (cases t) auto
  moreover have "\<exists>v. quantize d y t = (if d < 0 then shl (int (length t)) 1 + 1 - quan v t
      else if quan v t = 0 then shl (int (length t)) 1 + 1 else quan v t)"
    unfolding quantize_def Let_def by (rule exI, rule refl)
  then obtain v where "quantize d y t = (if d < 0 then shl (int (length t)) 1 + 1 - quan v t
      else if quan v t = 0 then shl (int (length t)) 1 + 1 else quan v t)" by blast
  ultimately show ?thesis using quan_range [of v t] by (auto simp: shl_mult)
qed

lemma rate_tables:
  assumes "r \<in> set rates"
  shows "qtab r \<noteq> []" "2 * int (length (qtab r)) + 1 = 2 ^ nat (code_size r) - 1" "2 \<le> code_size r" "code_size r \<le> 5"
    "length (fitab r) = 2 ^ nat (code_size r)" "list_all (\<lambda>f. 0 \<le> f \<and> f \<le> 0xE00) (fitab r)"
    "length (qtab r) \<le> 15"
  using assms by (auto simp: rates_def rate_16_def rate_24_def rate_32_def rate_40_def)

lemma code_masked: "0 \<le> i AND (2 ^ n - 1)" "i AND (2 ^ n - 1) < (2 :: int) ^ n"
proof -
  have "i AND (2 ^ n - 1) = take_bit n i" by (simp add: take_bit_eq_mask mask_eq_exp_minus_1)
  then show "0 \<le> i AND (2 ^ n - 1)" "i AND (2 ^ n - 1) < (2 :: int) ^ n" by (simp_all add: take_bit_int_less_exp)
qed

lemma code_unmasked: "0 \<le> i \<Longrightarrow> i < 2 ^ n \<Longrightarrow> i AND (2 ^ n - 1) = (i :: int)"
proof -
  assume "0 \<le> i" "i < 2 ^ n"
  then have "take_bit n i = i" by (simp add: take_bit_int_eq_self)
  then show ?thesis by (simp add: take_bit_eq_mask mask_eq_exp_minus_1)
qed

lemma adapt_ok:
  assumes "r \<in> set rates" and "state_ok s" and "0 \<le> i" and "i < 2 ^ nat (code_size r)"
  shows "state_ok (snd (adapt r i se sez y s))"
proof -
  have "nat i < length (fitab r)" using assms(3,4) rate_tables(5) [OF assms(1)] by (simp add: nat_less_iff)
  then have "0 \<le> fitab r ! nat i" "fitab r ! nat i \<le> 0xE00"
    using rate_tables(6) [OF assms(1)] by (auto simp: list_all_length)
  then show ?thesis by (simp add: adapt_def Let_def update_ok [OF assms(2)])
qed

lemma decode_code_ok:
  assumes "r \<in> set rates" and "state_ok s" and "decode_code r i s = (j, se, y, sr, s')"
  shows "state_ok s'"
proof -
  have "s' = snd (adapt r j se (sh16 (shr (sh16 (predictor_zero s)) 1)) y s)" "j = i AND (2 ^ nat (code_size r) - 1)"
    using assms(3) by (auto simp: decode_code_def Let_def)
  with adapt_ok [OF assms(1,2)] code_masked show ?thesis by simp
qed

lemma encode_sample_code:
  assumes "r \<in> set rates" and "encode_sample r x s = (i, sr, s')"
  shows "0 \<le> i \<and> i < 2 ^ nat (code_size r)"
proof -
  note t = rate_tables [OF assms(1)]
  have "1 \<le> quantize d y (qtab r) \<and> quantize d y (qtab r) \<le> 31" "quantize d y (qtab r) < 2 ^ nat (code_size r)" for d y
    using quantize_range [OF t(1), of d y] t(2,7) by linarith+
  then have q: "sh16 (quantize d y (qtab r)) = quantize d y (qtab r)" "0 \<le> quantize d y (qtab r)"
    "quantize d y (qtab r) < 2 ^ nat (code_size r)" for d y
    by (smt (verit) sh16_id)+
  have "\<exists>d y. i = 0 \<or> i = quantize d y (qtab r)"
    using assms(2) unfolding encode_sample_def Let_def q(1) by (auto split: if_splits)
  with q show ?thesis by auto
qed

text \<open>The estimate that encoder and decoder start from.\<close>

definition wide_estimate :: "g72x_state \<Rightarrow> int" where
  "wide_estimate s = sh16 (predictor_zero s) + predictor_pole s"

definition enc_estimate :: "adpcm_rate \<Rightarrow> g72x_state \<Rightarrow> int" where
  "enc_estimate r s = sh16 (shr (if short_sum r then sh16 (wide_estimate s) else wide_estimate s) 1)"

lemma encode_adapt:
  "snd (encode_sample r x s) =
     adapt r (fst (encode_sample r x s)) (enc_estimate r s) (sh16 (shr (sh16 (predictor_zero s)) 1)) (sh16 (step_size s)) s"
  by (simp add: encode_sample_def enc_estimate_def wide_estimate_def Let_def)

text \<open>
  C19: the coder state never leaves the ranges of the Recommendation. Starting from the initial
  state, whatever codes a decoder is fed at whatever rates, and whatever samples an encoder is
  fed, the step size factors stay between 544 and 5120, the slow one below 64 times that, the speed
  between 0 and 512, the pole coefficients within the stability limits, the energy estimates and the
  histories in the ranges of their types.
\<close>

theorem g726_state_bounded:
  assumes "state_ok s" and "r \<in> set rates"
  shows "state_ok (snd (g72x_decoder r i out_coding s)) \<and> state_ok (snd (g72x_encoder r sl in_coding s)) \<and>
    state_ok g72x_init_state \<and> 544 \<le> step_size s \<and> step_size s \<le> 5120"
proof -
  obtain j se y sr s' where d: "decode_code r i s = (j, se, y, sr, s')" by (metis prod_cases5)
  have "state_ok (snd (snd (encode_sample r x s)))" for x
  proof -
    obtain i sr s' where e: "encode_sample r x s = (i, sr, s')" by (metis prod_cases3)
    with encode_sample_code [OF assms(2) e] adapt_ok [OF assms(2,1)] encode_adapt [of r x s] show ?thesis by simp
  qed
  then have "state_ok (snd (g72x_encoder r sl in_coding s))"
    using assms(1) by (auto simp: g72x_encoder_def Let_def split_beta split: option.split)
  then show ?thesis
    using decode_code_ok [OF assms(2,1) d] init_state_ok step_size_range [OF assms(1)] d by (simp add: g72x_decoder_def)
qed

theorem g726_state_bounded_witness:
  "state_ok (snd (g72x_decoder rate_40 31 AUDIO_ENCODING_LINEAR g72x_init_state)) \<and>
   state_ok (snd (g72x_encoder rate_40 (- 32768) AUDIO_ENCODING_LINEAR g72x_init_state)) \<and>
   state_ok g72x_init_state \<and> 544 \<le> step_size g72x_init_state \<and> step_size g72x_init_state \<le> 5120"
  by (rule g726_state_bounded) (simp_all add: init_state_ok rates_def)

section \<open>In step\<close>

text \<open>The estimate of the decoders; an encoder that comes to the same one is followed.\<close>

definition dec_estimate :: "g72x_state \<Rightarrow> int" where
  "dec_estimate s = sh16 (shr (sh16 (wide_estimate s)) 1)"

lemma decode_adapt:
  assumes "r \<in> set rates" and "encode_sample r x s = (i, sr, s')"
  shows "g72x_decoder r i AUDIO_ENCODING_LINEAR s =
    (let (sr, s') = adapt r i (dec_estimate s) (sh16 (shr (sh16 (predictor_zero s)) 1)) (sh16 (step_size s)) s
     in (shl sr 2, s'))"
proof -
  have i: "i AND (2 ^ nat (code_size r) - 1) = i"
    using encode_sample_code [OF assms] by (simp add: code_unmasked)
  show ?thesis
    unfolding g72x_decoder_def decode_code_def i Let_def by (simp add: dec_estimate_def wide_estimate_def split_beta)
qed

lemma decoder_follows:
  assumes "r \<in> set rates" and "encode_sample r x s = (i, sr, s')"
    and "short_sum r \<or> - 32768 \<le> wide_estimate s \<and> wide_estimate s \<le> 32767"
  shows "g72x_decoder r i AUDIO_ENCODING_LINEAR s = (shl sr 2, s')"
proof -
  have "dec_estimate s = enc_estimate r s" using assms(3) by (auto simp: enc_estimate_def dec_estimate_def)
  moreover have "adapt r i (enc_estimate r s) (sh16 (shr (sh16 (predictor_zero s)) 1)) (sh16 (step_size s)) s = (sr, s')"
    using encode_adapt [of r x s] assms(2) by simp
  ultimately show ?thesis using decode_adapt [OF assms(1,2)] by simp
qed

section \<open>Out of step\<close>

text \<open>The sum of the predictors has at most 17 bits and a sign.\<close>

lemma quan_power2:
  assumes "0 \<le> x" and "x \<le> 32767"
  shows "0 \<le> quan x power2" "quan x power2 \<le> 15" "x < 2 ^ nat (quan x power2)" "quan x power2 < 6 \<longrightarrow> x < 32"
  using assms by (auto simp: power2_def)

lemma shr_le: "0 \<le> x \<Longrightarrow> shr x n \<le> x" "0 \<le> x \<Longrightarrow> 0 \<le> shr x n"
  using zdiv_mono2 [of x 1 "2 ^ nat n"] by (simp_all add: shr_div pos_imp_zdiv_nonneg_iff)

lemma fmult_range:
  assumes "- 8192 \<le> an" and "an \<le> 8192"
  shows "- 32767 \<le> fmult an srn \<and> fmult an srn \<le> 32767"
proof -
  define anmag where "anmag = (if an > 0 then an else (- an) AND 0x1FFF)"
  have mag: "0 \<le> anmag" "anmag \<le> 8192" using assms code_masked [of "- an" 13] by (auto simp: anmag_def)
  define anexp where "anexp = quan anmag power2 - 6"
  have exp: "- 6 \<le> anexp" "anexp \<le> 9" "anexp < 0 \<longrightarrow> anmag < 32"
    using quan_power2 [of anmag] mag by (auto simp: anexp_def)
  define anmant where "anmant = (if anmag = 0 then 32 else if anexp \<ge> 0 then shr anmag anexp else shl anmag (- anexp))"
  have mant: "0 \<le> anmant" "anmant \<le> 8192"
  proof -
    have "shr anmag anexp \<le> anmag" using mag by (simp add: shr_le)
    moreover have "shl anmag (- anexp) \<le> 31 * 64" if "anexp < 0"
    proof -
      have "(2 :: int) ^ nat (- anexp) \<le> 2 ^ 6" using exp by (intro power_increasing) auto
      with that exp mag show ?thesis unfolding shl_mult by (intro mult_mono) auto
    qed
    ultimately show "0 \<le> anmant" "anmant \<le> 8192" using mag shr_le(2) [of anmag anexp] by (auto simp: anmant_def shl_mult)
  qed
  define wanmant where "wanmant = shr (anmant * (srn AND 0x3F) + 0x30) 4"
  have "0 \<le> srn AND 0x3F" "srn AND 0x3F \<le> 63" using code_masked [of srn 6] by auto
  then have "0 \<le> anmant * (srn AND 0x3F)" "anmant * (srn AND 0x3F) \<le> 8192 * 63"
    using mant mult_mono [of anmant 8192 "srn AND 0x3F" 63] by simp_all
  then have wm: "0 \<le> wanmant" "wanmant \<le> 32767" by (auto simp: wanmant_def shr_div)
  define wanexp where "wanexp = sh16 (anexp + (shr srn 6 AND 0xF) - 13)"
  define ret where "ret = (if wanexp \<ge> 0 then shl wanmant wanexp AND 0x7FFF else shr wanmant (- wanexp))"
  have "shr wanmant (- wanexp) \<le> wanmant" using wm by (simp add: shr_le)
  then have ret: "0 \<le> ret" "ret \<le> 32767"
    using wm shr_le(2) [of wanmant "- wanexp"] code_masked [of "shl wanmant wanexp" 15] by (auto simp: ret_def)
  have cut: "sh16 anmag = anmag" "sh16 (quan anmag power2 - 6) = anexp" "sh16 anmant = anmant" "sh16 wanmant = wanmant"
    "sh16 ret = ret"
    using mag exp mant wm ret by (simp_all add: anexp_def)
  have "fmult an srn = (if an XOR srn < 0 then - ret else ret)"
    unfolding fmult_def Let_def anmag_def [symmetric] cut anmant_def [symmetric] wanmant_def [symmetric]
      wanexp_def [symmetric] ret_def [symmetric] ..
  with ret show ?thesis by auto
qed

lemma wide_estimate_range:
  assumes "state_ok s"
  shows "- 98302 \<le> wide_estimate s \<and> wide_estimate s \<le> 98301"
proof -
  have "- 8192 \<le> shr (a1 s) 2 \<and> shr (a1 s) 2 \<le> 8192" "- 8192 \<le> shr (a0 s) 2 \<and> shr (a0 s) 2 \<le> 8192"
    using assms by (auto simp: state_ok_def shr_div)
  then have "- 32767 \<le> fmult (shr (a1 s) 2) (sr1 s) \<and> fmult (shr (a1 s) 2) (sr1 s) \<le> 32767"
    "- 32767 \<le> fmult (shr (a0 s) 2) (sr0 s) \<and> fmult (shr (a0 s) 2) (sr0 s) \<le> 32767"
    by (simp_all add: fmult_range)
  then show ?thesis
    using sh16_range [of "predictor_zero s"] unfolding wide_estimate_def predictor_pole_def by linarith
qed

lemma half_turn:
  assumes "k = 1 \<or> k = - 1"
  shows "sh16 (a - k * 32768) < 0 \<longleftrightarrow> 0 \<le> sh16 a"
proof -
  define m where "m = (a + 32768) mod 65536"
  have m: "0 \<le> m" "m < 65536" by (simp_all add: m_def)
  have "(a - k * 32768 + 32768) mod 65536 = (m + 32768) mod 65536"
  proof (cases "k = 1")
    case True
    have "(a + 32768 + 32768 - 65536) mod 65536 = (a + 32768 + 32768) mod 65536" by (rule minus_mod_self2)
    with True show ?thesis by (simp add: m_def mod_simps)
  qed (use assms in \<open>simp add: m_def mod_simps\<close>)
  moreover have "(m + 32768) mod 65536 = (if m < 32768 then m + 32768 else m - 32768)"
    using m by (auto simp: mod_pos_pos_trivial mod_pos_geq)
  ultimately show ?thesis using m by (auto simp: sh16_def m_def [symmetric])
qed

text \<open>Cut to a \<^verbatim>\<open>short\<close> before or after it is halved, such a sum gives estimates that are half the range apart, if any.\<close>

lemma estimates_apart:
  assumes "state_ok s" and "\<not> (- 32768 \<le> wide_estimate s \<and> wide_estimate s \<le> 32767)"
  shows "sh16 (dec_estimate s + d) < 0 \<longleftrightarrow> 0 \<le> sh16 (enc_estimate rate_32 s + d)"
proof -
  let ?w = "wide_estimate s"
  consider "32768 \<le> ?w" "?w \<le> 98301" | "?w < - 32768" "- 98302 \<le> ?w"
    using wide_estimate_range [OF assms(1)] assms(2) by linarith
  then obtain k where k: "k = 1 \<or> k = - 1" "sh16 ?w = ?w - k * 65536"
  proof cases
    case 1
    then have "sh16 ?w = ?w - 65536" unfolding sh16_def by (simp add: mod_pos_geq mod_pos_pos_trivial)
    with that [of 1] show ?thesis by simp
  next
    case 2
    have "(?w + 32768) mod 65536 = (?w + 32768 + 65536) mod 65536" by (rule mod_add_self2 [symmetric])
    also have "\<dots> = ?w + 32768 + 65536" using 2 by (intro mod_pos_pos_trivial) auto
    finally have "sh16 ?w = ?w + 65536" unfolding sh16_def by simp
    with that [of "- 1"] show ?thesis by simp
  qed
  then have "shr (sh16 ?w) 1 = shr ?w 1 - k * 32768" by (auto simp: shr_div)
  then have e: "dec_estimate s = sh16 (shr ?w 1 - k * 32768)" "enc_estimate rate_32 s = sh16 (shr ?w 1)"
    by (simp_all add: dec_estimate_def enc_estimate_def rate_32_def)
  have cut: "sh16 (sh16 a + d) = sh16 (a + d)" for a unfolding sh16_def by (simp add: mod_simps algebra_simps)
  from half_turn [OF k(1), of "shr ?w 1 + d"] show ?thesis unfolding e cut by (simp add: algebra_simps)
qed

lemma float_magnitude:
  assumes "0 < m" and "m \<le> 32767"
  defines "x \<equiv> shl (quan m power2) 6 + shr (shl m 6) (quan m power2)"
  shows "0 \<le> x" "x \<le> 1023" "sh16 (quan m power2) = quan m power2"
proof -
  define q where "q = quan m power2"
  have q: "0 \<le> q" "q \<le> 15" "m < 2 ^ nat q" using quan_power2 [of m] assms by (simp_all add: q_def)
  have "2 ^ nat q * (m * 64 div 2 ^ nat q) \<le> m * 64" by (intro div_bounds) simp
  also have "m * 64 < 2 ^ nat q * 64" using q by simp
  finally have "m * 64 div 2 ^ nat q < 64" by (simp only: mult_less_cancel_left_pos zero_less_power zero_less_numeral)
  moreover have "0 \<le> m * 64 div 2 ^ nat q" using assms(1) by (simp add: pos_imp_zdiv_nonneg_iff)
  moreover have "x = q * 64 + m * 64 div 2 ^ nat q" by (simp add: x_def shl_mult shr_div q_def [symmetric])
  ultimately show "0 \<le> x" "x \<le> 1023" using q by linarith+
  show "sh16 (quan m power2) = quan m power2" using q by (simp add: q_def)
qed

lemma float_b_sign:
  assumes "- 32768 \<le> sr" and "sr \<le> 32767"
  shows "0 \<le> float_b sr \<longleftrightarrow> 0 \<le> sr"
proof -
  consider "sr = 0" | "0 < sr" | "sr < 0" "- 32768 < sr" | "sr = - 32768" using assms(1) by linarith
  then show ?thesis
  proof cases
    case 2
    with float_magnitude [of sr] assms show ?thesis by (simp add: float_b_def Let_def)
  next
    case 3
    with float_magnitude [of "- sr"] show ?thesis by (simp add: float_b_def Let_def)
  qed (simp_all add: float_b_def sh16_def)
qed

lemma adapt_sr0: "sr0 (snd (adapt r i se sez y s)) = float_b (fst (adapt r i se sez y s))"
  by (simp add: adapt_def update_def Let_def)

lemma adapt_sum: "\<exists>d. \<forall>se. fst (adapt r i se sez y s) = sh16 (se + d)"
proof -
  define dq where "dq = sh16 (reconstruct (i AND sign_bit r \<noteq> 0) (dqlntab r ! nat i) y)"
  show ?thesis
    by (intro exI [of _ "if dq < 0 then - (dq AND dq_mask r) else dq"]) (simp add: adapt_def Let_def dq_def)
qed

text \<open>
  C38: exactly when the 32 kbit/s decoder follows its encoder. From any state in the ranges of the coders
  and for any sample, the decoder that is given the code of the encoder ends in the state of the
  encoder if and only if the sum of the two predictors fits a \<^verbatim>\<open>short\<close>. The encoder of \<^verbatim>\<open>g721.c\<close> halves
  the whole sum, its decoder and all other coders halve the sum cut to a \<^verbatim>\<open>short\<close>; where the sum does
  not fit, the two reconstruct signals of opposite sign.
\<close>

theorem g721_in_step_iff:
  assumes "state_ok s"
  shows "snd (g721_decoder (fst (g721_encoder sl AUDIO_ENCODING_LINEAR s)) AUDIO_ENCODING_LINEAR s) =
      snd (g721_encoder sl AUDIO_ENCODING_LINEAR s) \<longleftrightarrow>
    - 32768 \<le> wide_estimate s \<and> wide_estimate s \<le> 32767"
proof -
  obtain i sr s' where e: "encode_sample rate_32 (shr sl 2) s = (i, sr, s')" by (metis prod_cases3)
  have r: "rate_32 \<in> set rates" by (simp add: rates_def)
  let ?a = "\<lambda>se. adapt rate_32 i se (sh16 (shr (sh16 (predictor_zero s)) 1)) (sh16 (step_size s)) s"
  have enc: "g721_encoder sl AUDIO_ENCODING_LINEAR s = (i, snd (?a (enc_estimate rate_32 s)))"
    using encode_adapt [of rate_32 "shr sl 2" s] e
    by (cases "?a (enc_estimate rate_32 s)") (simp add: g721_encoder_def g72x_encoder_def linearize_def)
  have dec: "snd (g721_decoder i AUDIO_ENCODING_LINEAR s) = snd (?a (dec_estimate s))"
    using decode_adapt [OF r e] by (simp add: g721_decoder_def split_beta)
  show ?thesis
  proof (cases "- 32768 \<le> wide_estimate s \<and> wide_estimate s \<le> 32767")
    case True
    then have "dec_estimate s = enc_estimate rate_32 s" by (simp add: dec_estimate_def enc_estimate_def)
    with True enc dec show ?thesis by simp
  next
    case False
    obtain d where d: "fst (?a se) = sh16 (se + d)" for se using adapt_sum by blast
    have "sr0 (snd (?a (dec_estimate s))) \<noteq> sr0 (snd (?a (enc_estimate rate_32 s)))"
      using estimates_apart [OF assms False, of d] float_b_sign [OF sh16_range] unfolding adapt_sr0 d by (metis linorder_not_le)
    with False enc dec show ?thesis by auto
  qed
qed

text \<open>A state after a loud square wave: the sum of the predictors is - 33120.\<close>

definition loud_state :: g72x_state where
  "loud_state =
     \<lparr>yl = 217523, yu = 5120, dms = 856, dml = 1923, ap = 497, a0 = 12864, a1 = - 4510,
      bs = [7882, 7411, 7443, 6716, 6717, 6715], pk0 = 1, pk1 = 1,
      dqs = [- 86, - 153, - 346, - 992, 697, - 223], sr0 = - 92, sr1 = 821, td = 0\<rparr>"

lemma loud_state_ok: "state_ok loud_state"
  by (simp add: state_ok_def loud_state_def)

lemma loud_state_estimate: "wide_estimate loud_state = - 33120"
  by code_simp

theorem g721_in_step_iff_witness:
  "state_ok loud_state \<and>
   snd (g721_decoder (fst (g721_encoder (- 32768) AUDIO_ENCODING_LINEAR loud_state)) AUDIO_ENCODING_LINEAR loud_state) \<noteq>
     snd (g721_encoder (- 32768) AUDIO_ENCODING_LINEAR loud_state)"
  unfolding g721_in_step_iff [OF loud_state_ok] loud_state_estimate by (simp add: loud_state_ok)

end
