(* ===== verification/Adpcm_Codec.thy ===== *)
theory Adpcm_Codec
  imports Adpcm_Inv
begin

text \<open>
  \<^verbatim>\<open>core/plug-in/adpcm/adpcm.c\<close>: the four G.726 codecs of the plug-in, which pack the codes of a group
  of samples into bytes. A buffer of samples is a list of 16-bit integers, a buffer of codes a list
  of bytes. \<open>None\<close> is a read behind the end of the input.
\<close>

section \<open>Packing\<close>

text \<open>\<^verbatim>\<open>v |= code << (j * w)\<close> for a group of codes, or of bytes with \<open>w = 8\<close>, and its inverse.\<close>

fun pack_from :: "nat \<Rightarrow> nat \<Rightarrow> int list \<Rightarrow> int \<Rightarrow> int" where
  "pack_from w j [] v = v"
| "pack_from w j (c # cs) v = pack_from w (Suc j) cs (v OR push_bit (j * w) c)"

definition pack :: "nat \<Rightarrow> int list \<Rightarrow> int" where
  "pack w cs = pack_from w 0 cs 0"

definition unpack :: "nat \<Rightarrow> nat \<Rightarrow> int \<Rightarrow> int list" where
  "unpack w n v = map (\<lambda>j. drop_bit (j * w) v AND (2 ^ w - 1)) [0..<n]"

definition codes_ok :: "nat \<Rightarrow> int list \<Rightarrow> bool" where
  "codes_ok w cs \<longleftrightarrow> list_all (\<lambda>c. 0 \<le> c \<and> c < 2 ^ w) cs"

lemma bit_pack_from:
  "bit (pack_from w j cs v) n \<longleftrightarrow>
     bit v n \<or> (\<exists>i < length cs. (j + i) * w \<le> n \<and> bit (cs ! i) (n - (j + i) * w))"
proof (induction cs arbitrary: j v)
  case (Cons c cs)
  have "(\<exists>i < length (c # cs). (j + i) * w \<le> n \<and> bit ((c # cs) ! i) (n - (j + i) * w)) \<longleftrightarrow>
      (j * w \<le> n \<and> bit c (n - j * w)) \<or> (\<exists>i < length cs. (Suc j + i) * w \<le> n \<and> bit (cs ! i) (n - (Suc j + i) * w))"
    by (auto simp: less_Suc_eq_0_disj)
  with Cons show ?case by (auto simp: bit_or_iff bit_push_bit_iff)
qed simp

lemma code_bits:
  assumes "codes_ok w cs" and "i < length cs" and "bit (cs ! i) k"
  shows "k < w"
proof -
  have "0 \<le> cs ! i" "cs ! i < 2 ^ w" using assms(1,2) by (auto simp: codes_ok_def list_all_length)
  then have "take_bit w (cs ! i) = cs ! i" by (simp add: take_bit_int_eq_self)
  with assms(3) show ?thesis by (metis bit_take_bit_iff)
qed

lemma unpack_pack:
  assumes "codes_ok w cs"
  shows "unpack w (length cs) (pack w cs) = cs"
proof (rule nth_equalityI)
  fix j assume j: "j < length (unpack w (length cs) (pack w cs))"
  then have j': "j < length cs" by (simp add: unpack_def)
  have "bit (drop_bit (j * w) (pack w cs) AND (2 ^ w - 1)) k = bit (cs ! j) k" for k
  proof (cases "k < w")
    case True
    have "i = j" if "i * w \<le> j * w + k" "j * w + k - i * w < w" for i
    proof -
      have "i * w \<le> j * w + k" "j * w + k < Suc i * w" using that by simp_all
      then have "(j * w + k) div w = i" using True by (intro div_nat_eqI) (simp_all add: mult.commute)
      then show ?thesis using True by simp
    qed
    then have "bit (cs ! j) k" if "i < length cs" "i * w \<le> j * w + k" "bit (cs ! i) (j * w + k - i * w)" for i
      using code_bits [OF assms that(1,3)] that by fastforce
    moreover have "bit (pack w cs) (j * w + k) \<longleftrightarrow>
        (\<exists>i < length cs. i * w \<le> j * w + k \<and> bit (cs ! i) (j * w + k - i * w))"
      by (simp add: pack_def bit_pack_from)
    ultimately have "bit (pack w cs) (j * w + k) = bit (cs ! j) k" using j' by (metis add_diff_cancel_left' le_add1)
    with True show ?thesis by (simp add: bit_and_iff bit_drop_bit_eq bit_mask_iff flip: mask_eq_exp_minus_1)
  next
    case False
    then show ?thesis using code_bits [OF assms j'] by (auto simp: bit_and_iff bit_mask_iff simp flip: mask_eq_exp_minus_1)
  qed
  then have "drop_bit (j * w) (pack w cs) AND (2 ^ w - 1) = cs ! j" by (rule bit_eqI)
  with j' show "unpack w (length cs) (pack w cs) ! j = cs ! j" by (simp add: unpack_def)
qed (simp add: unpack_def)

lemma unpack_ok: "codes_ok w (unpack w n v)" "length (unpack w n v) = n"
  using code_masked by (auto simp: codes_ok_def unpack_def list_all_iff)

lemma pack_unpack:
  assumes "0 < w" and "take_bit (n * w) v = v"
  shows "pack w (unpack w n v) = v"
proof (rule bit_eqI)
  fix k
  have "bit (pack w (unpack w n v)) k \<longleftrightarrow> (\<exists>i < n. i * w \<le> k \<and> k - i * w < w \<and> bit v k)"
    by (auto simp: pack_def bit_pack_from unpack_def bit_and_iff bit_drop_bit_eq bit_mask_iff
        simp flip: mask_eq_exp_minus_1)
  also have "\<dots> \<longleftrightarrow> bit v k"
  proof
    assume v: "bit v k"
    then have "k < n * w" using assms(2) by (metis bit_take_bit_iff)
    then have "k div w < n" "k div w * w \<le> k" "k - k div w * w < w"
      using assms(1) by (simp_all add: less_mult_imp_div_less minus_div_mult_eq_mod)
    with v show "\<exists>i < n. i * w \<le> k \<and> k - i * w < w \<and> bit v k" by blast
  qed blast
  finally show "bit (pack w (unpack w n v)) k = bit v k" .
qed

lemma pack_bound:
  assumes "codes_ok w cs"
  shows "take_bit (length cs * w) (pack w cs) = pack w cs"
proof (rule bit_eqI)
  fix k
  have "k < length cs * w" if b: "bit (pack w cs) k"
  proof -
    obtain i where i: "i < length cs" "i * w \<le> k" "bit (cs ! i) (k - i * w)"
      using b by (auto simp: pack_def bit_pack_from)
    then have "k < Suc i * w" using code_bits [OF assms i(1,3)] by simp
    also have "\<dots> \<le> length cs * w" using i(1) by (intro mult_le_mono1) simp
    finally show ?thesis .
  qed
  then show "bit (take_bit (length cs * w) (pack w cs)) k = bit (pack w cs) k" by (auto simp: bit_take_bit_iff)
qed

section \<open>Groups\<close>

fun encode_list :: "(int \<Rightarrow> g72x_state \<Rightarrow> int \<times> g72x_state) \<Rightarrow> int list \<Rightarrow> g72x_state \<Rightarrow> int list \<times> g72x_state" where
  "encode_list enc [] s = ([], s)"
| "encode_list enc (x # xs) s =
     (case enc x s of (i, s1) \<Rightarrow> (case encode_list enc xs s1 of (js, s2) \<Rightarrow> (i # js, s2)))"

text \<open>
  The loops over the groups: each takes \<open>n\<close> elements of the input through \<open>f\<close>. The source assumes
  full groups and reads on behind the input in the last one.
\<close>

function groups ::
  "(int list \<Rightarrow> g72x_state \<Rightarrow> int list \<times> g72x_state) \<Rightarrow> nat \<Rightarrow> int list \<Rightarrow> g72x_state \<Rightarrow> (int list \<times> g72x_state) option" where
  "groups f n xs s =
     (if xs = [] then Some ([], s)
      else if n = 0 \<or> length xs < n then None
      else
        case f (take n xs) s of (ys, s1) \<Rightarrow>
          (case groups f n (drop n xs) s1 of
             None \<Rightarrow> None
           | Some (zs, s2) \<Rightarrow> Some (ys @ zs, s2)))"
  by pat_completeness auto
termination
  by (relation "measure (\<lambda>(f, n, xs, s). length xs)") auto

declare groups.simps [simp del]

text \<open>Codes of \<open>w\<close> bits: \<open>n\<close> samples have theirs packed into \<open>nb\<close> bytes.\<close>

definition encode_group ::
  "(int \<Rightarrow> g72x_state \<Rightarrow> int \<times> g72x_state) \<Rightarrow> nat \<Rightarrow> nat \<Rightarrow> int list \<Rightarrow> g72x_state \<Rightarrow> int list \<times> g72x_state" where
  "encode_group enc w nb xs s = apfst (\<lambda>cs. unpack 8 nb (pack w cs)) (encode_list enc xs s)"

definition decode_group ::
  "(int \<Rightarrow> g72x_state \<Rightarrow> int \<times> g72x_state) \<Rightarrow> nat \<Rightarrow> nat \<Rightarrow> int list \<Rightarrow> g72x_state \<Rightarrow> int list \<times> g72x_state" where
  "decode_group dec w n ys s = apfst (map sh16) (encode_list dec (unpack w n (pack 8 ys)) s)"

definition encode_groups ::
  "(int \<Rightarrow> g72x_state \<Rightarrow> int \<times> g72x_state) \<Rightarrow> nat \<Rightarrow> nat \<Rightarrow> nat \<Rightarrow> int list \<Rightarrow> g72x_state \<Rightarrow> (int list \<times> g72x_state) option" where
  "encode_groups enc w n nb = groups (encode_group enc w nb) n"

definition decode_groups ::
  "(int \<Rightarrow> g72x_state \<Rightarrow> int \<times> g72x_state) \<Rightarrow> nat \<Rightarrow> nat \<Rightarrow> nat \<Rightarrow> int list \<Rightarrow> g72x_state \<Rightarrow> (int list \<times> g72x_state) option" where
  "decode_groups dec w n nb = groups (decode_group dec w n) nb"

text \<open>The same loops with the output so far as an argument, to evaluate them.\<close>

fun encode_list_acc ::
  "(int \<Rightarrow> g72x_state \<Rightarrow> int \<times> g72x_state) \<Rightarrow> int list \<Rightarrow> int list \<times> g72x_state \<Rightarrow> int list \<times> g72x_state" where
  "encode_list_acc enc [] (cs, s) = (rev cs, s)"
| "encode_list_acc enc (x # xs) (cs, s) = encode_list_acc enc xs (apfst (\<lambda>i. i # cs) (enc x s))"

lemma encode_list_acc: "encode_list_acc enc xs (cs, s) = apfst (append (rev cs)) (encode_list enc xs s)"
  by (induction xs arbitrary: cs s) (auto split: prod.splits)

lemma encode_list_code [code]: "encode_list enc xs s = encode_list_acc enc xs ([], s)"
  by (cases "encode_list enc xs s") (simp add: encode_list_acc)

function groups_acc ::
  "(int list \<Rightarrow> g72x_state \<Rightarrow> int list \<times> g72x_state) \<Rightarrow> nat \<Rightarrow> int list \<Rightarrow> int list \<times> g72x_state \<Rightarrow> (int list \<times> g72x_state) option" where
  "groups_acc f n xs (ys, s) =
     (if xs = [] then Some (ys, s)
      else if n = 0 \<or> length xs < n then None
      else groups_acc f n (drop n xs) (apfst (append ys) (f (take n xs) s)))"
  by pat_completeness auto
termination
  by (relation "measure (\<lambda>(f, n, xs, p). length xs)") auto

lemma groups_acc: "groups_acc f n xs (ys, s) = map_option (apfst (append ys)) (groups f n xs s)"
proof (induction f n xs s arbitrary: ys rule: groups.induct)
  case (1 f n xs s)
  then show ?case
    by (subst groups_acc.simps, subst groups.simps) (auto simp del: groups_acc.simps split: prod.splits option.splits)
qed

lemma groups_code [code]: "groups f n xs s = groups_acc f n xs ([], s)"
  by (cases "groups f n xs s") (auto simp: groups_acc simp del: groups_acc.simps)

section \<open>The codecs\<close>

record G726_twoway =
  to_g726 :: g72x_state
  from_g726 :: g72x_state

definition G726_create :: G726_twoway where
  "G726_create = \<lparr>to_g726 = g72x_init_state, from_g726 = g72x_init_state\<rparr>"

text \<open>
  A codec gets its instance or the null handle. The result is the return value, the output and the
  instance.
\<close>

type_synonym codec_result = "(int \<times> int list \<times> G726_twoway option) option"

definition run_encoder ::
  "(int \<Rightarrow> coding \<Rightarrow> g72x_state \<Rightarrow> int \<times> g72x_state) \<Rightarrow> nat \<Rightarrow> nat \<Rightarrow> nat \<Rightarrow> int list \<Rightarrow> G726_twoway option \<Rightarrow> codec_result" where
  "run_encoder enc w n nb xs h =
     (case h of
        None \<Rightarrow> Some (- 1, [], None)
      | Some cs \<Rightarrow>
          map_option (\<lambda>(ys, s). (int (length xs div n * nb), ys, Some (cs\<lparr>to_g726 := s\<rparr>)))
            (encode_groups (\<lambda>x. enc x AUDIO_ENCODING_LINEAR) w n nb xs (to_g726 cs)))"

definition run_decoder ::
  "(int \<Rightarrow> coding \<Rightarrow> g72x_state \<Rightarrow> int \<times> g72x_state) \<Rightarrow> nat \<Rightarrow> nat \<Rightarrow> nat \<Rightarrow> int list \<Rightarrow> G726_twoway option \<Rightarrow> codec_result" where
  "run_decoder dec w n nb ys h =
     (case h of
        None \<Rightarrow> Some (- 1, [], None)
      | Some cs \<Rightarrow>
          map_option (\<lambda>(ps, s). (2 * int (length ys * n div nb), ps, Some (cs\<lparr>from_g726 := s\<rparr>)))
            (decode_groups (\<lambda>i. dec i AUDIO_ENCODING_LINEAR) w n nb ys (from_g726 cs)))"

definition Pcm16_2_G726_16 :: "int list \<Rightarrow> G726_twoway option \<Rightarrow> codec_result" where
  "Pcm16_2_G726_16 = run_encoder g723_16_encoder 2 4 1"

definition G726_16_2_Pcm16 :: "int list \<Rightarrow> G726_twoway option \<Rightarrow> codec_result" where
  "G726_16_2_Pcm16 = run_decoder g723_16_decoder 2 4 1"

definition Pcm16_2_G726_24 :: "int list \<Rightarrow> G726_twoway option \<Rightarrow> codec_result" where
  "Pcm16_2_G726_24 = run_encoder g723_24_encoder 3 8 3"

definition G726_24_2_Pcm16 :: "int list \<Rightarrow> G726_twoway option \<Rightarrow> codec_result" where
  "G726_24_2_Pcm16 = run_decoder g723_24_decoder 3 8 3"

definition Pcm16_2_G726_32 :: "int list \<Rightarrow> G726_twoway option \<Rightarrow> codec_result" where
  "Pcm16_2_G726_32 = run_encoder g721_encoder 4 2 1"

definition G726_32_2_Pcm16 :: "int list \<Rightarrow> G726_twoway option \<Rightarrow> codec_result" where
  "G726_32_2_Pcm16 = run_decoder g721_decoder 4 2 1"

definition Pcm16_2_G726_40 :: "int list \<Rightarrow> G726_twoway option \<Rightarrow> codec_result" where
  "Pcm16_2_G726_40 = run_encoder g723_40_encoder 5 8 5"

definition G726_40_2_Pcm16 :: "int list \<Rightarrow> G726_twoway option \<Rightarrow> codec_result" where
  "G726_40_2_Pcm16 = run_decoder g723_40_decoder 5 8 5"

text \<open>The estimates of the lengths, in \<^verbatim>\<open>unsigned int\<close>.\<close>

definition g726_16_bytes2samples :: "32 word \<Rightarrow> 32 word" where
  "g726_16_bytes2samples num_bytes = push_bit 2 num_bytes"

definition g726_16_samples2bytes :: "32 word \<Rightarrow> 32 word" where
  "g726_16_samples2bytes num_samples = drop_bit 2 num_samples"

definition g726_24_bytes2samples :: "32 word \<Rightarrow> 32 word" where
  "g726_24_bytes2samples num_bytes = (num_bytes * 8) div 3"

definition g726_24_samples2bytes :: "32 word \<Rightarrow> 32 word" where
  "g726_24_samples2bytes num_samples = (num_samples * 3) div 8"

definition g726_32_bytes2samples :: "32 word \<Rightarrow> 32 word" where
  "g726_32_bytes2samples num_bytes = push_bit 1 num_bytes"

definition g726_32_samples2bytes :: "32 word \<Rightarrow> 32 word" where
  "g726_32_samples2bytes num_samples = drop_bit 1 num_samples"

definition g726_40_bytes2samples :: "32 word \<Rightarrow> 32 word" where
  "g726_40_bytes2samples num_bytes = (num_bytes * 8) div 5"

definition g726_40_samples2bytes :: "32 word \<Rightarrow> 32 word" where
  "g726_40_samples2bytes num_samples = (num_samples * 5) div 8"

text \<open>One codec: its two conversions, its rate, the samples of a group and the estimate of its output.\<close>

definition codecs ::
  "((int list \<Rightarrow> G726_twoway option \<Rightarrow> codec_result) \<times> (int list \<Rightarrow> G726_twoway option \<Rightarrow> codec_result) \<times>
    adpcm_rate \<times> nat \<times> (32 word \<Rightarrow> 32 word)) list" where
  "codecs =
     [(Pcm16_2_G726_16, G726_16_2_Pcm16, rate_16, 4, g726_16_samples2bytes),
      (Pcm16_2_G726_24, G726_24_2_Pcm16, rate_24, 8, g726_24_samples2bytes),
      (Pcm16_2_G726_32, G726_32_2_Pcm16, rate_32, 2, g726_32_samples2bytes),
      (Pcm16_2_G726_40, G726_40_2_Pcm16, rate_40, 8, g726_40_samples2bytes)]"

section \<open>In step\<close>

text \<open>The estimates of an encoder over a run of samples stay in 16 bits.\<close>

fun estimates_fit :: "adpcm_rate \<Rightarrow> int list \<Rightarrow> g72x_state \<Rightarrow> bool" where
  "estimates_fit r [] s = True"
| "estimates_fit r (x # xs) s =
     (- 32768 \<le> wide_estimate s \<and> wide_estimate s \<le> 32767 \<and>
      estimates_fit r xs (snd (g72x_encoder r x AUDIO_ENCODING_LINEAR s)))"

lemma list_follows:
  assumes "r \<in> set rates" and "short_sum r \<or> estimates_fit r xs s"
    and "encode_list (\<lambda>x. g72x_encoder r x AUDIO_ENCODING_LINEAR) xs s = (cs, s')"
  shows "\<exists>ps. encode_list (\<lambda>i. g72x_decoder r i AUDIO_ENCODING_LINEAR) cs s = (ps, s') \<and> length ps = length xs \<and>
    length cs = length xs \<and> codes_ok (nat (code_size r)) cs"
  using assms(2,3)
proof (induction xs arbitrary: s cs s')
  case (Cons x xs)
  obtain i sr s1 where e: "encode_sample r (shr x 2) s = (i, sr, s1)" by (metis prod_cases3)
  then have g: "g72x_encoder r x AUDIO_ENCODING_LINEAR s = (i, s1)" by (simp add: g72x_encoder_def linearize_def)
  obtain js s2 where l: "encode_list (\<lambda>x. g72x_encoder r x AUDIO_ENCODING_LINEAR) xs s1 = (js, s2)" by fastforce
  have fit: "short_sum r \<or> estimates_fit r xs s1" "short_sum r \<or> - 32768 \<le> wide_estimate s \<and> wide_estimate s \<le> 32767"
    using Cons.prems(1) g by auto
  have "cs = i # js" "s' = s2" using Cons.prems(2) g l by simp_all
  with Cons.IH [OF fit(1) l] decoder_follows [OF assms(1) e fit(2)] encode_sample_code [OF assms(1) e] show ?case
    by (auto simp: codes_ok_def)
qed (simp add: codes_ok_def)

lemma estimates_fit_append:
  "estimates_fit r (xs @ ys) s \<longleftrightarrow>
     estimates_fit r xs s \<and> estimates_fit r ys (snd (encode_list (\<lambda>x. g72x_encoder r x AUDIO_ENCODING_LINEAR) xs s))"
  by (induction xs arbitrary: s) (auto simp: Let_def split_beta)

lemma groups_follow:
  assumes "r \<in> set rates" and "w = nat (code_size r)" and "n * w = nb * 8" and "0 < n"
    and "short_sum r \<or> estimates_fit r xs s" and "n dvd length xs"
  shows "\<exists>ys ps s'. encode_groups (\<lambda>x. g72x_encoder r x AUDIO_ENCODING_LINEAR) w n nb xs s = Some (ys, s') \<and>
    decode_groups (\<lambda>i. g72x_decoder r i AUDIO_ENCODING_LINEAR) w n nb ys s = Some (ps, s') \<and>
    length ps = length xs \<and> length ys = length xs div n * nb"
  using assms(5,6)
proof (induction "length xs" arbitrary: xs s rule: less_induct)
  case less
  have w: "0 < w" "0 < nb" using rate_tables(3) [OF assms(1)] assms(2-4) by (auto intro!: Nat.gr0I)
  show ?case
  proof (cases "xs = []")
    case True
    then show ?thesis by (simp add: encode_groups_def decode_groups_def groups.simps)
  next
    case False
    then have len: "n \<le> length xs" using less.prems(2) by (simp add: dvd_imp_le)
    let ?enc = "\<lambda>x. g72x_encoder r x AUDIO_ENCODING_LINEAR" and ?dec = "\<lambda>i. g72x_decoder r i AUDIO_ENCODING_LINEAR"
    obtain cs s1 where l: "encode_list ?enc (take n xs) s = (cs, s1)" by fastforce
    have fit: "short_sum r \<or> estimates_fit r (take n xs) s" "short_sum r \<or> estimates_fit r (drop n xs) s1"
      using less.prems(1) estimates_fit_append [of r "take n xs" "drop n xs" s] l by auto
    obtain ps where ps: "encode_list ?dec cs s = (ps, s1)" "length ps = n" "length cs = n" "codes_ok w cs"
      using list_follows [OF assms(1) fit(1) l] len assms(2) by auto
    have div: "n dvd length (drop n xs)" using less.prems(2) len by (simp add: dvd_diff_nat)
    obtain ys qs s' where ih: "encode_groups ?enc w n nb (drop n xs) s1 = Some (ys, s')"
      "decode_groups ?dec w n nb ys s1 = Some (qs, s')" "length qs = length xs - n" "length ys = (length xs - n) div n * nb"
      using less.hyps [of "drop n xs" s1] fit(2) div len assms(4) False by auto
    let ?g = "unpack 8 nb (pack w cs)"
    have "take_bit (nb * 8) (pack w cs) = pack w cs" using pack_bound [OF ps(4)] ps(3) assms(3) by simp
    then have g: "unpack w n (pack 8 ?g) = cs" "length ?g = nb"
      using pack_unpack [of 8 nb "pack w cs"] unpack_pack [OF ps(4)] ps(3) unpack_ok(2) by simp_all
    have "encode_groups ?enc w n nb xs s = Some (?g @ ys, s')"
      using False len assms(4) l ih(1) unfolding encode_groups_def
      by (subst groups.simps) (simp add: encode_group_def)
    moreover have "decode_groups ?dec w n nb (?g @ ys) s = Some (map sh16 ps @ qs, s')"
      using w(2) g ps(1) ih(2) unfolding decode_groups_def
      by (subst groups.simps) (auto simp: decode_group_def)
    moreover have "length (?g @ ys) = length xs div n * nb"
      using g(2) ih(4) len assms(4) by (simp add: le_div_geq)
    ultimately show ?thesis using ps(2) ih(3) len
      by (intro exI [of _ "?g @ ys"] exI [of _ "map sh16 ps @ qs"] exI [of _ s']) simp
  qed
qed

lemma codec_follows:
  assumes "r \<in> set rates" and "w = nat (code_size r)" and "n * w = nb * 8" and "0 < n"
    and "short_sum r \<or> estimates_fit r xs (to_g726 a)" and "n dvd length xs" and "from_g726 b = to_g726 a"
  shows "\<exists>ys ps s'.
    run_encoder (g72x_encoder r) w n nb xs (Some a) = Some (int (length ys), ys, Some (a\<lparr>to_g726 := s'\<rparr>)) \<and>
    run_decoder (g72x_decoder r) w n nb ys (Some b) = Some (2 * int (length xs), ps, Some (b\<lparr>from_g726 := s'\<rparr>)) \<and>
    length ps = length xs \<and> length ys = length xs div n * nb"
proof -
  obtain ys ps s' where g: "encode_groups (\<lambda>x. g72x_encoder r x AUDIO_ENCODING_LINEAR) w n nb xs (to_g726 a) = Some (ys, s')"
    "decode_groups (\<lambda>i. g72x_decoder r i AUDIO_ENCODING_LINEAR) w n nb ys (to_g726 a) = Some (ps, s')"
    "length ps = length xs" "length ys = length xs div n * nb"
    using groups_follow [OF assms(1-6)] by blast
  have "0 < nb" using assms(2-4) rate_tables(3) [OF assms(1)] by (auto intro!: Nat.gr0I)
  then have "length ys * n div nb = length xs" using g(4) assms(6) by auto
  with g show ?thesis
    by (intro exI [of _ ys] exI [of _ ps] exI [of _ s']) (simp add: run_encoder_def run_decoder_def assms(7))
qed

lemma estimate_of_nat:
  assumes "m * c < 2 ^ 32"
  shows "unat ((of_nat m * of_nat c :: 32 word) div of_nat d) = m * c div (d mod 2 ^ 32)"
proof -
  have "unat (of_nat m * of_nat c :: 32 word) = m * c"
    using assms by (simp flip: of_nat_mult add: unat_of_nat)
  then show ?thesis by (simp add: unat_div_distrib unat_of_nat)
qed

lemma codec_shape:
  assumes "(enc, dec, r, n, samples2bytes) \<in> set codecs" and "n dvd m" and "m < 2 ^ 29"
  defines "w \<equiv> nat (code_size r)"
  shows "enc = run_encoder (g72x_encoder r) w n (n * w div 8)" "dec = run_decoder (g72x_decoder r) w n (n * w div 8)"
    "r \<in> set rates" "n * w = n * w div 8 * 8" "0 < n" "short_sum r \<or> r = rate_32"
    "unat (samples2bytes (of_nat m)) = m div n * (n * w div 8)"
proof -
  show "enc = run_encoder (g72x_encoder r) w n (n * w div 8)" "dec = run_decoder (g72x_decoder r) w n (n * w div 8)"
    "r \<in> set rates" "n * w = n * w div 8 * 8" "0 < n" "short_sum r \<or> r = rate_32"
    using assms(1) unfolding w_def codecs_def
    by (auto simp: rates_def rate_16_def rate_24_def rate_32_def rate_40_def g721_encoder_def g721_decoder_def
        g723_16_encoder_def g723_16_decoder_def g723_24_encoder_def g723_24_decoder_def
        g723_40_encoder_def g723_40_decoder_def fun_eq_iff
        Pcm16_2_G726_16_def G726_16_2_Pcm16_def Pcm16_2_G726_24_def G726_24_2_Pcm16_def
        Pcm16_2_G726_32_def G726_32_2_Pcm16_def Pcm16_2_G726_40_def G726_40_2_Pcm16_def)
  have "unat (g726_16_samples2bytes (of_nat m)) = m div 4" "unat (g726_32_samples2bytes (of_nat m)) = m div 2"
    "unat (g726_24_samples2bytes (of_nat m)) = m * 3 div 8" "unat (g726_40_samples2bytes (of_nat m)) = m * 5 div 8"
    using estimate_of_nat [of m 3 8] estimate_of_nat [of m 5 8] assms(3)
    by (simp_all add: g726_16_samples2bytes_def g726_24_samples2bytes_def g726_32_samples2bytes_def
        g726_40_samples2bytes_def unat_drop_bit_eq unat_of_nat drop_bit_nat_def)
  with assms(1,2) show "unat (samples2bytes (of_nat m)) = m div n * (n * w div 8)"
    unfolding w_def codecs_def by (auto simp: rate_16_def rate_24_def rate_32_def rate_40_def)
qed

text \<open>
  C10: the four G.726 codecs stay in step: when the decoder starts from the state of the encoder and the
  number of samples is a multiple of the group, the encoder returns exactly the bytes it wrote, as many
  as \<^verbatim>\<open>samples2bytes\<close> estimates; the decoder of these bytes returns the size of as many samples as went
  in; and it ends in the state the encoder ends in, so that the next buffer can follow. At
  32 kbit/s this needs the estimates of the encoder to stay in 16 bits.
\<close>

theorem g726_in_step:
  assumes "(enc, dec, r, n, samples2bytes) \<in> set codecs" and "n dvd length xs" and "length xs < 2 ^ 29"
    and "r = rate_32 \<longrightarrow> estimates_fit r xs (to_g726 a)" and "from_g726 b = to_g726 a"
  shows "\<exists>ys ps s'.
    enc xs (Some a) = Some (int (length ys), ys, Some (a\<lparr>to_g726 := s'\<rparr>)) \<and>
    dec ys (Some b) = Some (2 * int (length xs), ps, Some (b\<lparr>from_g726 := s'\<rparr>)) \<and>
    length ps = length xs \<and> length ys = unat (samples2bytes (of_nat (length xs)))"
proof -
  note c = codec_shape [OF assms(1-3)]
  have "short_sum r \<or> estimates_fit r xs (to_g726 a)" using c(6) assms(4) by blast
  from codec_follows [OF c(3) refl c(4,5) this assms(2,5)] show ?thesis by (simp add: c(1,2,7))
qed

abbreviation ramp :: "int list" where
  "ramp \<equiv> [0, 4000, - 9000, 12000, 20000, - 3000, 100, - 25000]"

lemma ramp_fits: "estimates_fit rate_32 ramp (to_g726 G726_create)"
  by code_simp

theorem g726_in_step_witness:
  "\<exists>ys ps s'.
    Pcm16_2_G726_32 ramp (Some G726_create) = Some (int (length ys), ys, Some (G726_create\<lparr>to_g726 := s'\<rparr>)) \<and>
    G726_32_2_Pcm16 ys (Some G726_create) = Some (2 * int (length ramp), ps, Some (G726_create\<lparr>from_g726 := s'\<rparr>)) \<and>
    length ps = length ramp \<and> length ys = unat (g726_32_samples2bytes (of_nat (length ramp)))"
proof (rule g726_in_step [where r = rate_32 and n = 2])
  show "(Pcm16_2_G726_32, G726_32_2_Pcm16, rate_32, 2, g726_32_samples2bytes) \<in> set codecs" by (simp add: codecs_def)
  show "2 dvd length ramp" "length ramp < 2 ^ 29" by simp_all
  show "rate_32 = rate_32 \<longrightarrow> estimates_fit rate_32 ramp (to_g726 G726_create)" using ramp_fits by blast
  show "from_g726 G726_create = to_g726 G726_create" by (simp add: G726_create_def)
qed

text \<open>
  The condition at 32 kbit/s is not always met: a square wave at full scale takes the encoder from its
  initial state into the state \<open>loud_state\<close>, from which its decoder does not follow.
\<close>

definition square_wave :: "int list" where
  "square_wave = replicate 42 32764 @ replicate 35 (- 32768) @ replicate 6 32764 @ replicate 2 (- 32768)"

lemma square_wave_overloads:
  "snd (encode_list (\<lambda>x. g721_encoder x AUDIO_ENCODING_LINEAR) square_wave g72x_init_state) = loud_state"
  by code_simp

lemma square_wave_misfit: "\<not> estimates_fit rate_32 (square_wave @ [x]) g72x_init_state"
  using square_wave_overloads by (simp add: estimates_fit_append loud_state_estimate flip: g721_encoder_def)

end
