(* ===== verification/Spec2Isabelle.thy ===== *)
theory Spec2Isabelle
  imports Trans_Props Wav_Codec Adpcm_Codec
begin

text \<open>
  Verification of the SIP core of SEMS, the SIP Express Media Server, and of its G.711 and G.726
  codecs. File names are relative to \<^verbatim>\<open>src/\<close>.

  \<^bold>\<open>The program.\<close> A datagram or stream message that a transport receives is parsed by
  \<^verbatim>\<open>parse_sip_msg\<close> (\<^verbatim>\<open>core/sip/sip_parser.cpp\<close>), which splits it into headers and calls one parser per
  header that the layer needs. The transaction layer (\<^verbatim>\<open>core/sip/trans_layer.cpp\<close>) looks the message up in
  the transaction table (\<^verbatim>\<open>trans_table.cpp\<close>, hashed by \<^verbatim>\<open>hash.cpp\<close>), runs the state machine of the
  transaction it belongs to, sends, and hands requests and replies to the application. Every
  transaction has three timer slots (\<^verbatim>\<open>sip_trans.cpp\<close>); the timers live in a hierarchical wheel
  (\<^verbatim>\<open>wheeltimer.cpp\<close>) that calls the layer back. Media streams go through codec plug-ins, of which
  \<^verbatim>\<open>core/plug-in/wav\<close> and \<^verbatim>\<open>core/plug-in/adpcm\<close> are modelled.

  \<^bold>\<open>Shared theories.\<close>
  \<^item> \<open>Prelude\<close>: machine words, characters, slices of a buffer (\<^verbatim>\<open>core/sip/cstring.h\<close>) and their bounds.
  \<^item> \<open>Scan\<close>: the loop that all parsers share, with the locale \<open>parser_loop\<close>: from one lemma about a
    single pass it gives termination, no read behind the slice, and the invariant at the return. It is
    interpreted for each parser.

  \<^bold>\<open>The parsers.\<close> A parser is a loop body on a record of its local variables, one definition per case
  of the \<^verbatim>\<open>switch\<close>, and the code behind the loop. A buffer is a string and a pointer an offset into it;
  results carry the return code of the source.
  \<^item> \<open>Parse_Common\<close> (\<^verbatim>\<open>parse_common.h/.cpp\<close>), \<open>Parse_Uri\<close> (\<^verbatim>\<open>parse_uri.cpp\<close>), \<open>Parse_Header\<close>
    (\<^verbatim>\<open>parse_header.cpp\<close>), \<open>Parse_Via\<close> (\<^verbatim>\<open>parse_via.cpp\<close>), \<open>Parse_Nameaddr\<close> (\<^verbatim>\<open>parse_nameaddr.cpp\<close>,
    \<^verbatim>\<open>parse_from_to.cpp\<close>), \<open>Parse_Cseq\<close> (\<^verbatim>\<open>parse_cseq.cpp\<close> and \<^verbatim>\<open>parse_method\<close>), \<open>Parse_100rel\<close>
    (\<^verbatim>\<open>parse_100rel.cpp\<close>), \<open>Parse_Extensions\<close> (\<^verbatim>\<open>parse_extensions.cpp\<close>), \<open>Am_Utils\<close> (\<^verbatim>\<open>str2i\<close> and \<^verbatim>\<open>int2str\<close> of
    \<^verbatim>\<open>core/AmUtils.cpp\<close>). Each is shown to return on every input with all recorded slices inside it,
    and to read back what was printed in canonical form; deviations of the code from the grammar are
    stated where they occur.
  \<^item> \<open>Sip_Parser\<close> models the first line, the sorting of headers, the body and the composition of
    the header parsers; \<open>Sip_Message\<close> proves totality, what an accepted message satisfies, and that a
    printed request is read back as a whole. The steps of the composition satisfy the locale
    \<open>message_step\<close>.

  \<^bold>\<open>Transactions.\<close>
  \<^item> \<open>Wheeltimer\<close> (\<^verbatim>\<open>wheeltimer.h/.cpp\<close>): the four wheels, the queue of requests and a tick. A tick refines a
    tick of a multiset of pending timers (locale \<open>timer_service\<close>); from it follow that timers fire on
    time and that removed ones do not fire.
  \<^item> \<open>Hash\<close> (\<^verbatim>\<open>hash.cpp\<close>): the three ways to read a key give the same hash.
  \<^item> \<open>Msg_Write\<close> (\<^verbatim>\<open>msg_fline.cpp\<close>, \<^verbatim>\<open>msg_hdrs.h/.cpp\<close>) and \<open>Trans_Msg\<close>: the messages that the layer writes, and that
    the pass that counts agrees with the pass that writes.
  \<^item> \<open>Sip_Trans\<close> (\<^verbatim>\<open>sip_trans.h/.cpp\<close>, \<^verbatim>\<open>sip_timers.cpp\<close>): the transaction record, the state \<open>tl\<close> of the layer
    with its table, posted timer requests and observable effects, and the record \<open>env\<close> of what lies
    outside. \<open>Trans_Table\<close> (\<^verbatim>\<open>trans_table.cpp\<close>, \<^verbatim>\<open>core/hash_table.h\<close>): lookup, matching, branches and tags.
  \<^item> \<open>Trans_Send\<close> and \<open>Trans_Layer\<close> (\<^verbatim>\<open>trans_layer.cpp\<close>, \<^verbatim>\<open>resolver.cpp\<close>): destinations and sockets, and the state
    machines for replies, requests, timers, failover and CANCEL. A handler takes and returns a copy
    of its transaction together with the state of the layer.
  \<^item> \<open>Req_Method\<close>: a request keeps its method when it is generated again. \<open>Trans_Inv\<close> holds the
    invariant of transactions and their timer slots and that the handlers keep it; \<open>Trans_Reach\<close> the
    entry points (locale \<open>handlers\<close>), the step relation \<open>tl_step\<close> and the reachable states;
    \<open>Trans_Props\<close> what follows: timeouts, at most one final reply, and the errors found.

  \<^bold>\<open>Codecs.\<close>
  \<^item> \<open>G711\<close>, \<open>G711_Alaw\<close>, \<open>G711_Ulaw\<close> (\<^verbatim>\<open>core/plug-in/wav/g711.c\<close>): the conversion functions and the tables, which
    agree at every index. \<open>Wav_Codec\<close> (\<^verbatim>\<open>wav.c\<close>): the buffer conversions, proved once in the locale
    \<open>sample_codec\<close> and interpreted for both laws.
  \<^item> \<open>Adpcm\<close> (\<^verbatim>\<open>core/plug-in/adpcm/g72x.c\<close>, \<^verbatim>\<open>g721.c\<close>, \<^verbatim>\<open>g723_16.c\<close>, \<^verbatim>\<open>g723_24.c\<close>, \<^verbatim>\<open>g723_40.c\<close>): predictor, quantizer
    and adaptation; the four coders share one definition whose record \<open>adpcm_rate\<close> holds what they
    differ in. \<open>Adpcm_Inv\<close>: the ranges of the state, and exactly when a decoder follows its encoder.
    \<open>Adpcm_Codec\<close> (\<^verbatim>\<open>adpcm.c\<close>): packing of codes, and the codecs on buffers.

  \<^bold>\<open>Bounds and termination.\<close> There is no fuel. Every loop is a total function whose measure is the
  rest of the input, of the destinations or of the wheels; \<open>scan\<close> lets
  a body step back on a character once and would return \<open>Diverge\<close> the second time, and \<open>Overrun\<close> behind the
  end; the totality theorems exclude both. 32-bit
  values are words; \<^verbatim>\<open>int\<close> values that cannot overflow are integers; values cut to \<^verbatim>\<open>short\<close> or \<^verbatim>\<open>char\<close> are
  cut explicitly. Lengths of messages are taken not to exceed \<^verbatim>\<open>int\<close>.

  \<^bold>\<open>Parameters.\<close> What the layer asks its surroundings is in \<open>env\<close>: configuration, results of sending,
  the blacklist, sockets and the system's choice of an interface, values of uninitialised fields and
  of shifts beyond the width. No theorem assumes anything of it but the one about retransmission
  intervals, which is about the default timers.

  \<^bold>\<open>Not modelled.\<close>
  \<^item> Threads and locks. An operation on a bucket is one step; where the source releases the lock to call
    the application nothing is interleaved. The doubly linked lists of the wheel are lists of timers
    known by their address, so that a timer inserted twice does not corrupt them.
  \<^item> Allocation and destruction of objects, log output, statistics and message logging.
  \<^item> \<^verbatim>\<open>set_next_hop\<close>, \<^verbatim>\<open>parse_route.cpp\<close>, \<^verbatim>\<open>parse_next_hop.cpp\<close> and the DNS resolver: the destinations of a request
    are an argument of \<^verbatim>\<open>send_request\<close>.
  \<^item> The transports, sockets, raw sockets and files: input and output.
  \<^item> WAV file headers (\<^verbatim>\<open>wav_hdr.c\<close>): file input and output.
  \<^item> The session and media layers above the transactions (\<^verbatim>\<open>core/Am*.cpp\<close>), the applications and the
    other plug-ins. They are mostly callbacks between threads, calls of external codec libraries, of
    databases and of scripting languages, and vendored libraries; their logic does not enter the
    components above.
\<close>

end
